(* ===== verification/Prelude.thy ===== *)
theory Prelude
  imports Main "HOL-Library.Char_ord" "HOL-Library.List_Lexorder"
begin

text \<open>
  Vocabulary shared by every component of the library: Rust's \<open>Result\<close> as a sum
  type with the error on the left, the combinators the source uses on it
  (\<open>?\<close>, \<open>map_err\<close>, \<open>ok_or\<close>, \<open>transpose\<close>, \<open>collect\<close>), effectful
  computations that thread an external world, and the operations of \<open>str\<close> that the
  source calls. A \<open>string\<close> is the UTF-8 byte sequence of the Rust string.
\<close>

named_theorems res_simps "rewriting facts about results"
named_theorems io_simps "rewriting facts about effectful computations"

section \<open>Results\<close>

text \<open>The \<open>?\<close> operator: stop with the first error.\<close>

fun and_then :: "'e + 'a \<Rightarrow> ('a \<Rightarrow> 'e + 'b) \<Rightarrow> 'e + 'b" where
  "and_then (Inl e) f = Inl e"
| "and_then (Inr x) f = f x"

fun map_err :: "('e \<Rightarrow> 'f) \<Rightarrow> 'e + 'a \<Rightarrow> 'f + 'a" where
  "map_err g (Inl e) = Inl (g e)"
| "map_err g (Inr x) = Inr x"

fun map_ok :: "('a \<Rightarrow> 'b) \<Rightarrow> 'e + 'a \<Rightarrow> 'e + 'b" where
  "map_ok g (Inl e) = Inl e"
| "map_ok g (Inr x) = Inr (g x)"

fun ok_or :: "'e \<Rightarrow> 'a option \<Rightarrow> 'e + 'a" where
  "ok_or e None = Inl e"
| "ok_or e (Some x) = Inr x"

text \<open>\<open>Result::ok\<close>: forget the error.\<close>

fun res_ok :: "'e + 'a \<Rightarrow> 'a option" where
  "res_ok (Inl e) = None"
| "res_ok (Inr x) = Some x"

text \<open>\<open>Option<Result<T>>::transpose\<close>.\<close>

fun transpose_opt :: "('e + 'a) option \<Rightarrow> 'e + 'a option" where
  "transpose_opt None = Inr None"
| "transpose_opt (Some (Inl e)) = Inl e"
| "transpose_opt (Some (Inr x)) = Inr (Some x)"

text \<open>\<open>iter().map(f).collect::<Result<Vec<_>, _>>()\<close>.\<close>

fun collect_res :: "('a \<Rightarrow> 'e + 'b) \<Rightarrow> 'a list \<Rightarrow> 'e + 'b list" where
  "collect_res f [] = Inr []"
| "collect_res f (x # xs) =
     and_then (f x) (\<lambda>y. and_then (collect_res f xs) (\<lambda>ys. Inr (y # ys)))"

text \<open>\<open>bool::then_some(()).ok_or(e)\<close>: the shape of \<open>ensure!(b, e)\<close>.\<close>

definition ensure :: "bool \<Rightarrow> 'e \<Rightarrow> 'e + unit" where
  "ensure b e = (if b then Inr () else Inl e)"

lemma and_then_Inr_iff [res_simps]:
  "and_then r f = Inr y \<longleftrightarrow> (\<exists>x. r = Inr x \<and> f x = Inr y)"
  by (cases r) auto

lemma and_then_Inl_iff [res_simps]:
  "and_then r f = Inl e \<longleftrightarrow> r = Inl e \<or> (\<exists>x. r = Inr x \<and> f x = Inl e)"
  by (cases r) auto

lemma map_err_Inr_iff [res_simps]: "map_err g r = Inr y \<longleftrightarrow> r = Inr y"
  by (cases r) auto

lemma map_err_Inl_iff [res_simps]: "map_err g r = Inl f \<longleftrightarrow> (\<exists>e. r = Inl e \<and> f = g e)"
  by (cases r) auto

lemma map_ok_Inr_iff [res_simps]: "map_ok g r = Inr y \<longleftrightarrow> (\<exists>x. r = Inr x \<and> y = g x)"
  by (cases r) auto

lemma map_ok_Inl_iff [res_simps]: "map_ok g r = Inl e \<longleftrightarrow> r = Inl e"
  by (cases r) auto

lemma map_ok_ident [simp]: "map_ok (\<lambda>x. x) r = r"
  by (cases r) auto

lemma ok_or_Inr_iff [res_simps]: "ok_or e v = Inr y \<longleftrightarrow> v = Some y"
  by (cases v) auto

lemma ok_or_Inl_iff [res_simps]: "ok_or e v = Inl f \<longleftrightarrow> v = None \<and> f = e"
  by (cases v) auto

lemma res_ok_Some_iff [res_simps]: "res_ok r = Some y \<longleftrightarrow> r = Inr y"
  by (cases r) auto

lemma res_ok_None_iff [res_simps]: "res_ok r = None \<longleftrightarrow> (\<exists>e. r = Inl e)"
  by (cases r) auto

lemma transpose_opt_Inr_iff [res_simps]:
  "transpose_opt v = Inr y \<longleftrightarrow> (v = None \<and> y = None) \<or> (\<exists>x. v = Some (Inr x) \<and> y = Some x)"
  by (cases v rule: transpose_opt.cases) auto

lemma transpose_opt_Inl_iff [res_simps]: "transpose_opt v = Inl e \<longleftrightarrow> v = Some (Inl e)"
  by (cases v rule: transpose_opt.cases) auto

lemma ensure_Inr_iff [res_simps]: "ensure b e = Inr u \<longleftrightarrow> b"
  by (simp add: ensure_def)

lemma ensure_Inl_iff [res_simps]: "ensure b e = Inl f \<longleftrightarrow> \<not> b \<and> f = e"
  by (auto simp: ensure_def)

lemma ensure_simps [simp]: "ensure True e = Inr ()" "ensure False e = Inl e"
  by (simp_all add: ensure_def)

lemma collect_res_Inr_iff [res_simps]:
  "collect_res f xs = Inr ys \<longleftrightarrow> list_all2 (\<lambda>x y. f x = Inr y) xs ys"
  by (induction xs arbitrary: ys) (auto simp: res_simps list_all2_Cons1)

lemma collect_res_length: "collect_res f xs = Inr ys \<Longrightarrow> length ys = length xs"
  by (auto simp: res_simps dest: list_all2_lengthD)

lemma collect_res_total:
  "\<forall>x \<in> set xs. f x = Inr (g x) \<Longrightarrow> collect_res f xs = Inr (map g xs)"
  by (induction xs) auto

lemma collect_res_error:
  "x \<in> set xs \<Longrightarrow> f x = Inl e \<Longrightarrow> \<exists>e'. collect_res f xs = Inl e'"
  by (induction xs) (auto simp: res_simps, metis old.sum.exhaust)

lemma not_isl_Inr: "\<not> isl r \<Longrightarrow> \<exists>x. r = Inr x"
  by (cases r) auto

text \<open>\<open>slice::first\<close>.\<close>

fun list_first :: "'a list \<Rightarrow> 'a option" where
  "list_first [] = None"
| "list_first (x # xs) = Some x"

lemma list_first_Some_iff [res_simps]: "list_first xs = Some x \<longleftrightarrow> (\<exists>ys. xs = x # ys)"
  by (cases xs) auto

lemma in_map_filter_iff: "y \<in> set (List.map_filter f xs) \<longleftrightarrow> (\<exists>x \<in> set xs. f x = Some y)"
  by (induction xs) (auto simp: List.map_filter_simps split: option.splits)

section \<open>Computations with effects\<close>

text \<open>
  An \<open>async fn\<close> that may fail and that calls code outside the library (a wallet's
  verifier, an HTTP client, a signer) is a function that threads the external world
  \<open>'w\<close> and returns a result with the world the calls leave behind.
\<close>

type_synonym ('w, 'e, 'a) io = "'w \<Rightarrow> ('e + 'a) \<times> 'w"

definition io_return :: "'a \<Rightarrow> ('w, 'e, 'a) io" where
  "io_return x = (\<lambda>w. (Inr x, w))"

definition io_throw :: "'e \<Rightarrow> ('w, 'e, 'a) io" where
  "io_throw e = (\<lambda>w. (Inl e, w))"

definition io_lift :: "'e + 'a \<Rightarrow> ('w, 'e, 'a) io" where
  "io_lift r = (\<lambda>w. (r, w))"

definition io_bind :: "('w, 'e, 'a) io \<Rightarrow> ('a \<Rightarrow> ('w, 'e, 'b) io) \<Rightarrow> ('w, 'e, 'b) io" where
  "io_bind m f = (\<lambda>w. case m w of (Inl e, w') \<Rightarrow> (Inl e, w') | (Inr x, w') \<Rightarrow> f x w')"

definition io_map_err :: "('e \<Rightarrow> 'f) \<Rightarrow> ('w, 'e, 'a) io \<Rightarrow> ('w, 'f, 'a) io" where
  "io_map_err g m = (\<lambda>w. case m w of (r, w') \<Rightarrow> (map_err g r, w'))"

text \<open>\<open>m.await.ok()\<close>: the error is dropped, the effects stay.\<close>

definition io_ok :: "('w, 'e, 'a) io \<Rightarrow> ('w, 'f, 'a option) io" where
  "io_ok m = (\<lambda>w. case m w of (r, w') \<Rightarrow> (Inr (res_ok r), w'))"

lemma io_return_iff [io_simps]: "io_return x w = (r, w') \<longleftrightarrow> r = Inr x \<and> w' = w"
  by (auto simp: io_return_def)

lemma io_throw_iff [io_simps]: "io_throw e w = (r, w') \<longleftrightarrow> r = Inl e \<and> w' = w"
  by (auto simp: io_throw_def)

lemma io_lift_iff [io_simps]: "io_lift r w = (r', w') \<longleftrightarrow> r = r' \<and> w' = w"
  by (auto simp: io_lift_def)

lemma io_bind_Inr_iff [io_simps]:
  "io_bind m f w = (Inr y, w') \<longleftrightarrow> (\<exists>x w1. m w = (Inr x, w1) \<and> f x w1 = (Inr y, w'))"
  by (auto simp: io_bind_def split: prod.splits sum.splits)

lemma io_bind_Inl_iff [io_simps]:
  "io_bind m f w = (Inl e, w') \<longleftrightarrow>
     m w = (Inl e, w') \<or> (\<exists>x w1. m w = (Inr x, w1) \<and> f x w1 = (Inl e, w'))"
  by (auto simp: io_bind_def split: prod.splits sum.splits)

lemma io_map_err_Inr_iff [io_simps]: "io_map_err g m w = (Inr y, w') \<longleftrightarrow> m w = (Inr y, w')"
  by (auto simp: io_map_err_def res_simps split: prod.splits)

lemma io_map_err_Inl_iff [io_simps]:
  "io_map_err g m w = (Inl f, w') \<longleftrightarrow> (\<exists>e. m w = (Inl e, w') \<and> f = g e)"
  by (auto simp: io_map_err_def res_simps split: prod.splits)

lemma io_ok_iff [io_simps]:
  "io_ok m w = (r, w') \<longleftrightarrow> (\<exists>s. m w = (s, w') \<and> r = Inr (res_ok s))"
  by (auto simp: io_ok_def split: prod.splits)

lemmas io_run_simps = io_bind_def io_return_def io_throw_def io_lift_def io_map_err_def io_ok_def

section \<open>Strings\<close>

text \<open>\<open>str::split_once\<close>, \<open>str::rsplit_once\<close>, \<open>splitn(2, c)\<close> and \<open>split(c)\<close>.\<close>

definition split_once :: "char \<Rightarrow> string \<Rightarrow> (string \<times> string) option" where
  "split_once c s =
     (if c \<in> set s then Some (takeWhile (\<lambda>x. x \<noteq> c) s, tl (dropWhile (\<lambda>x. x \<noteq> c) s)) else None)"

definition rsplit_once :: "char \<Rightarrow> string \<Rightarrow> (string \<times> string) option" where
  "rsplit_once c s =
     (case split_once c (rev s) of None \<Rightarrow> None | Some (a, b) \<Rightarrow> Some (rev b, rev a))"

definition splitn2 :: "char \<Rightarrow> string \<Rightarrow> string list" where
  "splitn2 c s = (case split_once c s of None \<Rightarrow> [s] | Some (a, b) \<Rightarrow> [a, b])"

fun split_all :: "char \<Rightarrow> string \<Rightarrow> string list" where
  "split_all c [] = [[]]"
| "split_all c (x # xs) =
     (if x = c then [] # split_all c xs
      else case split_all c xs of [] \<Rightarrow> [[x]] | p # ps \<Rightarrow> (x # p) # ps)"

definition trim_start_matches :: "char \<Rightarrow> string \<Rightarrow> string" where
  "trim_start_matches c s = dropWhile (\<lambda>x. x = c) s"

definition trim_end_matches :: "char \<Rightarrow> string \<Rightarrow> string" where
  "trim_end_matches c s = rev (dropWhile (\<lambda>x. x = c) (rev s))"

definition trim_matches :: "char \<Rightarrow> string \<Rightarrow> string" where
  "trim_matches c s = trim_end_matches c (trim_start_matches c s)"

fun strip_prefix :: "string \<Rightarrow> string \<Rightarrow> string option" where
  "strip_prefix [] s = Some s"
| "strip_prefix (p # ps) [] = None"
| "strip_prefix (p # ps) (x # xs) = (if p = x then strip_prefix ps xs else None)"

fun contains_str :: "string \<Rightarrow> string \<Rightarrow> bool" where
  "contains_str p [] = (p = [])"
| "contains_str p (x # xs) = (strip_prefix p (x # xs) \<noteq> None \<or> contains_str p xs)"

fun join_str :: "string \<Rightarrow> string list \<Rightarrow> string" where
  "join_str sep [] = []"
| "join_str sep [s] = s"
| "join_str sep (s # t # ts) = s @ sep @ join_str sep (t # ts)"

lemma split_once_append: "c \<notin> set a \<Longrightarrow> split_once c (a @ c # b) = Some (a, b)"
  by (induction a) (auto simp: split_once_def)

lemma split_once_None_iff: "split_once c s = None \<longleftrightarrow> c \<notin> set s"
  by (simp add: split_once_def)

lemma split_once_Some_iff:
  "split_once c s = Some (a, b) \<longleftrightarrow> s = a @ c # b \<and> c \<notin> set a"
proof
  assume asm: "split_once c s = Some (a, b)"
  then obtain p q where "s = p @ c # q" and "c \<notin> set p"
    by (auto simp: split_once_def split: if_splits dest: split_list_first)
  with asm show "s = a @ c # b \<and> c \<notin> set a" by (auto simp: split_once_append)
next
  assume "s = a @ c # b \<and> c \<notin> set a"
  then show "split_once c s = Some (a, b)" by (simp add: split_once_append)
qed

lemma splitn2_append: "c \<notin> set a \<Longrightarrow> splitn2 c (a @ c # b) = [a, b]"
  by (simp add: splitn2_def split_once_append)

lemma splitn2_no_sep: "c \<notin> set s \<Longrightarrow> splitn2 c s = [s]"
  by (simp add: splitn2_def split_once_None_iff [THEN iffD2])

lemma splitn2_cases:
  obtains "c \<notin> set s" "splitn2 c s = [s]"
  | a b where "s = a @ c # b" "c \<notin> set a" "splitn2 c s = [a, b]"
  by (cases "c \<in> set s") (auto simp: splitn2_no_sep splitn2_append dest: split_list_first)

lemma rsplit_once_Some_iff:
  "rsplit_once c s = Some (a, b) \<longleftrightarrow> s = a @ c # b \<and> c \<notin> set b"
proof -
  have "rsplit_once c s = Some (a, b) \<longleftrightarrow> split_once c (rev s) = Some (rev b, rev a)"
    by (auto simp: rsplit_once_def split: option.splits)
  also have "\<dots> \<longleftrightarrow> rev s = rev b @ c # rev a \<and> c \<notin> set b"
    by (simp add: split_once_Some_iff)
  also have "rev s = rev b @ c # rev a \<longleftrightarrow> s = a @ c # b"
    using rev_swap [of s "rev b @ c # rev a"] by simp
  finally show ?thesis .
qed

lemma split_all_nonempty: "split_all c s \<noteq> []"
  by (induction s) (auto split: list.splits)

lemma split_all_join: "join_str [c] (split_all c s) = s"
proof (induction s)
  case Nil
  show ?case by simp
next
  case (Cons x xs)
  show ?case
  proof (cases "split_all c xs")
    case Nil
    then show ?thesis by (simp add: split_all_nonempty)
  next
    case (Cons p ps)
    with Cons.IH show ?thesis by (cases ps) auto
  qed
qed

lemma strip_prefix_Some_iff: "strip_prefix p s = Some r \<longleftrightarrow> s = p @ r"
  by (induction p s rule: strip_prefix.induct) auto

lemma trim_end_matches_noop: "s = [] \<or> last s \<noteq> c \<Longrightarrow> trim_end_matches c s = s"
  by (cases s rule: rev_cases) (auto simp: trim_end_matches_def)

text \<open>\<open>Display\<close> of an unsigned integer.\<close>

fun string_of_nat :: "nat \<Rightarrow> string" where
  "string_of_nat n =
     (if n < 10 then [char_of (48 + n)] else string_of_nat (n div 10) @ [char_of (48 + n mod 10)])"

declare string_of_nat.simps [simp del]

end
