(* ===== verification/Ordered_Map.thy ===== *)
theory Ordered_Map
  imports Prelude "HOL-Library.AList"
begin

text \<open>
  The maps of the standard library. \<open>BTreeMap\<close>, which backs both the JSON objects
  of the library and its in-memory session store, is an association list with strictly
  ascending keys; \<open>HashMap\<close> is an association list with distinct keys whose order
  stands for the unspecified order of its iteration. The interface \<open>key_store\<close>
  names what the clients rely on (what a lookup returns after a write or a removal, and
  that both keep the representation well formed); \<open>canonical_store\<close> adds that equal
  lookups mean equal maps. The client lemmas are proved once inside them.
\<close>

section \<open>The interface of a keyed store\<close>

locale key_store =
  fixes get :: "'m \<Rightarrow> 'k \<Rightarrow> 'v option"
    and put :: "'k \<Rightarrow> 'v \<Rightarrow> 'm \<Rightarrow> 'm"
    and del :: "'k \<Rightarrow> 'm \<Rightarrow> 'm"
    and emp :: "'m"
    and wf :: "'m \<Rightarrow> bool"
  assumes get_emp: "get emp k = None"
    and get_put: "wf m \<Longrightarrow> get (put k v m) k' = (if k' = k then Some v else get m k')"
    and get_del: "wf m \<Longrightarrow> get (del k m) k' = (if k' = k then None else get m k')"
    and wf_emp: "wf emp"
    and wf_put: "wf m \<Longrightarrow> wf (put k v m)"
    and wf_del: "wf m \<Longrightarrow> wf (del k m)"
begin

text \<open>Writing a list of entries in order: \<open>from_iter\<close>.\<close>

lemma wf_fold_put: "wf m \<Longrightarrow> wf (fold (\<lambda>(k, v). put k v) kvs m)"
  by (induction kvs arbitrary: m) (auto intro: wf_put)

lemma get_fold_put:
  "wf m \<Longrightarrow> get (fold (\<lambda>(k, v). put k v) kvs m) k =
     (case map_of (rev kvs) k of None \<Rightarrow> get m k | Some v \<Rightarrow> Some v)"
  by (induction kvs arbitrary: m)
    (auto simp: get_put wf_put map_add_def split: option.splits)

end

locale canonical_store = key_store +
  assumes get_ext: "wf m \<Longrightarrow> wf n \<Longrightarrow> (\<And>k. get m k = get n k) \<Longrightarrow> m = n"
begin

lemma put_put_same: "wf m \<Longrightarrow> put k v (put k u m) = put k v m"
  by (rule get_ext) (auto simp: get_put wf_put)

lemma put_put_swap: "wf m \<Longrightarrow> k \<noteq> l \<Longrightarrow> put k v (put l u m) = put l u (put k v m)"
  by (rule get_ext) (auto simp: get_put wf_put)

lemma del_put_same: "wf m \<Longrightarrow> get m k = None \<Longrightarrow> del k (put k v m) = m"
  by (rule get_ext) (auto simp: get_put get_del wf_put wf_del)

lemma del_absent: "wf m \<Longrightarrow> get m k = None \<Longrightarrow> del k m = m"
  by (rule get_ext) (auto simp: get_del wf_del)

lemma put_present: "wf m \<Longrightarrow> get m k = Some v \<Longrightarrow> put k v m = m"
  by (rule get_ext) (auto simp: get_put wf_put)

end

section \<open>The ordered representation\<close>

type_synonym ('k, 'v) bmap = "('k \<times> 'v) list"

fun bt_get :: "('k, 'v) bmap \<Rightarrow> 'k \<Rightarrow> 'v option" where
  "bt_get [] q = None"
| "bt_get (e # es) q = (if fst e = q then Some (snd e) else bt_get es q)"

fun bt_put :: "'k::linorder \<Rightarrow> 'v \<Rightarrow> ('k, 'v) bmap \<Rightarrow> ('k, 'v) bmap" where
  "bt_put q v [] = [(q, v)]"
| "bt_put q v (e # es) =
     (if fst e < q then e # bt_put q v es
      else if fst e = q then (q, v) # es
      else (q, v) # e # es)"

fun bt_del :: "'k \<Rightarrow> ('k, 'v) bmap \<Rightarrow> ('k, 'v) bmap" where
  "bt_del q [] = []"
| "bt_del q (e # es) = (if fst e = q then es else e # bt_del q es)"

definition bt_keys :: "('k, 'v) bmap \<Rightarrow> 'k list" where
  "bt_keys m = map fst m"

definition bt_wf :: "('k::linorder, 'v) bmap \<Rightarrow> bool" where
  "bt_wf m \<longleftrightarrow> sorted_wrt (<) (bt_keys m)"

lemma bt_wf_Nil [simp]: "bt_wf []"
  by (simp add: bt_wf_def bt_keys_def)

lemma bt_wf_Cons [simp]: "bt_wf (e # es) \<longleftrightarrow> (\<forall>x \<in> set es. fst e < fst x) \<and> bt_wf es"
  by (auto simp: bt_wf_def bt_keys_def)

lemma bt_get_None_iff: "bt_get m k = None \<longleftrightarrow> k \<notin> fst ` set m"
  by (induction m) auto

lemma bt_get_in: "bt_get m k = Some v \<Longrightarrow> (k, v) \<in> set m"
  by (induction m) (auto split: if_splits)

lemma bt_get_eq: "bt_wf m \<Longrightarrow> (k, v) \<in> set m \<Longrightarrow> bt_get m k = Some v"
  by (induction m) force+

lemma bt_get_map_of: "bt_get m = map_of m"
  by (rule ext, induct_tac m) auto

lemma set_bt_put: "set (bt_put k v m) \<subseteq> insert (k, v) (set m)"
  by (induction m) auto

lemma bt_wf_put: "bt_wf m \<Longrightarrow> bt_wf (bt_put k v m)"
  by (induction m) (use set_bt_put in fastforce)+

lemma bt_get_put: "bt_wf m \<Longrightarrow> bt_get (bt_put k v m) k' = (if k' = k then Some v else bt_get m k')"
  by (induction m) auto

lemma set_bt_del: "set (bt_del k m) \<subseteq> set m"
  by (induction m) auto

lemma bt_wf_del: "bt_wf m \<Longrightarrow> bt_wf (bt_del k m)"
  by (induction m) (use set_bt_del in fastforce)+

lemma bt_get_del: "bt_wf m \<Longrightarrow> bt_get (bt_del k m) k' = (if k' = k then None else bt_get m k')"
proof (induction m)
  case Nil
  show ?case by simp
next
  case (Cons e m)
  then have "bt_get m (fst e) = None" by (auto simp: bt_get_None_iff)
  with Cons show ?case by auto
qed

lemma bt_get_ext_head:
  assumes "bt_wf (d # m)" and "bt_wf (e # n)" and "\<And>k. bt_get (d # m) k = bt_get (e # n) k"
  shows "d = e"
proof -
  have "fst d \<in> fst ` set (e # n)" and "fst e \<in> fst ` set (d # m)"
    using assms(3) [of "fst d"] assms(3) [of "fst e"] bt_get_None_iff [of "e # n" "fst d"]
      bt_get_None_iff [of "d # m" "fst e"] by force+
  with assms(1,2) have "fst d = fst e" by fastforce
  with assms(3) [of "fst d"] show ?thesis by (simp add: prod_eq_iff)
qed

lemma bt_get_ext:
  "bt_wf m \<Longrightarrow> bt_wf n \<Longrightarrow> (\<And>k. bt_get m k = bt_get n k) \<Longrightarrow> m = n"
proof (induction m arbitrary: n)
  case Nil
  show ?case
  proof (cases n)
    case (Cons e n')
    with Nil.prems(3) [of "fst e"] show ?thesis by simp
  qed simp
next
  case (Cons d m)
  show ?case
  proof (cases n)
    case Nil
    with Cons.prems(3) [of "fst d"] show ?thesis by simp
  next
    case (Cons e n')
    note n = this
    from Cons.prems n have de: "d = e" by (blast intro: bt_get_ext_head)
    have "bt_get m k = bt_get n' k" for k
    proof (cases "k = fst d")
      case True
      then have "bt_get m k = None" "bt_get n' k = None"
        using Cons.prems(1,2) n de by (auto simp: bt_get_None_iff)
      then show ?thesis by simp
    next
      case False
      with Cons.prems(3) [of k] n de show ?thesis by auto
    qed
    with Cons.IH [of n'] Cons.prems(1,2) n de show ?thesis by auto
  qed
qed

interpretation btm: canonical_store bt_get bt_put bt_del "[]" bt_wf
  by unfold_locales
    (auto simp: bt_get_put bt_get_del intro: bt_wf_put bt_wf_del bt_get_ext)

definition bt_of_list :: "('k::linorder \<times> 'v) list \<Rightarrow> ('k, 'v) bmap" where
  "bt_of_list kvs = fold (\<lambda>(k, v). bt_put k v) kvs []"

lemma bt_wf_of_list [simp]: "bt_wf (bt_of_list kvs)"
  by (simp add: bt_of_list_def btm.wf_fold_put)

lemma bt_get_of_list: "bt_get (bt_of_list kvs) k = map_of (rev kvs) k"
  by (simp add: bt_of_list_def btm.get_fold_put split: option.split)

lemma map_of_rev_distinct: "distinct (map fst kvs) \<Longrightarrow> map_of (rev kvs) = map_of kvs"
  by (intro map_of_eqI) (auto simp: map_of_eq_Some_iff rev_map [symmetric])

lemma bt_wf_distinct: "bt_wf m \<Longrightarrow> distinct (map fst m)"
  using strict_sorted_iff [of "map fst m"] by (simp add: bt_wf_def bt_keys_def)

lemma bt_of_list_same: "bt_wf m \<Longrightarrow> bt_of_list m = m"
proof (rule bt_get_ext)
  fix k
  assume wf: "bt_wf m"
  have "map_of (rev m) = map_of m" using wf by (simp add: map_of_rev_distinct bt_wf_distinct)
  with bt_get_of_list [of m k] show "bt_get (bt_of_list m) k = bt_get m k"
    by (simp add: bt_get_map_of)
qed auto

section \<open>Hash maps\<close>

type_synonym ('k, 'v) hmap = "('k \<times> 'v) list"

definition hm_get :: "('k, 'v) hmap \<Rightarrow> 'k \<Rightarrow> 'v option" where
  "hm_get m k = map_of m k"

definition hm_put :: "'k \<Rightarrow> 'v \<Rightarrow> ('k, 'v) hmap \<Rightarrow> ('k, 'v) hmap" where
  "hm_put k v m = AList.update k v m"

definition hm_del :: "'k \<Rightarrow> ('k, 'v) hmap \<Rightarrow> ('k, 'v) hmap" where
  "hm_del k m = AList.delete k m"

definition hm_wf :: "('k, 'v) hmap \<Rightarrow> bool" where
  "hm_wf m \<longleftrightarrow> distinct (map fst m)"

definition hm_contains_key :: "('k, 'v) hmap \<Rightarrow> 'k \<Rightarrow> bool" where
  "hm_contains_key m k \<longleftrightarrow> hm_get m k \<noteq> None"

text \<open>\<open>entry(k).or_default().push(x)\<close> on a map to vectors.\<close>

definition hm_push :: "'k \<Rightarrow> 'x \<Rightarrow> ('k, 'x list) hmap \<Rightarrow> ('k, 'x list) hmap" where
  "hm_push k x m =
     hm_put k ((case hm_get m k of None \<Rightarrow> [] | Some xs \<Rightarrow> xs) @ [x]) m"

interpretation hm: key_store hm_get hm_put hm_del "[]" hm_wf
  by unfold_locales
    (auto simp: hm_get_def hm_put_def hm_del_def hm_wf_def update_conv' delete_conv'
      intro: distinct_update distinct_delete)

lemma hm_get_put [simp]: "hm_get (hm_put k v m) k' = (if k' = k then Some v else hm_get m k')"
  by (simp add: hm_get_def hm_put_def update_conv')

lemma hm_get_Nil [simp]: "hm_get [] k = None"
  by (simp add: hm_get_def)

lemma hm_get_push:
  "hm_get (hm_push k x m) k' =
     (if k' = k then Some ((case hm_get m k of None \<Rightarrow> [] | Some xs \<Rightarrow> xs) @ [x]) else hm_get m k')"
  by (simp add: hm_push_def)

lemma hm_wf_push: "hm_wf m \<Longrightarrow> hm_wf (hm_push k x m)"
  by (simp add: hm_push_def hm.wf_put)

lemma hm_in_iff: "hm_wf m \<Longrightarrow> (k, v) \<in> set m \<longleftrightarrow> hm_get m k = Some v"
  by (simp add: hm_wf_def hm_get_def map_of_eq_Some_iff)

text \<open>\<open>iter().map(|x| (k, v)).collect::<HashMap<_, _>>()\<close>: a later pair replaces an earlier one.\<close>

definition hm_of_list :: "('k \<times> 'v) list \<Rightarrow> ('k, 'v) hmap" where
  "hm_of_list kvs = fold (\<lambda>(k, v). hm_put k v) kvs []"

lemma hm_wf_of_list: "hm_wf (hm_of_list kvs)"
  by (simp add: hm_of_list_def hm.wf_fold_put hm.wf_emp)

lemma hm_get_of_list: "hm_get (hm_of_list kvs) k = map_of (rev kvs) k"
  by (simp add: hm_of_list_def hm.get_fold_put hm.wf_emp split: option.split)

end
