(* ===== verification/Errors.thy ===== *)
theory Errors
  imports Prelude
begin

text \<open>
  \<open>src/src/core/error.rs\<close>: the error type every operation of the library returns.
  An \<open>anyhow::Error\<close> is a message, a message put in front of another error with
  \<open>context\<close>, or a library error converted by \<open>?\<close>; the text a foreign
  library reports is a message.
\<close>

datatype error_type =
    InvalidScope
  | InvalidRequest
  | InvalidClient
  | AccessDenied
  | VpFormatsNotSupported
  | InvalidPresentationDefinitionUri
  | InvalidPresentationDefinitionReference
  | InvalidPresentationDefinitionFormat
  | InvalidRequestUriMethod
  | WalletUnavailable
  | InvalidDCQLFormat
  | ClientIDPrefixNotGiven
  | InvalidTransactionData
  | WrongClientIdPrefix

datatype anyhow =
    Msg string
  | Context string anyhow
  | OfError core_error
and core_error =
    Internal anyhow
  | Protocol protocol_error
and protocol_error =
    ProtocolError
      (pe_type: error_type)
      (pe_description: "string option")
      (pe_state: "string option")
      (pe_source: "anyhow option")

section \<open>Constructors\<close>

definition protocol :: "error_type \<Rightarrow> string \<Rightarrow> string option \<Rightarrow> core_error" where
  "protocol error_type description state =
     Protocol (ProtocolError error_type (Some description) state None)"

definition internal :: "anyhow \<Rightarrow> core_error" where
  "internal error = Internal error"

definition protocol_invalid_req :: "string \<Rightarrow> string option \<Rightarrow> core_error" where
  "protocol_invalid_req description state =
     Protocol (ProtocolError InvalidRequest (Some description) state None)"

definition protocol_vp_formats_not_supported :: "string \<Rightarrow> string option \<Rightarrow> core_error" where
  "protocol_vp_formats_not_supported description state =
     Protocol (ProtocolError VpFormatsNotSupported (Some description) state None)"

definition protocol_access_denied :: "string \<Rightarrow> string option \<Rightarrow> core_error" where
  "protocol_access_denied description state =
     Protocol (ProtocolError AccessDenied (Some description) state None)"

fun add_source :: "anyhow \<Rightarrow> core_error \<Rightarrow> core_error" where
  "add_source source (Protocol (ProtocolError t d s _)) = Protocol (ProtocolError t d s (Some source))"
| "add_source source (Internal e) = Internal e"

text \<open>\<open>impl From<anyhow::Error> for Error\<close>: what \<open>?\<close> applies.\<close>

definition error_from_anyhow :: "anyhow \<Rightarrow> core_error" where
  "error_from_anyhow value = Internal value"

section \<open>Display\<close>

fun display_error_type :: "error_type \<Rightarrow> string" where
  "display_error_type InvalidScope = ''invalid_scope''"
| "display_error_type InvalidRequest = ''invalid_request''"
| "display_error_type InvalidClient = ''invalid_client''"
| "display_error_type AccessDenied = ''access_denied''"
| "display_error_type VpFormatsNotSupported = ''vp_formats_not_supported''"
| "display_error_type InvalidPresentationDefinitionUri = ''invalid_presentation_definition_uri''"
| "display_error_type InvalidPresentationDefinitionReference =
     ''invalid_presentation_definition_reference''"
| "display_error_type InvalidPresentationDefinitionFormat =
     ''invalid_presentation_definition_format''"
| "display_error_type InvalidRequestUriMethod = ''invalid_request_uri_method''"
| "display_error_type WalletUnavailable = ''wallet_unavailable''"
| "display_error_type InvalidDCQLFormat = ''invalid_dcql_format''"
| "display_error_type ClientIDPrefixNotGiven = ''client_id_prefix_not_given''"
| "display_error_type WrongClientIdPrefix = ''wrong_client_id_prefix''"
| "display_error_type InvalidTransactionData = ''invalid_transaction_data''"

text \<open>\<open>debug\<close> is \<open>cfg!(debug_assertions)\<close>; a chain of contexts shows its outermost message.\<close>

fun display_anyhow :: "bool \<Rightarrow> anyhow \<Rightarrow> string"
  and display_core_error :: "bool \<Rightarrow> core_error \<Rightarrow> string"
  and display_protocol_error :: "bool \<Rightarrow> protocol_error \<Rightarrow> string" where
  "display_anyhow debug (Msg m) = m"
| "display_anyhow debug (Context c e) = c"
| "display_anyhow debug (OfError e) = display_core_error debug e"
| "display_core_error debug (Internal e) = display_anyhow debug e"
| "display_core_error debug (Protocol e) = display_protocol_error debug e"
| "display_protocol_error debug (ProtocolError t d s src) =
     display_error_type t @ '':'' @
     (case d of None \<Rightarrow> '''' | Some x \<Rightarrow> x) @
     (case src of
        None \<Rightarrow> ''''
      | Some e \<Rightarrow> if debug then '': '' @ display_anyhow debug e else '''') @
     '':'' @ (case s of None \<Rightarrow> '''' | Some x \<Rightarrow> x)"

text \<open>\<open>anyhow!("...: {}", err)\<close>, with the text of a release build.\<close>

definition fmt_err :: "string \<Rightarrow> anyhow \<Rightarrow> anyhow" where
  "fmt_err prefix e = Msg (prefix @ display_anyhow False e)"

section \<open>Observers used by the properties\<close>

fun error_state :: "core_error \<Rightarrow> string option" where
  "error_state (Internal e) = None"
| "error_state (Protocol p) = pe_state p"

fun is_protocol :: "error_type \<Rightarrow> core_error \<Rightarrow> bool" where
  "is_protocol t (Internal e) = False"
| "is_protocol t (Protocol p) = (pe_type p = t)"

lemma is_protocol_simps [simp]:
  "is_protocol t (protocol u d s) = (u = t)"
  "is_protocol t (protocol_invalid_req d s) = (t = InvalidRequest)"
  "is_protocol t (protocol_vp_formats_not_supported d s) = (t = VpFormatsNotSupported)"
  "is_protocol t (protocol_access_denied d s) = (t = AccessDenied)"
  "\<not> is_protocol t (internal e)"
  "\<not> is_protocol t (error_from_anyhow e)"
  by (auto simp: protocol_def protocol_invalid_req_def protocol_vp_formats_not_supported_def
      protocol_access_denied_def internal_def error_from_anyhow_def)

lemma error_state_simps [simp]:
  "error_state (protocol u d s) = s"
  "error_state (protocol_invalid_req d s) = s"
  "error_state (protocol_vp_formats_not_supported d s) = s"
  "error_state (protocol_access_denied d s) = s"
  "error_state (internal e) = None"
  by (auto simp: protocol_def protocol_invalid_req_def protocol_vp_formats_not_supported_def
      protocol_access_denied_def internal_def)

lemma is_protocol_add_source [simp]: "is_protocol t (add_source e c) = is_protocol t c"
  by (cases "(e, c)" rule: add_source.cases) auto

lemma error_state_add_source [simp]: "error_state (add_source e c) = error_state c"
  by (cases "(e, c)" rule: add_source.cases) auto

end
