(* ===== verification/Json.thy ===== *)
theory Json
  imports Ordered_Map Errors
begin

text \<open>
  The JSON values the library works on, with the constructors of
  \<open>serde_json::Value\<close> that the source matches on, and the dictionaries of the
  \<open>serde\<close> traits. An object is an ordered map, as \<open>serde_json::Map\<close> is
  without the \<open>preserve_order\<close> feature (which \<open>Cargo.toml\<close> asks for in the
  development profile only). Parsing and printing are foreign: a type that the source
  reads with \<open>serde_json::from_value\<close> or \<open>from_str\<close> comes with a
  dictionary, an argument of the definitions that use it.
\<close>

datatype json_number = PosInt nat | NegInt int | Float string

datatype json =
    JNull
  | JBool bool
  | JNumber json_number
  | JString string
  | JArray "json list"
  | JObject "(string \<times> json) list"

type_synonym json_map = "(string, json) bmap"

section \<open>Accessors\<close>

fun as_str :: "json \<Rightarrow> string option" where
  "as_str (JString s) = Some s"
| "as_str _ = None"

fun as_array :: "json \<Rightarrow> json list option" where
  "as_array (JArray xs) = Some xs"
| "as_array _ = None"

fun as_object :: "json \<Rightarrow> json_map option" where
  "as_object (JObject m) = Some m"
| "as_object _ = None"

text \<open>\<open>Value::get\<close> with a string index.\<close>

fun json_get :: "string \<Rightarrow> json \<Rightarrow> json option" where
  "json_get k (JObject m) = bt_get m k"
| "json_get k _ = None"

lemma as_str_Some_iff [simp]: "as_str j = Some s \<longleftrightarrow> j = JString s"
  by (cases j) auto

lemma as_array_Some_iff [simp]: "as_array j = Some xs \<longleftrightarrow> j = JArray xs"
  by (cases j) auto

lemma as_object_Some_iff [simp]: "as_object j = Some m \<longleftrightarrow> j = JObject m"
  by (cases j) auto

section \<open>Trait dictionaries\<close>

text \<open>
  \<open>T: Deserialize\<close> as the source uses it: \<open>serde_json::from_value::<T>\<close> and
  \<open>serde_json::from_str::<T>\<close>; \<open>T: Serialize\<close>: \<open>to_value\<close> and
  \<open>to_string\<close>.
\<close>

record 'a deserialize =
  from_value :: "json \<Rightarrow> anyhow + 'a"
  from_str :: "string \<Rightarrow> anyhow + 'a"

record 'a serialize =
  to_value :: "'a \<Rightarrow> anyhow + json"
  to_string :: "'a \<Rightarrow> anyhow + string"

text \<open>What \<open>serde_json\<close> documents for \<open>String\<close>: only a JSON string is accepted, as is.\<close>

definition string_de :: "string deserialize \<Rightarrow> bool" where
  "string_de d \<longleftrightarrow>
     (\<forall>s. from_value d (JString s) = Inr s) \<and>
     (\<forall>j. as_str j = None \<longrightarrow> (\<exists>e. from_value d j = Inl e))"

text \<open>And for \<open>Vec<String>\<close>: only an array whose items are all strings.\<close>

definition strings_de :: "string list deserialize \<Rightarrow> bool" where
  "strings_de d \<longleftrightarrow>
     (\<forall>ss. from_value d (JArray (map JString ss)) = Inr ss) \<and>
     (\<forall>j ss. from_value d j = Inr ss \<longrightarrow> j = JArray (map JString ss))"

lemma string_de_Inr_iff: "string_de d \<Longrightarrow> from_value d j = Inr s \<longleftrightarrow> j = JString s"
  by (cases "as_str j") (auto simp: string_de_def, metis Inl_Inr_False)

lemma strings_de_Inr_iff:
  "strings_de d \<Longrightarrow> from_value d j = Inr ss \<longleftrightarrow> j = JArray (map JString ss)"
  by (auto simp: strings_de_def)

text \<open>Dictionaries that satisfy them, used where a concrete input is evaluated.\<close>

definition std_string_de :: "string deserialize" where
  "std_string_de = \<lparr>
     from_value = (\<lambda>j. ok_or (Msg ''invalid type: expected a string'') (as_str j)),
     from_str = (\<lambda>s. Inl (Msg ''expected value''))\<rparr>"

definition std_strings_de :: "string list deserialize" where
  "std_strings_de = \<lparr>
     from_value = (\<lambda>j. and_then (ok_or (Msg ''invalid type: expected a sequence'') (as_array j))
        (collect_res (\<lambda>i. ok_or (Msg ''invalid type: expected a string'') (as_str i)))),
     from_str = (\<lambda>s. Inl (Msg ''expected value''))\<rparr>"

lemma string_de_std: "string_de std_string_de"
  by (auto simp: string_de_def std_string_de_def)

lemma strings_de_std: "strings_de std_strings_de"
  by (auto simp: strings_de_def std_strings_de_def res_simps list_all2_conv_all_nth
      intro!: nth_equalityI)

end
