(* ===== verification/Utils.thy ===== *)
theory Utils
  imports Json
begin

text \<open>
  \<open>src/src/utils.rs\<close> and \<open>src/src/signer.rs\<close>: non-empty vectors, membership
  of any item, decoding from a string or a value, and the assembly of a signed JWT. The
  base64 engines and the signer are foreign and come as arguments.
\<close>

section \<open>Non-empty vectors\<close>

text \<open>The field is private: every constructor keeps the invariant \<open>nev_wf\<close>.\<close>

datatype 'a nonempty_vec = NonEmptyVec (nev_list: "'a list")

definition nev_wf :: "'a nonempty_vec \<Rightarrow> bool" where
  "nev_wf v \<longleftrightarrow> nev_list v \<noteq> []"

definition nev_new :: "'a \<Rightarrow> 'a nonempty_vec" where
  "nev_new t = NonEmptyVec [t]"

definition nev_try_from :: "'a list \<Rightarrow> anyhow + 'a nonempty_vec" where
  "nev_try_from v =
     (if v = [] then Inl (Msg ''cannot create a NonEmptyVec from an empty Vec'')
      else Inr (NonEmptyVec v))"

definition nev_maybe_new :: "'a list \<Rightarrow> 'a nonempty_vec option" where
  "nev_maybe_new v = res_ok (nev_try_from v)"

definition nev_push :: "'a nonempty_vec \<Rightarrow> 'a \<Rightarrow> 'a nonempty_vec" where
  "nev_push self t = NonEmptyVec (nev_list self @ [t])"

definition nev_into_inner :: "'a nonempty_vec \<Rightarrow> 'a list" where
  "nev_into_inner self = nev_list self"

definition nev_map :: "('a \<Rightarrow> 'b) \<Rightarrow> 'a nonempty_vec \<Rightarrow> 'b nonempty_vec" where
  "nev_map f self = NonEmptyVec (map f (nev_list self))"

text \<open>\<open>From<NonEmptyVec>\<close> for a vector, and \<open>Serialize\<close>: both are those of the vector inside.\<close>

definition nev_into_vec :: "'a nonempty_vec \<Rightarrow> 'a list" where
  "nev_into_vec v = (case v of NonEmptyVec v \<Rightarrow> v)"

definition nev_serialize :: "'a list serialize \<Rightarrow> 'a nonempty_vec \<Rightarrow> anyhow + json" where
  "nev_serialize ser self = to_value ser (nev_list self)"

lemma nev_wf_simps [simp]:
  "nev_wf (NonEmptyVec xs) = (xs \<noteq> [])"
  "nev_wf (nev_new t)"
  "nev_wf (nev_push v t)"
  "nev_wf (nev_map f v) = nev_wf v"
  by (simp_all add: nev_wf_def nev_new_def nev_push_def nev_map_def)

lemma nev_list_simps [simp]:
  "nev_list (nev_new t) = [t]"
  "nev_list (nev_push v t) = nev_list v @ [t]"
  "nev_list (nev_map f v) = map f (nev_list v)"
  by (simp_all add: nev_new_def nev_push_def nev_map_def)

lemma nev_try_from_Inr_iff [res_simps]: "nev_try_from xs = Inr v \<longleftrightarrow> xs \<noteq> [] \<and> v = NonEmptyVec xs"
  by (auto simp: nev_try_from_def)

lemma nev_maybe_new_Some_iff [res_simps]:
  "nev_maybe_new xs = Some v \<longleftrightarrow> xs \<noteq> [] \<and> v = NonEmptyVec xs"
  by (simp add: nev_maybe_new_def res_simps)

section \<open>Helpers\<close>

definition contains_any :: "'a list \<Rightarrow> 'a list \<Rightarrow> bool" where
  "contains_any large small = list_ex (\<lambda>item. item \<in> set large) small"

definition from_string_or_value :: "'a deserialize \<Rightarrow> json \<Rightarrow> anyhow + 'a" where
  "from_string_or_value d value =
     (case value of
        JString json_str \<Rightarrow> from_str d json_str
      | _ \<Rightarrow> from_value d value)"

lemma contains_any_iff: "contains_any large small \<longleftrightarrow> set large \<inter> set small \<noteq> {}"
  by (auto simp: contains_any_def list_ex_iff)

lemma contains_any_commute: "contains_any xs ys = contains_any ys xs"
  by (auto simp: contains_any_iff)

lemma from_string_or_value_simps [simp]:
  "from_string_or_value d (JString s) = from_str d s"
  "as_str j = None \<Longrightarrow> from_string_or_value d j = from_value d j"
  by (auto simp: from_string_or_value_def split: json.split)

section \<open>Base64 and signing\<close>

record base64 =
  b64_encode :: "string \<Rightarrow> string"
  b64_decode :: "string \<Rightarrow> anyhow + string"

text \<open>
  What the \<open>base64\<close> crate documents: decoding inverts encoding, the encoding of
  bytes is empty only for no bytes, and its alphabet holds neither a dot nor (without
  padding) an equals sign.
\<close>

definition base64_ok :: "base64 \<Rightarrow> bool" where
  "base64_ok b \<longleftrightarrow>
     (\<forall>x. b64_decode b (b64_encode b x) = Inr x) \<and>
     (\<forall>x. CHR ''.'' \<notin> set (b64_encode b x) \<and> CHR ''='' \<notin> set (b64_encode b x))"

text \<open>The trait \<open>Signer\<close>; the payload and the signature are bytes.\<close>

record ('w, 'jwk) signer =
  signer_alg :: "anyhow + string"
  signer_jwk :: "anyhow + 'jwk"
  signer_sign :: "string \<Rightarrow> ('w, anyhow, string) io"

text \<open>
  \<open>to_vec\<close> of the header and of the body are the texts their \<open>Serialize\<close>
  dictionaries print.
\<close>

definition jwt_payload :: "string \<Rightarrow> string \<Rightarrow> string" where
  "jwt_payload header_b64 body_b64 = header_b64 @ ''.'' @ body_b64"

definition generate_jwt ::
  "base64 \<Rightarrow> json serialize \<Rightarrow> 'b serialize \<Rightarrow> json \<Rightarrow> 'b \<Rightarrow> ('w, 'jwk) signer \<Rightarrow> ('w, anyhow, string) io" where
  "generate_jwt url_no_pad header_ser body_ser header body signer =
     io_bind (io_lift (map_ok (b64_encode url_no_pad) (to_string header_ser header))) (\<lambda>header_b64.
     io_bind (io_lift (map_ok (b64_encode url_no_pad) (to_string body_ser body))) (\<lambda>body_b64.
     io_bind (signer_sign signer (jwt_payload header_b64 body_b64)) (\<lambda>signature.
     io_return (header_b64 @ ''.'' @ body_b64 @ ''.'' @ b64_encode url_no_pad signature))))"

text \<open>
  A base64-like engine that satisfies \<open>base64_ok\<close>: two letters per byte. It is used
  only where a concrete input is evaluated.
\<close>

definition enc_byte :: "char \<Rightarrow> string" where
  "enc_byte c = [char_of (65 + of_char c div 16 :: nat), char_of (65 + of_char c mod 16 :: nat)]"

fun dec_bytes :: "string \<Rightarrow> anyhow + string" where
  "dec_bytes [] = Inr []"
| "dec_bytes [c] = Inl (Msg ''Invalid length'')"
| "dec_bytes (c # d # s) =
     map_ok (\<lambda>r. char_of ((of_char c - 65) * 16 + (of_char d - 65) :: nat) # r) (dec_bytes s)"

definition hex64 :: base64 where
  "hex64 = \<lparr>b64_encode = (\<lambda>s. concat (map enc_byte s)), b64_decode = dec_bytes\<rparr>"

lemma nibble_bounds: "(of_char c :: nat) div 16 < 16" "(of_char c :: nat) mod 16 < 16"
  using nat_of_char_less_256 [of c] by (auto simp: less_mult_imp_div_less)

lemma enc_byte_chars:
  "enc_byte c = [a, b] \<Longrightarrow> of_char a = 65 + (of_char c :: nat) div 16 \<and> of_char b = 65 + (of_char c :: nat) mod 16"
  using nibble_bounds [of c] by (auto simp: enc_byte_def)

lemma dec_enc_byte:
  "enc_byte c = [a, b] \<Longrightarrow> (of_char a - 65) * 16 + (of_char b - 65) = (of_char c :: nat)"
  by (simp add: enc_byte_chars)

lemma enc_byte_two: "\<exists>a b. enc_byte c = [a, b]"
  by (simp add: enc_byte_def)

lemma dec_bytes_enc: "dec_bytes (concat (map enc_byte s)) = Inr s"
proof (induction s)
  case Nil
  show ?case by simp
next
  case (Cons c s)
  obtain a b where ab: "enc_byte c = [a, b]" using enc_byte_two by blast
  with Cons.IH dec_enc_byte [OF ab] show ?case by simp
qed

lemma enc_byte_letters:
  assumes "x \<in> set (enc_byte c)"
  shows "65 \<le> (of_char x :: nat)"
proof -
  obtain a b where ab: "enc_byte c = [a, b]" using enc_byte_two by blast
  with enc_byte_chars [OF ab] assms show ?thesis by auto
qed

lemma base64_ok_hex64: "base64_ok hex64"
proof -
  have "x \<notin> set (concat (map enc_byte s))" if "(of_char x :: nat) < 65" for x s
    using that enc_byte_letters by fastforce
  then show ?thesis by (simp add: base64_ok_def hex64_def dec_bytes_enc)
qed

text \<open>The signed text splits back into the encoded header, body and signature.\<close>

lemma generate_jwt_parts:
  assumes "generate_jwt b hs bs header body signer w = (Inr jwt, w')"
  obtains h p sig where
    "to_string hs header = Inr h" "to_string bs body = Inr p"
    "signer_sign signer (b64_encode b h @ ''.'' @ b64_encode b p) w = (Inr sig, w')"
    "jwt = b64_encode b h @ ''.'' @ b64_encode b p @ ''.'' @ b64_encode b sig"
  using assms by (auto simp: generate_jwt_def jwt_payload_def io_simps res_simps)

end
