(* ===== verification/Credential_Format.thy ===== *)
theory Credential_Format
  imports Utils
begin

text \<open>
  \<open>src/src/core/credential_format/mod.rs\<close>: claim formats, the payloads that list
  the algorithms a format supports, and the designations that name formats.
\<close>

type_synonym credential_type = string

section \<open>Designations\<close>

datatype claim_format_designation =
    Jwt
  | JwtVc
  | SdJwtVc
  | JwtVp
  | JwtVcJson
  | JwtVpJson
  | Ldp
  | LdpVc
  | LdpVp
  | AcVc
  | AcVp
  | MsoMDoc
  | Other string

definition designation_from_name :: "string \<Rightarrow> claim_format_designation" where
  "designation_from_name name =
     (if name = ''jwt'' then Jwt
      else if name = ''jwt_vc'' then JwtVc
      else if name = ''jwt_vp'' then JwtVp
      else if name = ''jwt_vc_json'' then JwtVcJson
      else if name = ''dc+sd-jwt'' then SdJwtVc
      else if name = ''jwt_vp_json'' then JwtVpJson
      else if name = ''ldp'' then Ldp
      else if name = ''ldp_vc'' then LdpVc
      else if name = ''ldp_vp'' then LdpVp
      else if name = ''ac_vc'' then AcVc
      else if name = ''ac_vp'' then AcVp
      else if name = ''mso_mdoc'' then MsoMDoc
      else Other name)"

fun designation_name :: "claim_format_designation \<Rightarrow> string" where
  "designation_name Jwt = ''jwt''"
| "designation_name JwtVc = ''jwt_vc''"
| "designation_name JwtVp = ''jwt_vp''"
| "designation_name JwtVcJson = ''jwt_vc_json''"
| "designation_name SdJwtVc = ''dc+sd-jwt''"
| "designation_name JwtVpJson = ''jwt_vp_json''"
| "designation_name Ldp = ''ldp''"
| "designation_name LdpVc = ''ldp_vc''"
| "designation_name LdpVp = ''ldp_vp''"
| "designation_name AcVc = ''ac_vc''"
| "designation_name AcVp = ''ac_vp''"
| "designation_name MsoMDoc = ''mso_mdoc''"
| "designation_name (Other other) = other"

text \<open>The consuming variant, used by \<open>From<ClaimFormatDesignation> for String\<close>.\<close>

fun designation_into_name :: "claim_format_designation \<Rightarrow> string" where
  "designation_into_name Jwt = ''jwt''"
| "designation_into_name JwtVc = ''jwt_vc''"
| "designation_into_name JwtVp = ''jwt_vp''"
| "designation_into_name JwtVcJson = ''jwt_vc_json''"
| "designation_into_name SdJwtVc = ''dc+sd-jwt''"
| "designation_into_name JwtVpJson = ''jwt_vp_json''"
| "designation_into_name Ldp = ''ldp''"
| "designation_into_name LdpVc = ''ldp_vc''"
| "designation_into_name LdpVp = ''ldp_vp''"
| "designation_into_name AcVc = ''ac_vc''"
| "designation_into_name AcVp = ''ac_vp''"
| "designation_into_name MsoMDoc = ''mso_mdoc''"
| "designation_into_name (Other other) = other"

definition string_of_designation :: "claim_format_designation \<Rightarrow> string" where
  "string_of_designation format = designation_into_name format"

definition designation_from_str :: "string \<Rightarrow> anyhow + claim_format_designation" where
  "designation_from_str s = Inr (designation_from_name s)"

definition display_designation :: "claim_format_designation \<Rightarrow> string" where
  "display_designation self = designation_name self"

text \<open>\<open>Serialize\<close> and \<open>Deserialize\<close> go through the name.\<close>

definition designation_serialize :: "claim_format_designation \<Rightarrow> json" where
  "designation_serialize self = JString (designation_name self)"

definition designation_deserialize :: "string deserialize \<Rightarrow> json \<Rightarrow> anyhow + claim_format_designation" where
  "designation_deserialize de_string deserializer =
     map_ok designation_from_name (from_value de_string deserializer)"

section \<open>Formats\<close>

datatype claim_format =
    FJwt "string list"
  | FJwtVc "string list"
  | FSdJwtVc (jwt_alg_values: "string list") (kb_alg_values: "string list")
  | FJwtVp "string list"
  | FJwtVcJson "string list"
  | FJwtVpJson "string list"
  | FLdp "string list"
  | FLdpVc "string list"
  | FLdpVp "string list"
  | FAcVc "string list"
  | FAcVp "string list"
  | FMsoMDoc json
  | FOther json

fun claim_format_designation_of :: "claim_format \<Rightarrow> claim_format_designation" where
  "claim_format_designation_of (FJwt _) = Jwt"
| "claim_format_designation_of (FJwtVc _) = JwtVc"
| "claim_format_designation_of (FSdJwtVc _ _) = SdJwtVc"
| "claim_format_designation_of (FJwtVcJson _) = JwtVcJson"
| "claim_format_designation_of (FJwtVp _) = JwtVp"
| "claim_format_designation_of (FJwtVpJson _) = JwtVpJson"
| "claim_format_designation_of (FLdp _) = Ldp"
| "claim_format_designation_of (FLdpVc _) = LdpVc"
| "claim_format_designation_of (FLdpVp _) = LdpVp"
| "claim_format_designation_of (FAcVc _) = AcVc"
| "claim_format_designation_of (FAcVp _) = AcVp"
| "claim_format_designation_of (FMsoMDoc _) = MsoMDoc"
| "claim_format_designation_of (FOther value) =
     (let format = (case as_object value of
                      Some (e # _) \<Rightarrow> fst e
                    | _ \<Rightarrow> ''other'')
      in Other format)"

fun claim_format_name :: "(json \<Rightarrow> anyhow + string) \<Rightarrow> claim_format \<Rightarrow> string" where
  "claim_format_name print (FJwt _) = ''jwt''"
| "claim_format_name print (FJwtVc _) = ''jwt_vc''"
| "claim_format_name print (FSdJwtVc _ _) = ''dc+sd-jwt''"
| "claim_format_name print (FJwtVp _) = ''jwt_vp''"
| "claim_format_name print (FJwtVcJson _) = ''jwt_vc_json''"
| "claim_format_name print (FJwtVpJson _) = ''jwt_vp_json''"
| "claim_format_name print (FLdp _) = ''ldp''"
| "claim_format_name print (FLdpVc _) = ''ldp_vc''"
| "claim_format_name print (FLdpVp _) = ''ldp_vp''"
| "claim_format_name print (FAcVc _) = ''ac_vc''"
| "claim_format_name print (FAcVp _) = ''ac_vp''"
| "claim_format_name print (FMsoMDoc _) = ''mso_mdoc''"
| "claim_format_name print (FOther v) = (case print v of Inr s \<Rightarrow> s | Inl _ \<Rightarrow> ''other'')"

section \<open>Payloads\<close>

datatype claim_format_payload =
    Alg "string list"
  | AlgValuesSupported "string list"
  | ProofType "string list"
  | SdJwtAlgValues (sd_jwt_alg_values: "string list") (kb_jwt_alg_values: "string list")
  | PayloadJson json

type_synonym claim_format_map = "(claim_format_designation, claim_format_payload) hmap"

fun payload_add_alg :: "string \<Rightarrow> claim_format_payload \<Rightarrow> claim_format_payload" where
  "payload_add_alg alg (Alg algs) = Alg (algs @ [alg])"
| "payload_add_alg alg (AlgValuesSupported algs) = AlgValuesSupported (algs @ [alg])"
| "payload_add_alg alg self = self"

fun payload_add_proof_type :: "string \<Rightarrow> claim_format_payload \<Rightarrow> claim_format_payload" where
  "payload_add_proof_type proof_type (ProofType proof_types) = ProofType (proof_types @ [proof_type])"
| "payload_add_proof_type proof_type self = self"

fun payload_contains :: "claim_format_payload \<Rightarrow> claim_format_payload \<Rightarrow> bool" where
  "payload_contains (Alg algs) (Alg other) = contains_any algs other"
| "payload_contains (AlgValuesSupported algs) (AlgValuesSupported other) = contains_any algs other"
| "payload_contains (ProofType proofs) (ProofType other) = contains_any proofs other"
| "payload_contains (SdJwtAlgValues sd_jwt_algs kb_jwt_algs)
     (SdJwtAlgValues other_sd_jwt_algs other_kb_jwt_algs) =
     (contains_any sd_jwt_algs other_sd_jwt_algs \<and> contains_any kb_jwt_algs other_kb_jwt_algs)"
| "payload_contains (PayloadJson json) (PayloadJson other) = (json = other)"
| "payload_contains _ _ = False"

section \<open>Facts\<close>

definition reserved_format_names :: "string list" where
  "reserved_format_names = map designation_name
     [Jwt, JwtVc, SdJwtVc, JwtVp, JwtVcJson, JwtVpJson, Ldp, LdpVc, LdpVp, AcVc, AcVp, MsoMDoc]"

text \<open>A designation in canonical form: no registered name hides under \<open>Other\<close>.\<close>

definition designation_wf :: "claim_format_designation \<Rightarrow> bool" where
  "designation_wf d \<longleftrightarrow> (\<forall>s. d = Other s \<longrightarrow> s \<notin> set reserved_format_names)"

lemma designation_into_name_eq: "designation_into_name d = designation_name d"
  by (cases d) simp_all

lemma designation_name_from_name: "designation_name (designation_from_name s) = s"
  by (simp add: designation_from_name_def)

lemma designation_wf_from_name: "designation_wf (designation_from_name s)"
  by (simp add: designation_from_name_def designation_wf_def reserved_format_names_def)

lemma designation_from_name_name: "designation_from_name (designation_name d) = d \<longleftrightarrow> designation_wf d"
  by (cases d) (auto simp: designation_from_name_def designation_wf_def reserved_format_names_def)

lemma payload_contains_sym: "payload_contains p q = payload_contains q p"
  by (cases "(p, q)" rule: payload_contains.cases) (auto simp: contains_any_commute)

section \<open>Properties\<close>

text \<open>
  The designation of a claim format survives its name: parsing any name and printing it
  gives the name, and a designation parses back from its name exactly when it is canonical.
\<close>

theorem designation_round_trip:
  "designation_name (designation_from_name s) = s \<and> designation_wf (designation_from_name s) \<and>
   (designation_from_name (designation_into_name d) = d \<longleftrightarrow> designation_wf d)"
  by (simp add: designation_name_from_name designation_wf_from_name designation_into_name_eq
      designation_from_name_name)

end
