(* ===== verification/Input_Descriptor.thy ===== *)
theory Input_Descriptor
  imports Credential_Format
begin

text \<open>
  \<open>src/src/core/input_descriptor.rs\<close>: the constraints an input of a presentation
  must satisfy. JSONPath evaluation and JSON Schema validation are foreign: a path is its
  text and a schema its JSON, and what they mean is the argument \<open>eval\<close>.
\<close>

type_synonym group_id = string

datatype predicate = PredicateRequired | PredicatePreferred

datatype constraints_limit_disclosure = DisclosureRequired | DisclosurePreferred

datatype json_path = JsonPath (path_text: string)

datatype compiled_json_schema = CompiledJsonSchema (schema_raw: json)

text \<open>
  \<open>JsonPath::query(..).all()\<close>: the nodes a path selects, in order;
  \<open>JSONSchema::validate(..).is_ok()\<close> and \<open>JSONSchema::compile\<close>.
\<close>

record eval =
  path_query :: "json_path \<Rightarrow> json \<Rightarrow> json list"
  schema_valid :: "json \<Rightarrow> json \<Rightarrow> bool"
  schema_compile :: "json \<Rightarrow> anyhow + unit"

section \<open>Schemas\<close>

definition schema_try_from :: "eval \<Rightarrow> json \<Rightarrow> anyhow + compiled_json_schema" where
  "schema_try_from ev value =
     and_then (schema_compile ev value) (\<lambda>_. Inr (CompiledJsonSchema value))"

definition schema_eq :: "compiled_json_schema \<Rightarrow> compiled_json_schema \<Rightarrow> bool" where
  "schema_eq self other \<longleftrightarrow> schema_raw self = schema_raw other"

definition schema_serialize :: "json serialize \<Rightarrow> compiled_json_schema \<Rightarrow> anyhow + json" where
  "schema_serialize ser self = to_value ser (schema_raw self)"

definition schema_deserialize :: "eval \<Rightarrow> json \<Rightarrow> anyhow + compiled_json_schema" where
  "schema_deserialize ev raw =
     and_then (schema_compile ev raw) (\<lambda>_. Inr (CompiledJsonSchema raw))"

definition schema_validate :: "eval \<Rightarrow> compiled_json_schema \<Rightarrow> json \<Rightarrow> bool" where
  "schema_validate ev s v = schema_valid ev (schema_raw s) v"

section \<open>Fields\<close>

record constraints_field =
  field_id :: "string option"
  field_name :: "string option"
  field_purpose :: "string option"
  field_path :: "json_path nonempty_vec"
  field_optional :: "bool option"
  field_filter :: "compiled_json_schema option"
  field_predicate :: "predicate option"
  field_intent_to_retain :: bool

definition field_from_paths :: "json_path nonempty_vec \<Rightarrow> constraints_field" where
  "field_from_paths path =
     \<lparr>field_id = None, field_name = None, field_purpose = None, field_path = path,
      field_optional = None, field_filter = None, field_predicate = None,
      field_intent_to_retain = False\<rparr>"

definition field_new :: "json_path \<Rightarrow> constraints_field" where
  "field_new path =
     \<lparr>field_id = None, field_name = None, field_purpose = None, field_path = nev_new path,
      field_optional = None, field_filter = None, field_predicate = None,
      field_intent_to_retain = False\<rparr>"

definition field_add_path :: "json_path \<Rightarrow> constraints_field \<Rightarrow> constraints_field" where
  "field_add_path path self = self\<lparr>field_path := nev_push (field_path self) path\<rparr>"

definition field_set_id :: "string \<Rightarrow> constraints_field \<Rightarrow> constraints_field" where
  "field_set_id i self = self\<lparr>field_id := Some i\<rparr>"

definition field_set_purpose :: "string \<Rightarrow> constraints_field \<Rightarrow> constraints_field" where
  "field_set_purpose purpose self = self\<lparr>field_purpose := Some purpose\<rparr>"

definition field_set_name :: "string \<Rightarrow> constraints_field \<Rightarrow> constraints_field" where
  "field_set_name name self = self\<lparr>field_name := Some name\<rparr>"

definition field_set_filter :: "eval \<Rightarrow> json \<Rightarrow> constraints_field \<Rightarrow> anyhow + constraints_field" where
  "field_set_filter ev filt self =
     and_then (schema_try_from ev filt) (\<lambda>s. Inr (self\<lparr>field_filter := Some s\<rparr>))"

definition field_filter_raw :: "constraints_field \<Rightarrow> json option" where
  "field_filter_raw self = map_option schema_raw (field_filter self)"

definition field_set_predicate :: "predicate \<Rightarrow> constraints_field \<Rightarrow> constraints_field" where
  "field_set_predicate predicate self = self\<lparr>field_predicate := Some predicate\<rparr>"

definition field_set_optional :: "bool \<Rightarrow> constraints_field \<Rightarrow> constraints_field" where
  "field_set_optional optional self = self\<lparr>field_optional := Some optional\<rparr>"

definition field_is_optional :: "constraints_field \<Rightarrow> bool" where
  "field_is_optional self = (case field_optional self of None \<Rightarrow> False | Some b \<Rightarrow> b)"

definition field_is_required :: "constraints_field \<Rightarrow> bool" where
  "field_is_required self = (\<not> field_is_optional self)"

subsection \<open>Field queries\<close>

datatype field_query_result = QueryPredicate bool | QueryValue json

text \<open>
  The two nested loops of \<open>query\<close>: over the candidates of one path (a candidate the
  filter refuses is skipped), and over the paths (a path without a hit is skipped).
\<close>

fun query_candidates :: "eval \<Rightarrow> constraints_field \<Rightarrow> json list \<Rightarrow> field_query_result option" where
  "query_candidates ev self [] = None"
| "query_candidates ev self (candidate # candidates) =
     (if (case field_filter self of
            Some filt \<Rightarrow> \<not> schema_validate ev filt candidate
          | None \<Rightarrow> False)
      then query_candidates ev self candidates
      else case field_predicate self of
             Some _ \<Rightarrow> Some (QueryPredicate True)
           | None \<Rightarrow> Some (QueryValue candidate))"

fun query_paths :: "eval \<Rightarrow> constraints_field \<Rightarrow> json \<Rightarrow> json_path list \<Rightarrow> field_query_result option" where
  "query_paths ev self value [] = None"
| "query_paths ev self value (path # paths) =
     (case query_candidates ev self (path_query ev path value) of
        Some r \<Rightarrow> Some r
      | None \<Rightarrow> query_paths ev self value paths)"

definition field_query :: "eval \<Rightarrow> constraints_field \<Rightarrow> json \<Rightarrow> field_query_result option" where
  "field_query ev self value = query_paths ev self value (nev_list (field_path self))"

text \<open>A candidate that the field accepts: no filter refuses it.\<close>

definition field_accepts :: "eval \<Rightarrow> constraints_field \<Rightarrow> json \<Rightarrow> bool" where
  "field_accepts ev self v \<longleftrightarrow> pred_option (\<lambda>s. schema_validate ev s v) (field_filter self)"

text \<open>All candidates, in the order the paths list them.\<close>

definition field_candidates :: "eval \<Rightarrow> constraints_field \<Rightarrow> json \<Rightarrow> json list" where
  "field_candidates ev self value =
     concat (map (\<lambda>p. path_query ev p value) (nev_list (field_path self)))"

lemma query_candidates_find:
  "query_candidates ev f cs =
     map_option (\<lambda>v. if field_predicate f = None then QueryValue v else QueryPredicate True)
       (find (field_accepts ev f) cs)"
  by (induction cs) (auto simp: field_accepts_def split: option.split)

lemma find_append:
  "find P (xs @ ys) = (case find P xs of Some x \<Rightarrow> Some x | None \<Rightarrow> find P ys)"
  by (induction xs) auto

lemma query_paths_find:
  "query_paths ev f v ps =
     map_option (\<lambda>v. if field_predicate f = None then QueryValue v else QueryPredicate True)
       (find (field_accepts ev f) (concat (map (\<lambda>p. path_query ev p v) ps)))"
  by (induction ps) (auto simp: query_candidates_find find_append split: option.split)

text \<open>The loops compute the first accepted candidate.\<close>

lemma field_query_find:
  "field_query ev f v =
     map_option (\<lambda>v. if field_predicate f = None then QueryValue v else QueryPredicate True)
       (find (field_accepts ev f) (field_candidates ev f v))"
  by (simp add: field_query_def query_paths_find field_candidates_def)

lemma field_query_None_iff:
  "field_query ev f v = None \<longleftrightarrow> (\<forall>c \<in> set (field_candidates ev f v). \<not> field_accepts ev f c)"
  by (auto simp: field_query_find find_None_iff)

subsection \<open>Requested fields\<close>

text \<open>\<open>Uuid::new_v4\<close> draws from the random source \<open>'w\<close>.\<close>

record 'uuid requested_field =
  req_id :: 'uuid
  req_input_descriptor_id :: string
  req_name :: "string option"
  req_required :: bool
  req_retained :: bool
  req_purpose :: "string option"
  req_raw_fields :: "json list"

definition field_requested_fields ::
  "eval \<Rightarrow> ('w \<Rightarrow> 'uuid \<times> 'w) \<Rightarrow> constraints_field \<Rightarrow> string \<Rightarrow> json \<Rightarrow> 'w \<Rightarrow> 'uuid requested_field \<times> 'w" where
  "field_requested_fields ev new_v4 self input_descriptor_id value w =
     (let raw_fields = concat (map (\<lambda>path. path_query ev path value) (nev_list (field_path self)));
          (u, w') = new_v4 w
      in (\<lparr>req_id = u, req_input_descriptor_id = input_descriptor_id, req_name = field_name self,
           req_required = field_is_required self, req_retained = field_intent_to_retain self,
           req_purpose = field_purpose self, req_raw_fields = raw_fields\<rparr>, w'))"

subsection \<open>Credential type hints\<close>

definition hint_const :: "json \<Rightarrow> credential_type list" where
  "hint_const filt =
     (case Option.bind (json_get ''const'' filt) as_str of None \<Rightarrow> [] | Some c \<Rightarrow> [c])"

definition hint_contains_const :: "json \<Rightarrow> credential_type list" where
  "hint_contains_const filt =
     (case Option.bind (Option.bind (json_get ''contains'' filt) (json_get ''const'')) as_str of
        None \<Rightarrow> []
      | Some c \<Rightarrow> [c])"

definition hint_contains_enum :: "json \<Rightarrow> credential_type list" where
  "hint_contains_enum filt =
     (case Option.bind (Option.bind (json_get ''contains'' filt) (json_get ''enum'')) as_array of
        None \<Rightarrow> []
      | Some vs \<Rightarrow> List.map_filter as_str vs)"

definition hint_pattern :: "json \<Rightarrow> credential_type list" where
  "hint_pattern filt =
     (case Option.bind (json_get ''pattern'' filt) as_str of
        None \<Rightarrow> []
      | Some pattern \<Rightarrow>
          let trimmed = trim_end_matches CHR ''$'' (trim_start_matches CHR ''^'' pattern);
              inner = trim_end_matches CHR '')'' (trim_start_matches CHR ''('' trimmed)
          in split_all CHR ''|'' inner)"

definition field_credential_types_hint :: "constraints_field \<Rightarrow> credential_type list" where
  "field_credential_types_hint self =
     (if list_ex (\<lambda>path. contains_str ''type'' (path_text path)) (nev_list (field_path self)) then
        (case field_filter_raw self of
           None \<Rightarrow> []
         | Some filt \<Rightarrow>
             hint_const filt @ hint_contains_const filt @ hint_contains_enum filt @ hint_pattern filt)
      else [])"

section \<open>Constraints\<close>

record constraints =
  con_fields :: "constraints_field list"
  con_limit_disclosure :: "constraints_limit_disclosure option"

definition constraints_new :: constraints where
  "constraints_new = \<lparr>con_fields = [], con_limit_disclosure = None\<rparr>"

definition constraints_add_constraint :: "constraints_field \<Rightarrow> constraints \<Rightarrow> constraints" where
  "constraints_add_constraint field self = self\<lparr>con_fields := con_fields self @ [field]\<rparr>"

text \<open>A method that hands out a mutable reference to a field is the update of the field by what is done to it.\<close>

definition constraints_fields_mut ::
  "(constraints_field list \<Rightarrow> constraints_field list) \<Rightarrow> constraints \<Rightarrow> constraints" where
  "constraints_fields_mut f self = self\<lparr>con_fields := f (con_fields self)\<rparr>"

definition constraints_set_limit_disclosure ::
  "constraints_limit_disclosure \<Rightarrow> constraints \<Rightarrow> constraints" where
  "constraints_set_limit_disclosure limit_disclosure self =
     self\<lparr>con_limit_disclosure := Some limit_disclosure\<rparr>"

definition constraints_is_required :: "constraints \<Rightarrow> bool" where
  "constraints_is_required self = list_ex field_is_required (con_fields self)"

definition constraints_is_empty :: "constraints \<Rightarrow> bool" where
  "constraints_is_empty self \<longleftrightarrow> con_fields self = []"

fun match_fields :: "eval \<Rightarrow> json \<Rightarrow> constraints_field list \<Rightarrow> bool" where
  "match_fields ev value [] = True"
| "match_fields ev value (field # fs) =
     (if field_query ev field value = None \<and> field_is_required field then False
      else match_fields ev value fs)"

definition constraints_matches :: "eval \<Rightarrow> constraints \<Rightarrow> json \<Rightarrow> bool" where
  "constraints_matches ev self value = match_fields ev value (con_fields self)"

lemma match_fields_iff:
  "match_fields ev v fs \<longleftrightarrow> (\<forall>f \<in> set fs. field_is_required f \<longrightarrow> field_query ev f v \<noteq> None)"
  by (induction fs) auto

lemma constraints_matches_iff:
  "constraints_matches ev c v \<longleftrightarrow>
     (\<forall>f \<in> set (con_fields c). field_is_required f \<longrightarrow>
        (\<exists>x \<in> set (field_candidates ev f v). field_accepts ev f x))"
  by (auto simp: constraints_matches_def match_fields_iff field_query_None_iff)

lemma constraints_matches_not_required:
  "\<not> constraints_is_required c \<Longrightarrow> constraints_matches ev c v"
  by (auto simp: constraints_is_required_def constraints_matches_iff list_ex_iff)

section \<open>Input descriptors\<close>

record input_descriptor =
  desc_id :: string
  desc_constraints :: constraints
  desc_name :: "string option"
  desc_purpose :: "string option"
  desc_format :: claim_format_map
  desc_groups :: "group_id list"

definition descriptor_new :: "string \<Rightarrow> constraints \<Rightarrow> input_descriptor" where
  "descriptor_new i cs =
     \<lparr>desc_id = i, desc_constraints = cs, desc_name = None, desc_purpose = None,
      desc_format = [], desc_groups = []\<rparr>"

definition descriptor_set_constraints :: "constraints \<Rightarrow> input_descriptor \<Rightarrow> input_descriptor" where
  "descriptor_set_constraints cs self = self\<lparr>desc_constraints := cs\<rparr>"

definition descriptor_set_name :: "string \<Rightarrow> input_descriptor \<Rightarrow> input_descriptor" where
  "descriptor_set_name name self = self\<lparr>desc_name := Some name\<rparr>"

definition descriptor_set_purpose :: "string \<Rightarrow> input_descriptor \<Rightarrow> input_descriptor" where
  "descriptor_set_purpose purpose self = self\<lparr>desc_purpose := Some purpose\<rparr>"

definition descriptor_set_format :: "claim_format_map \<Rightarrow> input_descriptor \<Rightarrow> input_descriptor" where
  "descriptor_set_format format self = self\<lparr>desc_format := format\<rparr>"

definition descriptor_format_designations :: "input_descriptor \<Rightarrow> claim_format_designation set" where
  "descriptor_format_designations self = set (map fst (desc_format self))"

fun requested_fields_loop ::
  "eval \<Rightarrow> ('w \<Rightarrow> 'uuid \<times> 'w) \<Rightarrow> string \<Rightarrow> json \<Rightarrow> constraints_field list \<Rightarrow> 'w \<Rightarrow>
     'uuid requested_field list \<times> 'w" where
  "requested_fields_loop ev new_v4 i value [] w = ([], w)"
| "requested_fields_loop ev new_v4 i value (field # fs) w =
     (let (r, w1) = field_requested_fields ev new_v4 field i value w;
          (rs, w2) = requested_fields_loop ev new_v4 i value fs w1
      in (r # rs, w2))"

definition descriptor_requested_fields ::
  "eval \<Rightarrow> ('w \<Rightarrow> 'uuid \<times> 'w) \<Rightarrow> input_descriptor \<Rightarrow> json \<Rightarrow> 'w \<Rightarrow> 'uuid requested_field list \<times> 'w" where
  "descriptor_requested_fields ev new_v4 self value w =
     requested_fields_loop ev new_v4 (desc_id self) value (con_fields (desc_constraints self)) w"

definition descriptor_credential_types_hint :: "input_descriptor \<Rightarrow> credential_type list" where
  "descriptor_credential_types_hint self =
     concat (map field_credential_types_hint (con_fields (desc_constraints self)))"

record credential_types_requested_fields =
  ctrf_input_descriptor_id :: string
  ctrf_credential_type_hint :: "credential_type list"
  ctrf_requested_fields :: "string list"

text \<open>
  Disclosure: one entry per field, each showing exactly the nodes its paths select in
  the credential.
\<close>

lemma requested_fields_loop_fields:
  "requested_fields_loop ev new_v4 i value fs w = (rs, w') \<Longrightarrow>
     map req_raw_fields rs = map (\<lambda>f. field_candidates ev f value) fs \<and>
     map req_required rs = map field_is_required fs \<and>
     (\<forall>r \<in> set rs. req_input_descriptor_id r = i)"
  by (induction fs arbitrary: w rs)
    (fastforce simp: field_requested_fields_def field_candidates_def split: prod.splits)+

text \<open>A filter on the type of the credential gives back the alternatives of its pattern.\<close>

lemma hint_pattern_join:
  assumes "json_get ''pattern'' filt = Some (JString p)"
  shows "join_str ''|'' (hint_pattern filt) =
    trim_end_matches CHR '')'' (trim_start_matches CHR ''(''
      (trim_end_matches CHR ''$'' (trim_start_matches CHR ''^'' p)))"
  using assms by (simp add: hint_pattern_def Let_def split_all_join)

section \<open>Properties\<close>

text \<open>
  A field answers with the first node, in the order of its paths and of the nodes each
  selects, that its filter accepts: the node itself, or only a mark when the field has a predicate;
  no answer means that no node is accepted.
\<close>

theorem field_query_first_accepted:
  "field_query ev f v =
     map_option (\<lambda>v. if field_predicate f = None then QueryValue v else QueryPredicate True)
       (find (field_accepts ev f) (field_candidates ev f v))"
  by (rule field_query_find)

text \<open>
  The fields a wallet shows to its user for a credential are one entry per field of the
  descriptor, in order, each with exactly the nodes its paths select, its own requirement and the
  identifier of the descriptor.
\<close>

theorem requested_fields_disclosed:
  assumes "descriptor_requested_fields ev new_v4 d value w = (rs, w')"
  shows "map req_raw_fields rs = map (\<lambda>f. field_candidates ev f value) (con_fields (desc_constraints d)) \<and>
    map req_required rs = map field_is_required (con_fields (desc_constraints d)) \<and>
    req_input_descriptor_id ` set rs \<subseteq> {desc_id d}"
  using requested_fields_loop_fields [OF assms [unfolded descriptor_requested_fields_def]] by auto

lemma requested_fields_disclosed_witness:
  "descriptor_requested_fields
     \<lparr>path_query = (\<lambda>p j. [j]), schema_valid = (\<lambda>s j. True), schema_compile = (\<lambda>s. Inr ())\<rparr>
     (\<lambda>n. (n, Suc n))
     (descriptor_new ''d'' (constraints_add_constraint (field_new (JsonPath ''$'')) constraints_new))
     JNull (0::nat) =
     ([\<lparr>req_id = 0, req_input_descriptor_id = ''d'', req_name = None, req_required = True,
        req_retained = False, req_purpose = None, req_raw_fields = [JNull]\<rparr>], 1)"
  (is "descriptor_requested_fields ?ev ?nu ?d JNull 0 = (?rs, 1)")
proof -
  have run: "descriptor_requested_fields ?ev ?nu ?d JNull 0 = (?rs, 1)" by code_simp
  from requested_fields_disclosed [OF run] run show ?thesis by blast
qed

end
