(* ===== verification/Object.thy ===== *)
theory Object
  imports Json
begin

text \<open>
  \<open>src/src/core/object/mod.rs\<close>: untyped JSON objects from which typed parameters
  are read and into which they are written. The trait \<open>TypedParameter\<close> is a
  dictionary: the member name, and the two fallible conversions.
\<close>

type_synonym untyped_object = json_map

record 'a typed_parameter =
  KEY :: string
  try_from_json :: "json \<Rightarrow> anyhow + 'a"
  try_into_json :: "'a \<Rightarrow> anyhow + json"

section \<open>Operations\<close>

definition obj_get_or_default :: "'a typed_parameter \<Rightarrow> 'a \<Rightarrow> untyped_object \<Rightarrow> anyhow + 'a" where
  "obj_get_or_default T dflt obj =
     map_ok (\<lambda>v. case v of None \<Rightarrow> dflt | Some x \<Rightarrow> x)
       (transpose_opt (map_option (try_from_json T) (bt_get obj (KEY T))))"

definition obj_get :: "'a typed_parameter \<Rightarrow> untyped_object \<Rightarrow> (anyhow + 'a) option" where
  "obj_get T obj = map_option (try_from_json T) (bt_get obj (KEY T))"

definition obj_remove ::
  "'a typed_parameter \<Rightarrow> untyped_object \<Rightarrow> (anyhow + 'a) option \<times> untyped_object" where
  "obj_remove T obj =
     (map_option (try_from_json T) (bt_get obj (KEY T)), bt_del (KEY T) obj)"

definition obj_insert ::
  "'a typed_parameter \<Rightarrow> 'a \<Rightarrow> untyped_object \<Rightarrow> (anyhow + 'a) option \<times> untyped_object" where
  "obj_insert T t obj =
     (case try_into_json T t of
        Inl e \<Rightarrow> (Some (Inl (Msg ''failed to parse typed parameter'')), obj)
      | Inr value \<Rightarrow>
          (map_option (try_from_json T) (bt_get obj (KEY T)), bt_put (KEY T) value obj))"

definition flatten_entry :: "(json \<Rightarrow> anyhow + string) \<Rightarrow> string \<times> json \<Rightarrow> anyhow + string \<times> string" where
  "flatten_entry print kv =
     (case snd kv of
        JString s \<Rightarrow> Inr (fst kv, s)
      | v \<Rightarrow> map_ok (\<lambda>p. (fst kv, p)) (print v))"

definition flatten_for_form ::
  "(json \<Rightarrow> anyhow + string) \<Rightarrow> untyped_object \<Rightarrow> anyhow + (string, string) bmap" where
  "flatten_for_form print obj = map_ok bt_of_list (collect_res (flatten_entry print) obj)"

definition json_of_object :: "untyped_object \<Rightarrow> json" where
  "json_of_object value = JObject value"

text \<open>\<open>ParsingErrorContext\<close> for an optional result and for a result.\<close>

definition quoted :: "string \<Rightarrow> string" where
  "quoted s = CHR 0x27 # s @ [CHR 0x27]"

definition could_not_be_parsed :: "string \<Rightarrow> string" where
  "could_not_be_parsed key = quoted key @ '' could not be parsed''"

definition parsing_error_res :: "'a typed_parameter \<Rightarrow> anyhow + 'a \<Rightarrow> anyhow + 'a" where
  "parsing_error_res T r = map_err (Context (could_not_be_parsed (KEY T))) r"

definition parsing_error_opt :: "'a typed_parameter \<Rightarrow> (anyhow + 'a) option \<Rightarrow> anyhow + 'a" where
  "parsing_error_opt T r =
     and_then (ok_or (Msg (quoted (KEY T) @ '' is missing'')) r)
       (map_err (Context (could_not_be_parsed (KEY T))))"

section \<open>Facts about reading and writing\<close>

lemma obj_get_None_iff: "obj_get T obj = None \<longleftrightarrow> bt_get obj (KEY T) = None"
  by (simp add: obj_get_def)

lemma obj_get_Some_iff:
  "obj_get T obj = Some r \<longleftrightarrow> (\<exists>v. bt_get obj (KEY T) = Some v \<and> r = try_from_json T v)"
  by (auto simp: obj_get_def)

lemma obj_get_put_other:
  "bt_wf obj \<Longrightarrow> k \<noteq> KEY T \<Longrightarrow> obj_get T (bt_put k v obj) = obj_get T obj"
  by (simp add: obj_get_def bt_get_put)

lemma obj_get_put_same:
  "bt_wf obj \<Longrightarrow> obj_get T (bt_put (KEY T) v obj) = Some (try_from_json T v)"
  by (simp add: obj_get_def bt_get_put)

lemma obj_get_del_other:
  "bt_wf obj \<Longrightarrow> k \<noteq> KEY T \<Longrightarrow> obj_get T (bt_del k obj) = obj_get T obj"
  by (simp add: obj_get_def bt_get_del)

lemma obj_get_del_same: "bt_wf obj \<Longrightarrow> obj_get T (bt_del (KEY T) obj) = None"
  by (simp add: obj_get_def bt_get_del)

lemma bt_wf_insert: "bt_wf obj \<Longrightarrow> bt_wf (snd (obj_insert T t obj))"
  by (simp add: obj_insert_def bt_wf_put split: sum.split)

lemma bt_wf_remove: "bt_wf obj \<Longrightarrow> bt_wf (snd (obj_remove T obj))"
  by (simp add: obj_remove_def bt_wf_del)

lemma obj_get_insert_other:
  "bt_wf obj \<Longrightarrow> KEY T \<noteq> KEY U \<Longrightarrow> obj_get U (snd (obj_insert T t obj)) = obj_get U obj"
  by (simp add: obj_insert_def obj_get_put_other split: sum.split)

lemma obj_get_remove_other:
  "bt_wf obj \<Longrightarrow> KEY T \<noteq> KEY U \<Longrightarrow> obj_get U (snd (obj_remove T obj)) = obj_get U obj"
  by (simp add: obj_remove_def obj_get_del_other)

lemma obj_get_remove_same: "bt_wf obj \<Longrightarrow> obj_get T (snd (obj_remove T obj)) = None"
  by (simp add: obj_remove_def obj_get_del_same)

lemma obj_get_or_default_Inr_iff:
  "obj_get_or_default T d obj = Inr x \<longleftrightarrow>
     (obj_get T obj = None \<and> x = d) \<or> obj_get T obj = Some (Inr x)"
  by (auto simp: obj_get_or_default_def obj_get_def res_simps split: option.splits)

lemma obj_get_or_default_Inl_iff:
  "obj_get_or_default T d obj = Inl e \<longleftrightarrow> obj_get T obj = Some (Inl e)"
  by (auto simp: obj_get_or_default_def obj_get_def res_simps)

lemma parsing_error_opt_Inr_iff [res_simps]:
  "parsing_error_opt T r = Inr x \<longleftrightarrow> r = Some (Inr x)"
  by (auto simp: parsing_error_opt_def res_simps)

lemma parsing_error_opt_None_error: "\<exists>e. parsing_error_opt T None = Inl e"
  by (simp add: parsing_error_opt_def)

lemma parsing_error_res_Inr_iff [res_simps]: "parsing_error_res T r = Inr x \<longleftrightarrow> r = Inr x"
  by (simp add: parsing_error_res_def res_simps)

lemmas obj_get_frame =
  obj_get_insert_other obj_get_remove_other obj_get_remove_same bt_wf_insert bt_wf_remove

section \<open>The contract of a typed parameter\<close>

text \<open>
  What the readers and writers of an object rely on for a parameter type: a value that
  satisfies \<open>ok\<close> is written to a JSON value that reads back as the same value.
\<close>

locale typed_param =
  fixes T :: "'a typed_parameter" and ok :: "'a \<Rightarrow> bool"
  assumes roundtrip: "ok t \<Longrightarrow> \<exists>v. try_into_json T t = Inr v \<and> try_from_json T v = Inr t"
begin

lemma get_insert: "bt_wf obj \<Longrightarrow> ok t \<Longrightarrow> obj_get T (snd (obj_insert T t obj)) = Some (Inr t)"
  using roundtrip [of t] by (auto simp: obj_insert_def obj_get_put_same)

lemma insert_fresh: "bt_get obj (KEY T) = None \<Longrightarrow> ok t \<Longrightarrow> fst (obj_insert T t obj) = None"
  using roundtrip [of t] by (auto simp: obj_insert_def)

lemma insert_twice:
  "bt_wf obj \<Longrightarrow> ok t \<Longrightarrow> ok u \<Longrightarrow>
     obj_insert T u (snd (obj_insert T t obj)) = (Some (Inr t), snd (obj_insert T u obj))"
  using roundtrip [of t] roundtrip [of u]
  by (auto simp: obj_insert_def bt_get_put btm.put_put_same)

lemma remove_insert:
  "bt_wf obj \<Longrightarrow> bt_get obj (KEY T) = None \<Longrightarrow> ok t \<Longrightarrow>
     obj_remove T (snd (obj_insert T t obj)) = (Some (Inr t), obj)"
  using roundtrip [of t] by (auto simp: obj_insert_def obj_remove_def bt_get_put btm.del_put_same)

end

section \<open>Flattening for a form\<close>

lemma flatten_entry_fst: "flatten_entry print kv = Inr r \<Longrightarrow> fst r = fst kv"
  by (auto simp: flatten_entry_def res_simps split: json.splits)

lemma flatten_for_form_get:
  assumes wf: "bt_wf obj" and ok: "flatten_for_form print obj = Inr form"
  shows "bt_get form k =
    (case bt_get obj k of
       None \<Rightarrow> None
     | Some v \<Rightarrow> map_option snd (res_ok (flatten_entry print (k, v))))"
proof -
  from ok obtain rs where rs: "list_all2 (\<lambda>kv r. flatten_entry print kv = Inr r) obj rs"
    and form: "form = bt_of_list rs"
    by (auto simp: flatten_for_form_def res_simps)
  have keys: "map fst rs = map fst obj"
    using rs by (induction rule: list_all2_induct) (auto dest: flatten_entry_fst)
  with wf have "form = rs" by (simp add: form bt_of_list_same bt_wf_def bt_keys_def)
  moreover have "bt_get rs k = (case bt_get obj k of None \<Rightarrow> None
      | Some v \<Rightarrow> map_option snd (res_ok (flatten_entry print (k, v))))"
    using rs
  proof (induction rule: list_all2_induct)
    case Nil
    show ?case by simp
  next
    case (Cons kv kvs r rs)
    then show ?case using flatten_entry_fst [of print kv r] by (cases kv) auto
  qed
  ultimately show ?thesis by simp
qed

lemma flatten_for_form_wf: "flatten_for_form print obj = Inr form \<Longrightarrow> bt_wf form"
  by (auto simp: flatten_for_form_def res_simps)

section \<open>Properties\<close>

text \<open>
  A flattened form has exactly the members of the object: a string member as its own
  text, every other member as its printed JSON; a member that cannot be printed fails the whole.
\<close>

theorem flattened_form_members:
  assumes "bt_wf obj" and "flatten_for_form print obj = Inr form"
  shows "bt_wf form \<and> (\<forall>k. bt_get form k =
    (case bt_get obj k of
       None \<Rightarrow> None
     | Some v \<Rightarrow> (case v of JString s \<Rightarrow> Some s | _ \<Rightarrow> res_ok (print v))))"
proof (intro conjI allI)
  show "bt_wf form" using assms(2) by (rule flatten_for_form_wf)
  fix k
  have "map_option snd (res_ok (flatten_entry print (k, v))) =
      (case v of JString s \<Rightarrow> Some s | _ \<Rightarrow> res_ok (print v))" for v
    by (cases v; cases "print v") (auto simp: flatten_entry_def)
  then show "bt_get form k = (case bt_get obj k of None \<Rightarrow> None
      | Some v \<Rightarrow> (case v of JString s \<Rightarrow> Some s | _ \<Rightarrow> res_ok (print v)))"
    by (cases "bt_get obj k") (simp_all add: flatten_for_form_get [OF assms])
qed

lemma flattened_form_members_witness:
  "bt_get [(''a'', ''x''), (''b'', ''true'')] ''b'' = Some ''true'' \<and>
   flatten_for_form (\<lambda>j. Inr ''true'') [(''a'', JString ''x''), (''b'', JBool True)] =
     Inr [(''a'', ''x''), (''b'', ''true'')]"
proof -
  have flat: "flatten_for_form (\<lambda>j. Inr ''true'') [(''a'', JString ''x''), (''b'', JBool True)] =
      Inr [(''a'', ''x''), (''b'', ''true'')]"
    by code_simp
  have "bt_wf [(''a'', JString ''x''), (''b'', JBool True)]" by code_simp
  from flattened_form_members [OF this flat] flat show ?thesis by simp
qed

end
