(* ===== verification/Presentation_Definition.thy ===== *)
theory Presentation_Definition
  imports Input_Descriptor Object
begin

text \<open>
  \<open>src/src/core/presentation_definition.rs\<close>: what a verifier asks for. This theory
  holds the data, the builders and the matching of a credential; the validation of
  submission requirements is in the theory of presentation submissions, whose inputs it
  reads.
\<close>

section \<open>Submission requirements\<close>

record submission_requirement_object =
  sro_name :: "string option"
  sro_purpose :: "string option"
  sro_property_set :: "json_map option"

datatype submission_requirement =
    RequirementAll submission_requirement_base
  | RequirementPick submission_requirement_pick
and submission_requirement_base =
    From group_id submission_requirement_object
  | FromNested "submission_requirement list" submission_requirement_object
and submission_requirement_pick =
    SubmissionRequirementPick
      (pick_submission_requirement: submission_requirement_base)
      (pick_count: "nat option")
      (pick_min: "nat option")
      (pick_max: "nat option")

section \<open>Definitions\<close>

record presentation_definition =
  pd_id :: string
  pd_input_descriptors :: "input_descriptor list"
  pd_submission_requirements :: "submission_requirement list option"
  pd_name :: "string option"
  pd_purpose :: "string option"
  pd_format :: claim_format_map

definition pd_new :: "string \<Rightarrow> input_descriptor \<Rightarrow> presentation_definition" where
  "pd_new i input_descriptor =
     \<lparr>pd_id = i, pd_input_descriptors = [input_descriptor], pd_submission_requirements = None,
      pd_name = None, pd_purpose = None, pd_format = []\<rparr>"

definition pd_add_input_descriptor ::
  "input_descriptor \<Rightarrow> presentation_definition \<Rightarrow> presentation_definition" where
  "pd_add_input_descriptor input_descriptor self =
     self\<lparr>pd_input_descriptors := pd_input_descriptors self @ [input_descriptor]\<rparr>"

definition pd_input_descriptors_map ::
  "presentation_definition \<Rightarrow> (string, input_descriptor) hmap" where
  "pd_input_descriptors_map self =
     hm_of_list (map (\<lambda>input_descriptor. (desc_id input_descriptor, input_descriptor))
       (pd_input_descriptors self))"

definition pd_input_descriptors_mut ::
  "(input_descriptor list \<Rightarrow> input_descriptor list) \<Rightarrow> presentation_definition \<Rightarrow> presentation_definition" where
  "pd_input_descriptors_mut f self = self\<lparr>pd_input_descriptors := f (pd_input_descriptors self)\<rparr>"

definition pd_submission_requirements_mut ::
  "(submission_requirement list \<Rightarrow> submission_requirement list) \<Rightarrow> presentation_definition \<Rightarrow>
     presentation_definition" where
  "pd_submission_requirements_mut f self =
     self\<lparr>pd_submission_requirements := map_option f (pd_submission_requirements self)\<rparr>"

definition pd_set_submission_requirements ::
  "submission_requirement list \<Rightarrow> presentation_definition \<Rightarrow> presentation_definition" where
  "pd_set_submission_requirements submission_requirements self =
     self\<lparr>pd_submission_requirements := Some submission_requirements\<rparr>"

definition pd_add_submission_requirement ::
  "submission_requirement \<Rightarrow> presentation_definition \<Rightarrow> presentation_definition" where
  "pd_add_submission_requirement submission_requirement self =
     self\<lparr>pd_submission_requirements :=
       Some ((case pd_submission_requirements self of None \<Rightarrow> [] | Some rs \<Rightarrow> rs)
             @ [submission_requirement])\<rparr>"

definition pd_set_name :: "string \<Rightarrow> presentation_definition \<Rightarrow> presentation_definition" where
  "pd_set_name name self = self\<lparr>pd_name := Some name\<rparr>"

definition pd_set_purpose :: "string \<Rightarrow> presentation_definition \<Rightarrow> presentation_definition" where
  "pd_set_purpose purpose self = self\<lparr>pd_purpose := Some purpose\<rparr>"

definition pd_set_format :: "claim_format_map \<Rightarrow> presentation_definition \<Rightarrow> presentation_definition" where
  "pd_set_format format self = self\<lparr>pd_format := format\<rparr>"

definition pd_add_format ::
  "claim_format_designation \<Rightarrow> claim_format_payload \<Rightarrow> presentation_definition \<Rightarrow> presentation_definition" where
  "pd_add_format key value self = self\<lparr>pd_format := hm_put key value (pd_format self)\<rparr>"

fun descriptors_contain_format :: "claim_format_designation \<Rightarrow> input_descriptor list \<Rightarrow> bool" where
  "descriptors_contain_format format [] = False"
| "descriptors_contain_format format (descriptor # descriptors) =
     (if hm_contains_key (desc_format descriptor) format then True
      else descriptors_contain_format format descriptors)"

definition pd_contains_format :: "presentation_definition \<Rightarrow> claim_format_designation \<Rightarrow> bool" where
  "pd_contains_format self format =
     (if descriptors_contain_format format (pd_input_descriptors self) then True
      else hm_contains_key (pd_format self) format)"

fun pd_requested_fields_loop ::
  "eval \<Rightarrow> ('w \<Rightarrow> 'uuid \<times> 'w) \<Rightarrow> json \<Rightarrow> input_descriptor list \<Rightarrow> 'w \<Rightarrow>
     'uuid requested_field list \<times> 'w" where
  "pd_requested_fields_loop ev new_v4 credential [] w = ([], w)"
| "pd_requested_fields_loop ev new_v4 credential (descriptor # descriptors) w =
     (let (rs, w1) = descriptor_requested_fields ev new_v4 descriptor credential w;
          (ss, w2) = pd_requested_fields_loop ev new_v4 credential descriptors w1
      in (rs @ ss, w2))"

definition pd_requested_fields ::
  "eval \<Rightarrow> ('w \<Rightarrow> 'uuid \<times> 'w) \<Rightarrow> presentation_definition \<Rightarrow> json \<Rightarrow> 'w \<Rightarrow>
     'uuid requested_field list \<times> 'w" where
  "pd_requested_fields ev new_v4 self credential w =
     pd_requested_fields_loop ev new_v4 credential (pd_input_descriptors self) w"

definition pd_credential_types_hint :: "presentation_definition \<Rightarrow> credential_type list" where
  "pd_credential_types_hint self =
     concat (map descriptor_credential_types_hint (pd_input_descriptors self))"

definition is_credential_match :: "eval \<Rightarrow> presentation_definition \<Rightarrow> json \<Rightarrow> bool" where
  "is_credential_match ev self credential =
     list_all (\<lambda>field.
       case field_filter field of
         Some validator \<Rightarrow>
           list_ex (\<lambda>value. schema_validate ev validator value)
             (concat (map (\<lambda>path. path_query ev path credential) (nev_list (field_path field))))
       | None \<Rightarrow> True)
     (filter field_is_required
       (concat (map (\<lambda>descriptor. con_fields (desc_constraints descriptor)) (pd_input_descriptors self))))"

text \<open>\<open>TypedParameter\<close>: reading accepts a string or a value; writing never fails.\<close>

definition pd_into_json :: "presentation_definition serialize \<Rightarrow> presentation_definition \<Rightarrow> json" where
  "pd_into_json ser value = (case to_value ser value of Inr j \<Rightarrow> j | Inl _ \<Rightarrow> JNull)"

definition pd_param ::
  "presentation_definition deserialize \<Rightarrow> presentation_definition serialize \<Rightarrow>
     presentation_definition typed_parameter" where
  "pd_param de ser =
     \<lparr>KEY = ''presentation_definition'',
      try_from_json = from_string_or_value de,
      try_into_json = (\<lambda>value. Inr (pd_into_json ser value))\<rparr>"

section \<open>Facts\<close>

lemma descriptors_contain_format_iff:
  "descriptors_contain_format f ds \<longleftrightarrow> (\<exists>d \<in> set ds. hm_contains_key (desc_format d) f)"
  by (induction ds) auto

lemma pd_contains_format_iff:
  "pd_contains_format pd f \<longleftrightarrow>
     (\<exists>d \<in> set (pd_input_descriptors pd). hm_contains_key (desc_format d) f) \<or>
     hm_contains_key (pd_format pd) f"
  by (auto simp: pd_contains_format_def descriptors_contain_format_iff)

lemma pd_input_descriptors_map_get:
  "hm_get (pd_input_descriptors_map pd) i = Some d \<Longrightarrow>
     d \<in> set (pd_input_descriptors pd) \<and> desc_id d = i"
  by (auto simp: pd_input_descriptors_map_def hm_get_of_list dest!: map_of_SomeD)

lemma pd_input_descriptors_map_distinct:
  assumes "distinct (map desc_id (pd_input_descriptors pd))" and "d \<in> set (pd_input_descriptors pd)"
  shows "hm_get (pd_input_descriptors_map pd) (desc_id d) = Some d"
proof -
  let ?kvs = "map (\<lambda>d. (desc_id d, d)) (pd_input_descriptors pd)"
  have "distinct (map fst (rev ?kvs))"
    using assms(1) by (simp add: rev_map [symmetric] comp_def)
  moreover have "(desc_id d, d) \<in> set (rev ?kvs)" using assms(2) by simp
  ultimately have "map_of (rev ?kvs) (desc_id d) = Some d"
    by (simp only: map_of_eq_Some_iff)
  then show ?thesis by (simp add: pd_input_descriptors_map_def hm_get_of_list)
qed

text \<open>
  A field with a filter is judged alike by the matching of a credential and by the
  constraints; a required field without a filter is always accepted by the former.
\<close>

lemma is_credential_match_iff:
  "is_credential_match ev pd v \<longleftrightarrow>
     (\<forall>d \<in> set (pd_input_descriptors pd). \<forall>f \<in> set (con_fields (desc_constraints d)).
        field_is_required f \<and> field_filter f \<noteq> None \<longrightarrow>
          (\<exists>x \<in> set (field_candidates ev f v). field_accepts ev f x))"
  by (auto simp: is_credential_match_def list_all_iff list_ex_iff field_candidates_def
      field_accepts_def split: option.splits) fastforce+

lemma constraints_match_is_credential_match:
  "\<forall>d \<in> set (pd_input_descriptors pd). constraints_matches ev (desc_constraints d) v \<Longrightarrow>
     is_credential_match ev pd v"
  by (auto simp: is_credential_match_iff constraints_matches_iff)

section \<open>Properties\<close>

text \<open>
  A credential that satisfies the constraints of every input descriptor matches the
  definition: the quick test refuses no credential that the full test would accept.
\<close>

theorem constraints_imply_match:
  assumes "list_all (\<lambda>d. constraints_matches ev (desc_constraints d) v) (pd_input_descriptors pd)"
  shows "is_credential_match ev pd v"
  using assms by (intro constraints_match_is_credential_match) (simp add: list_all_iff)

definition ex_match_eval :: eval where
  "ex_match_eval = \<lparr>path_query = (\<lambda>p j. if path_text p = ''$'' then [j] else []),
     schema_valid = (\<lambda>s j. s = j), schema_compile = (\<lambda>s. Inr ())\<rparr>"

definition ex_match_definition :: presentation_definition where
  "ex_match_definition = pd_new ''pd'' (descriptor_new ''d'' (constraints_add_constraint
     ((field_new (JsonPath ''$''))\<lparr>field_filter := Some (CompiledJsonSchema (JBool True))\<rparr>) constraints_new))"

lemma constraints_imply_match_witness:
  "is_credential_match ex_match_eval ex_match_definition (JBool True) \<and>
   \<not> is_credential_match ex_match_eval ex_match_definition (JBool False)"
proof
  show "is_credential_match ex_match_eval ex_match_definition (JBool True)"
    by (rule constraints_imply_match) code_simp
  show "\<not> is_credential_match ex_match_eval ex_match_definition (JBool False)" by code_simp
qed

end
