(* ===== verification/Presentation_Submission.thy ===== *)
theory Presentation_Submission
  imports Presentation_Definition "HOL-Library.Word"
begin

text \<open>
  \<open>src/src/core/presentation_submission.rs\<close>: descriptor maps, submissions, and which inputs a
  presentation carries for a definition; whether they satisfy its requirements is in the theory
  \<open>Requirements\<close>. The decoder of the application is an argument. A vector that the source mutates through \<open>&mut\<close> is
  threaded and returned also when the operation fails.
\<close>

type_synonym uuid = "128 word"

section \<open>Data\<close>

datatype claim_decoding_error =
    UnknownFormat claim_format_designation
  | InvalidClaim string

datatype submission_validation_error =
    MissingRequiredInput string
  | SelectionTooSmall group_id nat nat
  | SelectionTooLarge group_id nat nat
  | SelectionSizeMismatch group_id nat nat

datatype submission_error =
    Decoding claim_decoding_error
  | NestingUnsupported claim_format_designation
  | UndefinedInputDescriptor string
  | FormatMismatch claim_format_designation
  | Validation submission_validation_error

definition claim_decoding_error_invalid :: "string \<Rightarrow> claim_decoding_error" where
  "claim_decoding_error_invalid e = InvalidClaim e"

text \<open>\<open>ClaimsDecoder::decode\<close>: the decoded claim and, for some formats, its JSON.\<close>

type_synonym 't claims_decoder =
  "json \<Rightarrow> claim_format_designation \<Rightarrow> claim_format_payload option \<Rightarrow>
     claim_decoding_error + 't \<times> json option"

definition no_claims_decoder :: "unit claims_decoder" where
  "no_claims_decoder value format format_constraint = Inr ((), Some value)"

record 't decoded_input =
  di_descriptor_id :: string
  di_format :: claim_format_designation
  di_value :: 't
  di_nested :: "(string, nat list) hmap"

record 't matching_inputs =
  mi_inputs :: "'t decoded_input list"
  mi_by_descriptor :: "(string, nat list) hmap"

datatype descriptor_map =
  DescriptorMap
    (dm_id: string)
    (dm_format: claim_format_designation)
    (dm_path: json_path)
    (dm_path_nested: "descriptor_map option")

definition descriptor_map_new ::
  "string \<Rightarrow> claim_format_designation \<Rightarrow> json_path \<Rightarrow> descriptor_map" where
  "descriptor_map_new i format path = DescriptorMap i format path None"

fun set_path_nested :: "descriptor_map \<Rightarrow> descriptor_map \<Rightarrow> descriptor_map" where
  "set_path_nested (DescriptorMap ni nformat npath nnested) (DescriptorMap i format path _) =
     DescriptorMap i format path (Some (DescriptorMap i nformat npath nnested))"

record presentation_submission =
  ps_id :: uuid
  ps_definition_id :: string
  ps_descriptor_map :: "descriptor_map list"

definition submission_new :: "uuid \<Rightarrow> string \<Rightarrow> descriptor_map list \<Rightarrow> presentation_submission" where
  "submission_new i definition_id descriptor_map =
     \<lparr>ps_id = i, ps_definition_id = definition_id, ps_descriptor_map = descriptor_map\<rparr>"

definition descriptor_map_by_id :: "presentation_submission \<Rightarrow> (string, descriptor_map) hmap" where
  "descriptor_map_by_id self =
     hm_of_list (map (\<lambda>descriptor_map. (dm_id descriptor_map, descriptor_map)) (ps_descriptor_map self))"

definition submission_descriptor_map_mut ::
  "(descriptor_map list \<Rightarrow> descriptor_map list) \<Rightarrow> presentation_submission \<Rightarrow> presentation_submission" where
  "submission_descriptor_map_mut f self = self\<lparr>ps_descriptor_map := f (ps_descriptor_map self)\<rparr>"

definition submission_try_from_json ::
  "presentation_submission deserialize \<Rightarrow> json \<Rightarrow> anyhow + presentation_submission" where
  "submission_try_from_json de = from_value de"

text \<open>The source unwraps the value: an error here is a panic there.\<close>

definition submission_into_json ::
  "presentation_submission serialize \<Rightarrow> presentation_submission \<Rightarrow> anyhow + json" where
  "submission_into_json ser = to_value ser"

declare submission_try_from_json_def [simp] submission_into_json_def [simp]

definition submission_param ::
  "presentation_submission deserialize \<Rightarrow> presentation_submission serialize \<Rightarrow>
     presentation_submission typed_parameter" where
  "submission_param de ser =
     \<lparr>KEY = ''presentation_submission'', try_from_json = submission_try_from_json de,
      try_into_json = submission_into_json ser\<rparr>"

section \<open>Collecting the inputs\<close>

definition group_by_input_descriptor ::
  "'t decoded_input list \<Rightarrow> nat list \<Rightarrow> (string, nat list) hmap" where
  "group_by_input_descriptor claims indexes =
     fold (\<lambda>i. hm_push (di_descriptor_id (claims ! i)) i) indexes []"

definition format_constraint ::
  "presentation_definition \<Rightarrow> input_descriptor \<Rightarrow> claim_format_designation \<Rightarrow>
     submission_error + claim_format_payload option" where
  "format_constraint def input_desc format =
     (case hm_get (desc_format input_desc) format of
        Some format_constraint \<Rightarrow> Inr (Some format_constraint)
      | None \<Rightarrow>
          (if desc_format input_desc = [] then
             (case hm_get (pd_format def) format of
                Some f \<Rightarrow> Inr (Some f)
              | None \<Rightarrow> if pd_format def = [] then Inr None else Inl (FormatMismatch format))
           else Inl (FormatMismatch format)))"

definition constraint_check ::
  "eval \<Rightarrow> input_descriptor \<Rightarrow> claim_format_designation \<Rightarrow> json option \<Rightarrow> submission_error + bool" where
  "constraint_check ev input_desc format decoded_json =
     (if \<not> constraints_is_empty (desc_constraints input_desc) then
        (case decoded_json of
           None \<Rightarrow> Inl (NestingUnsupported format)
         | Some j \<Rightarrow> Inr (constraints_matches ev (desc_constraints input_desc) j))
      else Inr True)"

text \<open>
  \<open>find_items\<close> is the loop over the nodes that the path of a descriptor map selects,
  \<open>find_nested\<close> its inner match on \<open>path_nested\<close>.
\<close>

function find_inputs_with ::
    "eval \<Rightarrow> 't claims_decoder \<Rightarrow> presentation_definition \<Rightarrow> (string, input_descriptor) hmap \<Rightarrow>
     descriptor_map \<Rightarrow> json \<Rightarrow> 't decoded_input list \<Rightarrow>
     (submission_error + nat list) \<times> 't decoded_input list"
  and find_items ::
    "eval \<Rightarrow> 't claims_decoder \<Rightarrow> presentation_definition \<Rightarrow> (string, input_descriptor) hmap \<Rightarrow>
     descriptor_map \<Rightarrow> input_descriptor \<Rightarrow> claim_format_payload option \<Rightarrow> json list \<Rightarrow>
     't decoded_input list \<Rightarrow> (submission_error + nat list) \<times> 't decoded_input list"
  and find_nested ::
    "eval \<Rightarrow> 't claims_decoder \<Rightarrow> presentation_definition \<Rightarrow> (string, input_descriptor) hmap \<Rightarrow>
     descriptor_map \<Rightarrow> json option \<Rightarrow> 't decoded_input list \<Rightarrow>
     (submission_error + nat list option) \<times> 't decoded_input list" where
  "find_inputs_with ev decoder def input_descriptors self value inputs =
     (case hm_get input_descriptors (dm_id self) of
        None \<Rightarrow> (Inl (UndefinedInputDescriptor (dm_id self)), inputs)
      | Some input_desc \<Rightarrow>
          (case format_constraint def input_desc (dm_format self) of
             Inl e \<Rightarrow> (Inl e, inputs)
           | Inr fc \<Rightarrow>
               find_items ev decoder def input_descriptors self input_desc fc
                 (path_query ev (dm_path self) value) inputs))"
| "find_items ev decoder def input_descriptors self input_desc fc [] inputs = (Inr [], inputs)"
| "find_items ev decoder def input_descriptors self input_desc fc (encoded_item # items) inputs =
     (case decoder encoded_item (dm_format self) fc of
        Inl e \<Rightarrow> (Inl (Decoding e), inputs)
      | Inr (decoded_item, decoded_json) \<Rightarrow>
          (case constraint_check ev input_desc (dm_format self) decoded_json of
             Inl e \<Rightarrow> (Inl e, inputs)
           | Inr False \<Rightarrow> find_items ev decoder def input_descriptors self input_desc fc items inputs
           | Inr True \<Rightarrow>
               (case find_nested ev decoder def input_descriptors self decoded_json inputs of
                  (Inl e, inputs1) \<Rightarrow> (Inl e, inputs1)
                | (Inr None, inputs1) \<Rightarrow>
                    find_items ev decoder def input_descriptors self input_desc fc items inputs1
                | (Inr (Some nested), inputs1) \<Rightarrow>
                    (let i = length inputs1;
                         input = \<lparr>di_descriptor_id = dm_id self, di_format = dm_format self,
                                  di_value = decoded_item,
                                  di_nested = group_by_input_descriptor inputs1 nested\<rparr>
                     in case find_items ev decoder def input_descriptors self input_desc fc items
                               (inputs1 @ [input]) of
                          (Inl e, inputs2) \<Rightarrow> (Inl e, inputs2)
                        | (Inr result, inputs2) \<Rightarrow> (Inr (i # result), inputs2)))))"
| "find_nested ev decoder def input_descriptors (DescriptorMap _ format _ path_nested) decoded_json inputs =
     (case path_nested of
        None \<Rightarrow> (Inr (Some []), inputs)
      | Some nested_descriptor \<Rightarrow>
          (case decoded_json of
             None \<Rightarrow> (Inl (NestingUnsupported format), inputs)
           | Some j \<Rightarrow>
               (case find_inputs_with ev decoder def input_descriptors nested_descriptor j inputs of
                  (Inl e, inputs1) \<Rightarrow> (Inl e, inputs1)
                | (Inr nested, inputs1) \<Rightarrow>
                    (Inr (if nested = [] then None else Some nested), inputs1))))"
  by pat_completeness auto

termination
  by (relation "measures
       [\<lambda>x. case x of Inl (ev, de, df, ds, dm, v, ins) \<Rightarrow> size dm
                    | Inr (Inl (ev, de, df, ds, dm, d, fc, items, ins)) \<Rightarrow> size dm
                    | Inr (Inr (ev, de, df, ds, dm, j, ins)) \<Rightarrow> size dm,
        \<lambda>x. case x of Inl (ev, de, df, ds, dm, v, ins) \<Rightarrow> Suc (Suc (length (path_query ev (dm_path dm) v)))
                    | Inr (Inl (ev, de, df, ds, dm, d, fc, items, ins)) \<Rightarrow> Suc (length items)
                    | Inr (Inr (ev, de, df, ds, dm, j, ins)) \<Rightarrow> 0]") auto

definition descriptor_find_inputs ::
  "eval \<Rightarrow> 't claims_decoder \<Rightarrow> presentation_definition \<Rightarrow> descriptor_map \<Rightarrow> json \<Rightarrow>
     't decoded_input list \<Rightarrow> (submission_error + nat list) \<times> 't decoded_input list" where
  "descriptor_find_inputs ev decoder def self value inputs =
     find_inputs_with ev decoder def (pd_input_descriptors_map def) self value inputs"

fun find_inputs_loop ::
  "eval \<Rightarrow> 't claims_decoder \<Rightarrow> presentation_definition \<Rightarrow> json \<Rightarrow> descriptor_map list \<Rightarrow>
     't decoded_input list \<Rightarrow> submission_error + 't decoded_input list" where
  "find_inputs_loop ev decoder def value [] inputs = Inr inputs"
| "find_inputs_loop ev decoder def value (d # ds) inputs =
     (case descriptor_find_inputs ev decoder def d value inputs of
        (Inl e, _) \<Rightarrow> Inl e
      | (Inr _, inputs1) \<Rightarrow> find_inputs_loop ev decoder def value ds inputs1)"

definition group_inputs :: "'t decoded_input list \<Rightarrow> (string, nat list) hmap" where
  "group_inputs inputs =
     fold (\<lambda>(i, input). hm_push (di_descriptor_id input) i) (List.enumerate 0 inputs) []"

definition submission_find_inputs ::
  "eval \<Rightarrow> 't claims_decoder \<Rightarrow> presentation_submission \<Rightarrow> presentation_definition \<Rightarrow> json \<Rightarrow>
     submission_error + 't matching_inputs" where
  "submission_find_inputs ev decoder self def value =
     and_then (find_inputs_loop ev decoder def value (ps_descriptor_map self) []) (\<lambda>inputs.
     Inr \<lparr>mi_inputs = inputs, mi_by_descriptor = group_inputs inputs\<rparr>)"

section \<open>What the collected inputs satisfy\<close>

text \<open>
  A value is admitted for a descriptor map when it decodes in a format that the descriptor (or else
  the definition) admits, and the decoded JSON satisfies the constraints of the descriptor.
\<close>

definition admitted ::
  "eval \<Rightarrow> 't claims_decoder \<Rightarrow> presentation_definition \<Rightarrow> (string, input_descriptor) hmap \<Rightarrow>
     descriptor_map \<Rightarrow> json \<Rightarrow> 't \<Rightarrow> json option \<Rightarrow> bool" where
  "admitted ev decoder df ids dm encoded y j \<longleftrightarrow>
     (\<exists>d fc. hm_get ids (dm_id dm) = Some d \<and> format_constraint df d (dm_format dm) = Inr fc \<and>
        decoder encoded (dm_format dm) fc = Inr (y, j) \<and>
        constraint_check ev d (dm_format dm) j = Inr True)"

text \<open>
  The values a descriptor map is applied to: the presentation first, and for a nested map the JSON of
  every value that its parent selects and admits.
\<close>

inductive visits ::
  "eval \<Rightarrow> 't claims_decoder \<Rightarrow> presentation_definition \<Rightarrow> (string, input_descriptor) hmap \<Rightarrow>
     descriptor_map \<Rightarrow> json \<Rightarrow> descriptor_map \<Rightarrow> json \<Rightarrow> bool"
  for ev and decoder and df and ids where
  start: "visits ev decoder df ids dm v dm v"
| step: "encoded \<in> set (path_query ev (dm_path dm) v) \<Longrightarrow>
    admitted ev decoder df ids dm encoded y (Some j) \<Longrightarrow> dm_path_nested dm = Some dm1 \<Longrightarrow>
    visits ev decoder df ids dm1 j dm' w \<Longrightarrow> visits ev decoder df ids dm v dm' w"

text \<open>
  An input answers a descriptor map on a value: it is the decoding of a value that the map, or a
  map nested in it, selects and admits there, under the identifier and the format of that map, and it
  has nested inputs exactly when that map asks for some.
\<close>

definition answers ::
  "eval \<Rightarrow> 't claims_decoder \<Rightarrow> presentation_definition \<Rightarrow> (string, input_descriptor) hmap \<Rightarrow>
     descriptor_map \<Rightarrow> json \<Rightarrow> 't decoded_input \<Rightarrow> bool" where
  "answers ev decoder df ids dm v x \<longleftrightarrow>
     (\<exists>dm' w encoded j. visits ev decoder df ids dm v dm' w \<and>
        encoded \<in> set (path_query ev (dm_path dm') w) \<and>
        admitted ev decoder df ids dm' encoded (di_value x) j \<and>
        di_descriptor_id x = dm_id dm' \<and> di_format x = dm_format dm' \<and>
        (di_nested x = [] \<longleftrightarrow> dm_path_nested dm' = None))"

text \<open>The nested inputs of an input come before it and are filed under their own descriptor.\<close>

definition nested_ok :: "'t decoded_input list \<Rightarrow> nat \<Rightarrow> bool" where
  "nested_ok inputs k \<longleftrightarrow>
     (\<forall>d js. hm_get (di_nested (inputs ! k)) d = Some js \<longrightarrow>
        js \<noteq> [] \<and> (\<forall>j \<in> set js. j < k \<and> di_descriptor_id (inputs ! j) = d))"

definition inputs_ok :: "'t decoded_input list \<Rightarrow> bool" where
  "inputs_ok inputs \<longleftrightarrow> (\<forall>k < length inputs. nested_ok inputs k)"

text \<open>An index the caller can reach: returned, or filed under another new input.\<close>

definition nested_in :: "'t decoded_input list \<Rightarrow> nat \<Rightarrow> nat \<Rightarrow> bool" where
  "nested_in inputs lo k \<longleftrightarrow>
     (\<exists>m d js. lo \<le> m \<and> m < length inputs \<and> hm_get (di_nested (inputs ! m)) d = Some js \<and> k \<in> set js)"

definition indices_ok ::
  "string \<Rightarrow> 't decoded_input list \<Rightarrow> 't decoded_input list \<Rightarrow> nat list \<Rightarrow> bool" where
  "indices_ok i inputs inputs' ks \<longleftrightarrow>
     sorted_wrt (<) ks \<and> set ks \<subseteq> {length inputs..<length inputs'} \<and>
     (\<forall>k \<in> set ks. di_descriptor_id (inputs' ! k) = i) \<and>
     (\<forall>k \<in> {length inputs..<length inputs'}. k \<in> set ks \<or> nested_in inputs' (length inputs) k)"

lemma group_by_input_descriptor_gen:
  "hm_get (fold (\<lambda>i. hm_push (f i) i) ks m) d =
     (let new = filter (\<lambda>i. f i = d) ks
      in if new = [] then hm_get m d
         else Some ((case hm_get m d of None \<Rightarrow> [] | Some xs \<Rightarrow> xs) @ new))"
  by (induction ks arbitrary: m) (auto simp: hm_get_push Let_def split: option.splits)

lemma group_by_input_descriptor_get:
  "hm_get (group_by_input_descriptor claims ks) d =
     (let here = filter (\<lambda>i. di_descriptor_id (claims ! i) = d) ks
      in if here = [] then None else Some here)"
  by (simp add: group_by_input_descriptor_def group_by_input_descriptor_gen Let_def)

lemma group_inputs_get:
  "hm_get (group_inputs inputs) d =
     (let here = filter (\<lambda>i. di_descriptor_id (inputs ! i) = d) [0..<length inputs]
      in if here = [] then None else Some here)"
proof -
  have "List.enumerate 0 inputs = map (\<lambda>i. (i, inputs ! i)) [0..<length inputs]"
    by (rule nth_equalityI) (simp_all add: nth_enumerate_eq)
  then show ?thesis
    by (simp add: group_inputs_def fold_map comp_def group_by_input_descriptor_gen Let_def)
qed

lemma group_inputs_contains:
  "hm_contains_key (group_inputs inputs) d \<longleftrightarrow> (\<exists>x \<in> set inputs. di_descriptor_id x = d)"
proof -
  have "hm_contains_key (group_inputs inputs) d \<longleftrightarrow>
      (\<exists>i < length inputs. di_descriptor_id (inputs ! i) = d)"
    by (simp add: hm_contains_key_def group_inputs_get Let_def filter_empty_conv)
      (auto intro: bexI)
  then show ?thesis by (metis in_set_conv_nth)
qed

lemma nested_ok_append:
  assumes "k < length xs" and "nested_ok xs k"
  shows "nested_ok (xs @ ys) k"
  using assms by (fastforce simp: nested_ok_def nth_append)

lemma nested_in_append: "nested_in xs lo k \<Longrightarrow> nested_in (xs @ ys) lo k"
  unfolding nested_in_def by (metis length_append nth_append trans_less_add1)

lemma nested_in_mono: "nested_in xs lo k \<Longrightarrow> lo' \<le> lo \<Longrightarrow> nested_in xs lo' k"
  unfolding nested_in_def using order_trans by blast

lemma inputs_ok_Nil [simp]: "inputs_ok []"
  by (simp add: inputs_ok_def)

lemma inputs_ok_push:
  assumes "inputs_ok xs"
    and "di_nested x = group_by_input_descriptor xs ks" and "\<forall>k \<in> set ks. k < length xs"
  shows "inputs_ok (xs @ [x])"
proof -
  have "nested_ok (xs @ [x]) (length xs)"
    using assms(2,3)
    by (auto simp: nested_ok_def group_by_input_descriptor_get Let_def nth_append split: if_splits)
  with assms(1) show ?thesis
    by (auto simp: inputs_ok_def less_Suc_eq nth_append nested_ok_append)
qed

text \<open>One more item of the loop: the input it pushes owns the nested inputs found before it.\<close>

lemma indices_ok_step:
  assumes ext1: "ins1 = ins @ e1"
    and cov: "\<forall>k \<in> {length ins..<length ins1}. k \<in> set ks \<or> nested_in ins1 (length ins) k"
    and x: "di_nested x = group_by_input_descriptor ins1 ks" "di_descriptor_id x = i"
    and ext2: "ins2 = (ins1 @ [x]) @ e2"
    and rest: "indices_ok i (ins1 @ [x]) ins2 rest"
  shows "indices_ok i ins ins2 (length ins1 # rest)"
proof -
  let ?n = "length ins1"
  have le: "length ins \<le> ?n" "?n < length ins2" and at: "ins2 ! ?n = x"
    using ext1 ext2 by auto
  have rng: "\<forall>k \<in> set rest. ?n < k \<and> k < length ins2"
    using rest by (auto simp: indices_ok_def)
  have own: "nested_in ins2 (length ins) k" if "k \<in> set ks" for k
  proof -
    let ?here = "filter (\<lambda>j. di_descriptor_id (ins1 ! j) = di_descriptor_id (ins1 ! k)) ks"
    have "k \<in> set ?here" using that by simp
    then have "hm_get (di_nested (ins2 ! ?n)) (di_descriptor_id (ins1 ! k)) = Some ?here"
      unfolding at x group_by_input_descriptor_get Let_def by (metis empty_iff empty_set)
    with le \<open>k \<in> set ?here\<close> show ?thesis unfolding nested_in_def by blast
  qed
  have "k \<in> set (?n # rest) \<or> nested_in ins2 (length ins) k"
    if k: "length ins \<le> k" "k < length ins2" for k
  proof -
    consider "k < ?n" | "k = ?n" | "?n < k" by linarith
    then show ?thesis
    proof cases
      case 1
      with cov k have "k \<in> set ks \<or> nested_in ins1 (length ins) k" by simp
      with own nested_in_append [of ins1 "length ins" k "[x] @ e2"] ext2 show ?thesis by auto
    next
      case 3
      with rest k le nested_in_mono [of ins2 "length (ins1 @ [x])" k "length ins"] show ?thesis
        by (fastforce simp: indices_ok_def)
    qed simp
  qed
  moreover have "sorted_wrt (<) (?n # rest)" using rest rng by (simp add: indices_ok_def)
  moreover have "\<forall>k \<in> set (?n # rest). di_descriptor_id (ins2 ! k) = i"
    using rest at x by (simp add: indices_ok_def)
  ultimately show ?thesis using le rng by (auto simp: indices_ok_def)
qed

text \<open>When no index is returned nothing was pushed: the last input is nested in no later one.\<close>

lemma indices_ok_Nil:
  assumes "indices_ok i ins ins' []" and "ins' = ins @ e" and "inputs_ok ins'"
  shows "ins' = ins"
proof (rule ccontr)
  assume "ins' \<noteq> ins"
  with assms(2) have "e \<noteq> []" by auto
  with assms(2) have k: "length ins' - 1 \<in> {length ins..<length ins'}" by (cases e) auto
  with assms(1) have "nested_in ins' (length ins) (length ins' - 1)" by (auto simp: indices_ok_def)
  then obtain m d js where "m < length ins'" "hm_get (di_nested (ins' ! m)) d = Some js"
    "length ins' - 1 \<in> set js"
    by (auto simp: nested_in_def)
  with assms(3) have "length ins' - 1 < m" by (fastforce simp: inputs_ok_def nested_ok_def)
  with \<open>m < length ins'\<close> show False by simp
qed

lemma find_invariant:
  fixes decoder :: "'t claims_decoder"
  shows "find_inputs_with ev decoder df ids dm v ins = (r, ins') \<Longrightarrow>
      inputs_ok ins \<Longrightarrow>
      (\<exists>e. ins' = ins @ e) \<and> inputs_ok ins' \<and>
      (\<forall>ks. r = Inr ks \<longrightarrow> indices_ok (dm_id dm) ins ins' ks)"
    and "find_items ev decoder df ids dm input_desc fc items ins = (r, ins') \<Longrightarrow>
      hm_get ids (dm_id dm) = Some input_desc \<Longrightarrow>
      format_constraint df input_desc (dm_format dm) = Inr fc \<Longrightarrow>
      inputs_ok ins \<Longrightarrow>
      (\<exists>e. ins' = ins @ e) \<and> inputs_ok ins' \<and>
      (\<forall>ks. r = Inr ks \<longrightarrow> indices_ok (dm_id dm) ins ins' ks)"
    and "find_nested ev decoder df ids dm j ins = (q, ins') \<Longrightarrow>
      inputs_ok ins \<Longrightarrow>
      (\<exists>e. ins' = ins @ e) \<and> inputs_ok ins' \<and>
      (q = Inr None \<longrightarrow> ins' = ins) \<and>
      (\<forall>ks. q = Inr (Some ks) \<longrightarrow>
         (\<forall>k \<in> set ks. k < length ins') \<and>
         (\<forall>k \<in> {length ins..<length ins'}. k \<in> set ks \<or> nested_in ins' (length ins) k))"
proof (induction ev decoder df ids dm v ins and ev decoder df ids dm input_desc fc items ins
    and ev decoder df ids dm j ins arbitrary: r ins' and r ins' and q ins'
    rule: find_inputs_with_find_items_find_nested.induct)
  case 1
  then show ?case
    by (auto simp: split: option.splits sum.splits)
next
  case 2
  then show ?case by (auto simp: indices_ok_def)
next
  case (3 ev decoder df ids self input_desc fc encoded_item items inputs)
  let ?post = "(\<exists>e. ins' = inputs @ e) \<and> inputs_ok ins' \<and>
    (\<forall>ks. r = Inr ks \<longrightarrow> indices_ok (dm_id self) inputs ins' ks)"
  show ?case
  proof (cases "decoder encoded_item (dm_format self) fc")
    case (Inl e)
    with "3.prems" show ?thesis by auto
  next
    case (Inr dec)
    obtain item j where dec: "decoder encoded_item (dm_format self) fc = Inr (item, j)"
      using Inr by (cases dec) auto
    obtain q ins1 where q: "find_nested ev decoder df ids self j inputs = (q, ins1)"
      by (cases "find_nested ev decoder df ids self j inputs")
    consider e where "constraint_check ev input_desc (dm_format self) j = Inl e"
      | "constraint_check ev input_desc (dm_format self) j = Inr False"
      | "constraint_check ev input_desc (dm_format self) j = Inr True"
      by (cases "constraint_check ev input_desc (dm_format self) j") auto
    then show ?thesis
    proof cases
      case 1
      with "3.prems" dec show ?thesis by auto
    next
      case 2
      with "3.prems" dec "3.IH"(4) [OF dec refl 2 refl] show ?thesis by auto
    next
      case ok: 3
      note nested = "3.IH"(1) [OF dec refl ok refl q "3.prems"(4)]
      show ?thesis
      proof (cases q)
        case (Inl e)
        with "3.prems" dec ok q nested show ?thesis by auto
      next
        case (Inr n)
        show ?thesis
        proof (cases n)
          case None
          then have "ins1 = inputs" using nested Inr by simp
          with "3.prems" dec ok q Inr None
            "3.IH"(2) [OF dec refl ok refl q [symmetric] Inr None, of r ins'] nested
          show ?thesis by auto
        next
          case (Some ks)
          let ?x = "\<lparr>di_descriptor_id = dm_id self, di_format = dm_format self, di_value = item,
            di_nested = group_by_input_descriptor ins1 ks\<rparr>"
          obtain s ins2 where s: "find_items ev decoder df ids self input_desc fc items (ins1 @ [?x]) = (s, ins2)"
            by (cases "find_items ev decoder df ids self input_desc fc items (ins1 @ [?x])")
          from nested Inr Some have ok1: "inputs_ok (ins1 @ [?x])"
            by (auto intro: inputs_ok_push)
          note rest = "3.IH"(3) [OF dec refl ok refl q [symmetric] Inr Some refl refl s "3.prems"(2,3) ok1]
          have r: "ins' = ins2" "r = map_ok (\<lambda>is. length ins1 # is) s"
            using "3.prems"(1) dec ok q Inr Some s by (auto simp: Let_def split: sum.splits)
          obtain e1 e2 where ext: "ins1 = inputs @ e1" "ins2 = (ins1 @ [?x]) @ e2"
            using nested rest by blast
          have "indices_ok (dm_id self) inputs ins2 (length ins1 # is)" if "s = Inr is" for "is"
            using rest that nested Inr Some by (intro indices_ok_step [OF ext(1) _ _ _ ext(2)]) auto
          with rest ext r show ?thesis by (auto simp: res_simps)
        qed
      qed
    qed
  qed
next
  case (4 ev decoder df ids i format path path_nested decoded_json inputs)
  show ?case
  proof (cases path_nested)
    case None
    with "4.prems" show ?thesis by auto
  next
    case nd: (Some nd)
    show ?thesis
    proof (cases decoded_json)
      case None
      with "4.prems" nd show ?thesis by auto
    next
      case (Some j)
      obtain s ins1 where s: "find_inputs_with ev decoder df ids nd j inputs = (s, ins1)"
        by (cases "find_inputs_with ev decoder df ids nd j inputs")
      note IH = "4.IH" [OF nd Some s "4.prems"(2)]
      show ?thesis
      proof (cases s)
        case (Inl e)
        with IH "4.prems"(1) nd Some s show ?thesis by auto
      next
        case (Inr ks)
        then have fin: "ins' = ins1" "q = Inr (if ks = [] then None else Some ks)"
          using "4.prems"(1) nd Some s by auto
        from IH Inr have ks: "indices_ok (dm_id nd) inputs ins1 ks"
          and ok: "inputs_ok ins1" and "\<exists>e. ins1 = inputs @ e" by auto
        then obtain e where e: "ins1 = inputs @ e" by blast
        show ?thesis
        proof (cases "ks = []")
          case True
          with ks e ok indices_ok_Nil have "ins1 = inputs" by blast
          with fin True ok show ?thesis by simp
        next
          case False
          have "\<forall>k \<in> set ks. k < length ins1"
            and "\<forall>k \<in> {length inputs..<length ins1}. k \<in> set ks \<or> nested_in ins1 (length inputs) k"
            using ks by (auto simp only: indices_ok_def atLeastLessThan_iff)
          with fin False ok e show ?thesis by simp
        qed
      qed
    qed
  qed
qed

section \<open>Where the collected inputs come from\<close>

definition adds :: "('t decoded_input \<Rightarrow> bool) \<Rightarrow> 't decoded_input list \<Rightarrow> 't decoded_input list \<Rightarrow> bool" where
  "adds P ins ins' \<longleftrightarrow> (\<exists>es. ins' = ins @ es \<and> (\<forall>x \<in> set es. P x))"

lemma adds_refl [simp]: "adds P ins ins"
  by (simp add: adds_def)

lemma adds_trans: "adds P a b \<Longrightarrow> adds P b c \<Longrightarrow> adds P a c"
  by (auto simp: adds_def)

lemma adds_snoc: "P x \<Longrightarrow> adds P a (a @ [x])"
  by (simp add: adds_def)

lemma adds_mono: "adds P a b \<Longrightarrow> (\<And>x. P x \<Longrightarrow> Q x) \<Longrightarrow> adds Q a b"
  by (auto simp: adds_def)

lemma answers_nested:
  assumes "encoded \<in> set (path_query ev (dm_path dm) v)"
    and "admitted ev decoder df ids dm encoded y (Some j)" and "dm_path_nested dm = Some dm1"
    and "answers ev decoder df ids dm1 j x"
  shows "answers ev decoder df ids dm v x"
proof -
  from assms(4) obtain dm' w e i where "visits ev decoder df ids dm1 j dm' w"
    and rest: "e \<in> set (path_query ev (dm_path dm') w)" "admitted ev decoder df ids dm' e (di_value x) i"
      "di_descriptor_id x = dm_id dm'" "di_format x = dm_format dm'"
      "di_nested x = [] \<longleftrightarrow> dm_path_nested dm' = None"
    unfolding answers_def by auto
  from visits.step [OF assms(1-3) this(1)] rest show ?thesis unfolding answers_def by metis
qed

lemma group_by_input_descriptor_empty: "group_by_input_descriptor claims ks = [] \<longleftrightarrow> ks = []"
proof
  assume "group_by_input_descriptor claims ks = []"
  then have "hm_get (group_by_input_descriptor claims ks) (di_descriptor_id (claims ! k)) = None" for k
    by (simp add: hm_get_def)
  then have "filter (\<lambda>i. di_descriptor_id (claims ! i) = di_descriptor_id (claims ! k)) ks = []" for k
    unfolding group_by_input_descriptor_get Let_def by (metis option.distinct(1))
  then have "k \<notin> set ks" for k by (auto simp: filter_empty_conv)
  then show "ks = []" by (cases ks) auto
qed (simp add: group_by_input_descriptor_def)

lemma find_adds:
  fixes decoder :: "'t claims_decoder"
  shows "adds (answers ev decoder df ids dm v) ins (snd (find_inputs_with ev decoder df ids dm v ins))"
    and "hm_get ids (dm_id dm) = Some d \<Longrightarrow> format_constraint df d (dm_format dm) = Inr fc \<Longrightarrow>
      \<forall>v'. set items \<subseteq> set (path_query ev (dm_path dm) v') \<longrightarrow>
        adds (answers ev decoder df ids dm v') ins (snd (find_items ev decoder df ids dm d fc items ins))"
    and "(case (dm_path_nested dm, j) of
        (Some dm1, Some w) \<Rightarrow>
          adds (answers ev decoder df ids dm1 w) ins (snd (find_nested ev decoder df ids dm j ins))
      | _ \<Rightarrow> snd (find_nested ev decoder df ids dm j ins) = ins)"
proof (induction ev decoder df ids dm v ins and ev decoder df ids dm d fc items ins
    and ev decoder df ids dm j ins rule: find_inputs_with_find_items_find_nested.induct)
  case (1 ev decoder df ids dm v ins)
  show ?case
  proof (cases "hm_get ids (dm_id dm)")
    case None
    then show ?thesis by simp
  next
    case (Some d)
    show ?thesis
    proof (cases "format_constraint df d (dm_format dm)")
      case (Inl e)
      with Some show ?thesis by simp
    next
      case (Inr fc)
      from "1.IH" [OF Some Inr Some Inr] show ?thesis by (simp add: Some Inr)
    qed
  qed
next
  case 2
  then show ?case by simp
next
  case (3 ev decoder df ids dm d fc item items ins)
  show ?case
  proof (intro allI impI)
    fix v'
    let ?A = "answers ev decoder df ids dm v'"
    assume "set (item # items) \<subseteq> set (path_query ev (dm_path dm) v')"
    then have item: "item \<in> set (path_query ev (dm_path dm) v')"
      and items: "set items \<subseteq> set (path_query ev (dm_path dm) v')"
      by auto
    note prems = "3.prems"
    show "adds ?A ins (snd (find_items ev decoder df ids dm d fc (item # items) ins))"
    proof (cases "decoder item (dm_format dm) fc")
      case (Inl e)
      then show ?thesis by simp
    next
      case (Inr xj)
      obtain x j where xj: "xj = (x, j)" by (cases xj)
      note dec = Inr [unfolded xj]
      consider e where "constraint_check ev d (dm_format dm) j = Inl e"
        | "constraint_check ev d (dm_format dm) j = Inr False"
        | "constraint_check ev d (dm_format dm) j = Inr True"
        by (cases "constraint_check ev d (dm_format dm) j") auto
      then show ?thesis
      proof cases
        case 1
        with dec show ?thesis by simp
      next
        case 2
        with dec "3.IH"(4) [OF dec refl 2 refl prems] items show ?thesis by simp
      next
        case ok: 3
        obtain q ins1 where q: "find_nested ev decoder df ids dm j ins = (q, ins1)"
          by (cases "find_nested ev decoder df ids dm j ins")
        have adm: "admitted ev decoder df ids dm item x j"
          using prems dec ok by (simp add: admitted_def)
        have nested: "adds ?A ins ins1"
        proof (cases "dm_path_nested dm = None \<or> j = None")
          case True
          with "3.IH"(1) [OF dec refl ok refl] q show ?thesis by (auto split: option.splits)
        next
          case False
          then obtain dm1 w where "dm_path_nested dm = Some dm1" "j = Some w" by auto
          note dj = this
          have "adds (answers ev decoder df ids dm1 w) ins ins1"
            using "3.IH"(1) [OF dec refl ok refl] q dj by simp
          with adm dj show ?thesis by (auto intro: adds_mono answers_nested [OF item])
        qed
        show ?thesis
        proof (cases q)
          case (Inl e)
          with dec ok q nested show ?thesis by simp
        next
          case (Inr n)
          show ?thesis
          proof (cases n)
            case None
            from adds_trans [OF nested "3.IH"(2) [OF dec refl ok refl q [symmetric] Inr None prems, rule_format, OF items]]
            show ?thesis by (simp add: dec ok q Inr None)
          next
            case (Some ks)
            let ?x = "\<lparr>di_descriptor_id = dm_id dm, di_format = dm_format dm, di_value = x,
              di_nested = group_by_input_descriptor ins1 ks\<rparr>"
            have "ks = [] \<longleftrightarrow> dm_path_nested dm = None"
              using q Inr Some by (cases dm) (auto split: option.splits prod.splits sum.splits if_splits)
            then have "?A ?x"
              using adm item visits.start [of ev decoder df ids dm v']
              unfolding answers_def by (auto simp: group_by_input_descriptor_empty)
            from adds_trans [OF adds_trans [OF nested adds_snoc [of ?A, OF this]]
                "3.IH"(3) [OF dec refl ok refl q [symmetric] Inr Some refl refl prems, rule_format, OF items]]
            show ?thesis by (auto simp: dec ok q Inr Some Let_def split: prod.splits sum.splits)
          qed
        qed
      qed
    qed
  qed
next
  case (4 ev decoder df ids i format p path_nested j ins)
  show ?case
  proof (cases "path_nested = None \<or> j = None")
    case True
    then show ?thesis by (auto split: option.split)
  next
    case False
    then obtain dm v where "path_nested = Some dm" "j = Some v" by auto
    with "4.IH" [OF this] show ?thesis by (auto split: prod.splits sum.splits)
  qed
qed

section \<open>All descriptor maps of a submission\<close>

lemma find_inputs_loop_ok:
  "find_inputs_loop ev decoder df v ds ins = Inr ins' \<Longrightarrow> inputs_ok ins \<Longrightarrow>
     inputs_ok ins' \<and>
     adds (\<lambda>x. \<exists>dm \<in> set ds. answers ev decoder df (pd_input_descriptors_map df) dm v x) ins ins'"
proof (induction ds arbitrary: ins)
  case Nil
  then show ?case by simp
next
  case (Cons d ds)
  let ?ids = "pd_input_descriptors_map df"
  from Cons.prems(1) obtain ks ins1 where d: "descriptor_find_inputs ev decoder df d v ins = (Inr ks, ins1)"
    and rest: "find_inputs_loop ev decoder df v ds ins1 = Inr ins'"
    by (auto split: prod.splits sum.splits)
  from d Cons.prems(2) find_invariant(1) have "inputs_ok ins1"
    unfolding descriptor_find_inputs_def by blast
  note IH = Cons.IH [OF rest this]
  have "adds (answers ev decoder df ?ids d v) ins ins1"
    using find_adds(1) [of ev decoder df ?ids d v ins] d by (simp add: descriptor_find_inputs_def)
  then have "adds (\<lambda>x. \<exists>dm \<in> set (d # ds). answers ev decoder df ?ids dm v x) ins ins1"
    by (rule adds_mono) simp
  moreover have "adds (\<lambda>x. \<exists>dm \<in> set (d # ds). answers ev decoder df ?ids dm v x) ins1 ins'"
    using IH by (auto intro: adds_mono)
  ultimately show ?case using IH adds_trans by blast
qed

lemma submission_find_inputs_ok:
  assumes "submission_find_inputs ev decoder ps df v = Inr m"
  shows "inputs_ok (mi_inputs m)"
    and "mi_by_descriptor m = group_inputs (mi_inputs m)"
    and "x \<in> set (mi_inputs m) \<Longrightarrow>
      \<exists>dm \<in> set (ps_descriptor_map ps). answers ev decoder df (pd_input_descriptors_map df) dm v x"
  using assms find_inputs_loop_ok [of ev decoder df v "ps_descriptor_map ps" "[]"]
  by (auto simp: submission_find_inputs_def res_simps adds_def)

text \<open>A descriptor map for a descriptor that the definition does not declare is refused.\<close>

lemma find_inputs_loop_defined:
  "find_inputs_loop ev decoder df v ds ins = Inr ins' \<Longrightarrow>
     dm \<in> set ds \<Longrightarrow> \<exists>d \<in> set (pd_input_descriptors df). desc_id d = dm_id dm"
proof (induction ds arbitrary: ins)
  case Nil
  then show ?case by simp
next
  case (Cons d ds)
  then obtain ks ins1 where d: "descriptor_find_inputs ev decoder df d v ins = (Inr ks, ins1)"
    and rest: "find_inputs_loop ev decoder df v ds ins1 = Inr ins'"
    by (auto split: prod.splits sum.splits)
  from d have "hm_get (pd_input_descriptors_map df) (dm_id d) \<noteq> None"
    by (auto simp: descriptor_find_inputs_def split: option.splits)
  then have "\<exists>x \<in> set (pd_input_descriptors df). desc_id x = dm_id d"
    using pd_input_descriptors_map_get by blast
  with Cons.IH [OF rest] Cons.prems(2) show ?case by auto
qed

section \<open>Properties\<close>

text \<open>
  C2: collecting the inputs of a submission. Every input that is returned answers a
  descriptor map of the submission on the presentation: it is decoded, in a format that its descriptor (or
  else the definition) admits, from a value that the map's path selects in the presentation, or that a
  nested map's path selects in the JSON of a value its parent selected and admitted; that JSON satisfies
  the constraints of the descriptor; and the input has nested inputs exactly when its map asks for some.
  Every index filed under an input points to an earlier input of the descriptor
  it is filed under, and the index of the inputs by descriptor lists, for each descriptor, exactly
  the positions of its inputs in ascending order.
\<close>

theorem submission_inputs_justified:
  assumes "submission_find_inputs ev decoder ps df v = Inr m"
  shows "(\<forall>x \<in> set (mi_inputs m). \<exists>dm \<in> set (ps_descriptor_map ps).
      answers ev decoder df (pd_input_descriptors_map df) dm v x) \<and>
    (\<forall>k < length (mi_inputs m). \<forall>d js. hm_get (di_nested (mi_inputs m ! k)) d = Some js \<longrightarrow>
       js \<noteq> [] \<and> (\<forall>j \<in> set js. j < k \<and> di_descriptor_id (mi_inputs m ! j) = d)) \<and>
    (\<forall>d. hm_get (mi_by_descriptor m) d =
      (let here = filter (\<lambda>i. di_descriptor_id (mi_inputs m ! i) = d) [0..<length (mi_inputs m)]
       in if here = [] then None else Some here))"
  using submission_find_inputs_ok [OF assms]
  by (simp add: inputs_ok_def nested_ok_def group_inputs_get)

text \<open>A definition with one descriptor, and a submission with a nested map, for evaluation.\<close>

definition ex_eval :: eval where
  "ex_eval = \<lparr>path_query = (\<lambda>p v. [v]), schema_valid = (\<lambda>s v. True),
     schema_compile = (\<lambda>s. Inr ())\<rparr>"

definition ex_definition :: presentation_definition where
  "ex_definition = pd_new ''def'' (descriptor_new ''pid'' constraints_new)"

definition ex_submission :: presentation_submission where
  "ex_submission = submission_new 0 ''def''
     [set_path_nested (descriptor_map_new ''x'' LdpVc (JsonPath ''$.vc''))
        (descriptor_map_new ''pid'' LdpVp (JsonPath ''$''))]"

lemma ex_submission_inputs:
  "submission_find_inputs ex_eval no_claims_decoder ex_submission ex_definition JNull = Inr
     \<lparr>mi_inputs =
        [\<lparr>di_descriptor_id = ''pid'', di_format = LdpVc, di_value = (), di_nested = []\<rparr>,
         \<lparr>di_descriptor_id = ''pid'', di_format = LdpVp, di_value = (), di_nested = [(''pid'', [0])]\<rparr>],
      mi_by_descriptor = [(''pid'', [0, 1])]\<rparr>"
  by code_simp

theorem submission_inputs_justified_witness:
  "\<exists>dm \<in> set (ps_descriptor_map ex_submission).
     answers ex_eval no_claims_decoder ex_definition (pd_input_descriptors_map ex_definition) dm JNull
       \<lparr>di_descriptor_id = ''pid'', di_format = LdpVp, di_value = (), di_nested = [(''pid'', [0])]\<rparr>"
  using submission_inputs_justified [OF ex_submission_inputs] by simp

end
