(* ===== verification/Requirements.thy ===== *)
theory Requirements
  imports Presentation_Submission
begin

text \<open>
  Validation of the inputs of a submission: \<open>validate\<close> and \<open>validate_group\<close> of
  \<open>src/src/core/presentation_definition.rs\<close>, and \<open>MatchingInputs::validate\<close> and
  \<open>find_and_validate_inputs\<close> of \<open>src/src/core/presentation_submission.rs\<close>. A
  \<open>HashSet\<close> is iterated in an unspecified order: \<open>hs_iter\<close> lists its elements
  in that order, and what is proved holds for each.
\<close>

section \<open>The code\<close>

fun missing_required :: "(string, nat list) hmap \<Rightarrow> string list \<Rightarrow> submission_validation_error + unit" where
  "missing_required by_descriptor [] = Inr ()"
| "missing_required by_descriptor (i # ids) =
     (if \<not> hm_contains_key by_descriptor i then Inl (MissingRequiredInput i)
      else missing_required by_descriptor ids)"

definition grouped_input_descriptors :: "presentation_definition \<Rightarrow> group_id \<Rightarrow> string list" where
  "grouped_input_descriptors def grp =
     map desc_id (filter (\<lambda>d. grp \<in> set (desc_groups d)) (pd_input_descriptors def))"

definition validate_group ::
  "(string list \<Rightarrow> string list) \<Rightarrow> group_id \<Rightarrow> presentation_definition \<Rightarrow> 't matching_inputs \<Rightarrow>
     submission_requirement_pick option \<Rightarrow> submission_validation_error + unit" where
  "validate_group hs_iter grp def inputs pick_opt =
     (let grouped = grouped_input_descriptors def grp
      in case pick_opt of
           Some pick \<Rightarrow>
             (let group_count =
                length (filter (\<lambda>input. di_descriptor_id input \<in> set grouped) (mi_inputs inputs))
              in and_then (case pick_min pick of
                     Some min_count \<Rightarrow>
                       if group_count < min_count then Inl (SelectionTooSmall grp min_count group_count)
                       else Inr ()
                   | None \<Rightarrow> Inr ()) (\<lambda>_.
                 and_then (case pick_max pick of
                     Some max_count \<Rightarrow>
                       if group_count > max_count then Inl (SelectionTooLarge grp max_count group_count)
                       else Inr ()
                   | None \<Rightarrow> Inr ()) (\<lambda>_.
                 case pick_count pick of
                     Some count \<Rightarrow>
                       if group_count \<noteq> count then Inl (SelectionSizeMismatch grp count group_count)
                       else Inr ()
                   | None \<Rightarrow> Inr ())))
         | None \<Rightarrow> missing_required (mi_by_descriptor inputs) (hs_iter grouped))"

fun requirement_validate ::
    "(string list \<Rightarrow> string list) \<Rightarrow> submission_requirement \<Rightarrow> presentation_definition \<Rightarrow>
     't matching_inputs \<Rightarrow> submission_validation_error + unit"
  and requirements_validate ::
    "(string list \<Rightarrow> string list) \<Rightarrow> submission_requirement list \<Rightarrow> presentation_definition \<Rightarrow>
     't matching_inputs \<Rightarrow> submission_validation_error + unit" where
  "requirement_validate hs_iter (RequirementAll (From grp ob)) def inputs =
     validate_group hs_iter grp def inputs None"
| "requirement_validate hs_iter (RequirementAll (FromNested from_nested ob)) def inputs =
     requirements_validate hs_iter from_nested def inputs"
| "requirement_validate hs_iter
     (RequirementPick (SubmissionRequirementPick (From grp ob) cnt mn mx)) def inputs =
     validate_group hs_iter grp def inputs
       (Some (SubmissionRequirementPick (From grp ob) cnt mn mx))"
| "requirement_validate hs_iter
     (RequirementPick (SubmissionRequirementPick (FromNested from_nested ob) cnt mn mx)) def inputs =
     requirements_validate hs_iter from_nested def inputs"
| "requirements_validate hs_iter [] def inputs = Inr ()"
| "requirements_validate hs_iter (r # rs) def inputs =
     and_then (requirement_validate hs_iter r def inputs) (\<lambda>_.
     requirements_validate hs_iter rs def inputs)"

fun default_validate :: "'t matching_inputs \<Rightarrow> input_descriptor list \<Rightarrow> submission_validation_error + unit" where
  "default_validate inputs [] = Inr ()"
| "default_validate inputs (d # ds) =
     (if (case hm_get (mi_by_descriptor inputs) (desc_id d) of None \<Rightarrow> True | Some i \<Rightarrow> i = [])
      then Inl (MissingRequiredInput (desc_id d))
      else default_validate inputs ds)"

definition matching_inputs_validate ::
  "(string list \<Rightarrow> string list) \<Rightarrow> 't matching_inputs \<Rightarrow> presentation_definition \<Rightarrow>
     submission_validation_error + unit" where
  "matching_inputs_validate hs_iter self def =
     (case pd_submission_requirements def of
        Some requirements \<Rightarrow> requirements_validate hs_iter requirements def self
      | None \<Rightarrow> default_validate self (pd_input_descriptors def))"

definition find_and_validate_inputs ::
  "(string list \<Rightarrow> string list) \<Rightarrow> eval \<Rightarrow> 't claims_decoder \<Rightarrow> presentation_submission \<Rightarrow>
     presentation_definition \<Rightarrow> json \<Rightarrow> submission_error + 't matching_inputs" where
  "find_and_validate_inputs hs_iter ev decoder self def value =
     and_then (submission_find_inputs ev decoder self def value) (\<lambda>matches.
     and_then (map_err Validation (matching_inputs_validate hs_iter matches def)) (\<lambda>_.
     Inr matches))"

section \<open>What a submission requirement asks for\<close>

text \<open>Stated on the list of inputs alone: no map, no order of iteration.\<close>

definition has_input :: "'t decoded_input list \<Rightarrow> string \<Rightarrow> bool" where
  "has_input inputs i \<longleftrightarrow> (\<exists>x \<in> set inputs. di_descriptor_id x = i)"

definition in_group :: "presentation_definition \<Rightarrow> group_id \<Rightarrow> string \<Rightarrow> bool" where
  "in_group def grp i \<longleftrightarrow>
     (\<exists>d \<in> set (pd_input_descriptors def). desc_id d = i \<and> grp \<in> set (desc_groups d))"

definition all_of_group :: "presentation_definition \<Rightarrow> 't decoded_input list \<Rightarrow> group_id \<Rightarrow> bool" where
  "all_of_group def inputs grp \<longleftrightarrow>
     (\<forall>d \<in> set (pd_input_descriptors def). grp \<in> set (desc_groups d) \<longrightarrow> has_input inputs (desc_id d))"

definition pick_of_group ::
  "presentation_definition \<Rightarrow> 't decoded_input list \<Rightarrow> group_id \<Rightarrow> nat option \<Rightarrow> nat option \<Rightarrow> nat option \<Rightarrow> bool" where
  "pick_of_group def inputs grp cnt mn mx \<longleftrightarrow>
     (let n = length (filter (\<lambda>x. in_group def grp (di_descriptor_id x)) inputs)
      in pred_option (\<lambda>m. m \<le> n) mn \<and> pred_option (\<lambda>m. n \<le> m) mx \<and> pred_option (\<lambda>c. n = c) cnt)"

fun requirement_holds :: "presentation_definition \<Rightarrow> 't decoded_input list \<Rightarrow> submission_requirement \<Rightarrow> bool" where
  "requirement_holds def inputs (RequirementAll (From grp ob)) = all_of_group def inputs grp"
| "requirement_holds def inputs
     (RequirementPick (SubmissionRequirementPick (From grp ob) cnt mn mx)) =
     pick_of_group def inputs grp cnt mn mx"
| "requirement_holds def inputs (RequirementAll (FromNested rs ob)) =
     (\<forall>r \<in> set rs. requirement_holds def inputs r)"
| "requirement_holds def inputs
     (RequirementPick (SubmissionRequirementPick (FromNested rs ob) cnt mn mx)) =
     (\<forall>r \<in> set rs. requirement_holds def inputs r)"

definition satisfies_definition :: "presentation_definition \<Rightarrow> 't decoded_input list \<Rightarrow> bool" where
  "satisfies_definition def inputs \<longleftrightarrow>
     (case pd_submission_requirements def of
        Some rs \<Rightarrow> \<forall>r \<in> set rs. requirement_holds def inputs r
      | None \<Rightarrow> \<forall>d \<in> set (pd_input_descriptors def). has_input inputs (desc_id d))"

section \<open>The code decides it\<close>

lemma missing_required_iff:
  "missing_required m ids = Inr () \<longleftrightarrow> (\<forall>i \<in> set ids. hm_contains_key m i)"
  by (induction ids) auto

lemma missing_required_error:
  "missing_required m ids = Inl e \<Longrightarrow>
     \<exists>i \<in> set ids. e = MissingRequiredInput i \<and> \<not> hm_contains_key m i"
  by (induction ids) (auto split: if_splits)

lemma grouped_input_descriptors_iff:
  "i \<in> set (grouped_input_descriptors df g) \<longleftrightarrow> in_group df g i"
  by (auto simp: grouped_input_descriptors_def in_group_def)

lemma validate_group_None:
  assumes "\<And>xs. set (hs_iter xs) = set xs" and "mi_by_descriptor m = group_inputs (mi_inputs m)"
  shows "validate_group hs_iter g df m None = Inr () \<longleftrightarrow> all_of_group df (mi_inputs m) g"
  using assms
  by (auto simp: validate_group_def missing_required_iff grouped_input_descriptors_iff in_group_def
      all_of_group_def has_input_def group_inputs_contains)

lemma validate_group_Some:
  "validate_group hs_iter g df m (Some (SubmissionRequirementPick b cnt mn mx)) = Inr () \<longleftrightarrow>
     pick_of_group df (mi_inputs m) g cnt mn mx"
  by (auto simp: validate_group_def pick_of_group_def Let_def res_simps grouped_input_descriptors_iff
      not_less split: option.splits)

lemma requirement_validate_iff:
  fixes m :: "'t matching_inputs"
  assumes "\<And>xs. set (hs_iter xs) = set xs" and "mi_by_descriptor m = group_inputs (mi_inputs m)"
  shows "requirement_validate hs_iter r df m = Inr () \<longleftrightarrow> requirement_holds df (mi_inputs m) r"
    and "requirements_validate hs_iter rs df m = Inr () \<longleftrightarrow>
      (\<forall>r \<in> set rs. requirement_holds df (mi_inputs m) r)"
  using assms
  by (induction hs_iter r df m and hs_iter rs df m rule: requirement_validate_requirements_validate.induct)
    (simp_all add: validate_group_None validate_group_Some res_simps)

lemma default_validate_iff:
  assumes "mi_by_descriptor m = group_inputs (mi_inputs m)"
  shows "default_validate m ds = Inr () \<longleftrightarrow> (\<forall>d \<in> set ds. has_input (mi_inputs m) (desc_id d))"
proof -
  have "(case hm_get (group_inputs xs) i of None \<Rightarrow> True | Some ks \<Rightarrow> ks = []) \<longleftrightarrow> \<not> has_input xs i"
    for xs :: "'a decoded_input list" and i
    using group_inputs_contains [of xs i]
    by (auto simp: hm_contains_key_def has_input_def group_inputs_get Let_def split: if_splits option.splits)
  with assms show ?thesis by (induction ds) auto
qed

lemma matching_inputs_validate_iff:
  assumes "\<And>xs. set (hs_iter xs) = set xs" and "mi_by_descriptor m = group_inputs (mi_inputs m)"
  shows "matching_inputs_validate hs_iter m df = Inr () \<longleftrightarrow> satisfies_definition df (mi_inputs m)"
  using assms
  by (simp add: matching_inputs_validate_def satisfies_definition_def requirement_validate_iff
      default_validate_iff split: option.split)

section \<open>Properties\<close>

text \<open>
  C1: validation decides the submission requirements. For every order in which the hash
  sets are iterated, \<open>find_and_validate_inputs\<close> returns the inputs exactly when they
  are found and satisfy the definition as stated on the plain list of inputs: with requirements,
  each of them holds (all descriptors of a group present, or the number of inputs of the group
  within count, min and max, or every nested requirement); without, each descriptor has an
  input.
\<close>

theorem find_and_validate_decides:
  assumes "\<And>xs. set (hs_iter xs) = set xs"
  shows "find_and_validate_inputs hs_iter ev decoder ps df v = Inr m \<longleftrightarrow>
    submission_find_inputs ev decoder ps df v = Inr m \<and> satisfies_definition df (mi_inputs m)"
  using matching_inputs_validate_iff [OF assms] submission_find_inputs_ok(2)
  by (fastforce simp: find_and_validate_inputs_def res_simps)

theorem find_and_validate_decides_witness:
  "\<exists>m. find_and_validate_inputs rev ex_eval no_claims_decoder ex_submission ex_definition JNull = Inr m"
proof -
  have "satisfies_definition ex_definition
      [\<lparr>di_descriptor_id = ''pid'', di_format = LdpVc, di_value = (), di_nested = []\<rparr>,
       \<lparr>di_descriptor_id = ''pid'', di_format = LdpVp, di_value = (), di_nested = [(''pid'', [0])]\<rparr>]"
    by (simp add: satisfies_definition_def ex_definition_def pd_new_def descriptor_new_def has_input_def)
  with ex_submission_inputs
  have "\<exists>m. submission_find_inputs ex_eval no_claims_decoder ex_submission ex_definition JNull = Inr m \<and>
      satisfies_definition ex_definition (mi_inputs m)"
    by simp
  then show ?thesis using find_and_validate_decides [of rev] by (metis set_rev)
qed

text \<open>
  C30: a failed validation is explained. When a requirement on a group fails, the error names
  the group and the exact number of inputs found, and the bound it reports is the one that the number
  violates; a missing input names a descriptor of the group that no input has.
\<close>

theorem validate_group_error:
  assumes "\<And>xs. set (hs_iter xs) = set xs" and "mi_by_descriptor m = group_inputs (mi_inputs m)"
    and "validate_group hs_iter g df m p = Inl e"
  shows "let n = length (filter (\<lambda>x. in_group df g (di_descriptor_id x)) (mi_inputs m)) in
    (\<exists>i. p = None \<and> e = MissingRequiredInput i \<and> in_group df g i \<and> \<not> has_input (mi_inputs m) i) \<or>
    (\<exists>q k. p = Some q \<and> pick_min q = Some k \<and> n < k \<and> e = SelectionTooSmall g k n) \<or>
    (\<exists>q k. p = Some q \<and> pick_max q = Some k \<and> k < n \<and> e = SelectionTooLarge g k n) \<or>
    (\<exists>q k. p = Some q \<and> pick_count q = Some k \<and> n \<noteq> k \<and> e = SelectionSizeMismatch g k n)"
proof (cases p)
  case None
  with assms(3) obtain i where "i \<in> set (hs_iter (grouped_input_descriptors df g))"
    "e = MissingRequiredInput i" "\<not> hm_contains_key (mi_by_descriptor m) i"
    by (auto simp: validate_group_def dest: missing_required_error)
  with None assms(1,2) show ?thesis
    by (simp add: Let_def grouped_input_descriptors_iff group_inputs_contains has_input_def)
next
  case (Some q)
  with assms(3) show ?thesis
    by (auto simp: validate_group_def Let_def res_simps grouped_input_descriptors_iff
        split: option.splits if_splits)
qed

theorem validate_group_error_witness:
  "let m = \<lparr>mi_inputs = ([] :: unit decoded_input list), mi_by_descriptor = group_inputs ([] :: unit decoded_input list)\<rparr>;
       pick = SubmissionRequirementPick (From ''A'' \<lparr>sro_name = None, sro_purpose = None,
         sro_property_set = None\<rparr>) None (Some 1) None
   in validate_group rev ''A'' ex_definition m (Some pick) = Inl (SelectionTooSmall ''A'' 1 0) \<and>
      pick_min pick = Some 1"
proof -
  let ?m = "\<lparr>mi_inputs = ([] :: unit decoded_input list), mi_by_descriptor = group_inputs ([] :: unit decoded_input list)\<rparr>"
  let ?pick = "SubmissionRequirementPick (From ''A'' \<lparr>sro_name = None, sro_purpose = None,
    sro_property_set = None\<rparr>) None (Some 1) None"
  have "validate_group rev ''A'' ex_definition ?m (Some ?pick) = Inl (SelectionTooSmall ''A'' 1 0)"
    by (simp add: validate_group_def)
  from validate_group_error [OF _ _ this] this show ?thesis by (simp add: Let_def)
qed

end
