(* ===== verification/Submission_Bounds.thy ===== *)
theory Submission_Bounds
  imports Presentation_Submission
begin

text \<open>
  How much work a submission can cause: a bound on the number of inputs that
  \<open>find_inputs\<close> of \<open>src/src/core/presentation_submission.rs\<close> collects, from the
  number of nodes a path selects and the nesting of the descriptor maps, both of which the
  sender of the submission chooses.
\<close>

fun nesting_depth :: "descriptor_map \<Rightarrow> nat" where
  "nesting_depth (DescriptorMap i f p nested) =
     (case nested of None \<Rightarrow> 1 | Some dm \<Rightarrow> Suc (nesting_depth dm))"

text \<open>\<open>b + b ^ 2 + ... + b ^ d\<close>\<close>

fun inputs_bound :: "nat \<Rightarrow> nat \<Rightarrow> nat" where
  "inputs_bound b 0 = 0"
| "inputs_bound b (Suc d) = b * Suc (inputs_bound b d)"

definition nested_bound :: "nat \<Rightarrow> descriptor_map \<Rightarrow> nat" where
  "nested_bound b dm = (case dm_path_nested dm of None \<Rightarrow> 0 | Some n \<Rightarrow> inputs_bound b (nesting_depth n))"

lemma inputs_bound_nested: "inputs_bound b (nesting_depth dm) = b * Suc (nested_bound b dm)"
  by (cases dm) (simp add: nested_bound_def split: option.split)

lemma inputs_bound_sum: "inputs_bound b d = (\<Sum>i = 1..d. b ^ i)"
proof (induction d)
  case 0
  then show ?case by simp
next
  case (Suc d)
  have "(\<Sum>i = 1..Suc d. b ^ i) = b ^ 1 + (\<Sum>i = 2..Suc d. b ^ i)"
    by (simp add: sum.atLeast_Suc_atMost numeral_2_eq_2)
  also have "(\<Sum>i = 2..Suc d. b ^ i) = b * (\<Sum>i = 1..d. b ^ i)"
    using sum.shift_bounds_cl_Suc_ivl [of "\<lambda>i. b ^ i" 1 d]
    by (simp add: sum_distrib_left numeral_2_eq_2)
  finally show ?case using Suc.IH by simp
qed

text \<open>No path that is evaluated while a descriptor map is applied to a value selects more than \<open>b\<close> nodes.\<close>

definition narrow ::
  "nat \<Rightarrow> eval \<Rightarrow> 't claims_decoder \<Rightarrow> presentation_definition \<Rightarrow> (string, input_descriptor) hmap \<Rightarrow>
     descriptor_map \<Rightarrow> json \<Rightarrow> bool" where
  "narrow b ev decoder df ids dm v \<longleftrightarrow>
     (\<forall>dm' w. visits ev decoder df ids dm v dm' w \<longrightarrow> length (path_query ev (dm_path dm') w) \<le> b)"

lemma narrow_here: "narrow b ev decoder df ids dm v \<Longrightarrow> length (path_query ev (dm_path dm) v) \<le> b"
  by (simp add: narrow_def visits.start)

lemma narrow_nested:
  assumes "narrow b ev decoder df ids dm v" and "encoded \<in> set (path_query ev (dm_path dm) v)"
    and "admitted ev decoder df ids dm encoded y (Some j)" and "dm_path_nested dm = Some dm1"
  shows "narrow b ev decoder df ids dm1 j"
  using assms(1) visits.step [OF assms(2-4)] unfolding narrow_def by blast

lemma found_bound:
  fixes decoder :: "'t claims_decoder"
  shows "narrow b ev decoder df ids dm v \<Longrightarrow>
      length (snd (find_inputs_with ev decoder df ids dm v ins)) \<le>
      length ins + inputs_bound b (nesting_depth dm)"
    and "hm_get ids (dm_id dm) = Some d \<Longrightarrow> format_constraint df d (dm_format dm) = Inr fc \<Longrightarrow>
      \<forall>v'. narrow b ev decoder df ids dm v' \<longrightarrow> set items \<subseteq> set (path_query ev (dm_path dm) v') \<longrightarrow>
        length (snd (find_items ev decoder df ids dm d fc items ins)) \<le>
        length ins + length items * Suc (nested_bound b dm)"
    and "(\<And>dm1 w. dm_path_nested dm = Some dm1 \<Longrightarrow> j = Some w \<Longrightarrow> narrow b ev decoder df ids dm1 w) \<Longrightarrow>
      length (snd (find_nested ev decoder df ids dm j ins)) \<le> length ins + nested_bound b dm"
proof (induction ev decoder df ids dm v ins and ev decoder df ids dm d fc items ins
    and ev decoder df ids dm j ins rule: find_inputs_with_find_items_find_nested.induct)
  case (1 ev decoder df ids dm v ins)
  have items: "length (path_query ev (dm_path dm) v) * Suc (nested_bound b dm) \<le> b * Suc (nested_bound b dm)"
    using narrow_here [OF "1.prems"] by (intro mult_le_mono1)
  show ?case
  proof (cases "hm_get ids (dm_id dm)")
    case None
    then show ?thesis by simp
  next
    case (Some d)
    show ?thesis
    proof (cases "format_constraint df d (dm_format dm)")
      case (Inl e)
      with Some show ?thesis by simp
    next
      case (Inr fc)
      from "1.IH" [OF Some Inr Some Inr, rule_format, OF "1.prems" subset_refl] items show ?thesis
        by (simp add: Some Inr inputs_bound_nested)
    qed
  qed
next
  case 2
  then show ?case by simp
next
  case (3 ev decoder df ids dm d fc item items ins)
  let ?n = "Suc (nested_bound b dm)"
  note prems = "3.prems"
  show ?case
  proof (intro allI impI)
    fix v'
    assume narrow: "narrow b ev decoder df ids dm v'"
      and "set (item # items) \<subseteq> set (path_query ev (dm_path dm) v')"
    then have item: "item \<in> set (path_query ev (dm_path dm) v')"
      and items: "set items \<subseteq> set (path_query ev (dm_path dm) v')"
      by auto
    show "length (snd (find_items ev decoder df ids dm d fc (item # items) ins)) \<le>
        length ins + length (item # items) * ?n"
    proof (cases "decoder item (dm_format dm) fc")
      case (Inl e)
      then show ?thesis by simp
    next
      case (Inr dj)
      obtain x j where dj: "dj = (x, j)" by (cases dj)
      note dec = Inr [unfolded dj]
      consider e where "constraint_check ev d (dm_format dm) j = Inl e"
        | "constraint_check ev d (dm_format dm) j = Inr False"
        | "constraint_check ev d (dm_format dm) j = Inr True"
        by (cases "constraint_check ev d (dm_format dm) j") auto
      then show ?thesis
      proof cases
        case 1
        with dec show ?thesis by simp
      next
        case 2
        with dec "3.IH"(4) [OF dec refl 2 refl prems, rule_format, OF narrow items] show ?thesis by simp
      next
        case ok: 3
        obtain q ins1 where q: "find_nested ev decoder df ids dm j ins = (q, ins1)"
          by (cases "find_nested ev decoder df ids dm j ins")
        have "admitted ev decoder df ids dm item x j"
          using prems dec ok by (simp add: admitted_def)
        with narrow_nested [OF narrow item, of x]
        have inner: "narrow b ev decoder df ids dm1 w" if "dm_path_nested dm = Some dm1" "j = Some w" for dm1 w
          using that by simp
        have nested: "length ins1 \<le> length ins + nested_bound b dm"
          using "3.IH"(1) [OF dec refl ok refl inner] q by simp
        show ?thesis
        proof (cases q)
          case (Inl e)
          with dec ok q nested show ?thesis by simp
        next
          case (Inr n)
          show ?thesis
          proof (cases n)
            case None
            from "3.IH"(2) [OF dec refl ok refl q [symmetric] Inr None prems, rule_format, OF narrow items]
              dec ok q Inr None nested
            show ?thesis by simp
          next
            case (Some ks)
            from "3.IH"(3) [OF dec refl ok refl q [symmetric] Inr Some refl refl prems, rule_format, OF narrow items]
              dec ok q Inr Some nested
            show ?thesis by (auto simp: Let_def split: prod.splits sum.splits)
          qed
        qed
      qed
    qed
  qed
next
  case (4 ev decoder df ids i format p path_nested j ins)
  show ?case
  proof (cases "path_nested = None \<or> j = None")
    case True
    then show ?thesis by (auto split: option.split)
  next
    case False
    then obtain dm v where dv: "path_nested = Some dm" "j = Some v" by auto
    with "4.prems" have "narrow b ev decoder df ids dm v" by simp
    from "4.IH" [OF dv this] dv show ?thesis
      by (auto simp: nested_bound_def split: prod.splits sum.splits)
  qed
qed

lemma found_loop_bound:
  assumes "\<And>dm. dm \<in> set ds \<Longrightarrow> narrow b ev decoder df (pd_input_descriptors_map df) dm v"
    and "find_inputs_loop ev decoder df v ds ins = Inr ins'"
  shows "length ins' \<le> length ins + (\<Sum>dm\<leftarrow>ds. inputs_bound b (nesting_depth dm))"
  using assms
proof (induction ds arbitrary: ins)
  case Nil
  then show ?case by simp
next
  case (Cons d ds)
  from Cons.prems(2) obtain ks ins1 where d: "descriptor_find_inputs ev decoder df d v ins = (Inr ks, ins1)"
    and rest: "find_inputs_loop ev decoder df v ds ins1 = Inr ins'"
    by (auto split: prod.splits sum.splits)
  have "length ins1 \<le> length ins + inputs_bound b (nesting_depth d)"
    using found_bound(1) [OF Cons.prems(1), of d ins] d by (simp add: descriptor_find_inputs_def)
  with Cons.IH [OF _ rest] Cons.prems(1) show ?case by simp
qed

section \<open>Properties\<close>

text \<open>
  C29: the number of inputs a submission yields is bounded by its shape. When none of the paths
  evaluated for it, each on the value it is applied to (the presentation, or the JSON of a decoded value for a
  nested map), selects more than \<open>b\<close> nodes there, a descriptor map nested to depth \<open>d\<close>
  yields at most \<open>b + b ^ 2 + ... + b ^ d\<close> inputs, and a submission the sum over its maps.
\<close>

theorem submission_inputs_bounded:
  assumes "submission_find_inputs ev decoder ps df v = Inr m"
    and "\<And>dm dm' w. dm \<in> set (ps_descriptor_map ps) \<Longrightarrow>
      visits ev decoder df (pd_input_descriptors_map df) dm v dm' w \<Longrightarrow>
      length (path_query ev (dm_path dm') w) \<le> b"
  shows "length (mi_inputs m) \<le> (\<Sum>dm\<leftarrow>ps_descriptor_map ps. \<Sum>i = 1..nesting_depth dm. b ^ i)"
proof -
  from assms(1) have "find_inputs_loop ev decoder df v (ps_descriptor_map ps) [] = Inr (mi_inputs m)"
    by (auto simp: submission_find_inputs_def res_simps)
  from found_loop_bound [OF _ this, of b] assms(2) show ?thesis
    by (simp add: inputs_bound_sum narrow_def)
qed

text \<open>
  The bound is reached: two nested maps that select the elements of an array, on an array of two
  arrays of two elements, yield two and four inputs.
\<close>

definition ex_elements :: eval where
  "ex_elements = \<lparr>path_query = (\<lambda>p v. case v of JArray vs \<Rightarrow> vs | _ \<Rightarrow> []),
     schema_valid = (\<lambda>s v. True), schema_compile = (\<lambda>s. Inr ())\<rparr>"

definition ex_two_by_two :: json where
  "ex_two_by_two = JArray [JArray [JNull, JBool True], JArray [JBool False, JNull]]"

lemma ex_elements_narrow:
  assumes "visits ex_elements no_claims_decoder ex_definition ids
      (hd (ps_descriptor_map ex_submission)) ex_two_by_two dm' w"
  shows "length (path_query ex_elements (dm_path dm') w) \<le> 2"
  using assms
proof cases
  case start
  then show ?thesis by (simp add: ex_elements_def ex_two_by_two_def)
next
  case (step encoded y j dm1)
  from step(1,2) have j: "j = JArray [JNull, JBool True] \<or> j = JArray [JBool False, JNull]"
    by (auto simp: ex_elements_def ex_two_by_two_def admitted_def no_claims_decoder_def)
  from step(3) have "dm_path_nested dm1 = None"
    by (auto simp: ex_submission_def submission_new_def descriptor_map_new_def)
  with step(4) have "w = j" by (auto elim: visits.cases)
  with j show ?thesis by (auto simp: ex_elements_def)
qed

lemma submission_inputs_bounded_witness:
  "\<exists>m. submission_find_inputs ex_elements no_claims_decoder ex_submission ex_definition ex_two_by_two = Inr m \<and>
     length (mi_inputs m) = 6 \<and>
     length (mi_inputs m) \<le> (\<Sum>dm\<leftarrow>ps_descriptor_map ex_submission. \<Sum>i = 1..nesting_depth dm. 2 ^ i)"
proof -
  have "map_ok (\<lambda>m. length (mi_inputs m))
      (submission_find_inputs ex_elements no_claims_decoder ex_submission ex_definition ex_two_by_two) = Inr 6"
    by code_simp
  then obtain m where m: "submission_find_inputs ex_elements no_claims_decoder ex_submission ex_definition
      ex_two_by_two = Inr m" "length (mi_inputs m) = 6"
    by (auto simp: res_simps)
  have narrow: "length (path_query ex_elements (dm_path dm') w) \<le> 2"
    if "dm \<in> set (ps_descriptor_map ex_submission)"
      "visits ex_elements no_claims_decoder ex_definition (pd_input_descriptors_map ex_definition)
        dm ex_two_by_two dm' w" for dm dm' w
    using that by (intro ex_elements_narrow) (auto simp: ex_submission_def submission_new_def)
  have "length (mi_inputs m) \<le> (\<Sum>dm\<leftarrow>ps_descriptor_map ex_submission. \<Sum>i = 1..nesting_depth dm. 2 ^ i)"
    by (rule submission_inputs_bounded [OF m(1)]) (rule narrow)
  with m show ?thesis by blast
qed

section \<open>The depth of the recursion\<close>

text \<open>
  \<open>find_inputs\<close> with the stack of its own calls as fuel: one unit for every call, which the loop over the
  items of a path hands to the call for the nested map. The loop itself takes the recursive call as an argument.
\<close>

fun items_call ::
  "(descriptor_map \<Rightarrow> json \<Rightarrow> 't decoded_input list \<Rightarrow> ((submission_error + nat list) \<times> 't decoded_input list) option) \<Rightarrow>
   eval \<Rightarrow> 't claims_decoder \<Rightarrow> descriptor_map \<Rightarrow> input_descriptor \<Rightarrow> claim_format_payload option \<Rightarrow> json list \<Rightarrow>
   't decoded_input list \<Rightarrow> ((submission_error + nat list) \<times> 't decoded_input list) option" where
  "items_call f ev decoder self d fc [] inputs = Some (Inr [], inputs)"
| "items_call f ev decoder self d fc (item # items) inputs =
     (case decoder item (dm_format self) fc of
        Inl e \<Rightarrow> Some (Inl (Decoding e), inputs)
      | Inr (decoded_item, decoded_json) \<Rightarrow>
          (case constraint_check ev d (dm_format self) decoded_json of
             Inl e \<Rightarrow> Some (Inl e, inputs)
           | Inr False \<Rightarrow> items_call f ev decoder self d fc items inputs
           | Inr True \<Rightarrow>
               Option.bind
                 (case dm_path_nested self of
                    None \<Rightarrow> Some (Inr [], inputs)
                  | Some nested \<Rightarrow>
                      (case decoded_json of
                         None \<Rightarrow> Some (Inl (NestingUnsupported (dm_format self)), inputs)
                       | Some j \<Rightarrow> f nested j inputs))
                 (\<lambda>(r, inputs1).
                  case r of
                    Inl e \<Rightarrow> Some (Inl e, inputs1)
                  | Inr found \<Rightarrow>
                      if found = [] \<and> dm_path_nested self \<noteq> None then
                        items_call f ev decoder self d fc items inputs1
                      else
                        Option.bind (items_call f ev decoder self d fc items (inputs1 @
                          [\<lparr>di_descriptor_id = dm_id self, di_format = dm_format self, di_value = decoded_item,
                            di_nested = group_by_input_descriptor inputs1 found\<rparr>]))
                          (\<lambda>(s, inputs2). Some (map_ok (\<lambda>ks. length inputs1 # ks) s, inputs2)))))"

fun find_call ::
  "nat \<Rightarrow> eval \<Rightarrow> 't claims_decoder \<Rightarrow> presentation_definition \<Rightarrow> (string, input_descriptor) hmap \<Rightarrow>
   descriptor_map \<Rightarrow> json \<Rightarrow> 't decoded_input list \<Rightarrow>
   ((submission_error + nat list) \<times> 't decoded_input list) option" where
  "find_call 0 ev decoder df ids self v inputs = None"
| "find_call (Suc n) ev decoder df ids self v inputs =
     (case hm_get ids (dm_id self) of
        None \<Rightarrow> Some (Inl (UndefinedInputDescriptor (dm_id self)), inputs)
      | Some d \<Rightarrow>
          (case format_constraint df d (dm_format self) of
             Inl e \<Rightarrow> Some (Inl e, inputs)
           | Inr fc \<Rightarrow>
               items_call (find_call n ev decoder df ids) ev decoder self d fc
                 (path_query ev (dm_path self) v) inputs))"

text \<open>A call for the nested map that agrees with the code makes the loop agree with it.\<close>

lemma items_call_agrees:
  assumes "\<And>n j ins. dm_path_nested dm = Some n \<Longrightarrow> f n j ins = Some (find_inputs_with ev decoder df ids n j ins)"
  shows "items_call f ev decoder dm d fc items ins = Some (find_items ev decoder df ids dm d fc items ins)"
proof (induction items arbitrary: ins)
  case Nil
  then show ?case by simp
next
  case (Cons item items)
  obtain i format p nested where dm: "dm = DescriptorMap i format p nested" by (cases dm)
  show ?case
    using assms Cons.IH unfolding dm
    by (auto simp: Let_def split: sum.split prod.split option.split bool.split)
qed

lemma find_call_enough:
  "nesting_depth dm \<le> n \<Longrightarrow>
     find_call n ev decoder df ids dm v ins = Some (find_inputs_with ev decoder df ids dm v ins)"
proof (induction n arbitrary: dm v ins)
  case 0
  then show ?case by (cases dm) (simp split: option.splits)
next
  case (Suc n)
  have "items_call (find_call n ev decoder df ids) ev decoder dm d fc items ins =
      Some (find_items ev decoder df ids dm d fc items ins)" for d fc items
  proof (rule items_call_agrees)
    fix m j and ins :: "'a decoded_input list"
    assume "dm_path_nested dm = Some m"
    with Suc.prems have "nesting_depth m \<le> n" by (cases dm) simp
    then show "find_call n ev decoder df ids m j ins = Some (find_inputs_with ev decoder df ids m j ins)"
      by (rule Suc.IH)
  qed
  then show ?case by (simp split: option.split sum.split)
qed

text \<open>
  C28: the search for inputs ends, and its stack is as deep as the descriptor map is nested. With one
  unit of fuel for every nested call, the depth of the map is enough: the search then returns what the
  code returns, whatever the paths select and the decoder answers.
\<close>

theorem find_inputs_stack_depth:
  assumes "nesting_depth self \<le> n"
  shows "find_call n ev decoder df (pd_input_descriptors_map df) self v inputs =
    Some (descriptor_find_inputs ev decoder df self v inputs)"
  using find_call_enough [OF assms] by (simp add: descriptor_find_inputs_def)

lemma find_inputs_stack_depth_witness:
  "find_call 2 ex_eval no_claims_decoder ex_definition (pd_input_descriptors_map ex_definition)
     (hd (ps_descriptor_map ex_submission)) JNull [] =
     Some (descriptor_find_inputs ex_eval no_claims_decoder ex_definition
       (hd (ps_descriptor_map ex_submission)) JNull []) \<and>
   find_call 1 ex_eval no_claims_decoder ex_definition (pd_input_descriptors_map ex_definition)
     (hd (ps_descriptor_map ex_submission)) JNull [] = None"
proof
  have "nesting_depth (hd (ps_descriptor_map ex_submission)) \<le> 2" by code_simp
  then show "find_call 2 ex_eval no_claims_decoder ex_definition (pd_input_descriptors_map ex_definition)
     (hd (ps_descriptor_map ex_submission)) JNull [] =
     Some (descriptor_find_inputs ex_eval no_claims_decoder ex_definition
       (hd (ps_descriptor_map ex_submission)) JNull [])"
    by (rule find_inputs_stack_depth)
  show "find_call 1 ex_eval no_claims_decoder ex_definition (pd_input_descriptors_map ex_definition)
     (hd (ps_descriptor_map ex_submission)) JNull [] = None"
    by code_simp
qed

end
