(* ===== verification/Presentation_Check.thy ===== *)
theory Presentation_Check
  imports Requirements
begin

text \<open>
  What it means that a verifier accepts a presentation: every descriptor that the definition asks
  for has, among the inputs that \<open>find_and_validate_inputs\<close> of
  \<open>src/src/core/presentation_submission.rs\<close> returns, one decoded from a value selected in the
  presentation itself, or in the JSON of a decoded value, that satisfies it.
\<close>

section \<open>What a definition asks for\<close>

text \<open>
  The groups that a requirement wants whole. \<open>validate\<close> of
  \<open>src/src/core/presentation_definition.rs\<close> checks every nested requirement, also those a
  \<open>pick\<close> chooses from.
\<close>

fun demanded_groups :: "submission_requirement \<Rightarrow> group_id list" where
  "demanded_groups (RequirementAll (From grp ob)) = [grp]"
| "demanded_groups (RequirementPick (SubmissionRequirementPick (From grp ob) cnt mn mx)) = []"
| "demanded_groups (RequirementAll (FromNested rs ob)) = concat (map demanded_groups rs)"
| "demanded_groups (RequirementPick (SubmissionRequirementPick (FromNested rs ob) cnt mn mx)) =
     concat (map demanded_groups rs)"

text \<open>The descriptors a definition asks for: all of them, or those of the groups it wants whole.\<close>

definition asked_for :: "presentation_definition \<Rightarrow> input_descriptor \<Rightarrow> bool" where
  "asked_for df d \<longleftrightarrow> d \<in> set (pd_input_descriptors df) \<and>
     (case pd_submission_requirements df of
        None \<Rightarrow> True
      | Some rs \<Rightarrow> \<exists>r \<in> set rs. \<exists>grp \<in> set (demanded_groups r). grp \<in> set (desc_groups d))"

lemma demanded_groups_hold:
  "requirement_holds df inputs r \<Longrightarrow> grp \<in> set (demanded_groups r) \<Longrightarrow> all_of_group df inputs grp"
  by (induction r rule: demanded_groups.induct) auto

lemma asked_for_has_input: "satisfies_definition df inputs \<Longrightarrow> asked_for df d \<Longrightarrow> has_input inputs (desc_id d)"
  using demanded_groups_hold [of df inputs]
  by (fastforce simp: satisfies_definition_def asked_for_def all_of_group_def split: option.splits)

lemma find_inputs_descriptor:
  "hm_get (pd_input_descriptors_map df) i = find (\<lambda>c. desc_id c = i) (rev (pd_input_descriptors df))"
proof -
  have "map_of (map (\<lambda>c. (desc_id c, c)) ds) i = find (\<lambda>c. desc_id c = i) ds" for ds
    by (induction ds) auto
  then show ?thesis by (simp add: pd_input_descriptors_map_def hm_get_of_list rev_map)
qed

section \<open>Properties\<close>

text \<open>
  C3: an accepted presentation answers the definition. When a submission is found valid, every
  descriptor that the definition asks for has an input under its identifier, whose value was
  decoded from a value that the path of a descriptor map of the submission, or of one nested in it, selects in the
  presentation or in the JSON of the decoded value it is nested in. The descriptor that this value
  satisfies, in a format it admits and with a JSON that meets its constraints, is the last one the
  definition lists under that identifier, so the descriptor itself when the identifiers are distinct.
\<close>

theorem accepted_presentation_answers:
  assumes "\<And>xs. set (hs_iter xs) = set xs"
    and "find_and_validate_inputs hs_iter ev decoder ps df v = Inr m" and "asked_for df d"
  shows "\<exists>x \<in> set (mi_inputs m). \<exists>dm \<in> set (ps_descriptor_map ps). \<exists>dm' w encoded fc j d'.
    di_descriptor_id x = desc_id d \<and> dm_id dm' = desc_id d \<and> di_format x = dm_format dm' \<and>
    visits ev decoder df (pd_input_descriptors_map df) dm v dm' w \<and>
    encoded \<in> set (path_query ev (dm_path dm') w) \<and>
    find (\<lambda>c. desc_id c = desc_id d) (rev (pd_input_descriptors df)) = Some d' \<and>
    (distinct (map desc_id (pd_input_descriptors df)) \<longrightarrow> d' = d) \<and>
    format_constraint df d' (di_format x) = Inr fc \<and>
    decoder encoded (di_format x) fc = Inr (di_value x, j) \<and>
    (constraints_is_empty (desc_constraints d') \<or>
     (\<exists>json. j = Some json \<and> constraints_matches ev (desc_constraints d') json))"
proof -
  let ?ids = "pd_input_descriptors_map df"
  from assms(2) obtain "submission_find_inputs ev decoder ps df v = Inr m"
    and "matching_inputs_validate hs_iter m df = Inr ()"
    by (auto simp: find_and_validate_inputs_def res_simps)
  note found = this
  then have "satisfies_definition df (mi_inputs m)"
    using matching_inputs_validate_iff [OF assms(1)] submission_find_inputs_ok(2) by blast
  then obtain x where x: "x \<in> set (mi_inputs m)" "di_descriptor_id x = desc_id d"
    using asked_for_has_input assms(3) unfolding has_input_def by blast
  from submission_find_inputs_ok(3) [OF found(1) x(1)] obtain dm dm' w e j
    where dm: "dm \<in> set (ps_descriptor_map ps)" "visits ev decoder df ?ids dm v dm' w"
      "e \<in> set (path_query ev (dm_path dm') w)" "dm_id dm' = desc_id d" "di_format x = dm_format dm'"
    and "admitted ev decoder df ?ids dm' e (di_value x) j"
    unfolding answers_def x(2) by auto
  then obtain d' fc where d': "hm_get ?ids (desc_id d) = Some d'"
    "format_constraint df d' (di_format x) = Inr fc" "decoder e (di_format x) fc = Inr (di_value x, j)"
    "constraint_check ev d' (di_format x) j = Inr True"
    unfolding admitted_def by auto
  have "distinct (map desc_id (pd_input_descriptors df)) \<longrightarrow> d' = d"
    using assms(3) d'(1) pd_input_descriptors_map_distinct by (auto simp: asked_for_def)
  moreover have "constraints_is_empty (desc_constraints d') \<or>
      (\<exists>json. j = Some json \<and> constraints_matches ev (desc_constraints d') json)"
    using d'(4) by (auto simp: constraint_check_def split: if_splits option.splits)
  ultimately show ?thesis
    using x dm d'(2,3) d'(1) [unfolded find_inputs_descriptor]
    by (intro bexI [OF _ x(1)] bexI [OF _ dm(1)] exI [of _ dm'] exI [of _ w] exI [of _ e] exI [of _ fc]
        exI [of _ j] exI [of _ d']) simp
qed

lemma accepted_presentation_answers_witness:
  "\<exists>m. find_and_validate_inputs rev ex_eval no_claims_decoder ex_submission ex_definition JNull = Inr m \<and>
     (\<exists>x \<in> set (mi_inputs m). di_descriptor_id x = ''pid'' \<and>
       (\<exists>dm \<in> set (ps_descriptor_map ex_submission). \<exists>dm' w.
          visits ex_eval no_claims_decoder ex_definition (pd_input_descriptors_map ex_definition) dm JNull dm' w))"
proof -
  let ?d = "descriptor_new ''pid'' constraints_new"
  have "\<not> isl (find_and_validate_inputs rev ex_eval no_claims_decoder ex_submission ex_definition JNull)"
    by code_simp
  then obtain m where m: "find_and_validate_inputs rev ex_eval no_claims_decoder ex_submission ex_definition JNull = Inr m"
    using not_isl_Inr by blast
  have "asked_for ex_definition ?d" "desc_id ?d = ''pid''"
    by (simp_all add: ex_definition_def pd_new_def asked_for_def descriptor_new_def)
  from accepted_presentation_answers [OF _ m this(1)] this(2) m show ?thesis by fastforce
qed

end
