(* ===== verification/Dcql.thy ===== *)
theory Dcql
  imports Credential_Format Object "HOL-Library.Word"
begin

text \<open>
  \<open>src/src/core/dcql.rs\<close>: the Digital Credentials Query Language. The
  regular expression engine, base64 and the dictionaries of the derived (de)serialisers come as
  arguments; the checked constructors and the builders are modelled here, and the JSON form of a query in
  the theory \<open>Dcql_Json\<close>.
\<close>

section \<open>Identifiers\<close>

datatype dcql_id = ID (id_as_str: string)

text \<open>\<open>Regex::new\<close> yields the matcher of a pattern.\<close>

type_synonym regex_new = "string \<Rightarrow> anyhow + (string \<Rightarrow> bool)"

definition ID_REGEX :: string where
  "ID_REGEX = ''^[a-zA-Z0-9_-]+$''"

definition id_new :: "regex_new \<Rightarrow> string \<Rightarrow> anyhow + dcql_id" where
  "id_new regex ident =
     and_then (regex ID_REGEX) (\<lambda>is_match.
     and_then (ensure (is_match ident)
        (Msg ''ID must only contain alphanumeric characters, hyphens, and underscores'')) (\<lambda>_.
     Inr (ID ident)))"

definition id_try_from_json :: "regex_new \<Rightarrow> string deserialize \<Rightarrow> json \<Rightarrow> anyhow + dcql_id" where
  "id_try_from_json regex de_string value =
     and_then (from_string_or_value de_string value) (\<lambda>parsed. id_new regex parsed)"

definition id_try_into_json :: "dcql_id \<Rightarrow> anyhow + json" where
  "id_try_into_json value = Inr (JString (id_as_str value))"

definition id_serialize :: "dcql_id \<Rightarrow> json" where
  "id_serialize self = JString (id_as_str self)"

definition id_deserialize :: "regex_new \<Rightarrow> string deserialize \<Rightarrow> json \<Rightarrow> anyhow + dcql_id" where
  "id_deserialize regex de_string deserializer =
     and_then (from_value de_string deserializer) (\<lambda>s. id_new regex s)"

text \<open>What the \<open>regex\<close> crate documents for this pattern.\<close>

definition id_char :: "char \<Rightarrow> bool" where
  "id_char c \<longleftrightarrow>
     (CHR ''a'' \<le> c \<and> c \<le> CHR ''z'') \<or> (CHR ''A'' \<le> c \<and> c \<le> CHR ''Z'') \<or>
     (CHR ''0'' \<le> c \<and> c \<le> CHR ''9'') \<or> c = CHR ''_'' \<or> c = CHR ''-''"

definition id_valid :: "string \<Rightarrow> bool" where
  "id_valid s \<longleftrightarrow> s \<noteq> [] \<and> list_all id_char s"

definition id_regex_ok :: "regex_new \<Rightarrow> bool" where
  "id_regex_ok regex \<longleftrightarrow> regex ID_REGEX = Inr id_valid"

lemma id_new_Inr_iff: "id_regex_ok rx \<Longrightarrow> id_new rx s = Inr i \<longleftrightarrow> id_valid s \<and> i = ID s"
  by (auto simp: id_regex_ok_def id_new_def res_simps)

section \<open>Key identifiers and trusted authorities\<close>

datatype key_identifier = KeyIdentifier (ki_encoded: string) (ki_bytes: string)

definition key_identifier_from_base64url :: "base64 \<Rightarrow> string \<Rightarrow> anyhow + key_identifier" where
  "key_identifier_from_base64url url_no_pad encoded =
     and_then (b64_decode url_no_pad (trim_end_matches CHR ''='' encoded)) (\<lambda>bytes.
     and_then (ensure (bytes \<noteq> []) (Msg ''a Key Identifier cannot be empty'')) (\<lambda>_.
     Inr (KeyIdentifier encoded bytes)))"

definition key_identifier_from_bytes :: "base64 \<Rightarrow> string \<Rightarrow> anyhow + key_identifier" where
  "key_identifier_from_bytes url_no_pad bytes =
     and_then (ensure (bytes \<noteq> []) (Msg ''a Key Identifier cannot be empty'')) (\<lambda>_.
     Inr (KeyIdentifier (b64_encode url_no_pad bytes) bytes))"

datatype trusted_authority =
    Aki "key_identifier nonempty_vec"
  | EtsiTl "string nonempty_vec"
  | OpenidFederationAuthority "string nonempty_vec"
  | OtherAuthority string "string nonempty_vec"

record raw_trusted_authority =
  rta_type :: string
  rta_values :: "string nonempty_vec"

definition trusted_authority_try_from ::
  "base64 \<Rightarrow> raw_trusted_authority \<Rightarrow> anyhow + trusted_authority" where
  "trusted_authority_try_from url_no_pad raw =
     (if rta_type raw = ''aki'' then
        and_then (collect_res (key_identifier_from_base64url url_no_pad) (nev_list (rta_values raw)))
          (\<lambda>v. map_ok Aki (nev_try_from v))
      else if rta_type raw = ''etsi_tl'' then Inr (EtsiTl (rta_values raw))
      else if rta_type raw = ''openid_federation'' then Inr (OpenidFederationAuthority (rta_values raw))
      else Inr (OtherAuthority (rta_type raw) (rta_values raw)))"

fun raw_from_trusted_authority :: "trusted_authority \<Rightarrow> raw_trusted_authority" where
  "raw_from_trusted_authority (Aki values) =
     \<lparr>rta_type = ''aki'', rta_values = nev_map (\<lambda>value. ki_encoded value) values\<rparr>"
| "raw_from_trusted_authority (EtsiTl values) = \<lparr>rta_type = ''etsi_tl'', rta_values = values\<rparr>"
| "raw_from_trusted_authority (OpenidFederationAuthority values) =
     \<lparr>rta_type = ''openid_federation'', rta_values = values\<rparr>"
| "raw_from_trusted_authority (OtherAuthority type values) = \<lparr>rta_type = type, rta_values = values\<rparr>"

text \<open>The invariant of the private fields: the bytes are the decoding of the text.\<close>

definition key_identifier_wf :: "base64 \<Rightarrow> key_identifier \<Rightarrow> bool" where
  "key_identifier_wf b k \<longleftrightarrow>
     b64_decode b (trim_end_matches CHR ''='' (ki_encoded k)) = Inr (ki_bytes k) \<and> ki_bytes k \<noteq> []"

fun trusted_authority_wf :: "base64 \<Rightarrow> trusted_authority \<Rightarrow> bool" where
  "trusted_authority_wf b (Aki values) = (nev_wf values \<and> list_all (key_identifier_wf b) (nev_list values))"
| "trusted_authority_wf b (EtsiTl values) = nev_wf values"
| "trusted_authority_wf b (OpenidFederationAuthority values) = nev_wf values"
| "trusted_authority_wf b (OtherAuthority type values) =
     (nev_wf values \<and> type \<notin> {''aki'', ''etsi_tl'', ''openid_federation''})"

lemma key_identifier_from_base64url_Inr_iff:
  "key_identifier_from_base64url b s = Inr k \<longleftrightarrow> ki_encoded k = s \<and> key_identifier_wf b k"
  by (cases k) (auto simp: key_identifier_from_base64url_def key_identifier_wf_def res_simps)

lemma key_identifier_from_bytes_wf:
  assumes b: "base64_ok b" and k: "key_identifier_from_bytes b bytes = Inr k"
  shows "key_identifier_wf b k \<and> ki_bytes k = bytes"
proof -
  from k have k': "k = KeyIdentifier (b64_encode b bytes) bytes" and ne: "bytes \<noteq> []"
    by (auto simp: key_identifier_from_bytes_def res_simps)
  have "CHR ''='' \<notin> set (b64_encode b bytes)" using b by (simp add: base64_ok_def)
  then have "b64_encode b bytes = [] \<or> last (b64_encode b bytes) \<noteq> CHR ''=''"
    using last_in_set by metis
  then have "trim_end_matches CHR ''='' (b64_encode b bytes) = b64_encode b bytes"
    by (rule trim_end_matches_noop)
  with b ne show ?thesis by (simp add: k' key_identifier_wf_def base64_ok_def)
qed

lemma collect_key_identifiers:
  "collect_res (key_identifier_from_base64url b) ss = Inr ks \<longleftrightarrow>
     map ki_encoded ks = ss \<and> list_all (key_identifier_wf b) ks"
  by (simp add: res_simps key_identifier_from_base64url_Inr_iff list_all2_conv_all_nth list_all_length
      list_eq_iff_nth_eq) auto

lemma trusted_authority_try_from_raw:
  assumes "nev_wf (rta_values raw)" and "trusted_authority_try_from b raw = Inr a"
  shows "raw_from_trusted_authority a = raw \<and> trusted_authority_wf b a"
  using assms
  by (cases raw; cases "rta_values raw")
    (auto simp: trusted_authority_try_from_def nev_map_def collect_key_identifiers res_simps
      simp del: collect_res.simps collect_res_Inr_iff split: if_splits)

lemma trusted_authority_try_from_wf:
  assumes "trusted_authority_wf b a"
  shows "trusted_authority_try_from b (raw_from_trusted_authority a) = Inr a"
proof (cases a)
  case (Aki vs)
  with assms have "collect_res (key_identifier_from_base64url b) (map ki_encoded (nev_list vs)) =
      Inr (nev_list vs)"
    by (simp only: collect_key_identifiers) simp
  with Aki assms show ?thesis
    by (cases vs) (simp add: trusted_authority_try_from_def nev_try_from_def nev_wf_def)
next
  case (OtherAuthority t vs)
  with assms show ?thesis by (auto simp: trusted_authority_try_from_def)
qed (simp_all add: trusted_authority_try_from_def)

section \<open>Credential sets\<close>

record dcql_credential_set =
  set_options :: "string nonempty_vec nonempty_vec"
  set_required :: "bool option"

definition credential_set_new :: "string nonempty_vec nonempty_vec \<Rightarrow> dcql_credential_set" where
  "credential_set_new options = \<lparr>set_options = options, set_required = None\<rparr>"

definition credential_set_add_option ::
  "string nonempty_vec \<Rightarrow> dcql_credential_set \<Rightarrow> dcql_credential_set" where
  "credential_set_add_option option self =
     self\<lparr>set_options := nev_push (set_options self) option\<rparr>"

definition credential_set_set_required :: "bool \<Rightarrow> dcql_credential_set \<Rightarrow> dcql_credential_set" where
  "credential_set_set_required required self = self\<lparr>set_required := Some required\<rparr>"

section \<open>Meta\<close>

record dcql_meta =
  vct_values :: "string nonempty_vec option"
  type_values :: "string nonempty_vec nonempty_vec option"
  doctype_value :: "string option"

definition meta_new :: dcql_meta where
  "meta_new = \<lparr>vct_values = None, type_values = None, doctype_value = None\<rparr>"

definition meta_set_vct_values :: "string nonempty_vec \<Rightarrow> dcql_meta \<Rightarrow> dcql_meta" where
  "meta_set_vct_values vs self = self\<lparr>vct_values := Some vs\<rparr>"

definition meta_set_type_values :: "string nonempty_vec nonempty_vec \<Rightarrow> dcql_meta \<Rightarrow> dcql_meta" where
  "meta_set_type_values vs self = self\<lparr>type_values := Some vs\<rparr>"

definition meta_set_doctype_value :: "string \<Rightarrow> dcql_meta \<Rightarrow> dcql_meta" where
  "meta_set_doctype_value v self = self\<lparr>doctype_value := Some v\<rparr>"

section \<open>Claims\<close>

text \<open>A \<open>usize\<close> has no fixed width; a \<open>u64\<close> keeps its own.\<close>

datatype path_value = PathString string | PathUsize nat | PathNull

datatype value_type = ValString string | ValInteger "64 word" | ValBoolean bool

record dcql_claim =
  claim_id :: "dcql_id option"
  claim_path :: "path_value nonempty_vec"
  claim_values :: "value_type nonempty_vec option"

definition claim_new :: "path_value nonempty_vec \<Rightarrow> dcql_claim" where
  "claim_new path = \<lparr>claim_id = None, claim_path = path, claim_values = None\<rparr>"

definition claim_set_id :: "dcql_id \<Rightarrow> dcql_claim \<Rightarrow> dcql_claim" where
  "claim_set_id i self = self\<lparr>claim_id := Some i\<rparr>"

definition claim_set_path :: "path_value nonempty_vec \<Rightarrow> dcql_claim \<Rightarrow> dcql_claim" where
  "claim_set_path path self = self\<lparr>claim_path := path\<rparr>"

definition claim_set_values :: "value_type nonempty_vec \<Rightarrow> dcql_claim \<Rightarrow> dcql_claim" where
  "claim_set_values vs self = self\<lparr>claim_values := Some vs\<rparr>"

section \<open>Credentials\<close>

record dcql_credential =
  cred_id :: dcql_id
  cred_format :: claim_format_designation
  cred_meta :: dcql_meta
  cred_multiple :: "bool option"
  cred_claims :: "dcql_claim nonempty_vec option"
  cred_claim_sets :: "string nonempty_vec nonempty_vec option"
  cred_require_cryptographic_holder_binding :: "bool option"
  cred_trusted_authorities :: "trusted_authority nonempty_vec option"

definition credential_new ::
  "dcql_id \<Rightarrow> claim_format_designation \<Rightarrow> dcql_meta \<Rightarrow> dcql_credential" where
  "credential_new i format meta =
     \<lparr>cred_id = i, cred_format = format, cred_meta = meta, cred_multiple = None,
      cred_claims = None, cred_claim_sets = None,
      cred_require_cryptographic_holder_binding = None, cred_trusted_authorities = None\<rparr>"

definition credential_set_id :: "dcql_id \<Rightarrow> dcql_credential \<Rightarrow> dcql_credential" where
  "credential_set_id i self = self\<lparr>cred_id := i\<rparr>"

definition credential_set_format ::
  "claim_format_designation \<Rightarrow> dcql_credential \<Rightarrow> dcql_credential" where
  "credential_set_format format self = self\<lparr>cred_format := format\<rparr>"

definition credential_set_meta :: "dcql_meta \<Rightarrow> dcql_credential \<Rightarrow> dcql_credential" where
  "credential_set_meta meta self = self\<lparr>cred_meta := meta\<rparr>"

definition credential_set_multiple :: "bool \<Rightarrow> dcql_credential \<Rightarrow> dcql_credential" where
  "credential_set_multiple multiple self = self\<lparr>cred_multiple := Some multiple\<rparr>"

definition credential_set_require_cryptographic_holder_binding ::
  "bool \<Rightarrow> dcql_credential \<Rightarrow> dcql_credential" where
  "credential_set_require_cryptographic_holder_binding require self =
     self\<lparr>cred_require_cryptographic_holder_binding := Some require\<rparr>"

definition credential_set_claims :: "dcql_claim nonempty_vec \<Rightarrow> dcql_credential \<Rightarrow> dcql_credential" where
  "credential_set_claims claims self = self\<lparr>cred_claims := Some claims\<rparr>"

definition credential_add_claim :: "dcql_claim \<Rightarrow> dcql_credential \<Rightarrow> dcql_credential" where
  "credential_add_claim claim self =
     (case cred_claims self of
        Some claims \<Rightarrow> self\<lparr>cred_claims := Some (nev_push claims claim)\<rparr>
      | None \<Rightarrow> self\<lparr>cred_claims := Some (nev_new claim)\<rparr>)"

definition credential_set_claim_sets ::
  "string nonempty_vec nonempty_vec \<Rightarrow> dcql_credential \<Rightarrow> dcql_credential" where
  "credential_set_claim_sets sets self = self\<lparr>cred_claim_sets := Some sets\<rparr>"

definition credential_add_claim_set :: "string nonempty_vec \<Rightarrow> dcql_credential \<Rightarrow> dcql_credential" where
  "credential_add_claim_set claim_set self =
     (case cred_claim_sets self of
        Some sets \<Rightarrow> self\<lparr>cred_claim_sets := Some (nev_push sets claim_set)\<rparr>
      | None \<Rightarrow> self\<lparr>cred_claim_sets := Some (nev_new claim_set)\<rparr>)"

definition credential_set_trusted_authorities ::
  "trusted_authority nonempty_vec \<Rightarrow> dcql_credential \<Rightarrow> dcql_credential" where
  "credential_set_trusted_authorities trusted_authorities self =
     self\<lparr>cred_trusted_authorities := Some trusted_authorities\<rparr>"

section \<open>Queries\<close>

record dcql =
  dcql_credentials :: "dcql_credential nonempty_vec"
  dcql_credential_sets :: "dcql_credential_set nonempty_vec option"

definition dcql_new :: "dcql_credential nonempty_vec \<Rightarrow> dcql" where
  "dcql_new credentials = \<lparr>dcql_credentials = credentials, dcql_credential_sets = None\<rparr>"

definition dcql_add_credential :: "dcql_credential \<Rightarrow> dcql \<Rightarrow> dcql" where
  "dcql_add_credential credential self =
     self\<lparr>dcql_credentials := nev_push (dcql_credentials self) credential\<rparr>"

definition dcql_add_credential_set :: "dcql_credential_set \<Rightarrow> dcql \<Rightarrow> dcql" where
  "dcql_add_credential_set credential_set self =
     (case dcql_credential_sets self of
        Some sets \<Rightarrow> self\<lparr>dcql_credential_sets := Some (nev_push sets credential_set)\<rparr>
      | None \<Rightarrow> self\<lparr>dcql_credential_sets := Some (nev_new credential_set)\<rparr>)"

text \<open>\<open>TypedParameter\<close> for a query, over its derived dictionaries.\<close>

definition dcql_param :: "dcql deserialize \<Rightarrow> dcql serialize \<Rightarrow> dcql typed_parameter" where
  "dcql_param de ser =
     \<lparr>KEY = ''dcql_query'',
      try_from_json = from_string_or_value de,
      try_into_json = to_value ser\<rparr>"

section \<open>Well-formed queries\<close>

text \<open>What the types promise: no vector of a query is empty, at any depth.\<close>

definition nested_wf :: "'a nonempty_vec nonempty_vec \<Rightarrow> bool" where
  "nested_wf v \<longleftrightarrow> nev_wf v \<and> list_all nev_wf (nev_list v)"

definition claim_wf :: "dcql_claim \<Rightarrow> bool" where
  "claim_wf c \<longleftrightarrow> nev_wf (claim_path c) \<and> pred_option nev_wf (claim_values c)"

definition meta_wf :: "dcql_meta \<Rightarrow> bool" where
  "meta_wf m \<longleftrightarrow> pred_option nev_wf (vct_values m) \<and> pred_option nested_wf (type_values m)"

definition credential_wf :: "dcql_credential \<Rightarrow> bool" where
  "credential_wf c \<longleftrightarrow>
     meta_wf (cred_meta c) \<and>
     pred_option (\<lambda>v. nev_wf v \<and> list_all claim_wf (nev_list v)) (cred_claims c) \<and>
     pred_option nested_wf (cred_claim_sets c) \<and>
     pred_option nev_wf (cred_trusted_authorities c)"

definition dcql_wf :: "dcql \<Rightarrow> bool" where
  "dcql_wf q \<longleftrightarrow>
     nev_wf (dcql_credentials q) \<and> list_all credential_wf (nev_list (dcql_credentials q)) \<and>
     pred_option (\<lambda>v. nev_wf v \<and> list_all (\<lambda>s. nested_wf (set_options s)) (nev_list v))
       (dcql_credential_sets q)"

lemma nested_wf_push: "nested_wf v \<Longrightarrow> nev_wf x \<Longrightarrow> nested_wf (nev_push v x)"
  by (simp add: nested_wf_def)

lemma nested_wf_new: "nev_wf x \<Longrightarrow> nested_wf (nev_new x)"
  by (simp add: nested_wf_def)

lemmas wf_defs = nested_wf_def claim_wf_def meta_wf_def credential_wf_def dcql_wf_def

lemma meta_wf_builders:
  "meta_wf meta_new"
  "meta_wf m \<Longrightarrow> nev_wf vs \<Longrightarrow> meta_wf (meta_set_vct_values vs m)"
  "meta_wf m \<Longrightarrow> nested_wf ts \<Longrightarrow> meta_wf (meta_set_type_values ts m)"
  "meta_wf m \<Longrightarrow> meta_wf (meta_set_doctype_value d m)"
  by (simp_all add: meta_wf_def meta_new_def meta_set_vct_values_def meta_set_type_values_def
      meta_set_doctype_value_def)

lemma claim_wf_builders:
  "nev_wf p \<Longrightarrow> claim_wf (claim_new p)"
  "claim_wf c \<Longrightarrow> claim_wf (claim_set_id i c)"
  "claim_wf c \<Longrightarrow> nev_wf p \<Longrightarrow> claim_wf (claim_set_path p c)"
  "claim_wf c \<Longrightarrow> nev_wf vs \<Longrightarrow> claim_wf (claim_set_values vs c)"
  by (simp_all add: claim_wf_def claim_new_def claim_set_id_def claim_set_path_def claim_set_values_def)

lemma credential_wf_builders:
  "meta_wf m \<Longrightarrow> credential_wf (credential_new i f m)"
  "credential_wf c \<Longrightarrow> claim_wf cl \<Longrightarrow> credential_wf (credential_add_claim cl c)"
  "credential_wf c \<Longrightarrow> nev_wf cs \<Longrightarrow> credential_wf (credential_add_claim_set cs c)"
  "credential_wf c \<Longrightarrow> nev_wf ta \<Longrightarrow> credential_wf (credential_set_trusted_authorities ta c)"
  "credential_wf c \<Longrightarrow> meta_wf m \<Longrightarrow> credential_wf (credential_set_meta m c)"
  by (auto simp: credential_wf_def credential_new_def credential_add_claim_def
      credential_add_claim_set_def credential_set_trusted_authorities_def credential_set_meta_def
      nested_wf_def split: option.split)

lemma dcql_wf_builders:
  "nev_wf cs \<Longrightarrow> list_all credential_wf (nev_list cs) \<Longrightarrow> dcql_wf (dcql_new cs)"
  "dcql_wf q \<Longrightarrow> credential_wf c \<Longrightarrow> dcql_wf (dcql_add_credential c q)"
  "dcql_wf q \<Longrightarrow> nested_wf (set_options s) \<Longrightarrow> dcql_wf (dcql_add_credential_set s q)"
  by (auto simp: dcql_wf_def dcql_new_def dcql_add_credential_def dcql_add_credential_set_def
      split: option.split)

section \<open>Properties\<close>

text \<open>
  The raw form of a trusted authority and the checked one determine each other: what the
  checked conversion accepts prints back as the raw value, and every well-formed authority is
  accepted with the same content; an \<open>aki\<close> authority holds only keys that decode.
\<close>

theorem trusted_authority_round_trip:
  assumes "nev_wf (rta_values raw)"
  shows "trusted_authority_try_from b raw = Inr a \<longleftrightarrow>
    raw_from_trusted_authority a = raw \<and> trusted_authority_wf b a"
  using assms trusted_authority_try_from_raw [of raw b a] trusted_authority_try_from_wf [of b a]
  by auto

lemma trusted_authority_round_trip_witness:
  "trusted_authority_try_from hex64 \<lparr>rta_type = ''aki'', rta_values = nev_new ''EB''\<rparr> =
     Inr (Aki (nev_new (KeyIdentifier ''EB'' ''A'')))"
  by (rule trusted_authority_round_trip [of _ hex64 "Aki (nev_new (KeyIdentifier ''EB'' ''A''))", THEN iffD2])
    (simp, code_simp)

text \<open>
  An identifier of a query is accepted exactly when it is a non-empty text of letters,
  digits, hyphens and underscores, and it is kept as it is.
\<close>

theorem dcql_identifier_valid:
  assumes "id_regex_ok regex"
  shows "id_new regex s = Inr i \<longleftrightarrow> id_valid s \<and> i = ID s"
  using assms by (rule id_new_Inr_iff)

lemma dcql_identifier_valid_witness:
  "id_new (\<lambda>p. Inr id_valid) ''pid-1'' = Inr (ID ''pid-1'') \<and>
   id_new (\<lambda>p. Inr id_valid) ''pid 1'' \<noteq> Inr (ID ''pid 1'')"
proof -
  have rx: "id_regex_ok (\<lambda>p. Inr id_valid)" by (simp add: id_regex_ok_def)
  have "id_valid ''pid-1''" "\<not> id_valid ''pid 1''" by code_simp+
  with dcql_identifier_valid [OF rx] show ?thesis by simp
qed

end
