(* ===== verification/Serde.thy ===== *)
theory Serde
  imports Utils "HOL-Library.Word" "HOL-Library.Monad_Syntax"
begin

text \<open>
  What \<open>#[derive(Serialize, Deserialize)]\<close> generates for the types of the crate, on JSON values
  (\<open>serde_json::to_value\<close> and \<open>from_value\<close>): readers that answer \<open>None\<close> where \<open>serde\<close>
  reports an error (which error is not modelled), and writers. A struct is an object of its
  fields; unknown members are ignored, a missing optional member and \<open>null\<close> read as \<open>None\<close>, and the
  attribute \<open>skip_serializing_if = "Option::is_none"\<close> leaves a member out. A struct may also be
  read from an array of all its fields in order.
\<close>

type_synonym 'a reader = "json \<Rightarrow> 'a option"

section \<open>Readers\<close>

fun bool_of_json :: "bool reader" where
  "bool_of_json (JBool x) = Some x"
| "bool_of_json _ = None"

text \<open>\<open>u64\<close>, and \<open>usize\<close> on the 64-bit targets of the crate.\<close>

fun u64_of_json :: "64 word reader" where
  "u64_of_json (JNumber (PosInt n)) = (if n < 2 ^ 64 then Some (of_nat n) else None)"
| "u64_of_json _ = None"

definition json_of_u64 :: "64 word \<Rightarrow> json" where
  "json_of_u64 n = JNumber (PosInt (unat n))"

fun vec_of_json :: "'a reader \<Rightarrow> 'a list reader" where
  "vec_of_json parse (JArray xs) = those (map parse xs)"
| "vec_of_json parse _ = None"

definition json_of_vec :: "('a \<Rightarrow> json) \<Rightarrow> 'a list \<Rightarrow> json" where
  "json_of_vec print xs = JArray (map print xs)"

text \<open>\<open>NonEmptyVec\<close> is read through \<open>try_from = "Vec<T>"\<close> and written as the vector it holds.\<close>

definition nev_of_json :: "'a reader \<Rightarrow> 'a nonempty_vec reader" where
  "nev_of_json parse j = do { xs \<leftarrow> vec_of_json parse j; nev_maybe_new xs }"

definition json_of_nev :: "('a \<Rightarrow> json) \<Rightarrow> 'a nonempty_vec \<Rightarrow> json" where
  "json_of_nev print v = json_of_vec print (nev_list v)"

text \<open>
  The fields of a struct, by name; an array has to hold the first \<open>n\<close> of them, and those behind
  have defaults.
\<close>

fun struct_fields_from :: "nat \<Rightarrow> string list \<Rightarrow> json \<Rightarrow> (string \<Rightarrow> json option) option" where
  "struct_fields_from n names (JObject m) = Some (bt_get m)"
| "struct_fields_from n names (JArray xs) =
     (if n \<le> length xs \<and> length xs \<le> length names then Some (map_of (zip names xs)) else None)"
| "struct_fields_from n names _ = None"

definition struct_fields :: "string list \<Rightarrow> json \<Rightarrow> (string \<Rightarrow> json option) option" where
  "struct_fields names = struct_fields_from (length names) names"

definition required :: "'a reader \<Rightarrow> json option \<Rightarrow> 'a option" where
  "required parse member = do { j \<leftarrow> member; parse j }"

definition optional :: "'a reader \<Rightarrow> json option \<Rightarrow> 'a option option" where
  "optional parse member =
     (case member of
        None \<Rightarrow> Some None
      | Some JNull \<Rightarrow> Some None
      | Some j \<Rightarrow> map_option Some (parse j))"

text \<open>A field with \<open>#[serde(default)]\<close>.\<close>

definition defaulted :: "'a \<Rightarrow> 'a reader \<Rightarrow> json option \<Rightarrow> 'a option" where
  "defaulted dflt parse member = (case member of None \<Rightarrow> Some dflt | Some j \<Rightarrow> parse j)"

lemma optional_member [simp]:
  "optional parse None = Some None"
  "optional parse (Some JNull) = Some None"
  "j \<noteq> JNull \<Longrightarrow> optional parse (Some j) = map_option Some (parse j)"
  by (simp_all add: optional_def split: json.split)

section \<open>Writers\<close>

definition field :: "string \<Rightarrow> json \<Rightarrow> json_map" where
  "field name j = [(name, j)]"

definition opt_field :: "string \<Rightarrow> ('a \<Rightarrow> json) \<Rightarrow> 'a option \<Rightarrow> json_map" where
  "opt_field name print x = (case x of None \<Rightarrow> [] | Some y \<Rightarrow> [(name, print y)])"

text \<open>\<open>skip_serializing_if\<close> with the emptiness of a collection, and an optional field without it.\<close>

definition skip_field :: "bool \<Rightarrow> string \<Rightarrow> json \<Rightarrow> json_map" where
  "skip_field skip name j = (if skip then [] else [(name, j)])"

definition json_of_option :: "('a \<Rightarrow> json) \<Rightarrow> 'a option \<Rightarrow> json" where
  "json_of_option print x = (case x of None \<Rightarrow> JNull | Some y \<Rightarrow> print y)"

definition json_of_fields :: "json_map list \<Rightarrow> json" where
  "json_of_fields members = JObject (bt_of_list (concat members))"

definition members_get :: "json_map list \<Rightarrow> string \<Rightarrow> json option" where
  "members_get members k = map_of (rev (concat members)) k"

lemma members_get_simps [simp]:
  "members_get [] k = None"
  "k \<noteq> n \<Longrightarrow> members_get (field n j # ms) k = members_get ms k"
  "k \<noteq> n \<Longrightarrow> members_get (opt_field n print x # ms) k = members_get ms k"
  "k \<noteq> n \<Longrightarrow> members_get (skip_field skip n j # ms) k = members_get ms k"
  "members_get ms n = None \<Longrightarrow> members_get (field n j # ms) n = Some j"
  "members_get ms n = None \<Longrightarrow> members_get (opt_field n print x # ms) n = map_option print x"
  "members_get ms n = None \<Longrightarrow> members_get (skip_field skip n j # ms) n = (if skip then None else Some j)"
  by (auto simp: members_get_def field_def opt_field_def skip_field_def map_add_def split: option.split)

lemma struct_fields_from_written [simp]:
  "struct_fields_from n names (json_of_fields members) = Some (members_get members)"
  by (simp add: json_of_fields_def bt_get_of_list members_get_def fun_eq_iff)

lemma struct_fields_written [simp]: "struct_fields names (json_of_fields members) = Some (members_get members)"
  by (simp add: struct_fields_def)

lemma json_of_fields_not_null [simp]: "json_of_fields members \<noteq> JNull"
  by (simp add: json_of_fields_def)

section \<open>Codecs\<close>

definition nev_all :: "('a \<Rightarrow> bool) \<Rightarrow> 'a nonempty_vec \<Rightarrow> bool" where
  "nev_all ok v \<longleftrightarrow> nev_wf v \<and> list_all ok (nev_list v)"

declare option.pred_True [simp]

lemma nev_all_True [simp]: "nev_all (\<lambda>_. True) = nev_wf"
  by (simp add: nev_all_def fun_eq_iff list_all_iff)

text \<open>What a reader answers satisfies an invariant.\<close>

locale json_reader =
  fixes parse :: "'a reader" and ok :: "'a \<Rightarrow> bool"
  assumes parse_ok: "parse j = Some x \<Longrightarrow> ok x"
begin

lemma those_parse_ok: "those (map parse js) = Some xs \<Longrightarrow> list_all ok xs"
  by (induction js arbitrary: xs) (auto split: option.splits dest: parse_ok)

lemma vec_reader: "json_reader (vec_of_json parse) (list_all ok)"
proof
  show "list_all ok xs" if "vec_of_json parse j = Some xs" for j xs
    using that by (cases j) (auto dest: those_parse_ok)
qed

lemma nev_reader: "json_reader (nev_of_json parse) (nev_all ok)"
  using json_reader.parse_ok [OF vec_reader]
  by unfold_locales (auto simp: nev_of_json_def bind_eq_Some_conv nev_maybe_new_Some_iff nev_all_def)

lemma required_ok: "required parse member = Some x \<Longrightarrow> ok x"
  by (auto simp: required_def bind_eq_Some_conv dest: parse_ok)

lemma optional_ok: "optional parse member = Some x \<Longrightarrow> pred_option ok x"
  by (auto simp: optional_def split: option.splits json.splits dest: parse_ok)

lemma defaulted_ok: "defaulted d parse member = Some x \<Longrightarrow> ok d \<Longrightarrow> ok x"
  by (auto simp: defaulted_def split: option.splits dest: parse_ok)

end

text \<open>Which values are read back from what is written for them.\<close>

locale json_printer =
  fixes parse :: "'a reader" and print :: "'a \<Rightarrow> json" and exact :: "'a \<Rightarrow> bool"
  assumes parse_print_iff: "parse (print x) = Some x \<longleftrightarrow> exact x"
begin

lemma those_parse_print: "those (map (\<lambda>x. parse (print x)) xs) = Some xs \<longleftrightarrow> list_all exact xs"
proof (induction xs)
  case (Cons a xs)
  then show ?case using parse_print_iff [of a] by (auto split: option.split)
qed simp

lemma vec_printer: "json_printer (vec_of_json parse) (json_of_vec print) (list_all exact)"
  by unfold_locales (simp add: json_of_vec_def comp_def those_parse_print)

lemma nev_printer: "json_printer (nev_of_json parse) (json_of_nev print) (nev_all exact)"
proof
  fix v :: "'a nonempty_vec"
  have "nev_of_json parse (json_of_nev print v) = Some v \<longleftrightarrow>
      vec_of_json parse (json_of_vec print (nev_list v)) = Some (nev_list v) \<and> nev_wf v"
    by (cases v) (auto simp: nev_of_json_def json_of_nev_def bind_eq_Some_conv nev_maybe_new_Some_iff)
  then show "nev_of_json parse (json_of_nev print v) = Some v \<longleftrightarrow> nev_all exact v"
    using json_printer.parse_print_iff [OF vec_printer] by (auto simp: nev_all_def)
qed

lemma required_iff: "required parse (Some (print x)) = Some x \<longleftrightarrow> exact x"
  by (simp add: required_def parse_print_iff)

lemma defaulted_iff: "defaulted d parse (Some (print x)) = Some x \<longleftrightarrow> exact x"
  by (simp add: defaulted_def parse_print_iff)

lemma skipped_default_iff:
  "exact d \<Longrightarrow> defaulted d parse (if x = d then None else Some (print x)) = Some x \<longleftrightarrow> exact x"
  by (auto simp: defaulted_def parse_print_iff)

lemma skipped_required_iff:
  "required parse (if x = d then None else Some (print x)) = Some x \<longleftrightarrow> x \<noteq> d \<and> exact x"
  by (auto simp: required_def parse_print_iff)

end

text \<open>A value that can be optional is not written as \<open>null\<close>.\<close>

locale value_printer = json_printer +
  assumes print_not_null: "exact x \<Longrightarrow> print x \<noteq> JNull"
begin

lemma optional_some_iff: "optional parse (Some (print y)) = Some (Some y) \<longleftrightarrow> exact y"
proof (cases "print y = JNull")
  case True
  then show ?thesis using print_not_null by (auto simp: optional_def)
next
  case False
  then show ?thesis by (simp add: parse_print_iff)
qed

lemma optional_iff: "optional parse (map_option print x) = Some x \<longleftrightarrow> pred_option exact x"
  using optional_some_iff by (cases x) simp_all

lemma optional_null_iff: "optional parse (Some (json_of_option print x)) = Some x \<longleftrightarrow> pred_option exact x"
  using optional_some_iff by (cases x) (simp_all add: json_of_option_def optional_def)

end

text \<open>
  The contract of a type whose values are all written faithfully: what its reader answers is what
  is read back.
\<close>

locale json_codec = json_reader parse ok + json_printer parse print ok
  for parse :: "'a reader" and print :: "'a \<Rightarrow> json" and ok :: "'a \<Rightarrow> bool"

locale value_codec = json_reader parse ok + value_printer parse print ok
  for parse :: "'a reader" and print :: "'a \<Rightarrow> json" and ok :: "'a \<Rightarrow> bool"

sublocale value_codec \<subseteq> json_codec ..

context json_codec
begin

text \<open>A vector is never written as \<open>null\<close>, whatever its items are.\<close>

lemma nev_value_codec: "value_codec (nev_of_json parse) (json_of_nev print) (nev_all ok)"
  using nev_reader nev_printer
  by (simp add: value_codec_def value_printer_def value_printer_axioms_def json_of_nev_def json_of_vec_def)

end

context value_codec
begin

lemmas codec_ok = required_ok optional_ok

lemmas codec_iff = required_iff optional_iff optional_null_iff

lemma nev_codec: "value_codec (nev_of_json parse) (json_of_nev print) (nev_all ok)"
  by (rule nev_value_codec)

end

section \<open>The types of the standard library\<close>

interpretation string_json: value_codec as_str JString "\<lambda>_. True"
  by unfold_locales simp_all

interpretation bool_json: value_codec bool_of_json JBool "\<lambda>_. True"
  by unfold_locales simp_all

interpretation u64_json: value_codec u64_of_json json_of_u64 "\<lambda>_. True"
proof
  show "u64_of_json (json_of_u64 x) = Some x \<longleftrightarrow> True" for x
    using unsigned_less [of x] by (simp add: json_of_u64_def)
qed (simp_all add: json_of_u64_def)

interpretation strings_json: value_codec "nev_of_json as_str" "json_of_nev JString" nev_wf
  using string_json.nev_value_codec by (simp add: nev_all_True)

interpretation nested_json:
  value_codec "nev_of_json (nev_of_json as_str)" "json_of_nev (json_of_nev JString)" "nev_all nev_wf"
  by (rule strings_json.nev_value_codec)

end
