(* ===== verification/Dcql_Json.thy ===== *)
theory Dcql_Json
  imports Dcql Serde
begin

text \<open>
  The JSON form of a query, as \<open>serde\<close> derives it from the types of \<open>src/src/core/dcql.rs\<close>
  and the instances written there. The matcher of identifiers and base64 are foreign. What a query has
  to satisfy to be read back is \<open>dcql_json_wf\<close>, and that is what every query read from JSON satisfies.
\<close>

section \<open>Readers and writers\<close>

definition id_of_json :: "regex_new \<Rightarrow> dcql_id reader" where
  "id_of_json regex j = do { s \<leftarrow> as_str j; res_ok (id_new regex s) }"

definition designation_of_json :: "claim_format_designation reader" where
  "designation_of_json j = do { s \<leftarrow> as_str j; Some (designation_from_name s) }"

text \<open>The untagged enums try their variants in order; the unit variant is \<open>null\<close>.\<close>

fun path_value_of_json :: "path_value reader" where
  "path_value_of_json (JString s) = Some (PathString s)"
| "path_value_of_json (JNumber (PosInt n)) = (if n < 2 ^ 64 then Some (PathUsize n) else None)"
| "path_value_of_json JNull = Some PathNull"
| "path_value_of_json _ = None"

fun json_of_path_value :: "path_value \<Rightarrow> json" where
  "json_of_path_value (PathString s) = JString s"
| "json_of_path_value (PathUsize n) = JNumber (PosInt n)"
| "json_of_path_value PathNull = JNull"

fun value_type_of_json :: "value_type reader" where
  "value_type_of_json (JString s) = Some (ValString s)"
| "value_type_of_json (JBool x) = Some (ValBoolean x)"
| "value_type_of_json j = map_option ValInteger (u64_of_json j)"

fun json_of_value_type :: "value_type \<Rightarrow> json" where
  "json_of_value_type (ValString s) = JString s"
| "json_of_value_type (ValInteger n) = json_of_u64 n"
| "json_of_value_type (ValBoolean x) = JBool x"

definition claim_of_json :: "regex_new \<Rightarrow> dcql_claim reader" where
  "claim_of_json regex j = do {
     m \<leftarrow> struct_fields [''id'', ''path'', ''values''] j;
     i \<leftarrow> optional (id_of_json regex) (m ''id'');
     path \<leftarrow> required (nev_of_json path_value_of_json) (m ''path'');
     vs \<leftarrow> optional (nev_of_json value_type_of_json) (m ''values'');
     Some \<lparr>claim_id = i, claim_path = path, claim_values = vs\<rparr> }"

definition json_of_claim :: "dcql_claim \<Rightarrow> json" where
  "json_of_claim self = json_of_fields [
     opt_field ''id'' id_serialize (claim_id self),
     field ''path'' (json_of_nev json_of_path_value (claim_path self)),
     opt_field ''values'' (json_of_nev json_of_value_type) (claim_values self)]"

definition meta_of_json :: "dcql_meta reader" where
  "meta_of_json j = do {
     m \<leftarrow> struct_fields [''vct_values'', ''type_values'', ''doctype_value''] j;
     vct \<leftarrow> optional (nev_of_json as_str) (m ''vct_values'');
     types \<leftarrow> optional (nev_of_json (nev_of_json as_str)) (m ''type_values'');
     doctype \<leftarrow> optional as_str (m ''doctype_value'');
     Some \<lparr>vct_values = vct, type_values = types, doctype_value = doctype\<rparr> }"

definition json_of_meta :: "dcql_meta \<Rightarrow> json" where
  "json_of_meta self = json_of_fields [
     opt_field ''vct_values'' (json_of_nev JString) (vct_values self),
     opt_field ''type_values'' (json_of_nev (json_of_nev JString)) (type_values self),
     opt_field ''doctype_value'' JString (doctype_value self)]"

text \<open>A trusted authority is read and written through its raw form.\<close>

definition trusted_authority_of_json :: "base64 \<Rightarrow> trusted_authority reader" where
  "trusted_authority_of_json b j = do {
     m \<leftarrow> struct_fields [''type'', ''values''] j;
     t \<leftarrow> required as_str (m ''type'');
     vs \<leftarrow> required (nev_of_json as_str) (m ''values'');
     res_ok (trusted_authority_try_from b \<lparr>rta_type = t, rta_values = vs\<rparr>) }"

definition json_of_trusted_authority :: "trusted_authority \<Rightarrow> json" where
  "json_of_trusted_authority self =
     (let raw = raw_from_trusted_authority self
      in json_of_fields [field ''type'' (JString (rta_type raw)),
           field ''values'' (json_of_nev JString (rta_values raw))])"

definition credential_set_of_json :: "dcql_credential_set reader" where
  "credential_set_of_json j = do {
     m \<leftarrow> struct_fields [''options'', ''required''] j;
     os \<leftarrow> required (nev_of_json (nev_of_json as_str)) (m ''options'');
     r \<leftarrow> optional bool_of_json (m ''required'');
     Some \<lparr>set_options = os, set_required = r\<rparr> }"

definition json_of_credential_set :: "dcql_credential_set \<Rightarrow> json" where
  "json_of_credential_set self = json_of_fields [
     field ''options'' (json_of_nev (json_of_nev JString) (set_options self)),
     opt_field ''required'' JBool (set_required self)]"

definition credential_of_json :: "regex_new \<Rightarrow> base64 \<Rightarrow> dcql_credential reader" where
  "credential_of_json regex b j = do {
     m \<leftarrow> struct_fields [''id'', ''format'', ''meta'', ''multiple'', ''claims'', ''claim_sets'',
       ''require_cryptographic_holder_binding'', ''trusted_authorities''] j;
     i \<leftarrow> required (id_of_json regex) (m ''id'');
     format \<leftarrow> required designation_of_json (m ''format'');
     meta \<leftarrow> required meta_of_json (m ''meta'');
     multiple \<leftarrow> optional bool_of_json (m ''multiple'');
     claims \<leftarrow> optional (nev_of_json (claim_of_json regex)) (m ''claims'');
     sets \<leftarrow> optional (nev_of_json (nev_of_json as_str)) (m ''claim_sets'');
     binding \<leftarrow> optional bool_of_json (m ''require_cryptographic_holder_binding'');
     authorities \<leftarrow> optional (nev_of_json (trusted_authority_of_json b)) (m ''trusted_authorities'');
     Some \<lparr>cred_id = i, cred_format = format, cred_meta = meta, cred_multiple = multiple,
       cred_claims = claims, cred_claim_sets = sets, cred_require_cryptographic_holder_binding = binding,
       cred_trusted_authorities = authorities\<rparr> }"

definition json_of_credential :: "dcql_credential \<Rightarrow> json" where
  "json_of_credential self = json_of_fields [
     field ''id'' (id_serialize (cred_id self)),
     field ''format'' (designation_serialize (cred_format self)),
     field ''meta'' (json_of_meta (cred_meta self)),
     opt_field ''multiple'' JBool (cred_multiple self),
     opt_field ''claims'' (json_of_nev json_of_claim) (cred_claims self),
     opt_field ''claim_sets'' (json_of_nev (json_of_nev JString)) (cred_claim_sets self),
     opt_field ''require_cryptographic_holder_binding'' JBool
       (cred_require_cryptographic_holder_binding self),
     opt_field ''trusted_authorities'' (json_of_nev json_of_trusted_authority) (cred_trusted_authorities self)]"

definition dcql_of_json :: "regex_new \<Rightarrow> base64 \<Rightarrow> dcql reader" where
  "dcql_of_json regex b j = do {
     m \<leftarrow> struct_fields [''credentials'', ''credential_sets''] j;
     cs \<leftarrow> required (nev_of_json (credential_of_json regex b)) (m ''credentials'');
     sets \<leftarrow> optional (nev_of_json credential_set_of_json) (m ''credential_sets'');
     Some \<lparr>dcql_credentials = cs, dcql_credential_sets = sets\<rparr> }"

definition json_of_dcql :: "dcql \<Rightarrow> json" where
  "json_of_dcql self = json_of_fields [
     field ''credentials'' (json_of_nev json_of_credential (dcql_credentials self)),
     opt_field ''credential_sets'' (json_of_nev json_of_credential_set) (dcql_credential_sets self)]"

section \<open>What can be read back\<close>

definition id_ok :: "dcql_id \<Rightarrow> bool" where
  "id_ok i \<longleftrightarrow> id_valid (id_as_str i)"

fun path_value_ok :: "path_value \<Rightarrow> bool" where
  "path_value_ok (PathUsize n) \<longleftrightarrow> n < 2 ^ 64"
| "path_value_ok _ \<longleftrightarrow> True"

definition claim_json_wf :: "dcql_claim \<Rightarrow> bool" where
  "claim_json_wf c \<longleftrightarrow> pred_option id_ok (claim_id c) \<and> nev_all path_value_ok (claim_path c) \<and>
     pred_option nev_wf (claim_values c)"

definition credential_json_wf :: "base64 \<Rightarrow> dcql_credential \<Rightarrow> bool" where
  "credential_json_wf b c \<longleftrightarrow>
     id_ok (cred_id c) \<and> designation_wf (cred_format c) \<and> meta_wf (cred_meta c) \<and>
     pred_option (nev_all claim_json_wf) (cred_claims c) \<and>
     pred_option nested_wf (cred_claim_sets c) \<and>
     pred_option (nev_all (trusted_authority_wf b)) (cred_trusted_authorities c)"

definition dcql_json_wf :: "base64 \<Rightarrow> dcql \<Rightarrow> bool" where
  "dcql_json_wf b q \<longleftrightarrow>
     nev_all (credential_json_wf b) (dcql_credentials q) \<and>
     pred_option (nev_all (\<lambda>s. nested_wf (set_options s))) (dcql_credential_sets q)"

lemma nested_wf_all: "nested_wf = nev_all nev_wf"
  by (simp add: fun_eq_iff nested_wf_def nev_all_def)

section \<open>Every type is read back\<close>

lemma id_codec: "id_regex_ok rx \<Longrightarrow> value_codec (id_of_json rx) id_serialize id_ok"
  by unfold_locales
    (auto simp: id_of_json_def bind_eq_Some_conv id_serialize_def id_ok_def id_new_Inr_iff res_simps)

interpretation designation_json: value_codec designation_of_json designation_serialize designation_wf
  by unfold_locales
    (auto simp: designation_of_json_def designation_serialize_def designation_wf_from_name
      designation_from_name_name bind_eq_Some_conv)

interpretation path_value_json: json_codec path_value_of_json json_of_path_value path_value_ok
proof
  show "path_value_ok x" if "path_value_of_json j = Some x" for j x
    using that by (cases j rule: path_value_of_json.cases) (auto split: if_splits)
  show "path_value_of_json (json_of_path_value x) = Some x \<longleftrightarrow> path_value_ok x" for x
    by (cases x) simp_all
qed

interpretation value_type_json: value_codec value_type_of_json json_of_value_type "\<lambda>_. True"
proof
  show "value_type_of_json (json_of_value_type x) = Some x \<longleftrightarrow> True" for x
    using u64_json.parse_print_iff by (cases x) (auto simp: json_of_u64_def)
  show "json_of_value_type x \<noteq> JNull" for x
    by (cases x) (simp_all add: json_of_u64_def)
qed simp

interpretation meta_json: value_codec meta_of_json json_of_meta meta_wf
proof
  show "meta_wf x" if "meta_of_json j = Some x" for j x
    using that by (auto simp: meta_of_json_def bind_eq_Some_conv meta_wf_def nested_wf_all
        dest: strings_json.optional_ok nested_json.optional_ok)
  show "meta_of_json (json_of_meta x) = Some x \<longleftrightarrow> meta_wf x" for x
    by (cases x) (simp add: meta_of_json_def json_of_meta_def meta_wf_def nested_wf_all
        bind_eq_Some_conv strings_json.optional_iff nested_json.optional_iff string_json.optional_iff)
qed (simp add: json_of_meta_def)

interpretation credential_set_json:
  value_codec credential_set_of_json json_of_credential_set "\<lambda>s. nested_wf (set_options s)"
proof
  show "nested_wf (set_options x)" if "credential_set_of_json j = Some x" for j x
    using that by (auto simp: credential_set_of_json_def bind_eq_Some_conv nested_wf_all
        dest: nested_json.required_ok)
  show "credential_set_of_json (json_of_credential_set x) = Some x \<longleftrightarrow> nested_wf (set_options x)" for x
    by (cases x) (simp add: credential_set_of_json_def json_of_credential_set_def nested_wf_all
        bind_eq_Some_conv nested_json.required_iff bool_json.optional_iff)
qed (simp add: json_of_credential_set_def)

lemma trusted_authority_codec:
  "value_codec (trusted_authority_of_json b) json_of_trusted_authority (trusted_authority_wf b)"
proof
  show "trusted_authority_wf b x" if j: "trusted_authority_of_json b j = Some x" for j x
  proof -
    obtain t vs where "nev_wf vs" "trusted_authority_try_from b \<lparr>rta_type = t, rta_values = vs\<rparr> = Inr x"
      using j by (auto simp: trusted_authority_of_json_def bind_eq_Some_conv res_ok_Some_iff
          dest: strings_json.required_ok)
    then show ?thesis
      using trusted_authority_try_from_raw [of "\<lparr>rta_type = t, rta_values = vs\<rparr>"] by simp
  qed
  show "trusted_authority_of_json b (json_of_trusted_authority x) = Some x \<longleftrightarrow> trusted_authority_wf b x" for x
  proof -
    obtain t vs where raw: "raw_from_trusted_authority x = \<lparr>rta_type = t, rta_values = vs\<rparr>"
      by (cases "raw_from_trusted_authority x") simp
    have "required (nev_of_json as_str) (Some (json_of_nev JString vs)) = Some v \<longleftrightarrow> v = vs \<and> nev_wf vs" for v
    proof -
      have "vec_of_json as_str (json_of_vec JString xs) = Some xs" for xs
        using json_printer.parse_print_iff [OF string_json.vec_printer] by (simp add: list_all_iff)
      then show ?thesis
        by (cases vs) (auto simp: required_def nev_of_json_def json_of_nev_def nev_maybe_new_Some_iff
            bind_eq_Some_conv)
    qed
    then have "trusted_authority_of_json b (json_of_trusted_authority x) = Some x \<longleftrightarrow>
        nev_wf vs \<and> trusted_authority_try_from b (raw_from_trusted_authority x) = Inr x"
      by (simp add: trusted_authority_of_json_def json_of_trusted_authority_def Let_def raw
          bind_eq_Some_conv string_json.required_iff required_def res_ok_Some_iff)
    moreover have "nev_wf vs" if "trusted_authority_wf b x"
      using raw that by (cases x) (auto simp: nev_map_def nev_wf_def)
    ultimately show ?thesis
      using trusted_authority_try_from_wf [of b x] trusted_authority_try_from_raw [of "raw_from_trusted_authority x" b x]
      by (auto simp: raw)
  qed
qed (simp add: json_of_trusted_authority_def Let_def)

lemma claim_codec:
  assumes "id_regex_ok rx"
  shows "value_codec (claim_of_json rx) json_of_claim claim_json_wf"
proof -
  note id = id_codec [OF assms]
  note path = path_value_json.nev_value_codec and vals = value_type_json.nev_value_codec
  show ?thesis
  proof
    show "claim_json_wf x" if "claim_of_json rx j = Some x" for j x
      using that by (auto simp: claim_of_json_def bind_eq_Some_conv claim_json_wf_def
          dest: value_codec.codec_ok [OF id] value_codec.codec_ok [OF path] value_codec.codec_ok [OF vals])
    show "claim_of_json rx (json_of_claim x) = Some x \<longleftrightarrow> claim_json_wf x" for x
      by (cases x) (simp add: claim_of_json_def json_of_claim_def claim_json_wf_def bind_eq_Some_conv
          value_codec.codec_iff [OF id]
          value_codec.codec_iff [OF vals]
          value_codec.codec_iff [OF path])
  qed (simp add: json_of_claim_def)
qed

lemma credential_codec:
  assumes "id_regex_ok rx"
  shows "value_codec (credential_of_json rx b) json_of_credential (credential_json_wf b)"
proof -
  note id = id_codec [OF assms]
  note claims = value_codec.nev_codec [OF claim_codec [OF assms]]
  note auths = value_codec.nev_codec [OF trusted_authority_codec]
  show ?thesis
  proof
    show "credential_json_wf b x" if "credential_of_json rx b j = Some x" for j x
      using that by (auto simp: credential_of_json_def bind_eq_Some_conv credential_json_wf_def nested_wf_all
          dest: value_codec.codec_ok [OF id] value_codec.codec_ok [OF claims] value_codec.codec_ok [OF auths]
            designation_json.required_ok meta_json.required_ok nested_json.optional_ok)
    show "credential_of_json rx b (json_of_credential x) = Some x \<longleftrightarrow> credential_json_wf b x" for x
      by (cases x) (simp add: credential_of_json_def json_of_credential_def credential_json_wf_def
          nested_wf_all bind_eq_Some_conv designation_json.required_iff meta_json.required_iff
          nested_json.optional_iff bool_json.optional_iff
          value_codec.codec_iff [OF claims]
          value_codec.codec_iff [OF auths]
          value_codec.codec_iff [OF id])
  qed (simp add: json_of_credential_def)
qed

lemma dcql_codec:
  assumes "id_regex_ok rx"
  shows "value_codec (dcql_of_json rx b) json_of_dcql (dcql_json_wf b)"
proof -
  note creds = value_codec.nev_codec [OF credential_codec [OF assms]]
  note sets = credential_set_json.nev_value_codec
  show ?thesis
  proof
    show "dcql_json_wf b x" if "dcql_of_json rx b j = Some x" for j x
      using that by (auto simp: dcql_of_json_def bind_eq_Some_conv dcql_json_wf_def
          dest: value_codec.codec_ok [OF creds] value_codec.codec_ok [OF sets])
    show "dcql_of_json rx b (json_of_dcql x) = Some x \<longleftrightarrow> dcql_json_wf b x" for x
      by (cases x) (simp add: dcql_of_json_def json_of_dcql_def dcql_json_wf_def bind_eq_Some_conv
          value_codec.codec_iff [OF sets]
          value_codec.codec_iff [OF creds])
  qed (simp add: json_of_dcql_def)
qed

text \<open>
  The dictionaries of a library whose query type is read and written by the derived instances.
\<close>

definition derived_dcql :: "regex_new \<Rightarrow> base64 \<Rightarrow> dcql deserialize \<Rightarrow> dcql serialize \<Rightarrow> bool" where
  "derived_dcql regex b de ser \<longleftrightarrow>
     (\<forall>j. res_ok (from_value de j) = dcql_of_json regex b j) \<and>
     (\<forall>q. to_value ser q = Inr (json_of_dcql q))"

text \<open>A written query is an object, so the parameter reads it as a value.\<close>

lemma dcql_param_reads_back:
  assumes "id_regex_ok regex" and "derived_dcql regex b de ser"
  shows "try_into_json (dcql_param de ser) q = Inr (json_of_dcql q)"
    and "try_from_json (dcql_param de ser) (json_of_dcql q) = Inr q \<longleftrightarrow> dcql_json_wf b q"
proof -
  have "from_string_or_value de (json_of_dcql q) = from_value de (json_of_dcql q)"
    by (simp add: from_string_or_value_def json_of_dcql_def json_of_fields_def)
  moreover have "from_value de (json_of_dcql q) = Inr q \<longleftrightarrow> dcql_of_json regex b (json_of_dcql q) = Some q"
    using assms(2) by (metis derived_dcql_def res_ok_Some_iff)
  moreover have "\<dots> \<longleftrightarrow> dcql_json_wf b q"
    using value_codec.axioms(2) [OF dcql_codec [OF assms(1)]]
    by (auto simp: value_printer_def json_printer_def)
  ultimately show "try_from_json (dcql_param de ser) (json_of_dcql q) = Inr q \<longleftrightarrow> dcql_json_wf b q"
    by (simp add: dcql_param_def)
  show "try_into_json (dcql_param de ser) q = Inr (json_of_dcql q)"
    using assms(2) by (simp add: dcql_param_def derived_dcql_def)
qed

text \<open>The builders of the crate keep it.\<close>

lemma dcql_json_wf_builders:
  "nev_all (credential_json_wf b) cs \<Longrightarrow> dcql_json_wf b (dcql_new cs)"
  "dcql_json_wf b q \<Longrightarrow> credential_json_wf b c \<Longrightarrow> dcql_json_wf b (dcql_add_credential c q)"
  "dcql_json_wf b q \<Longrightarrow> nested_wf (set_options s) \<Longrightarrow> dcql_json_wf b (dcql_add_credential_set s q)"
  by (auto simp: dcql_json_wf_def nev_all_def dcql_new_def dcql_add_credential_def
      dcql_add_credential_set_def split: option.split)

lemma credential_json_wf_builders:
  "id_ok i \<Longrightarrow> designation_wf f \<Longrightarrow> meta_wf m \<Longrightarrow> credential_json_wf b (credential_new i f m)"
  "credential_json_wf b c \<Longrightarrow> claim_json_wf cl \<Longrightarrow> credential_json_wf b (credential_add_claim cl c)"
  "credential_json_wf b c \<Longrightarrow> nev_wf cs \<Longrightarrow> credential_json_wf b (credential_add_claim_set cs c)"
  "credential_json_wf b c \<Longrightarrow> nev_all (trusted_authority_wf b) ta \<Longrightarrow>
     credential_json_wf b (credential_set_trusted_authorities ta c)"
  by (auto simp: credential_json_wf_def nev_all_def nested_wf_def credential_new_def credential_add_claim_def
      credential_add_claim_set_def credential_set_trusted_authorities_def split: option.split)

lemma claim_json_wf_builders:
  "nev_all path_value_ok p \<Longrightarrow> claim_json_wf (claim_new p)"
  "claim_json_wf c \<Longrightarrow> id_ok i \<Longrightarrow> claim_json_wf (claim_set_id i c)"
  "claim_json_wf c \<Longrightarrow> nev_wf vs \<Longrightarrow> claim_json_wf (claim_set_values vs c)"
  by (simp_all add: claim_json_wf_def claim_new_def claim_set_id_def claim_set_values_def)

section \<open>Properties\<close>

text \<open>
  C19: queries survive JSON. A query that was read from JSON satisfies the invariants of its types:
  valid identifiers, no empty vector at any depth, and key identifiers that decode. And a query that
  satisfies them, in whatever way it was built, is read back as it is from the JSON that is written for it.
\<close>

theorem query_json_round_trip:
  assumes "id_regex_ok regex"
  shows "(dcql_of_json regex b j = Some q \<longrightarrow> dcql_json_wf b q) \<and>
    (dcql_of_json regex b (json_of_dcql q) = Some q \<longleftrightarrow> dcql_json_wf b q)"
  using dcql_codec [OF assms, of b]
  by (auto simp: value_codec_def json_reader_def value_printer_def json_printer_def)

definition ex_claim :: dcql_claim where
  "ex_claim = claim_set_id (ID ''age'')
     (claim_new (nev_push (nev_new (PathString ''ages'')) (PathUsize 18)))"

definition ex_credential :: dcql_credential where
  "ex_credential =
     credential_set_trusted_authorities (nev_new (Aki (nev_new (KeyIdentifier ''EB'' ''A''))))
       (credential_add_claim ex_claim
         (credential_new (ID ''pid'') SdJwtVc (meta_set_vct_values (nev_new ''eu.pid'') meta_new)))"

definition ex_claims_dcql :: dcql where
  "ex_claims_dcql = dcql_add_credential_set (credential_set_new (nev_new (nev_new ''pid'')))
     (dcql_new (nev_new ex_credential))"

lemma ex_claims_dcql_wf: "dcql_json_wf hex64 ex_claims_dcql"
proof -
  have ids: "id_ok (ID ''pid'')" "id_ok (ID ''age'')" by code_simp+
  have aki: "trusted_authority_wf hex64 (Aki (nev_new (KeyIdentifier ''EB'' ''A'')))" by code_simp
  have "claim_json_wf ex_claim"
    using ids(2) unfolding ex_claim_def by (intro claim_json_wf_builders) (simp_all add: nev_all_def)
  moreover have "designation_wf SdJwtVc" by (simp add: designation_wf_def)
  moreover have "meta_wf (meta_set_vct_values (nev_new ''eu.pid'') meta_new)"
    by (intro meta_wf_builders) simp
  ultimately have "credential_json_wf hex64 ex_credential"
    using ids(1) aki unfolding ex_credential_def
    by (intro credential_json_wf_builders) (simp_all add: nev_all_def)
  then show ?thesis unfolding ex_claims_dcql_def
    by (intro dcql_json_wf_builders) (simp_all add: nev_all_def nested_wf_def credential_set_new_def)
qed

lemma query_json_round_trip_witness:
  "dcql_of_json (\<lambda>p. Inr id_valid) hex64 (json_of_dcql ex_claims_dcql) = Some ex_claims_dcql"
proof -
  have rx: "id_regex_ok (\<lambda>p. Inr id_valid)" by (simp add: id_regex_ok_def)
  from query_json_round_trip [OF rx] ex_claims_dcql_wf show ?thesis by blast
qed

end
