(* ===== verification/Definition_Json.thy ===== *)
theory Definition_Json
  imports Presentation_Definition Serde
begin

text \<open>
  The JSON form of a presentation definition and its input descriptors, as \<open>serde\<close> derives it from
  \<open>src/src/core/presentation_definition.rs\<close>, \<open>input_descriptor.rs\<close> and
  \<open>credential_format/mod.rs\<close>. Foreign are: parsing and printing JSON paths and compiling schemas. How
  submission requirements are read is an argument here. The order in which a hash map of formats is kept here is the one of
  its keys.
\<close>

section \<open>Enums and formats\<close>

text \<open>An enum of unit variants: the name of a variant, or an object that maps it to \<open>null\<close>.\<close>

fun unit_enum_of_json :: "(string \<times> 'a) list \<Rightarrow> 'a reader" where
  "unit_enum_of_json variants (JString s) = map_of variants s"
| "unit_enum_of_json variants (JObject [(k, JNull)]) = map_of variants k"
| "unit_enum_of_json variants _ = None"

definition predicate_of_json :: "predicate reader" where
  "predicate_of_json = unit_enum_of_json [(''required'', PredicateRequired), (''preferred'', PredicatePreferred)]"

fun json_of_predicate :: "predicate \<Rightarrow> json" where
  "json_of_predicate PredicateRequired = JString ''required''"
| "json_of_predicate PredicatePreferred = JString ''preferred''"

definition disclosure_of_json :: "constraints_limit_disclosure reader" where
  "disclosure_of_json =
     unit_enum_of_json [(''required'', DisclosureRequired), (''preferred'', DisclosurePreferred)]"

fun json_of_disclosure :: "constraints_limit_disclosure \<Rightarrow> json" where
  "json_of_disclosure DisclosureRequired = JString ''required''"
| "json_of_disclosure DisclosurePreferred = JString ''preferred''"

text \<open>
  A payload is an object with the name of its variant; failing that, the two untagged variants are
  tried, and the last of them takes any value.
\<close>

definition tagged_payload_of_json :: "claim_format_payload reader" where
  "tagged_payload_of_json j =
     (case j of
        JObject [(k, v)] \<Rightarrow>
          (if k = ''alg'' then map_option Alg (vec_of_json as_str v)
           else if k = ''alg_values_supported'' then map_option AlgValuesSupported (vec_of_json as_str v)
           else if k = ''proof_type'' then map_option ProofType (vec_of_json as_str v)
           else None)
      | _ \<Rightarrow> None)"

definition sd_jwt_payload_of_json :: "claim_format_payload reader" where
  "sd_jwt_payload_of_json j = do {
     m \<leftarrow> struct_fields [''sd-jwt_alg_values'', ''kb-jwt_alg_values''] j;
     sd \<leftarrow> required (vec_of_json as_str) (m ''sd-jwt_alg_values'');
     kb \<leftarrow> required (vec_of_json as_str) (m ''kb-jwt_alg_values'');
     Some (SdJwtAlgValues sd kb) }"

definition payload_of_json :: "json \<Rightarrow> claim_format_payload" where
  "payload_of_json j =
     (case tagged_payload_of_json j of
        Some p \<Rightarrow> p
      | None \<Rightarrow> (case sd_jwt_payload_of_json j of Some p \<Rightarrow> p | None \<Rightarrow> PayloadJson j))"

fun json_of_payload :: "claim_format_payload \<Rightarrow> json" where
  "json_of_payload (Alg algs) = JObject [(''alg'', json_of_vec JString algs)]"
| "json_of_payload (AlgValuesSupported algs) = JObject [(''alg_values_supported'', json_of_vec JString algs)]"
| "json_of_payload (ProofType proofs) = JObject [(''proof_type'', json_of_vec JString proofs)]"
| "json_of_payload (SdJwtAlgValues sd kb) = json_of_fields [
     field ''sd-jwt_alg_values'' (json_of_vec JString sd),
     field ''kb-jwt_alg_values'' (json_of_vec JString kb)]"
| "json_of_payload (PayloadJson j) = j"

fun format_map_of_json :: "claim_format_map reader" where
  "format_map_of_json (JObject m) =
     Some (map (\<lambda>(k, j). (designation_from_name k, payload_of_json j)) (bt_of_list m))"
| "format_map_of_json _ = None"

definition json_of_format_map :: "claim_format_map \<Rightarrow> json" where
  "json_of_format_map m = JObject (bt_of_list (map (\<lambda>(d, p). (designation_name d, json_of_payload p)) m))"

section \<open>Descriptors\<close>

text \<open>\<open>JsonPath\<close> reads and prints its text.\<close>

record path_lib =
  path_parse :: "string \<Rightarrow> json_path option"
  path_print :: "json_path \<Rightarrow> string"

definition path_lib_ok :: "path_lib \<Rightarrow> bool" where
  "path_lib_ok P \<longleftrightarrow> (\<forall>p. path_parse P (path_print P p) = Some p)"

definition path_of_json :: "path_lib \<Rightarrow> json_path reader" where
  "path_of_json P j = do { s \<leftarrow> as_str j; path_parse P s }"

definition json_of_path :: "path_lib \<Rightarrow> json_path \<Rightarrow> json" where
  "json_of_path P p = JString (path_print P p)"

definition schema_of_json :: "eval \<Rightarrow> compiled_json_schema reader" where
  "schema_of_json ev j = res_ok (schema_deserialize ev j)"

definition field_of_json :: "path_lib \<Rightarrow> eval \<Rightarrow> constraints_field reader" where
  "field_of_json P ev j = do {
     m \<leftarrow> struct_fields_from 7 [''id'', ''name'', ''purpose'', ''path'', ''optional'', ''filter'',
       ''predicate'', ''intent_to_retain''] j;
     i \<leftarrow> optional as_str (m ''id'');
     name \<leftarrow> optional as_str (m ''name'');
     purpose \<leftarrow> optional as_str (m ''purpose'');
     path \<leftarrow> required (nev_of_json (path_of_json P)) (m ''path'');
     opt \<leftarrow> optional bool_of_json (m ''optional'');
     filt \<leftarrow> optional (schema_of_json ev) (m ''filter'');
     pred \<leftarrow> optional predicate_of_json (m ''predicate'');
     retain \<leftarrow> defaulted False bool_of_json (m ''intent_to_retain'');
     Some \<lparr>field_id = i, field_name = name, field_purpose = purpose, field_path = path,
       field_optional = opt, field_filter = filt, field_predicate = pred,
       field_intent_to_retain = retain\<rparr> }"

definition json_of_field :: "path_lib \<Rightarrow> constraints_field \<Rightarrow> json" where
  "json_of_field P self = json_of_fields [
     opt_field ''id'' JString (field_id self),
     opt_field ''name'' JString (field_name self),
     opt_field ''purpose'' JString (field_purpose self),
     field ''path'' (json_of_nev (json_of_path P) (field_path self)),
     opt_field ''optional'' JBool (field_optional self),
     opt_field ''filter'' schema_raw (field_filter self),
     field ''predicate'' (json_of_option json_of_predicate (field_predicate self)),
     field ''intent_to_retain'' (JBool (field_intent_to_retain self))]"

text \<open>The fields are left out when there are none, and required when read.\<close>

definition constraints_of_json :: "path_lib \<Rightarrow> eval \<Rightarrow> constraints reader" where
  "constraints_of_json P ev j = do {
     m \<leftarrow> struct_fields [''fields'', ''limit_disclosure''] j;
     fs \<leftarrow> required (vec_of_json (field_of_json P ev)) (m ''fields'');
     limit \<leftarrow> optional disclosure_of_json (m ''limit_disclosure'');
     Some \<lparr>con_fields = fs, con_limit_disclosure = limit\<rparr> }"

definition json_of_constraints :: "path_lib \<Rightarrow> constraints \<Rightarrow> json" where
  "json_of_constraints P self = json_of_fields [
     skip_field (con_fields self = []) ''fields'' (json_of_vec (json_of_field P) (con_fields self)),
     opt_field ''limit_disclosure'' json_of_disclosure (con_limit_disclosure self)]"

definition descriptor_of_json :: "path_lib \<Rightarrow> eval \<Rightarrow> input_descriptor reader" where
  "descriptor_of_json P ev j = do {
     m \<leftarrow> struct_fields_from 4 [''id'', ''constraints'', ''name'', ''purpose'', ''format'', ''group''] j;
     i \<leftarrow> required as_str (m ''id'');
     cs \<leftarrow> defaulted constraints_new (constraints_of_json P ev) (m ''constraints'');
     name \<leftarrow> optional as_str (m ''name'');
     purpose \<leftarrow> optional as_str (m ''purpose'');
     format \<leftarrow> defaulted [] format_map_of_json (m ''format'');
     groups \<leftarrow> defaulted [] (vec_of_json as_str) (m ''group'');
     Some \<lparr>desc_id = i, desc_constraints = cs, desc_name = name, desc_purpose = purpose,
       desc_format = format, desc_groups = groups\<rparr> }"

definition json_of_descriptor :: "path_lib \<Rightarrow> input_descriptor \<Rightarrow> json" where
  "json_of_descriptor P self = json_of_fields [
     field ''id'' (JString (desc_id self)),
     field ''constraints'' (json_of_constraints P (desc_constraints self)),
     opt_field ''name'' JString (desc_name self),
     opt_field ''purpose'' JString (desc_purpose self),
     skip_field (desc_format self = []) ''format'' (json_of_format_map (desc_format self)),
     skip_field (desc_groups self = []) ''group'' (json_of_vec JString (desc_groups self))]"

section \<open>Definitions\<close>

definition definition_of_json ::
  "path_lib \<Rightarrow> eval \<Rightarrow> submission_requirement reader \<Rightarrow> presentation_definition reader" where
  "definition_of_json P ev requirement_of_json j = do {
     m \<leftarrow> struct_fields_from 5 [''id'', ''input_descriptors'', ''submission_requirements'', ''name'',
       ''purpose'', ''format''] j;
     i \<leftarrow> required as_str (m ''id'');
     ds \<leftarrow> required (vec_of_json (descriptor_of_json P ev)) (m ''input_descriptors'');
     rs \<leftarrow> optional (vec_of_json requirement_of_json) (m ''submission_requirements'');
     name \<leftarrow> optional as_str (m ''name'');
     purpose \<leftarrow> optional as_str (m ''purpose'');
     format \<leftarrow> defaulted [] format_map_of_json (m ''format'');
     Some \<lparr>pd_id = i, pd_input_descriptors = ds, pd_submission_requirements = rs, pd_name = name,
       pd_purpose = purpose, pd_format = format\<rparr> }"

definition json_of_definition ::
  "path_lib \<Rightarrow> (submission_requirement \<Rightarrow> json) \<Rightarrow> presentation_definition \<Rightarrow> json" where
  "json_of_definition P json_of_requirement self = json_of_fields [
     field ''id'' (JString (pd_id self)),
     field ''input_descriptors'' (json_of_vec (json_of_descriptor P) (pd_input_descriptors self)),
     opt_field ''submission_requirements'' (json_of_vec json_of_requirement) (pd_submission_requirements self),
     opt_field ''name'' JString (pd_name self),
     opt_field ''purpose'' JString (pd_purpose self),
     skip_field (pd_format self = []) ''format'' (json_of_format_map (pd_format self))]"

section \<open>What can be read back\<close>

definition payload_ok :: "claim_format_payload \<Rightarrow> bool" where
  "payload_ok p \<longleftrightarrow> (case p of PayloadJson j \<Rightarrow> payload_of_json j = p | _ \<Rightarrow> True)"

definition format_map_ok :: "claim_format_map \<Rightarrow> bool" where
  "format_map_ok m \<longleftrightarrow> bt_wf (map (\<lambda>(d, p). (designation_name d, p)) m) \<and>
     list_all (\<lambda>(d, p). designation_wf d \<and> payload_ok p) m"

definition schema_ok :: "eval \<Rightarrow> compiled_json_schema \<Rightarrow> bool" where
  "schema_ok ev s \<longleftrightarrow> schema_compile ev (schema_raw s) = Inr () \<and> schema_raw s \<noteq> JNull"

definition field_ok :: "eval \<Rightarrow> constraints_field \<Rightarrow> bool" where
  "field_ok ev f \<longleftrightarrow> nev_wf (field_path f) \<and> pred_option (schema_ok ev) (field_filter f)"

definition constraints_ok :: "eval \<Rightarrow> constraints \<Rightarrow> bool" where
  "constraints_ok ev c \<longleftrightarrow> list_all (field_ok ev) (con_fields c)"

definition descriptor_ok :: "eval \<Rightarrow> input_descriptor \<Rightarrow> bool" where
  "descriptor_ok ev d \<longleftrightarrow> constraints_ok ev (desc_constraints d) \<and> format_map_ok (desc_format d)"

definition definition_ok ::
  "eval \<Rightarrow> (submission_requirement \<Rightarrow> bool) \<Rightarrow> presentation_definition \<Rightarrow> bool" where
  "definition_ok ev requirement_ok d \<longleftrightarrow>
     list_all (descriptor_ok ev) (pd_input_descriptors d) \<and>
     pred_option (list_all requirement_ok) (pd_submission_requirements d) \<and> format_map_ok (pd_format d)"

text \<open>The constraints of a descriptor have to hold a field to be read back.\<close>

definition has_fields :: "input_descriptor \<Rightarrow> bool" where
  "has_fields d \<longleftrightarrow> con_fields (desc_constraints d) \<noteq> []"

section \<open>Every type is read back\<close>

interpretation predicate_json: value_codec predicate_of_json json_of_predicate "\<lambda>_. True"
proof
  show "predicate_of_json (json_of_predicate x) = Some x \<longleftrightarrow> True" for x
    by (cases x) (simp_all add: predicate_of_json_def)
  show "json_of_predicate x \<noteq> JNull" for x by (cases x) simp_all
qed simp

interpretation disclosure_json: value_codec disclosure_of_json json_of_disclosure "\<lambda>_. True"
proof
  show "disclosure_of_json (json_of_disclosure x) = Some x \<longleftrightarrow> True" for x
    by (cases x) (simp_all add: disclosure_of_json_def)
  show "json_of_disclosure x \<noteq> JNull" for x by (cases x) simp_all
qed simp

lemma texts_parse_print: "vec_of_json as_str (json_of_vec JString xs) = Some xs"
  using json_printer.parse_print_iff [OF string_json.vec_printer] by (simp add: list_all_iff)

lemma payload_of_json_Json: "payload_of_json j = PayloadJson j' \<Longrightarrow> j' = j"
  by (auto simp: payload_of_json_def tagged_payload_of_json_def sd_jwt_payload_of_json_def bind_eq_Some_conv
      split: option.splits json.splits list.splits prod.splits if_splits)

lemma payload_parse_print: "payload_of_json (json_of_payload p) = p \<longleftrightarrow> payload_ok p"
proof (cases p)
  case (SdJwtAlgValues sd kb)
  have "tagged_payload_of_json (json_of_payload p) = None"
    by (simp add: SdJwtAlgValues tagged_payload_of_json_def json_of_fields_def field_def bt_of_list_def)
  then show ?thesis
    by (simp add: SdJwtAlgValues payload_of_json_def sd_jwt_payload_of_json_def payload_ok_def
        required_def texts_parse_print)
qed (auto simp: payload_of_json_def tagged_payload_of_json_def texts_parse_print payload_ok_def)

lemma payload_ok_parsed: "payload_ok (payload_of_json j)"
  using payload_of_json_Json [of j] by (auto simp: payload_ok_def split: claim_format_payload.split)

lemma bt_wf_keys: "map fst m = map fst n \<Longrightarrow> bt_wf m = bt_wf n"
  by (simp add: bt_wf_def bt_keys_def)

interpretation format_map_json: json_codec format_map_of_json json_of_format_map format_map_ok
proof
  show ok: "format_map_ok m" if "format_map_of_json j = Some m" for j m
  proof (cases j)
    case (JObject kvs)
    with that have m: "m = map (\<lambda>(k, j). (designation_from_name k, payload_of_json j)) (bt_of_list kvs)"
      by simp
    have "map fst (map (\<lambda>(d, p). (designation_name d, p)) m) = map fst (bt_of_list kvs)"
      by (simp add: m split_beta designation_name_from_name)
    from bt_wf_keys [OF this] have "bt_wf (map (\<lambda>(d, p). (designation_name d, p)) m)" by simp
    moreover have "list_all (\<lambda>(d, p). designation_wf d \<and> payload_ok p) m"
      by (auto simp: m list_all_iff designation_wf_from_name payload_ok_parsed)
    ultimately show ?thesis by (simp add: format_map_ok_def)
  qed (use that in simp_all)
  show "format_map_of_json (json_of_format_map m) = Some m \<longleftrightarrow> format_map_ok m" for m
  proof
    assume "format_map_ok m"
    then have wf: "bt_wf (map (\<lambda>(d, p). (designation_name d, json_of_payload p)) m)"
      and all: "\<forall>(d, p) \<in> set m. designation_wf d \<and> payload_ok p"
      by (auto simp: format_map_ok_def list_all_iff bt_wf_def bt_keys_def split_beta comp_def)
    from all have "map (\<lambda>(k, j). (designation_from_name k, payload_of_json j))
        (map (\<lambda>(d, p). (designation_name d, json_of_payload p)) m) = m"
      by (intro map_idI [of m, THEN trans [rotated]])
        (auto simp: designation_from_name_name payload_parse_print intro!: map_cong)
    with wf show "format_map_of_json (json_of_format_map m) = Some m"
      by (simp add: json_of_format_map_def bt_of_list_same)
  qed (rule ok)
qed

lemma format_map_ok_Nil [simp]: "format_map_ok []"
  by (simp add: format_map_ok_def bt_wf_def bt_keys_def)

lemma path_codec: "path_lib_ok P \<Longrightarrow> value_codec (path_of_json P) (json_of_path P) (\<lambda>_. True)"
  by unfold_locales (simp_all add: path_of_json_def json_of_path_def path_lib_ok_def)

lemma schema_of_json_iff:
  "schema_of_json ev j = Some s \<longleftrightarrow> s = CompiledJsonSchema j \<and> schema_compile ev j = Inr ()"
  by (auto simp: schema_of_json_def schema_deserialize_def res_simps)

lemma schema_optional_ok: "optional (schema_of_json ev) member = Some x \<Longrightarrow> pred_option (schema_ok ev) x"
  by (auto simp: optional_def schema_of_json_iff schema_ok_def split: option.splits json.splits)

lemma schema_optional_iff:
  "optional (schema_of_json ev) (map_option schema_raw x) = Some x \<longleftrightarrow> pred_option (schema_ok ev) x"
proof (cases x)
  case (Some s)
  then show ?thesis
    by (cases s; cases "schema_raw s = JNull") (auto simp: schema_ok_def schema_of_json_iff)
qed simp

lemma field_codec:
  assumes "path_lib_ok P"
  shows "value_codec (field_of_json P ev) (json_of_field P) (field_ok ev)"
proof -
  note path = value_codec.nev_codec [OF path_codec [OF assms]]
  show ?thesis
  proof
    show "field_ok ev x" if "field_of_json P ev j = Some x" for j x
      using that by (auto simp: field_of_json_def bind_eq_Some_conv field_ok_def
          dest: value_codec.codec_ok [OF path] schema_optional_ok)
    show "field_of_json P ev (json_of_field P x) = Some x \<longleftrightarrow> field_ok ev x" for x
      by (cases x) (simp add: field_of_json_def json_of_field_def field_ok_def bind_eq_Some_conv
          string_json.optional_iff bool_json.optional_iff bool_json.defaulted_iff
          predicate_json.optional_null_iff schema_optional_iff value_codec.codec_iff [OF path])
  qed (simp add: json_of_field_def)
qed

lemma constraints_reader:
  assumes "path_lib_ok P"
  shows "json_reader (constraints_of_json P ev) (constraints_ok ev)"
proof
  note fields = json_reader.vec_reader [OF value_codec.axioms(1) [OF field_codec [OF assms]]]
  show "constraints_ok ev x" if "constraints_of_json P ev j = Some x" for j x
    using that by (auto simp: constraints_of_json_def bind_eq_Some_conv constraints_ok_def
        dest: json_reader.required_ok [OF fields])
qed

lemma constraints_printer:
  assumes "path_lib_ok P"
  shows "json_printer (constraints_of_json P ev) (json_of_constraints P)
    (\<lambda>c. constraints_ok ev c \<and> con_fields c \<noteq> [])"
proof
  note fields = json_printer.vec_printer [OF value_printer.axioms(1) [OF value_codec.axioms(2)
      [OF field_codec [OF assms]]]]
  show "constraints_of_json P ev (json_of_constraints P x) = Some x \<longleftrightarrow>
      constraints_ok ev x \<and> con_fields x \<noteq> []" for x
    by (cases x) (auto simp: constraints_of_json_def json_of_constraints_def constraints_ok_def
        bind_eq_Some_conv disclosure_json.optional_iff json_printer.skipped_required_iff [OF fields])
qed

lemma descriptor_reader:
  assumes "path_lib_ok P"
  shows "json_reader (descriptor_of_json P ev) (descriptor_ok ev)"
proof
  have "constraints_ok ev constraints_new" by (simp add: constraints_ok_def constraints_new_def)
  then show "descriptor_ok ev x" if "descriptor_of_json P ev j = Some x" for j x
    using that by (auto simp: descriptor_of_json_def bind_eq_Some_conv descriptor_ok_def
        dest: json_reader.defaulted_ok [OF constraints_reader [OF assms]] format_map_json.defaulted_ok)
qed

lemma descriptor_printer:
  assumes "path_lib_ok P"
  shows "json_printer (descriptor_of_json P ev) (json_of_descriptor P)
    (\<lambda>d. descriptor_ok ev d \<and> has_fields d)"
proof
  note texts = string_json.vec_printer
  show "descriptor_of_json P ev (json_of_descriptor P x) = Some x \<longleftrightarrow> descriptor_ok ev x \<and> has_fields x" for x
    by (cases x) (auto simp: descriptor_of_json_def json_of_descriptor_def descriptor_ok_def has_fields_def
        bind_eq_Some_conv string_json.optional_iff string_json.required_iff
        format_map_json.skipped_default_iff json_printer.skipped_default_iff [OF texts]
        json_printer.defaulted_iff [OF constraints_printer [OF assms]] list_all_iff)
qed

lemma definition_reader:
  assumes "path_lib_ok P" and "json_reader rd rok"
  shows "json_reader (definition_of_json P ev rd) (definition_ok ev rok)"
proof
  note ds = json_reader.vec_reader [OF descriptor_reader [OF assms(1)]]
  note rs = json_reader.vec_reader [OF assms(2)]
  show "definition_ok ev rok x" if "definition_of_json P ev rd j = Some x" for j x
    using that by (auto simp: definition_of_json_def bind_eq_Some_conv definition_ok_def
        dest: json_reader.required_ok [OF ds] json_reader.optional_ok [OF rs] format_map_json.defaulted_ok)
qed

lemma definition_printer:
  assumes "path_lib_ok P" and "json_printer rd wr rexact"
  shows "json_printer (definition_of_json P ev rd) (json_of_definition P wr)
    (\<lambda>d. definition_ok ev rexact d \<and> list_all has_fields (pd_input_descriptors d))"
proof
  note ds = json_printer.vec_printer [OF descriptor_printer [OF assms(1)]]
  have "value_printer (vec_of_json rd) (json_of_vec wr) (list_all rexact)"
    using json_printer.vec_printer [OF assms(2)]
    by (simp add: value_printer_def value_printer_axioms_def json_of_vec_def)
  note rs = value_printer.optional_iff [OF this]
  show "definition_of_json P ev rd (json_of_definition P wr x) = Some x \<longleftrightarrow>
      definition_ok ev rexact x \<and> list_all has_fields (pd_input_descriptors x)" for x
    by (cases x) (auto simp: definition_of_json_def json_of_definition_def definition_ok_def bind_eq_Some_conv
        string_json.optional_iff string_json.required_iff rs format_map_json.skipped_default_iff
        json_printer.required_iff [OF ds] list_all_iff)
qed

text \<open>
  The constraints of a descriptor without fields are written without the member that their reader
  requires, so the descriptor and the definition around it are not read back.
\<close>

lemma without_fields_unread: "\<not> has_fields d \<Longrightarrow> descriptor_of_json P ev (json_of_descriptor P d) = None"
  by (simp add: has_fields_def descriptor_of_json_def json_of_descriptor_def json_of_constraints_def
      constraints_of_json_def required_def defaulted_def)

lemma those_None: "x \<in> set xs \<Longrightarrow> f x = None \<Longrightarrow> those (map f xs) = None"
  by (induction xs) (auto split: option.split)

lemma definition_without_fields_unread:
  assumes "\<not> list_all has_fields (pd_input_descriptors d)"
  shows "definition_of_json P ev rd (json_of_definition P wr d) = None"
proof -
  from assms obtain x where x: "x \<in> set (pd_input_descriptors d)"
      "(descriptor_of_json P ev \<circ> json_of_descriptor P) x = None"
    using without_fields_unread by (auto simp: list_all_iff)
  from those_None [of _ _ "descriptor_of_json P ev \<circ> json_of_descriptor P", OF this]
  have "vec_of_json (descriptor_of_json P ev) (json_of_vec (json_of_descriptor P) (pd_input_descriptors d)) = None"
    by (simp add: json_of_vec_def)
  then show ?thesis by (simp add: definition_of_json_def json_of_definition_def required_def)
qed

section \<open>Definitions\<close>

lemma definition_codec_round_trip:
  assumes "path_lib_ok P" and "json_codec rd wr rok"
  shows "(definition_of_json P ev rd j = Some d \<longrightarrow> definition_ok ev rok d) \<and>
    (definition_of_json P ev rd (json_of_definition P wr d) = Some d \<longleftrightarrow>
       definition_ok ev rok d \<and> list_all has_fields (pd_input_descriptors d))"
  using definition_reader [OF assms(1), of rd rok ev] definition_printer [OF assms(1), of rd wr rok ev] assms(2)
  by (auto simp: json_codec_def json_reader_def json_printer_def)

text \<open>Paths are their texts.\<close>

definition ex_path_lib :: path_lib where
  "ex_path_lib = \<lparr>path_parse = (\<lambda>s. Some (JsonPath s)), path_print = path_text\<rparr>"

lemma ex_path_lib_ok: "path_lib_ok ex_path_lib"
  by (simp add: path_lib_ok_def ex_path_lib_def)

end
