(* ===== verification/Flatten.thy ===== *)
theory Flatten
  imports Serde
begin

text \<open>
  What \<open>serde\<close> derives for \<open>#[serde(flatten)]\<close>, \<open>#[serde(tag = "...")]\<close> and
  \<open>#[serde(untagged)]\<close>: a struct with a flattened field is read from an object only, its flattened
  field from the members that no other field takes, and a value that is buffered on the way
  (\<open>Content\<close>) is read by rules of its own.
\<close>

section \<open>Members\<close>

fun object_members :: "json \<Rightarrow> json_map option" where
  "object_members (JObject kvs) = Some (bt_of_list kvs)"
| "object_members _ = None"

text \<open>The members that the named fields leave over.\<close>

definition bt_without :: "string list \<Rightarrow> json_map \<Rightarrow> json_map" where
  "bt_without names m = filter (\<lambda>(k, v). k \<notin> set names) m"

definition bt_disjoint :: "string list \<Rightarrow> json_map \<Rightarrow> bool" where
  "bt_disjoint names m \<longleftrightarrow> list_all (\<lambda>(k, v). k \<notin> set names) m"

lemma bt_get_without [simp]: "bt_get (bt_without names m) k = (if k \<in> set names then None else bt_get m k)"
  by (induction m) (auto simp: bt_without_def)

lemma bt_wf_without [simp]: "bt_wf m \<Longrightarrow> bt_wf (bt_without names m)"
  by (induction m) (auto simp: bt_without_def)

lemma bt_disjoint_without: "set names \<subseteq> set names' \<Longrightarrow> bt_disjoint names (bt_without names' m)"
  by (induction m) (auto simp: bt_without_def bt_disjoint_def)

lemma bt_disjoint_Nil [simp]: "bt_disjoint [] m"
  by (simp add: bt_disjoint_def list_all_iff)

lemma bt_disjoint_get: "bt_disjoint names m \<Longrightarrow> k \<in> set names \<Longrightarrow> bt_get m k = None"
  by (induction m) (auto simp: bt_disjoint_def)

lemma bt_without_without: "bt_without names (bt_without names' m) = bt_without (names' @ names) m"
  by (auto simp: bt_without_def intro!: filter_cong)

lemma object_members_written [simp]:
  "object_members (json_of_fields members) = Some (bt_of_list (concat members))"
  by (simp add: json_of_fields_def bt_of_list_same)

lemma object_members_wf: "object_members j = Some m \<Longrightarrow> bt_wf m"
  by (cases j) auto

lemma bt_get_members [simp]: "bt_get (bt_of_list (concat members)) k = members_get members k"
  by (simp add: bt_get_of_list members_get_def)

lemma members_get_append [simp]:
  "members_get (ms @ ns) k = (case members_get ns k of None \<Rightarrow> members_get ms k | Some v \<Rightarrow> Some v)"
  by (simp add: members_get_def map_add_def split: option.split)

lemma members_get_field:
  "members_get (field n j # ms) k =
    (case members_get ms k of None \<Rightarrow> if k = n then Some j else None | Some v \<Rightarrow> Some v)"
  by (simp add: members_get_def field_def map_add_def split: option.split)

text \<open>A flattened map among the members of a struct.\<close>

definition flat_field :: "json_map \<Rightarrow> json_map" where
  "flat_field m = m"

lemma members_get_flat [simp]:
  assumes "bt_wf m"
  shows "members_get (flat_field m # ms) k =
    (case members_get ms k of None \<Rightarrow> bt_get m k | Some v \<Rightarrow> Some v)"
  using assms by (simp add: members_get_def flat_field_def map_add_def map_of_rev_distinct bt_wf_distinct
      bt_get_map_of split: option.split)

text \<open>What is left of the members that were written is the flattened map.\<close>

lemma flat_field_left:
  assumes "bt_wf m" and "bt_wf all" and "bt_disjoint names m"
    and "\<And>k. k \<notin> set names \<Longrightarrow> bt_get all k = bt_get m k"
  shows "bt_without names all = m"
proof (rule bt_get_ext)
  show "bt_get (bt_without names all) k = bt_get m k" for k
    using assms(4) [of k] bt_disjoint_get [OF assms(3), of k] by (cases "k \<in> set names") simp_all
qed (use assms(1,2) in simp_all)

section \<open>Members are smaller\<close>

lemma size_member: "(k, j) \<in> set m \<Longrightarrow> size j < size (JObject m)"
  by (induction m) auto

lemma size_item: "j \<in> set xs \<Longrightarrow> size j < size (JArray xs)"
  by (induction xs) auto

lemma bt_of_list_subset: "set (bt_of_list kvs) \<subseteq> set kvs"
proof
  fix e
  assume "e \<in> set (bt_of_list kvs)"
  then have "bt_get (bt_of_list kvs) (fst e) = Some (snd e)"
    by (intro bt_get_eq) simp_all
  then show "e \<in> set kvs" by (auto simp: bt_get_of_list dest: map_of_SomeD)
qed

lemma size_object_member:
  assumes "object_members j = Some m" and "bt_get m k = Some x"
  shows "size x < size j"
proof (cases j)
  case (JObject kvs)
  with assms have "(k, x) \<in> set kvs" using bt_of_list_subset by (fastforce dest: bt_get_in)
  then show ?thesis unfolding JObject by (rule size_member)
qed (use assms in simp_all)

section \<open>Buffered values\<close>

text \<open>
  The tag of an enum is the name of a variant; from a buffered object it may also be the position
  of the variant.
\<close>

definition tag_of_json :: "bool \<Rightarrow> string list \<Rightarrow> string reader" where
  "tag_of_json buffered variants j =
     (case j of
        JString s \<Rightarrow> if s \<in> set variants then Some s else None
      | JNumber (PosInt n) \<Rightarrow> if buffered \<and> n < length variants then Some (variants ! n) else None
      | _ \<Rightarrow> None)"

lemma tag_of_json_JString [simp]:
  "tag_of_json buffered variants (JString s) = (if s \<in> set variants then Some s else None)"
  by (simp add: tag_of_json_def)

lemma tag_of_json_in: "tag_of_json buffered variants j = Some s \<Longrightarrow> s \<in> set variants"
  by (auto simp: tag_of_json_def split: json.splits json_number.splits if_splits)

text \<open>A variant without data, read from a buffered value.\<close>

fun buffered_unit_enum :: "(string \<times> 'a) list \<Rightarrow> 'a reader" where
  "buffered_unit_enum variants (JString s) = map_of variants s"
| "buffered_unit_enum variants (JObject [(k, JNull)]) = map_of variants k"
| "buffered_unit_enum variants (JObject [(k, JObject [])]) = map_of variants k"
| "buffered_unit_enum variants _ = None"

text \<open>\<open>usize\<close>, on the 64-bit targets of the crate, as a number.\<close>

fun usize_of_json :: "nat reader" where
  "usize_of_json (JNumber (PosInt n)) = (if n < 2 ^ 64 then Some n else None)"
| "usize_of_json _ = None"

definition json_of_usize :: "nat \<Rightarrow> json" where
  "json_of_usize n = JNumber (PosInt n)"

definition usize_ok :: "nat \<Rightarrow> bool" where
  "usize_ok n \<longleftrightarrow> n < 2 ^ 64"

section \<open>Contracts\<close>

lemma those_list_all:
  "those (map f xs) = Some ys \<Longrightarrow> (\<And>x y. x \<in> set xs \<Longrightarrow> f x = Some y \<Longrightarrow> P y) \<Longrightarrow> list_all P ys"
proof (induction xs arbitrary: ys)
  case (Cons x xs)
  then obtain y zs where "f x = Some y" "those (map f xs) = Some zs" "ys = y # zs"
    by (auto split: option.splits)
  with Cons show ?case by auto
qed simp

lemma json_codecI:
  assumes "\<And>j x. parse j = Some x \<Longrightarrow> ok x" and "\<And>x. ok x \<Longrightarrow> parse (print x) = Some x"
  shows "json_codec parse print ok"
  using assms by unfold_locales auto

lemma value_codecI:
  assumes "\<And>j x. parse j = Some x \<Longrightarrow> ok x" and "\<And>x. ok x \<Longrightarrow> parse (print x) = Some x"
    and "\<And>x. ok x \<Longrightarrow> print x \<noteq> JNull"
  shows "value_codec parse print ok"
  using assms by unfold_locales auto

interpretation usize_json: value_codec usize_of_json json_of_usize usize_ok
proof (rule value_codecI)
  show "usize_ok x" if "usize_of_json j = Some x" for j x
    using that by (cases j rule: usize_of_json.cases) (auto simp: usize_ok_def split: if_splits)
qed (simp_all add: json_of_usize_def usize_ok_def)

lemma optional_null_text [simp]: "optional as_str (Some (json_of_option JString x)) = Some x"
  using string_json.optional_null_iff [of x] by (simp add: pred_option_def)

lemma optional_null_usize: "pred_option usize_ok x \<Longrightarrow> optional usize_of_json (Some (json_of_option json_of_usize x)) = Some x"
  by (simp add: usize_json.optional_null_iff)

text \<open>The vector of a type is a value, whatever its items are.\<close>

lemma vec_value_codec:
  assumes "json_codec parse print ok"
  shows "value_codec (vec_of_json parse) (json_of_vec print) (list_all ok)"
  using json_reader.vec_reader [OF json_codec.axioms(1) [OF assms]]
    json_printer.vec_printer [OF json_codec.axioms(2) [OF assms]]
  by (simp add: value_codec_def value_printer_def value_printer_axioms_def json_of_vec_def)

lemma list_all_True [simp]: "list_all (\<lambda>_. True) = (\<lambda>_. True)"
  by (simp add: fun_eq_iff list_all_iff)

interpretation texts_json: value_codec "vec_of_json as_str" "json_of_vec JString" "\<lambda>_. True"
  using vec_value_codec [OF string_json.json_codec_axioms] by simp

end
