(* ===== verification/Submission_Json.thy ===== *)
theory Submission_Json
  imports Dcql_Json Definition_Json Presentation_Submission Flatten
begin

text \<open>
  The JSON form of a presentation submission, as \<open>serde\<close> derives it from
  \<open>src/src/core/presentation_submission.rs\<close>. A descriptor map holds the nested map below it, so its
  reader recurs into the JSON value, and ends because that gets smaller. Reading and printing UUIDs and
  JSON paths is foreign.
\<close>

section \<open>Members are smaller\<close>

lemma size_struct_field:
  assumes "struct_fields names j = Some m" and "m k = Some x"
  shows "size x < size j"
proof (cases j)
  case (JObject kvs)
  with assms have "(k, x) \<in> set kvs" by (auto simp: struct_fields_def bt_get_map_of dest: map_of_SomeD)
  then show ?thesis unfolding JObject by (rule size_member)
next
  case (JArray xs)
  with assms have "(k, x) \<in> set (zip names xs)"
    by (auto simp: struct_fields_def split: if_splits dest: map_of_SomeD)
  then have "x \<in> set xs" by (rule set_zip_rightD)
  then show ?thesis unfolding JArray by (rule size_item)
qed (use assms in \<open>simp_all add: struct_fields_def\<close>)

section \<open>Readers and writers\<close>

function descriptor_map_of_json :: "path_lib \<Rightarrow> descriptor_map reader" where
  "descriptor_map_of_json P j =
     (case struct_fields [''id'', ''format'', ''path'', ''path_nested''] j of
        None \<Rightarrow> None
      | Some m \<Rightarrow>
          (case (case m ''path_nested'' of
                   None \<Rightarrow> Some None
                 | Some n \<Rightarrow> if n = JNull then Some None else map_option Some (descriptor_map_of_json P n)) of
             None \<Rightarrow> None
           | Some nested \<Rightarrow> do {
               i \<leftarrow> required as_str (m ''id'');
               format \<leftarrow> required designation_of_json (m ''format'');
               path \<leftarrow> required (path_of_json P) (m ''path'');
               Some (DescriptorMap i format path nested) }))"
  by pat_completeness auto
termination
  by (relation "measure (\<lambda>(P, j). size j)") (auto dest: size_struct_field)

declare descriptor_map_of_json.simps [simp del]

fun json_of_descriptor_map :: "path_lib \<Rightarrow> descriptor_map \<Rightarrow> json" where
  "json_of_descriptor_map P (DescriptorMap i format path nested) = json_of_fields [
     field ''id'' (JString i),
     field ''format'' (designation_serialize format),
     field ''path'' (json_of_path P path),
     field ''path_nested'' (case nested of None \<Rightarrow> JNull | Some n \<Rightarrow> json_of_descriptor_map P n)]"

definition uuid_of_json :: "(string \<Rightarrow> uuid option) \<Rightarrow> uuid reader" where
  "uuid_of_json uuid_parse j = do { s \<leftarrow> as_str j; uuid_parse s }"

definition submission_of_json ::
  "path_lib \<Rightarrow> (string \<Rightarrow> uuid option) \<Rightarrow> presentation_submission reader" where
  "submission_of_json P uuid_parse j = do {
     m \<leftarrow> struct_fields [''id'', ''definition_id'', ''descriptor_map''] j;
     i \<leftarrow> required (uuid_of_json uuid_parse) (m ''id'');
     d \<leftarrow> required as_str (m ''definition_id'');
     ms \<leftarrow> required (vec_of_json (descriptor_map_of_json P)) (m ''descriptor_map'');
     Some \<lparr>ps_id = i, ps_definition_id = d, ps_descriptor_map = ms\<rparr> }"

definition submission_members ::
  "path_lib \<Rightarrow> (uuid \<Rightarrow> string) \<Rightarrow> presentation_submission \<Rightarrow> json_map list" where
  "submission_members P uuid_print self = [
     field ''id'' (JString (uuid_print (ps_id self))),
     field ''definition_id'' (JString (ps_definition_id self)),
     field ''descriptor_map'' (json_of_vec (json_of_descriptor_map P) (ps_descriptor_map self))]"

definition json_of_submission ::
  "path_lib \<Rightarrow> (uuid \<Rightarrow> string) \<Rightarrow> presentation_submission \<Rightarrow> json" where
  "json_of_submission P uuid_print self = json_of_fields (submission_members P uuid_print self)"

section \<open>What can be read back\<close>

text \<open>The formats are in canonical form, at every level.\<close>

fun descriptor_map_ok :: "descriptor_map \<Rightarrow> bool" where
  "descriptor_map_ok (DescriptorMap i format path nested) \<longleftrightarrow>
     designation_wf format \<and> (case nested of None \<Rightarrow> True | Some n \<Rightarrow> descriptor_map_ok n)"

lemma descriptor_map_reader: "json_reader (descriptor_map_of_json P) descriptor_map_ok"
proof
  show "descriptor_map_of_json P j = Some x \<Longrightarrow> descriptor_map_ok x" for j x
  proof (induction P j arbitrary: x rule: descriptor_map_of_json.induct)
    case (1 P j)
    from "1.prems" obtain m nested where m: "struct_fields [''id'', ''format'', ''path'', ''path_nested''] j = Some m"
      and n: "(case m ''path_nested'' of
           None \<Rightarrow> Some None
         | Some n \<Rightarrow> if n = JNull then Some None else map_option Some (descriptor_map_of_json P n)) = Some nested"
      and x: "do { i \<leftarrow> required as_str (m ''id'');
          format \<leftarrow> required designation_of_json (m ''format'');
          path \<leftarrow> required (path_of_json P) (m ''path'');
          Some (DescriptorMap i format path nested) } = Some x"
      by (subst (asm) descriptor_map_of_json.simps) (auto split: option.splits)
    have "case nested of None \<Rightarrow> True | Some y \<Rightarrow> descriptor_map_ok y"
      using n "1.IH" [OF m] by (auto split: option.splits if_splits)
    with x show ?case
      by (auto simp: bind_eq_Some_conv dest: designation_json.required_ok)
  qed
qed

lemma descriptor_map_written:
  assumes "path_lib_ok P"
  shows "descriptor_map_of_json P (json_of_descriptor_map P (DescriptorMap i format path nested)) =
    (case nested of
       None \<Rightarrow> Some (DescriptorMap i (designation_from_name (designation_name format)) path None)
     | Some n \<Rightarrow> map_option
         (\<lambda>n'. DescriptorMap i (designation_from_name (designation_name format)) path (Some n'))
         (descriptor_map_of_json P (json_of_descriptor_map P n)))"
proof -
  have obj: "json_of_descriptor_map P y \<noteq> JNull" for y by (cases y) simp
  have path: "path_of_json P (json_of_path P path) = Some path"
    using assms by (simp add: path_of_json_def json_of_path_def path_lib_ok_def)
  have "descriptor_map_of_json P (json_of_descriptor_map P (DescriptorMap i format path nested)) =
    (case (case nested of
             None \<Rightarrow> Some None
           | Some n \<Rightarrow> map_option Some (descriptor_map_of_json P (json_of_descriptor_map P n))) of
       None \<Rightarrow> None
     | Some nested \<Rightarrow> Some (DescriptorMap i (designation_from_name (designation_name format)) path nested))"
    by (subst descriptor_map_of_json.simps)
      (auto simp: path obj required_def designation_of_json_def designation_serialize_def split: option.splits)
  then show ?thesis
    by (cases nested) (auto simp: option.case_eq_if option.map_sel split: option.split)
qed

lemma descriptor_map_printer:
  assumes "path_lib_ok P"
  shows "json_printer (descriptor_map_of_json P) (json_of_descriptor_map P) descriptor_map_ok"
proof
  show "descriptor_map_of_json P (json_of_descriptor_map P x) = Some x \<longleftrightarrow> descriptor_map_ok x" for x
  proof (induction x)
    case (DescriptorMap i format path nested)
    then show ?case
      by (cases nested) (auto simp: descriptor_map_written [OF assms] designation_from_name_name
          simp del: json_of_descriptor_map.simps)
  qed
qed

lemma uuid_codec:
  assumes "\<And>u. uuid_parse (uuid_print u) = Some u"
  shows "value_codec (uuid_of_json uuid_parse) (\<lambda>u. JString (uuid_print u)) (\<lambda>_. True)"
  using assms by unfold_locales (simp_all add: uuid_of_json_def)

section \<open>Properties\<close>

text \<open>
  C21: presentation submissions survive JSON. However deep its descriptor maps are nested, a submission
  that was read holds formats in canonical form only, and a submission is read back from what is written
  for it exactly when it does.
\<close>

theorem submission_json_round_trip:
  assumes "path_lib_ok P" and "\<And>u. uuid_parse (uuid_print u) = Some u"
  shows "(submission_of_json P uuid_parse j = Some s \<longrightarrow> list_all descriptor_map_ok (ps_descriptor_map s)) \<and>
    (submission_of_json P uuid_parse (json_of_submission P uuid_print s) = Some s \<longleftrightarrow>
       list_all descriptor_map_ok (ps_descriptor_map s))"
proof
  note maps = json_printer.vec_printer [OF descriptor_map_printer [OF assms(1)]]
    and uuid = uuid_codec [of uuid_parse uuid_print, OF assms(2)]
  show "submission_of_json P uuid_parse j = Some s \<longrightarrow> list_all descriptor_map_ok (ps_descriptor_map s)"
    by (auto simp: submission_of_json_def bind_eq_Some_conv
        dest: json_reader.required_ok [OF json_reader.vec_reader [OF descriptor_map_reader]])
  show "submission_of_json P uuid_parse (json_of_submission P uuid_print s) = Some s \<longleftrightarrow>
      list_all descriptor_map_ok (ps_descriptor_map s)"
    by (cases s) (simp add: submission_of_json_def json_of_submission_def submission_members_def bind_eq_Some_conv
        string_json.required_iff json_printer.required_iff [OF maps] value_codec.codec_iff [OF uuid])
qed

text \<open>A submission with a nested map.\<close>

definition ex_nested_submission :: presentation_submission where
  "ex_nested_submission = submission_new 1 ''pd''
     [set_path_nested (descriptor_map_new ''d'' LdpVc (JsonPath ''$.vc''))
       (descriptor_map_new ''d'' (Other ''x'') (JsonPath ''$''))]"

lemma submission_json_round_trip_witness:
  "submission_of_json ex_path_lib (\<lambda>s. Some (of_nat (length s)))
     (json_of_submission ex_path_lib (\<lambda>u. replicate (unat u) CHR ''a'') ex_nested_submission) =
     Some ex_nested_submission"
proof -
  have uuid: "Some (of_nat (length (replicate (unat u) CHR ''a''))) = Some (u :: uuid)" for u by simp
  have "list_all descriptor_map_ok (ps_descriptor_map ex_nested_submission)"
    by (simp add: ex_nested_submission_def submission_new_def descriptor_map_new_def designation_wf_def
        reserved_format_names_def)
  with submission_json_round_trip [OF ex_path_lib_ok, of "\<lambda>s. Some (of_nat (length s))"
      "\<lambda>u. replicate (unat u) CHR ''a''", OF uuid]
  show ?thesis by blast
qed

end
