(* ===== verification/Parameters.thy ===== *)
theory Parameters
  imports Object Utils
begin

text \<open>
  \<open>src/src/core/authorization_request/parameters.rs\<close>: the typed parameters of an
  authorization request. A URL is its serialisation, as in the \<open>url\<close> crate, whose
  parser and origin function are foreign; what \<open>serde\<close> derives is a dictionary. The
  interface \<open>typed_param\<close> is interpreted on the parameters whose conversions the source
  writes by hand.
\<close>

section \<open>Foreign types and functions\<close>

datatype url = Url (url_str: string)

text \<open>\<open>url::Origin\<close>: opaque, or a scheme, a host and a port.\<close>

datatype origin = OpaqueOrigin nat | TupleOrigin string string nat

record param_lib =
  de_string :: "string deserialize"
  de_strings :: "string list deserialize"
  de_nev_string :: "string nonempty_vec deserialize"
  de_url :: "url deserialize"
  de_object :: "untyped_object deserialize"
  url_parse :: "string \<Rightarrow> anyhow + url"
  url_origin :: "url \<Rightarrow> origin"
  origin_unicode :: "origin \<Rightarrow> string"
  did_from_string :: "string \<Rightarrow> anyhow + string"
  url_safe_no_pad :: base64

text \<open>
  What is relied on: \<open>String\<close> and \<open>Vec<String>\<close> read as \<open>serde\<close> documents, a
  \<open>Url\<close> reads from its own text, a non-empty vector never reads as empty, an
  object reads as its map, a parsed DID is its text, and base64 decoding inverts encoding.
\<close>

definition param_lib_ok :: "'z param_lib_scheme \<Rightarrow> bool" where
  "param_lib_ok L \<longleftrightarrow>
     string_de (de_string L) \<and> strings_de (de_strings L) \<and>
     (\<forall>j u. from_value (de_url L) j = Inr u \<longrightarrow>
        from_value (de_url L) (JString (url_str u)) = Inr u) \<and>
     (\<forall>j v. from_value (de_nev_string L) j = Inr v \<longrightarrow> nev_wf v) \<and>
     (\<forall>m. from_value (de_object L) (JObject m) = Inr m) \<and>
     (\<forall>s d. did_from_string L s = Inr d \<longrightarrow> d = s) \<and>
     base64_ok (url_safe_no_pad L)"

text \<open>A text parameter: read with \<open>from_value::<String>\<close>, written as a JSON string.\<close>

definition text_param ::
  "string \<Rightarrow> string deserialize \<Rightarrow> (string \<Rightarrow> 'a) \<Rightarrow> ('a \<Rightarrow> string) \<Rightarrow> 'a typed_parameter" where
  "text_param key d parse print =
     \<lparr>KEY = key,
      try_from_json = (\<lambda>v. map_ok parse (from_value d v)),
      try_into_json = (\<lambda>t. Inr (JString (print t)))\<rparr>"

lemma typed_param_text:
  assumes "string_de d" and "\<And>t. ok t \<Longrightarrow> parse (print t) = t"
  shows "typed_param (text_param key d parse print) ok"
  using assms by unfold_locales (auto simp: text_param_def string_de_def)

section \<open>Client identifiers\<close>

datatype client_id_prefix =
    DecentralizedIdentifier
  | OpenidFederation
  | PreRegistered
  | RedirectUriPrefix
  | VerifierAttestation
  | OriginPrefix
  | X509SanDns
  | X509Hash

definition prefix_try_from :: "string \<Rightarrow> anyhow + client_id_prefix" where
  "prefix_try_from value =
     (if value = ''decentralized_identifier'' then Inr DecentralizedIdentifier
      else if value = ''openid_federation'' then Inr OpenidFederation
      else if value = ''pre-registered'' then Inr PreRegistered
      else if value = ''redirect_uri'' then Inr RedirectUriPrefix
      else if value = ''verifier_attestation'' then Inr VerifierAttestation
      else if value = ''origin'' then Inr OriginPrefix
      else if value = ''x509_san_dns'' then Inr X509SanDns
      else if value = ''x509_hash'' then Inr X509Hash
      else Inl (Msg (''Given client id prefix is not supported: '' @ value)))"

fun string_of_prefix :: "client_id_prefix \<Rightarrow> string" where
  "string_of_prefix DecentralizedIdentifier = ''decentralized_identifier''"
| "string_of_prefix OpenidFederation = ''openid_federation''"
| "string_of_prefix PreRegistered = ''pre-registered''"
| "string_of_prefix RedirectUriPrefix = ''redirect_uri''"
| "string_of_prefix VerifierAttestation = ''verifier_attestation''"
| "string_of_prefix OriginPrefix = ''origin''"
| "string_of_prefix X509SanDns = ''x509_san_dns''"
| "string_of_prefix X509Hash = ''x509_hash''"

definition prefix_try_from_json :: "string deserialize \<Rightarrow> json \<Rightarrow> anyhow + client_id_prefix" where
  "prefix_try_from_json d value = and_then (from_value d value) prefix_try_from"

definition prefix_into_json :: "client_id_prefix \<Rightarrow> json" where
  "prefix_into_json value = JString (string_of_prefix value)"

definition display_prefix :: "client_id_prefix \<Rightarrow> string" where
  "display_prefix self = string_of_prefix self"

datatype client_id = ClientId (get_id: string) (get_prefix: client_id_prefix)

definition client_id_new :: "string \<Rightarrow> anyhow + client_id" where
  "client_id_new s =
     (if s = [] then Inl (Msg ''Client ID cannot be empty.'')
      else let parts = splitn2 CHR '':'' s
           in if parts = [] \<or> length parts > 2
              then Inl (Msg (''Error while parsing client id: '' @ s))
              else if length parts = 1 then Inr (ClientId (parts ! 0) PreRegistered)
              else and_then (prefix_try_from (parts ! 0)) (\<lambda>prefix.
                   Inr (ClientId (parts ! 1) prefix)))"

definition get_full_id :: "client_id \<Rightarrow> string" where
  "get_full_id self = string_of_prefix (get_prefix self) @ '':'' @ get_id self"

definition client_id_from_did :: "'z param_lib_scheme \<Rightarrow> string \<Rightarrow> anyhow + client_id" where
  "client_id_from_did L did =
     and_then (did_from_string L did) (\<lambda>d. Inr (ClientId d DecentralizedIdentifier))"

definition client_id_from_redirect_uri :: "url \<Rightarrow> anyhow + client_id" where
  "client_id_from_redirect_uri uri = Inr (ClientId (url_str uri) RedirectUriPrefix)"

definition client_id_try_from_json :: "json \<Rightarrow> anyhow + client_id" where
  "client_id_try_from_json value =
     (case value of
        JString val \<Rightarrow> client_id_new val
      | _ \<Rightarrow> Inl (Msg ''client_id is not a string''))"

definition client_id_into_json :: "client_id \<Rightarrow> json" where
  "client_id_into_json value = JString (get_full_id value)"

definition client_id_param :: "client_id typed_parameter" where
  "client_id_param =
     \<lparr>KEY = ''client_id'', try_from_json = client_id_try_from_json,
      try_into_json = (\<lambda>c. Inr (client_id_into_json c))\<rparr>"

text \<open>The hand-written \<open>Deserialize\<close> needs a prefix; \<open>Serialize\<close> writes the full id.\<close>

definition client_id_deserialize :: "string deserialize \<Rightarrow> json \<Rightarrow> anyhow + client_id" where
  "client_id_deserialize d deserializer =
     and_then (from_value d deserializer) (\<lambda>s.
       (case splitn2 CHR '':'' s of
          [] \<Rightarrow> Inl (Msg ''missing client id prefix'')
        | [prefix] \<Rightarrow> Inl (Msg ''missing id from the client_id'')
        | prefix # i # _ \<Rightarrow> client_id_new (prefix @ '':'' @ i)))"

definition client_id_serialize :: "client_id \<Rightarrow> json" where
  "client_id_serialize self = JString (get_full_id self)"

lemma prefix_try_from_string: "prefix_try_from (string_of_prefix p) = Inr p"
  by (cases p) (simp_all add: prefix_try_from_def)

lemma prefix_try_from_Inr: "prefix_try_from s = Inr p \<longleftrightarrow> s = string_of_prefix p"
proof
  assume "prefix_try_from s = Inr p"
  then show "s = string_of_prefix p"
    unfolding prefix_try_from_def by (simp split: if_split_asm; clarsimp)
qed (simp add: prefix_try_from_string)

lemma prefix_no_colon: "CHR '':'' \<notin> set (string_of_prefix p)"
  by (cases p) simp_all

lemma string_of_prefix_inject [simp]: "string_of_prefix p = string_of_prefix q \<longleftrightarrow> p = q"
  by (metis prefix_try_from_string sum.inject(2))

lemma client_id_new_full: "client_id_new (get_full_id c) = Inr c"
  by (cases c)
    (simp add: client_id_new_def get_full_id_def splitn2_append [OF prefix_no_colon]
      prefix_try_from_string Let_def)

lemma get_full_id_inject [simp]: "get_full_id c = get_full_id d \<longleftrightarrow> c = d"
  by (metis client_id_new_full sum.inject(2))

lemma client_id_new_cases:
  assumes "client_id_new s = Inr c"
  shows "s \<noteq> [] \<and>
    (if CHR '':'' \<in> set s then get_full_id c = s else c = ClientId s PreRegistered)"
  using assms
  by (cases rule: splitn2_cases [of "CHR '':''" s])
    (auto simp: client_id_new_def Let_def res_simps prefix_try_from_Inr get_full_id_def
      split: if_splits)

interpretation client_id_p: typed_param client_id_param "\<lambda>_. True"
  by unfold_locales
    (simp add: client_id_param_def client_id_try_from_json_def client_id_into_json_def client_id_new_full)

section \<open>Transaction data\<close>

datatype transaction_data = TransactionData (td_items: "string list")

definition transaction_data_param :: "'z param_lib_scheme \<Rightarrow> transaction_data typed_parameter" where
  "transaction_data_param L =
     \<lparr>KEY = ''transaction_data'',
      try_from_json = (\<lambda>value. map_ok TransactionData (from_value (de_strings L) value)),
      try_into_json = (\<lambda>value. Inr (JArray (map JString (td_items value))))\<rparr>"

datatype hash_algorithm = Sha256 | Sha384 | Sha512

fun display_hash_algorithm :: "hash_algorithm \<Rightarrow> string" where
  "display_hash_algorithm Sha256 = ''sha-256''"
| "display_hash_algorithm Sha384 = ''sha-384''"
| "display_hash_algorithm Sha512 = ''sha-512''"

definition string_of_hash_algorithm :: "hash_algorithm \<Rightarrow> string" where
  "string_of_hash_algorithm value = display_hash_algorithm value"

definition hash_algorithm_try_from :: "string \<Rightarrow> anyhow + hash_algorithm" where
  "hash_algorithm_try_from value =
     (if value = ''sha-256'' then Inr Sha256
      else if value = ''sha-384'' then Inr Sha384
      else if value = ''sha-512'' then Inr Sha512
      else Inl (Msg ''Unsupported hash algorithm''))"

datatype delegate_format = DelegateOpen | DelegateHolderBinding

record delegate_sd_jwt_transaction_data =
  dsd_format :: delegate_format
  dsd_delegate_payload_disclosure :: string
  dsd_delegate_disclosures :: "string list option"

datatype transaction_content =
    DelegateSdJwt delegate_sd_jwt_transaction_data
  | UnknownContent string json_map

definition DELEGATE_SD_JWT_TYPE :: string where
  "DELEGATE_SD_JWT_TYPE = ''delegate''"

fun content_type :: "transaction_content \<Rightarrow> string" where
  "content_type (DelegateSdJwt _) = DELEGATE_SD_JWT_TYPE"
| "content_type (UnknownContent ty _) = ty"

record transaction_data_item =
  tdi_credential_ids :: "string list"
  tdi_hashes_alg :: "hash_algorithm list option"
  tdi_content :: transaction_content

text \<open>\<open>from_slice\<close> reads the decoded bytes, \<open>to_string\<close> prints the item.\<close>

definition item_from_base64url_encoded ::
  "base64 \<Rightarrow> transaction_data_item deserialize \<Rightarrow> string \<Rightarrow> core_error + transaction_data_item" where
  "item_from_base64url_encoded b64 de encoded =
     and_then (map_err Internal (b64_decode b64 encoded)) (\<lambda>json_bytes.
     map_err Internal (from_str de json_bytes))"

definition item_into_base64url_encoded ::
  "base64 \<Rightarrow> transaction_data_item serialize \<Rightarrow> transaction_data_item \<Rightarrow> core_error + string" where
  "item_into_base64url_encoded b64 ser self =
     and_then (map_err Internal (to_string ser self)) (\<lambda>json_string.
     Inr (b64_encode b64 json_string))"

definition item_type :: "transaction_data_item \<Rightarrow> string" where
  "item_type self = content_type (tdi_content self)"

lemma hash_algorithm_round_trip: "hash_algorithm_try_from (string_of_hash_algorithm a) = Inr a"
  by (cases a) (simp_all add: hash_algorithm_try_from_def string_of_hash_algorithm_def)

lemma hash_algorithm_try_from_Inr:
  "hash_algorithm_try_from s = Inr a \<Longrightarrow> s = string_of_hash_algorithm a"
  unfolding hash_algorithm_try_from_def string_of_hash_algorithm_def
  by (simp split: if_split_asm; clarsimp)

text \<open>Encoding an item and decoding it gives back what its text reads as.\<close>

lemma item_base64_round_trip:
  assumes "base64_ok b" and "item_into_base64url_encoded b ser i = Inr e"
  shows "\<exists>t. to_string ser i = Inr t \<and>
    item_from_base64url_encoded b de e = map_err Internal (from_str de t)"
  using assms by (auto simp: item_into_base64url_encoded_def item_from_base64url_encoded_def
      base64_ok_def res_simps)

section \<open>Client metadata\<close>

datatype client_metadata = ClientMetadata (cm_object: untyped_object)

definition client_metadata_param :: "'z param_lib_scheme \<Rightarrow> client_metadata typed_parameter" where
  "client_metadata_param L =
     \<lparr>KEY = ''client_metadata'',
      try_from_json = (\<lambda>value. map_ok ClientMetadata (from_string_or_value (de_object L) value)),
      try_into_json = (\<lambda>cm. Inr (JObject (cm_object cm)))\<rparr>"

section \<open>Text parameters\<close>

datatype nonce = Nonce (nonce_str: string)

text \<open>A nonce is made from any text, prints as that text and is read as it.\<close>

definition nonce_from_string :: "string \<Rightarrow> nonce" where
  "nonce_from_string value = Nonce value"

definition nonce_from_str :: "string \<Rightarrow> nonce" where
  "nonce_from_str value = Nonce value"

definition nonce_into_string :: "nonce \<Rightarrow> string" where
  "nonce_into_string value = nonce_str value"

definition display_nonce :: "nonce \<Rightarrow> string" where
  "display_nonce self = nonce_str self"

definition nonce_param :: "'z param_lib_scheme \<Rightarrow> nonce typed_parameter" where
  "nonce_param L = text_param ''nonce'' (de_string L) Nonce nonce_str"

text \<open>\<open>Alphanumeric.sample_string(rng, length)\<close> draws from the generator.\<close>

definition nonce_random :: "('w \<Rightarrow> nat \<Rightarrow> string \<times> 'w) \<Rightarrow> 'w \<Rightarrow> nat \<Rightarrow> nonce \<times> 'w" where
  "nonce_random sample_string rng n =
     (let (s, rng') = sample_string rng n in (Nonce s, rng'))"

datatype wallet_nonce = WalletNonce (wallet_nonce_str: string)

definition wallet_nonce_param :: "'z param_lib_scheme \<Rightarrow> wallet_nonce typed_parameter" where
  "wallet_nonce_param L = text_param ''wallet_nonce'' (de_string L) WalletNonce wallet_nonce_str"

text \<open>\<open>fill_bytes\<close> fills the given number of bytes.\<close>

definition wallet_nonce_random ::
  "base64 \<Rightarrow> ('w \<Rightarrow> nat \<Rightarrow> string \<times> 'w) \<Rightarrow> 'w \<Rightarrow> wallet_nonce \<times> 'w" where
  "wallet_nonce_random b64 fill_bytes w =
     (let (nonce_bytes, w') = fill_bytes w 32 in (WalletNonce (b64_encode b64 nonce_bytes), w'))"

datatype audience = Audience (audience_str: string)

definition audience_param :: "'z param_lib_scheme \<Rightarrow> audience typed_parameter" where
  "audience_param L = text_param ''aud'' (de_string L) Audience audience_str"

datatype state = State (state_str: string)

definition state_param :: "'z param_lib_scheme \<Rightarrow> state typed_parameter" where
  "state_param L = text_param ''state'' (de_string L) State state_str"

datatype scope = Scope (scope_str: string)

definition scope_param :: "'z param_lib_scheme \<Rightarrow> scope typed_parameter" where
  "scope_param L = text_param ''scope'' (de_string L) Scope scope_str"

section \<open>URL parameters\<close>

definition url_param ::
  "string \<Rightarrow> 'z param_lib_scheme \<Rightarrow> (url \<Rightarrow> 'a) \<Rightarrow> ('a \<Rightarrow> url) \<Rightarrow> 'a typed_parameter" where
  "url_param key L mk get =
     \<lparr>KEY = key,
      try_from_json = (\<lambda>value. map_ok mk (from_value (de_url L) value)),
      try_into_json = (\<lambda>t. Inr (JString (url_str (get t))))\<rparr>"

datatype redirect_uri = RedirectUri (redirect_url: url)

definition redirect_uri_param :: "'z param_lib_scheme \<Rightarrow> redirect_uri typed_parameter" where
  "redirect_uri_param L = url_param ''redirect_uri'' L RedirectUri redirect_url"

datatype response_uri = ResponseUri (response_url: url)

definition response_uri_new :: "url \<Rightarrow> response_uri" where
  "response_uri_new u = ResponseUri u"

definition response_uri_param :: "'z param_lib_scheme \<Rightarrow> response_uri typed_parameter" where
  "response_uri_param L = url_param ''response_uri'' L ResponseUri response_url"

datatype presentation_definition_uri = PresentationDefinitionUri (definition_url: url)

definition presentation_definition_uri_param ::
  "'z param_lib_scheme \<Rightarrow> presentation_definition_uri typed_parameter" where
  "presentation_definition_uri_param L =
     url_param ''presentation_definition_uri'' L PresentationDefinitionUri definition_url"

section \<open>Response modes\<close>

datatype response_mode =
    DirectPost
  | DirectPostJwt
  | Fragment
  | FragmentJwt
  | DcApi
  | DcApiJwt
  | UnsupportedMode string

definition default_response_mode :: response_mode where
  "default_response_mode = Fragment"

definition response_mode_from :: "string \<Rightarrow> response_mode" where
  "response_mode_from s =
     (if s = ''direct_post'' then DirectPost
      else if s = ''direct_post.jwt'' then DirectPostJwt
      else if s = ''fragment'' then Fragment
      else if s = ''fragment.jwt'' then FragmentJwt
      else if s = ''dc_api'' then DcApi
      else if s = ''dc_api.jwt'' then DcApiJwt
      else UnsupportedMode s)"

fun string_of_mode :: "response_mode \<Rightarrow> string" where
  "string_of_mode DirectPost = ''direct_post''"
| "string_of_mode DirectPostJwt = ''direct_post.jwt''"
| "string_of_mode Fragment = ''fragment''"
| "string_of_mode FragmentJwt = ''fragment.jwt''"
| "string_of_mode DcApi = ''dc_api''"
| "string_of_mode DcApiJwt = ''dc_api.jwt''"
| "string_of_mode (UnsupportedMode u) = u"

text \<open>\<open>Display\<close> has a match of its own.\<close>

fun display_response_mode :: "response_mode \<Rightarrow> string" where
  "display_response_mode DirectPost = ''direct_post''"
| "display_response_mode DirectPostJwt = ''direct_post.jwt''"
| "display_response_mode Fragment = ''fragment''"
| "display_response_mode FragmentJwt = ''fragment.jwt''"
| "display_response_mode DcApi = ''dc_api''"
| "display_response_mode DcApiJwt = ''dc_api.jwt''"
| "display_response_mode (UnsupportedMode u) = u"

lemma display_response_mode_string: "display_response_mode m = string_of_mode m"
  by (cases m) simp_all

definition response_mode_param :: "'z param_lib_scheme \<Rightarrow> response_mode typed_parameter" where
  "response_mode_param L =
     text_param ''response_mode'' (de_string L) response_mode_from string_of_mode"

text \<open>A mode in canonical form: no registered name hides under \<open>UnsupportedMode\<close>.\<close>

definition mode_wf :: "response_mode \<Rightarrow> bool" where
  "mode_wf m \<longleftrightarrow> (\<forall>u. m = UnsupportedMode u \<longrightarrow> response_mode_from u = UnsupportedMode u)"

lemma string_of_mode_from: "string_of_mode (response_mode_from s) = s"
  by (simp add: response_mode_from_def)

lemma mode_wf_from: "mode_wf (response_mode_from s)"
  by (simp add: mode_wf_def response_mode_from_def)

lemma response_mode_from_string: "response_mode_from (string_of_mode m) = m \<longleftrightarrow> mode_wf m"
  by (cases m) (auto simp: mode_wf_def response_mode_from_def)

text \<open>
  \<open>derive(PartialOrd, Ord)\<close>: by the position of the variant, then by the text of an
  unsupported mode.
\<close>

primrec mode_rank :: "response_mode \<Rightarrow> nat" where
  "mode_rank DirectPost = 0"
| "mode_rank DirectPostJwt = 1"
| "mode_rank Fragment = 2"
| "mode_rank FragmentJwt = 3"
| "mode_rank DcApi = 4"
| "mode_rank DcApiJwt = 5"
| "mode_rank (UnsupportedMode u) = 6"

lemma mode_rank_inject: "mode_rank m = mode_rank n \<Longrightarrow> string_of_mode m = string_of_mode n \<Longrightarrow> m = n"
  by (cases m; cases n) simp_all

instantiation response_mode :: linorder
begin

definition less_eq_response_mode :: "response_mode \<Rightarrow> response_mode \<Rightarrow> bool" where
  "less_eq_response_mode m n \<longleftrightarrow>
     mode_rank m < mode_rank n \<or>
     (mode_rank m = mode_rank n \<and> string_of_mode m \<le> string_of_mode n)"

definition less_response_mode :: "response_mode \<Rightarrow> response_mode \<Rightarrow> bool" where
  "less_response_mode m n \<longleftrightarrow>
     mode_rank m < mode_rank n \<or>
     (mode_rank m = mode_rank n \<and> string_of_mode m < string_of_mode n)"

instance
  by standard
    (auto simp: less_eq_response_mode_def less_response_mode_def intro: mode_rank_inject)

end

section \<open>Response and token types\<close>

datatype response_type = VpToken | VpTokenIdToken | UnsupportedType string

fun string_of_response_type :: "response_type \<Rightarrow> string" where
  "string_of_response_type VpToken = ''vp_token''"
| "string_of_response_type VpTokenIdToken = ''vp_token id_token''"
| "string_of_response_type (UnsupportedType s) = s"

definition response_type_from :: "string \<Rightarrow> response_type" where
  "response_type_from s =
     (if s = ''vp_token'' then VpToken
      else if s = ''vp_token id_token'' then VpTokenIdToken
      else UnsupportedType s)"

definition response_type_param :: "'z param_lib_scheme \<Rightarrow> response_type typed_parameter" where
  "response_type_param L =
     text_param ''response_type'' (de_string L) response_type_from string_of_response_type"

definition response_type_wf :: "response_type \<Rightarrow> bool" where
  "response_type_wf t \<longleftrightarrow> (\<forall>u. t = UnsupportedType u \<longrightarrow> response_type_from u = UnsupportedType u)"

datatype id_token_type = SubjectSigned | UnsupportedIdToken string

fun string_of_id_token_type :: "id_token_type \<Rightarrow> string" where
  "string_of_id_token_type SubjectSigned = ''subject_signed_id_token''"
| "string_of_id_token_type (UnsupportedIdToken s) = s"

definition id_token_type_from :: "string \<Rightarrow> id_token_type" where
  "id_token_type_from s =
     (if s = ''subject_signed_id_token'' then SubjectSigned else UnsupportedIdToken s)"

definition id_token_type_param :: "'z param_lib_scheme \<Rightarrow> id_token_type typed_parameter" where
  "id_token_type_param L =
     text_param ''id_token_type'' (de_string L) id_token_type_from string_of_id_token_type"

datatype http_method = GET | POST

definition http_method_try_from :: "string \<Rightarrow> anyhow + http_method" where
  "http_method_try_from value =
     (if value = ''get'' then Inr GET
      else if value = ''post'' then Inr POST
      else Inl (Msg ''Error parsing http method for Auth''))"

fun string_of_http_method :: "http_method \<Rightarrow> string" where
  "string_of_http_method GET = ''get''"
| "string_of_http_method POST = ''post''"

lemma string_of_response_type_from: "string_of_response_type (response_type_from s) = s"
  by (simp add: response_type_from_def)

lemma response_type_wf_from: "response_type_wf (response_type_from s)"
  by (simp add: response_type_wf_def response_type_from_def)

lemma response_type_from_string:
  "response_type_from (string_of_response_type t) = t \<longleftrightarrow> response_type_wf t"
  by (cases t) (auto simp: response_type_wf_def response_type_from_def)

lemma http_method_round_trip: "http_method_try_from (string_of_http_method m) = Inr m"
  by (cases m) (simp_all add: http_method_try_from_def)

section \<open>Expected origins\<close>

datatype expected_origins = ExpectedOrigins (origins: "origin nonempty_vec")

definition expected_origins_new :: "origin nonempty_vec \<Rightarrow> expected_origins" where
  "expected_origins_new os = ExpectedOrigins os"

text \<open>The final \<open>unwrap\<close> panics on an empty vector; no non-empty vector gets there.\<close>

definition expected_origins_try_from :: "'z param_lib_scheme \<Rightarrow> json \<Rightarrow> anyhow + expected_origins" where
  "expected_origins_try_from L value =
     and_then (from_value (de_nev_string L) value) (\<lambda>urls.
     and_then (collect_res (\<lambda>url_str. map_ok (url_origin L) (url_parse L url_str)) (nev_list urls)) (\<lambda>os.
     (case nev_maybe_new os of
        Some v \<Rightarrow> Inr (ExpectedOrigins v)
      | None \<Rightarrow> Inl (Msg ''panicked: unwrap on None''))))"

definition expected_origins_param :: "'z param_lib_scheme \<Rightarrow> expected_origins typed_parameter" where
  "expected_origins_param L =
     \<lparr>KEY = ''expected_origins'', try_from_json = expected_origins_try_from L,
      try_into_json = (\<lambda>v. Inr (JArray (map (\<lambda>u. JString (origin_unicode L u)) (nev_list (origins v)))))\<rparr>"

lemma expected_origins_wf:
  assumes "expected_origins_try_from L j = Inr e"
  shows "nev_wf (origins e)"
  using assms by (auto simp: expected_origins_try_from_def res_simps split: option.splits)

text \<open>The panic is unreachable.\<close>

lemma expected_origins_no_panic:
  assumes "param_lib_ok L" and "from_value (de_nev_string L) j = Inr v"
    and "collect_res (\<lambda>s. map_ok (url_origin L) (url_parse L s)) (nev_list v) = Inr os"
  shows "expected_origins_try_from L j = Inr (ExpectedOrigins (NonEmptyVec os))"
proof -
  have "nev_list v \<noteq> []" using assms(1,2) by (auto simp: param_lib_ok_def nev_wf_def)
  with collect_res_length [OF assms(3)] have "os \<noteq> []" by auto
  then have "nev_maybe_new os = Some (NonEmptyVec os)" by (simp add: res_simps)
  with assms(2,3) show ?thesis by (simp add: expected_origins_try_from_def)
qed

section \<open>Verifier information\<close>

datatype verifier_info_data = VInfoString string | VInfoObject json_map

definition verifier_info_data_from_string :: "string \<Rightarrow> verifier_info_data" where
  "verifier_info_data_from_string value = VInfoString value"

definition verifier_info_data_from_map :: "json_map \<Rightarrow> verifier_info_data" where
  "verifier_info_data_from_map value = VInfoObject value"

definition verifier_info_data_try_from :: "json \<Rightarrow> anyhow + verifier_info_data" where
  "verifier_info_data_try_from value =
     (case value of
        JString s \<Rightarrow> Inr (VInfoString s)
      | JObject ob \<Rightarrow> Inr (VInfoObject ob)
      | _ \<Rightarrow> Inl (Msg ''`verifier_info` `data` must be a string or a JSON object''))"

fun verifier_info_data_into_json :: "verifier_info_data \<Rightarrow> json" where
  "verifier_info_data_into_json (VInfoString s) = JString s"
| "verifier_info_data_into_json (VInfoObject ob) = JObject ob"

record verifier_info_entry =
  vie_format :: string
  vie_data :: verifier_info_data
  vie_credential_ids :: "string nonempty_vec option"

datatype verifier_info = VerifierInfo (vi_entries: "verifier_info_entry nonempty_vec")

definition verifier_info_from :: "verifier_info_entry nonempty_vec \<Rightarrow> verifier_info" where
  "verifier_info_from entries = VerifierInfo entries"

definition verifier_info_param ::
  "verifier_info_entry nonempty_vec deserialize \<Rightarrow> verifier_info_entry nonempty_vec serialize \<Rightarrow>
     verifier_info typed_parameter" where
  "verifier_info_param de ser =
     \<lparr>KEY = ''verifier_info'',
      try_from_json = (\<lambda>value. map_ok VerifierInfo (from_value de value)),
      try_into_json = (\<lambda>value. to_value ser (vi_entries value))\<rparr>"

lemma verifier_info_data_round_trip:
  "verifier_info_data_try_from j = Inr d \<longleftrightarrow> j = verifier_info_data_into_json d"
  by (cases d; cases j) (auto simp: verifier_info_data_try_from_def)

section \<open>Contracts\<close>

lemma typed_param_url:
  assumes "param_lib_ok L" and "\<And>u. get (mk u) = u"
  shows "typed_param (url_param k L mk get)
    (\<lambda>t. mk (get t) = t \<and> (\<exists>j. from_value (de_url L) j = Inr (get t)))"
  using assms by unfold_locales (auto simp: url_param_def param_lib_ok_def)

text \<open>
  A library that satisfies the assumptions, for evaluation: any text is a URL, whose
  origin is opaque.
\<close>

definition std_param_lib :: param_lib where
  "std_param_lib = \<lparr>
     de_string = std_string_de,
     de_strings = std_strings_de,
     de_nev_string = \<lparr>from_value = (\<lambda>j. and_then (from_value std_strings_de j) nev_try_from),
                      from_str = (\<lambda>s. Inl (Msg ''expected value''))\<rparr>,
     de_url = \<lparr>from_value = (\<lambda>j. map_ok Url (from_value std_string_de j)),
               from_str = (\<lambda>s. Inl (Msg ''expected value''))\<rparr>,
     de_object = \<lparr>from_value = (\<lambda>j. ok_or (Msg ''invalid type: expected a map'') (as_object j)),
                  from_str = (\<lambda>s. Inl (Msg ''expected value''))\<rparr>,
     url_parse = (\<lambda>s. Inr (Url s)),
     url_origin = (\<lambda>u. TupleOrigin ''https'' (url_str u) 443),
     origin_unicode = (\<lambda>u. case u of TupleOrigin s h p \<Rightarrow> h | OpaqueOrigin n \<Rightarrow> ''null''),
     did_from_string = (\<lambda>s. Inr s),
     url_safe_no_pad = hex64\<rparr>"

lemma param_lib_ok_std: "param_lib_ok std_param_lib"
  using string_de_std strings_de_std base64_ok_hex64
  by (auto simp: param_lib_ok_def std_param_lib_def res_simps string_de_def)

interpretation state_p: typed_param "state_param std_param_lib" "\<lambda>_. True"
  unfolding state_param_def by (rule typed_param_text) (simp_all add: std_param_lib_def string_de_std)

interpretation response_mode_p: typed_param "response_mode_param std_param_lib" mode_wf
  unfolding response_mode_param_def
  by (rule typed_param_text) (simp_all add: std_param_lib_def string_de_std response_mode_from_string)

section \<open>Properties\<close>

text \<open>
  C40: which texts are client identifiers. An empty text is refused; a text with a colon is
  read as a registered prefix and the rest, and prints back as itself; a text without one is a
  pre-registered identifier.
\<close>

theorem client_id_texts:
  "client_id_new s = Inr c \<longleftrightarrow>
     s \<noteq> [] \<and> (if CHR '':'' \<in> set s then s = get_full_id c else c = ClientId s PreRegistered)"
proof
  assume "client_id_new s = Inr c"
  then show "s \<noteq> [] \<and> (if CHR '':'' \<in> set s then s = get_full_id c else c = ClientId s PreRegistered)"
    using client_id_new_cases [of s c] by (auto split: if_splits)
next
  assume r: "s \<noteq> [] \<and> (if CHR '':'' \<in> set s then s = get_full_id c else c = ClientId s PreRegistered)"
  show "client_id_new s = Inr c"
  proof (cases "CHR '':'' \<in> set s")
    case True
    with r show ?thesis by (simp add: client_id_new_full)
  next
    case False
    with r show ?thesis by (simp add: client_id_new_def splitn2_no_sep)
  qed
qed

text \<open>
  An identifier written into a request object is what the object then reads as; the other
  members are untouched; and a removed identifier is gone.
\<close>

theorem client_id_member:
  assumes "bt_wf obj"
  shows "obj_get client_id_param (snd (obj_insert client_id_param c obj)) = Some (Inr c) \<and>
    obj_get client_id_param (snd (obj_remove client_id_param obj)) = None \<and>
    bt_wf (snd (obj_insert client_id_param c obj)) \<and>
    (KEY T = KEY client_id_param \<or> obj_get T (snd (obj_insert client_id_param c obj)) = obj_get T obj)"
  using client_id_p.get_insert [OF assms, of c] obj_get_remove_same [OF assms, of client_id_param]
    bt_wf_insert [OF assms, of client_id_param c] obj_get_insert_other [OF assms, of client_id_param T c]
  by metis

lemma client_id_member_witness:
  "bt_wf [(''aud'', JString ''x'')] \<and>
   obj_get client_id_param (snd (obj_insert client_id_param (ClientId ''v'' X509Hash) [(''aud'', JString ''x'')])) =
     Some (Inr (ClientId ''v'' X509Hash))"
proof -
  have wf: "bt_wf [(''aud'', JString ''x'')]" by code_simp
  from client_id_member [OF wf, of "ClientId ''v'' X509Hash" "state_param std_param_lib"] wf
  show ?thesis by blast
qed

text \<open>
  The two open enumerations of the request, response modes and response types, lose no
  text when parsed, and parse back exactly when no registered name hides in the catch-all variant.
\<close>

theorem open_enumerations_round_trip:
  "string_of_mode (response_mode_from s) = s \<and> mode_wf (response_mode_from s) \<and>
   (response_mode_from (string_of_mode m) = m \<longleftrightarrow> mode_wf m) \<and>
   string_of_response_type (response_type_from s) = s \<and> response_type_wf (response_type_from s) \<and>
   (response_type_from (string_of_response_type t) = t \<longleftrightarrow> response_type_wf t)"
  by (simp add: string_of_mode_from mode_wf_from response_mode_from_string
      string_of_response_type_from response_type_wf_from response_type_from_string)

end
