(* ===== verification/Metadata.thy ===== *)
theory Metadata
  imports Parameters Credential_Format
begin

text \<open>
  \<open>src/src/core/metadata/\<close>: the metadata of the verifier and of the wallet, as typed
  parameters of an object, the wallet's cached view of them, and their transport in the
  body of a form.
\<close>

section \<open>Parameters\<close>

type_synonym vp_formats_supported = claim_format_map
type_synonym jwk = json_map
type_synonym issuer = string
type_synonym authorization_endpoint = url

record metadata_lib = param_lib +
  de_formats :: "claim_format_map deserialize"
  ser_formats :: "claim_format_map serialize"
  de_jwks :: "jwk list deserialize"

text \<open>A parameter that wraps a vector of strings.\<close>

definition strings_param ::
  "string \<Rightarrow> 'z param_lib_scheme \<Rightarrow> (string \<Rightarrow> 'a) \<Rightarrow> ('a \<Rightarrow> string) \<Rightarrow> 'a list typed_parameter" where
  "strings_param key L parse print =
     \<lparr>KEY = key,
      try_from_json = (\<lambda>value. map_ok (map parse) (from_value (de_strings L) value)),
      try_into_json = (\<lambda>xs. Inr (JArray (map (\<lambda>x. JString (print x)) xs)))\<rparr>"

definition vp_formats_try_from_json :: "'z metadata_lib_scheme \<Rightarrow> json \<Rightarrow> anyhow + vp_formats_supported" where
  "vp_formats_try_from_json L = from_value (de_formats L)"

definition vp_formats_into_json :: "'z metadata_lib_scheme \<Rightarrow> vp_formats_supported \<Rightarrow> anyhow + json" where
  "vp_formats_into_json L = to_value (ser_formats L)"

declare vp_formats_try_from_json_def [simp] vp_formats_into_json_def [simp]

definition vp_formats_param :: "'z metadata_lib_scheme \<Rightarrow> vp_formats_supported typed_parameter" where
  "vp_formats_param L =
     \<lparr>KEY = ''vp_formats_supported'', try_from_json = vp_formats_try_from_json L,
      try_into_json = vp_formats_into_json L\<rparr>"

definition is_claim_format_supported :: "vp_formats_supported \<Rightarrow> claim_format_designation \<Rightarrow> bool" where
  "is_claim_format_supported self designation = hm_contains_key self designation"

definition contains_claim_format_with_payload ::
  "vp_formats_supported \<Rightarrow> claim_format_designation \<Rightarrow> claim_format_payload \<Rightarrow> bool" where
  "contains_claim_format_with_payload self designation payload =
     (case map_option (\<lambda>v. payload_contains v payload) (hm_get self designation) of
        None \<Rightarrow> False
      | Some b \<Rightarrow> b)"

definition supports_security_method ::
  "vp_formats_supported \<Rightarrow> claim_format_designation \<Rightarrow> string \<Rightarrow> bool" where
  "supports_security_method self format security_method =
     (case hm_get self format of
        Some (Alg alg_values) \<Rightarrow> security_method \<in> set alg_values
      | Some (AlgValuesSupported alg_values) \<Rightarrow> security_method \<in> set alg_values
      | Some (ProofType proof_types) \<Rightarrow> security_method \<in> set proof_types
      | _ \<Rightarrow> False)"

definition default_subject_syntax_types :: "string list" where
  "default_subject_syntax_types = [''urn:ietf:params:oauth:jwk-thumbprint'', ''did:key'']"

definition subject_syntax_types_param :: "'z param_lib_scheme \<Rightarrow> string list typed_parameter" where
  "subject_syntax_types_param L = strings_param ''subject_syntax_types_supported'' L (\<lambda>s. s) (\<lambda>s. s)"

definition subject_syntax_types_contains :: "string list \<Rightarrow> string \<Rightarrow> bool" where
  "subject_syntax_types_contains self sub_syntax_type \<longleftrightarrow> sub_syntax_type \<in> set self"

definition jwks_param :: "'z metadata_lib_scheme \<Rightarrow> jwk list typed_parameter" where
  "jwks_param L =
     \<lparr>KEY = ''jwks'', try_from_json = from_value (de_jwks L),
      try_into_json = (\<lambda>keys. Inr (JObject (bt_put ''keys'' (JArray (map JObject keys)) [])))\<rparr>"

definition encrypted_response_enc_values_param :: "'z param_lib_scheme \<Rightarrow> string list typed_parameter" where
  "encrypted_response_enc_values_param L =
     strings_param ''encrypted_response_enc_values_supported'' L (\<lambda>s. s) (\<lambda>s. s)"

definition issuer_param :: "'z param_lib_scheme \<Rightarrow> issuer typed_parameter" where
  "issuer_param L = text_param ''issuer'' (de_string L) (\<lambda>s. s) (\<lambda>s. s)"

definition authorization_endpoint_param ::
  "'z param_lib_scheme \<Rightarrow> authorization_endpoint typed_parameter" where
  "authorization_endpoint_param L = url_param ''authorization_endpoint'' L (\<lambda>u. u) (\<lambda>u. u)"

definition default_response_types :: "response_type list" where
  "default_response_types = [VpToken]"

definition response_types_param :: "'z param_lib_scheme \<Rightarrow> response_type list typed_parameter" where
  "response_types_param L =
     strings_param ''response_types_supported'' L response_type_from string_of_response_type"

definition default_client_id_prefixes :: "client_id_prefix list" where
  "default_client_id_prefixes = [PreRegistered]"

definition client_id_prefixes_param :: "'z param_lib_scheme \<Rightarrow> client_id_prefix list typed_parameter" where
  "client_id_prefixes_param L =
     \<lparr>KEY = ''client_id_prefixes_supported'',
      try_from_json = (\<lambda>value.
        case value of
          JArray xs \<Rightarrow> collect_res (prefix_try_from_json (de_string L)) xs
        | _ \<Rightarrow> Inl (Msg ''expected JSON array'')),
      try_into_json = (\<lambda>value. Inr (JArray (map prefix_into_json value)))\<rparr>"

definition default_signing_algs :: "string list" where
  "default_signing_algs = [''ES256'']"

definition request_object_signing_algs_param :: "'z param_lib_scheme \<Rightarrow> string list typed_parameter" where
  "request_object_signing_algs_param L =
     strings_param ''request_object_signing_alg_values_supported'' L (\<lambda>s. s) (\<lambda>s. s)"

definition authorization_encryption_algs_param :: "'z param_lib_scheme \<Rightarrow> string list typed_parameter" where
  "authorization_encryption_algs_param L =
     strings_param ''authorization_encryption_alg_values_supported'' L (\<lambda>s. s) (\<lambda>s. s)"

definition authorization_encryption_encs_param :: "'z param_lib_scheme \<Rightarrow> string list typed_parameter" where
  "authorization_encryption_encs_param L =
     strings_param ''authorization_encryption_enc_values_supported'' L (\<lambda>s. s) (\<lambda>s. s)"

definition default_id_token_types :: "string list" where
  "default_id_token_types = [''subject_signed_id_token'']"

definition id_token_types_param :: "'z param_lib_scheme \<Rightarrow> string list typed_parameter" where
  "id_token_types_param L = strings_param ''id_token_types_supported'' L (\<lambda>s. s) (\<lambda>s. s)"

definition default_id_token_signing_algs :: "string list" where
  "default_id_token_signing_algs = [''ES256'']"

definition id_token_signing_algs_param :: "'z param_lib_scheme \<Rightarrow> string list typed_parameter" where
  "id_token_signing_algs_param L =
     strings_param ''id_token_signing_alg_values_supported'' L (\<lambda>s. s) (\<lambda>s. s)"

definition default_scopes :: "string list" where
  "default_scopes = [''openid'']"

definition scopes_param :: "'z param_lib_scheme \<Rightarrow> string list typed_parameter" where
  "scopes_param L = strings_param ''scopes_supported'' L (\<lambda>s. s) (\<lambda>s. s)"

section \<open>Verifier metadata\<close>

text \<open>
  The accessors of \<open>ClientMetadata\<close> in \<open>parameters.rs\<close>. \<open>resolve\<close> reads
  it from the request, whose untyped object is the argument.
\<close>

definition client_metadata_resolve :: "'z param_lib_scheme \<Rightarrow> untyped_object \<Rightarrow> anyhow + client_metadata" where
  "client_metadata_resolve L request =
     (case obj_get (client_metadata_param L) request of
        Some metadata \<Rightarrow> metadata
      | None \<Rightarrow> Inr (ClientMetadata []))"

definition client_metadata_jwks ::
  "'z metadata_lib_scheme \<Rightarrow> client_metadata \<Rightarrow> (anyhow + jwk list) option" where
  "client_metadata_jwks L self = obj_get (jwks_param L) (cm_object self)"

definition client_metadata_vp_formats_supported ::
  "'z metadata_lib_scheme \<Rightarrow> client_metadata \<Rightarrow> anyhow + vp_formats_supported" where
  "client_metadata_vp_formats_supported L self =
     and_then (ok_or (Msg ''missing vp_formats_supported'')
       (obj_get (vp_formats_param L) (cm_object self))) (\<lambda>r. r)"

definition client_metadata_enc_values ::
  "'z param_lib_scheme \<Rightarrow> client_metadata \<Rightarrow> anyhow + string list option" where
  "client_metadata_enc_values L self =
     transpose_opt (obj_get (encrypted_response_enc_values_param L) (cm_object self))"

section \<open>Wallet metadata\<close>

record wallet_metadata =
  wm_object :: untyped_object
  wm_authorization_endpoint :: authorization_endpoint
  wm_vp_formats_supported :: vp_formats_supported
  wm_response_types_supported :: "response_type list"
  wm_client_id_prefixes_supported :: "client_id_prefix list"
  wm_request_object_signing_algs :: "string list"
  wm_scopes_supported :: "string list"
  wm_subject_syntax_types_supported :: "string list"
  wm_id_token_types_supported :: "string list"
  wm_id_token_signing_algs :: "string list"

definition metadata_new ::
  "authorization_endpoint \<Rightarrow> vp_formats_supported \<Rightarrow> response_type list \<Rightarrow> untyped_object option \<Rightarrow>
     wallet_metadata" where
  "metadata_new endpoint formats types other =
     \<lparr>wm_object = (case other of None \<Rightarrow> [] | Some ob \<Rightarrow> ob),
      wm_authorization_endpoint = endpoint,
      wm_vp_formats_supported = formats,
      wm_response_types_supported = types,
      wm_client_id_prefixes_supported = default_client_id_prefixes,
      wm_request_object_signing_algs = default_signing_algs,
      wm_scopes_supported = default_scopes,
      wm_subject_syntax_types_supported = default_subject_syntax_types,
      wm_id_token_types_supported = default_id_token_types,
      wm_id_token_signing_algs = default_id_token_signing_algs\<rparr>"

text \<open>
  The two mutable references to parts of the metadata: the cached formats, and (through
  \<open>DerefMut\<close>) the object beside the cache. Neither touches the other.
\<close>

definition vp_formats_supported_mut ::
  "(vp_formats_supported \<Rightarrow> vp_formats_supported) \<Rightarrow> wallet_metadata \<Rightarrow> wallet_metadata" where
  "vp_formats_supported_mut f self = self\<lparr>wm_vp_formats_supported := f (wm_vp_formats_supported self)\<rparr>"

definition metadata_deref_mut :: "(untyped_object \<Rightarrow> untyped_object) \<Rightarrow> wallet_metadata \<Rightarrow> wallet_metadata" where
  "metadata_deref_mut f self = self\<lparr>wm_object := f (wm_object self)\<rparr>"

definition add_request_object_signing_alg ::
  "'z param_lib_scheme \<Rightarrow> string \<Rightarrow> wallet_metadata \<Rightarrow> (anyhow + unit) \<times> wallet_metadata" where
  "add_request_object_signing_alg L alg self =
     (case obj_get_or_default (request_object_signing_algs_param L) default_signing_algs (wm_object self) of
        Inl e \<Rightarrow> (Inl e, self)
      | Inr supported \<Rightarrow>
          (Inr (), self\<lparr>wm_object :=
             snd (obj_insert (request_object_signing_algs_param L) (supported @ [alg]) (wm_object self))\<rparr>))"

definition add_client_id_prefixes_supported ::
  "'z param_lib_scheme \<Rightarrow> client_id_prefix list \<Rightarrow> wallet_metadata \<Rightarrow>
     (anyhow + unit) \<times> wallet_metadata" where
  "add_client_id_prefixes_supported L client_id_prefixes self =
     (case obj_get_or_default (client_id_prefixes_param L) default_client_id_prefixes (wm_object self) of
        Inl e \<Rightarrow> (Inl e, self)
      | Inr supported \<Rightarrow>
          (Inr (), self\<lparr>wm_object :=
             snd (obj_insert (client_id_prefixes_param L) (supported @ client_id_prefixes)
                   (wm_object self))\<rparr>))"

definition is_client_id_prefix_supported :: "wallet_metadata \<Rightarrow> client_id_prefix \<Rightarrow> bool" where
  "is_client_id_prefix_supported self client_id_prefix \<longleftrightarrow>
     client_id_prefix \<in> set (wm_client_id_prefixes_supported self)"

definition object_of_metadata :: "'z metadata_lib_scheme \<Rightarrow> wallet_metadata \<Rightarrow> untyped_object" where
  "object_of_metadata L value =
     (let inner = wm_object value;
          inner = snd (obj_insert (authorization_endpoint_param L) (wm_authorization_endpoint value) inner);
          inner = snd (obj_insert (vp_formats_param L) (wm_vp_formats_supported value) inner)
      in inner)"

text \<open>\<open>value.get().parsing_error().unwrap_or_default()\<close>.\<close>

definition get_parsed_or :: "'a typed_parameter \<Rightarrow> 'a \<Rightarrow> untyped_object \<Rightarrow> 'a" where
  "get_parsed_or T dflt obj =
     (case parsing_error_opt T (obj_get T obj) of Inr x \<Rightarrow> x | Inl _ \<Rightarrow> dflt)"

definition metadata_try_from :: "'z metadata_lib_scheme \<Rightarrow> untyped_object \<Rightarrow> anyhow + wallet_metadata" where
  "metadata_try_from L value =
     and_then (parsing_error_opt (authorization_endpoint_param L)
       (obj_get (authorization_endpoint_param L) value)) (\<lambda>endpoint.
     and_then (parsing_error_opt (vp_formats_param L) (obj_get (vp_formats_param L) value)) (\<lambda>formats.
     and_then (parsing_error_opt (response_types_param L) (obj_get (response_types_param L) value)) (\<lambda>types.
     Inr \<lparr>wm_object = value,
          wm_authorization_endpoint = endpoint,
          wm_vp_formats_supported = formats,
          wm_response_types_supported = types,
          wm_client_id_prefixes_supported =
            get_parsed_or (client_id_prefixes_param L) default_client_id_prefixes value,
          wm_request_object_signing_algs =
            get_parsed_or (request_object_signing_algs_param L) default_signing_algs value,
          wm_scopes_supported = get_parsed_or (scopes_param L) default_scopes value,
          wm_subject_syntax_types_supported =
            get_parsed_or (subject_syntax_types_param L) default_subject_syntax_types value,
          wm_id_token_types_supported =
            get_parsed_or (id_token_types_param L) default_id_token_types value,
          wm_id_token_signing_algs =
            get_parsed_or (id_token_signing_algs_param L) default_id_token_signing_algs value\<rparr>)))"

definition openid4vp_scheme_static :: "'z metadata_lib_scheme \<Rightarrow> anyhow + wallet_metadata" where
  "openid4vp_scheme_static L =
     and_then (url_parse L ''openid4vp:'') (\<lambda>authorization_endpoint.
       let response_types_supported = [VpToken];
           alg_values_supported = [''ES256''];
           vp_formats_supported = hm_put JwtVcJson (AlgValuesSupported alg_values_supported)
             (hm_put JwtVpJson (AlgValuesSupported alg_values_supported) []);
           ob = [];
           ob = snd (obj_insert (authorization_endpoint_param L) authorization_endpoint ob);
           ob = snd (obj_insert (response_types_param L) response_types_supported ob);
           ob = snd (obj_insert (vp_formats_param L) vp_formats_supported ob);
           ob = snd (obj_insert (request_object_signing_algs_param L) alg_values_supported ob)
       in metadata_try_from L ob)"

section \<open>Transport in a form\<close>

text \<open>\<open>serde_urlencoded\<close> and the text of a JSON value are foreign.\<close>

record form_codec =
  form_encode :: "(string, string) hmap \<Rightarrow> anyhow + string"
  form_decode :: "string \<Rightarrow> anyhow + (string, string) hmap"
  json_print :: "json \<Rightarrow> string"
  json_parse :: "string \<Rightarrow> anyhow + json"

text \<open>
  What they document: a form decodes to the pairs it was encoded from, in some order,
  and the text of a JSON value parses back as the value.
\<close>

definition form_codec_ok :: "form_codec \<Rightarrow> bool" where
  "form_codec_ok c \<longleftrightarrow>
     (\<forall>m s. hm_wf m \<and> form_encode c m = Inr s \<longrightarrow>
        (\<exists>m'. form_decode c s = Inr m' \<and> hm_wf m' \<and> hm_get m' = hm_get m)) \<and>
     (\<forall>j. json_parse c (json_print c j) = Inr j)"

definition url_encode_wallet_metadata ::
  "'z metadata_lib_scheme \<Rightarrow> form_codec \<Rightarrow> wallet_metadata \<Rightarrow> anyhow + string" where
  "url_encode_wallet_metadata L c metadata =
     (let json_value = JObject (object_of_metadata L metadata)
      in case json_value of
           JObject m \<Rightarrow>
             map_err (fmt_err ''failed to url encode wallet metadata: '')
               (form_encode c (hm_of_list (map (\<lambda>(k, v). (k, json_print c v)) m)))
         | _ \<Rightarrow> Inl (Msg ''failed to serialize wallet metadata: Expected an object''))"

definition url_decode_wallet_metadata ::
  "'z metadata_lib_scheme \<Rightarrow> form_codec \<Rightarrow> string \<Rightarrow> anyhow + wallet_metadata" where
  "url_decode_wallet_metadata L c metadata =
     and_then (form_decode c metadata) (\<lambda>flat_map.
       let json_map = bt_of_list (map (\<lambda>(k, v).
             (k, case json_parse c v of Inr j \<Rightarrow> j | Inl _ \<Rightarrow> JString v)) flat_map)
       in map_err (fmt_err ''failed to decode wallet metadata: '')
            (and_then (from_value (de_object L) (JObject json_map)) (metadata_try_from L)))"

section \<open>Facts\<close>

text \<open>
  What is assumed of the instances that serde derives for the map of formats: a map that was read
  is written, and what is written reads as that map. (A map that was not read need not be: a
  \<open>Json\<close> payload with the members of another variant reads back as that variant.)
\<close>

definition metadata_lib_ok :: "'z metadata_lib_scheme \<Rightarrow> bool" where
  "metadata_lib_ok L \<longleftrightarrow>
     param_lib_ok L \<and>
     (\<forall>j f. from_value (de_formats L) j = Inr f \<longrightarrow>
        (\<exists>j'. to_value (ser_formats L) f = Inr j' \<and> from_value (de_formats L) j' = Inr f))"

lemma metadata_keys [simp]:
  "KEY (vp_formats_param L) = ''vp_formats_supported''"
  "KEY (authorization_endpoint_param P) = ''authorization_endpoint''"
  "KEY (response_types_param P) = ''response_types_supported''"
  "KEY (client_id_prefixes_param P) = ''client_id_prefixes_supported''"
  "KEY (request_object_signing_algs_param P) = ''request_object_signing_alg_values_supported''"
  "KEY (scopes_param P) = ''scopes_supported''"
  "KEY (subject_syntax_types_param P) = ''subject_syntax_types_supported''"
  "KEY (id_token_types_param P) = ''id_token_types_supported''"
  "KEY (id_token_signing_algs_param P) = ''id_token_signing_alg_values_supported''"
  by (simp_all add: vp_formats_param_def authorization_endpoint_param_def url_param_def
      response_types_param_def client_id_prefixes_param_def request_object_signing_algs_param_def
      scopes_param_def subject_syntax_types_param_def id_token_types_param_def
      id_token_signing_algs_param_def strings_param_def)

lemma typed_param_strings:
  assumes "strings_de (de_strings L)" and "\<And>x. ok x \<Longrightarrow> parse (print x) = x"
  shows "typed_param (strings_param k L parse print) (list_all ok)"
proof
  fix xs assume xs: "list_all ok xs"
  have "from_value (de_strings L) (JArray (map JString (map print xs))) = Inr (map print xs)"
    using assms(1) by (simp only: strings_de_def)
  moreover have "map (\<lambda>x. parse (print x)) xs = xs"
    using xs assms(2) by (induction xs) simp_all
  ultimately show "\<exists>v. try_into_json (strings_param k L parse print) xs = Inr v \<and>
      try_from_json (strings_param k L parse print) v = Inr xs"
    by (simp add: strings_param_def comp_def)
qed

lemma typed_param_client_id_prefixes:
  assumes "string_de (de_string L)"
  shows "typed_param (client_id_prefixes_param L) (\<lambda>_. True)"
proof
  fix ps :: "client_id_prefix list"
  have "collect_res (prefix_try_from_json (de_string L)) (map prefix_into_json ps) = Inr ps"
    using assms
    by (induction ps) (simp_all add: prefix_try_from_json_def prefix_into_json_def string_de_def
        prefix_try_from_string)
  then show "\<exists>v. try_into_json (client_id_prefixes_param L) ps = Inr v \<and>
      try_from_json (client_id_prefixes_param L) v = Inr ps"
    by (simp add: client_id_prefixes_param_def)
qed

interpretation client_id_prefixes_p: typed_param "client_id_prefixes_param std_param_lib" "\<lambda>_. True"
  by (rule typed_param_client_id_prefixes) (simp add: std_param_lib_def string_de_std)

interpretation scopes_p: typed_param "scopes_param std_param_lib" "list_all (\<lambda>_. True)"
  unfolding scopes_param_def
  by (rule typed_param_strings) (simp_all add: std_param_lib_def strings_de_std)

lemma parsing_error_opt_cases:
  obtains x where "parsing_error_opt T (obj_get T ob) = Inr x" "obj_get T ob = Some (Inr x)"
  | e where "parsing_error_opt T (obj_get T ob) = Inl e"
  by (cases "parsing_error_opt T (obj_get T ob)") (auto simp: res_simps)

text \<open>A metadata object is accepted exactly when its three required members parse.\<close>

lemma metadata_try_from_Inr:
  "metadata_try_from L ob = Inr m \<Longrightarrow>
     wm_object m = ob \<and>
     obj_get (authorization_endpoint_param L) ob = Some (Inr (wm_authorization_endpoint m)) \<and>
     obj_get (vp_formats_param L) ob = Some (Inr (wm_vp_formats_supported m)) \<and>
     obj_get (response_types_param L) ob = Some (Inr (wm_response_types_supported m))"
  by (auto simp: metadata_try_from_def res_simps)

lemma get_parsed_or_cong:
  "obj_get T ob = obj_get T ob' \<Longrightarrow> get_parsed_or T d ob = get_parsed_or T d ob'"
  by (simp add: get_parsed_or_def)

lemma get_parsed_or_present:
  "obj_get T ob = Some (Inr x) \<Longrightarrow> get_parsed_or T d ob = x"
  by (simp add: get_parsed_or_def parsing_error_opt_def)

text \<open>Writing parsed metadata back and reading it again changes nothing but the object.\<close>

lemma typed_param_vp_formats:
  "metadata_lib_ok L \<Longrightarrow>
     typed_param (vp_formats_param L) (\<lambda>f. \<exists>j. from_value (de_formats L) j = Inr f)"
  by unfold_locales (fastforce simp: vp_formats_param_def metadata_lib_ok_def)

lemma metadata_round_trip:
  assumes L: "metadata_lib_ok L" and wf: "bt_wf ob" and m: "metadata_try_from L ob = Inr m"
  shows "metadata_try_from L (object_of_metadata L m) =
    Inr (m\<lparr>wm_object := object_of_metadata L m\<rparr>)"
proof -
  let ?E = "authorization_endpoint_param L" and ?F = "vp_formats_param L"
  let ?ob1 = "snd (obj_insert ?E (wm_authorization_endpoint m) ob)"
  define ob2 where "ob2 = object_of_metadata L m"
  from m have mo: "wm_object m = ob"
    and ep: "obj_get ?E ob = Some (Inr (wm_authorization_endpoint m))"
    by (auto dest: metadata_try_from_Inr)
  have ob2: "ob2 = snd (obj_insert ?F (wm_vp_formats_supported m) ?ob1)"
    by (simp add: ob2_def object_of_metadata_def mo Let_def)
  have wf1: "bt_wf ?ob1" using wf by (rule bt_wf_insert)
  have "param_lib_ok L" using L by (simp add: metadata_lib_ok_def)
  then have E: "typed_param ?E (\<lambda>u. u = u \<and> (\<exists>j. from_value (de_url L) j = Inr u))"
    unfolding authorization_endpoint_param_def by (rule typed_param_url) simp
  have url: "\<exists>j. from_value (de_url L) j = Inr (wm_authorization_endpoint m)"
    using ep by (auto simp: obj_get_Some_iff authorization_endpoint_param_def url_param_def)
  have frame: "obj_get T ob2 = obj_get T ob"
    if "KEY T \<noteq> ''authorization_endpoint''" "KEY T \<noteq> ''vp_formats_supported''"
    for T :: "'t typed_parameter"
    using that wf wf1 by (simp add: ob2 obj_get_insert_other)
  have "obj_get ?E ob2 = Some (Inr (wm_authorization_endpoint m))"
    using wf1 url typed_param.get_insert [OF E wf] by (simp add: ob2 obj_get_insert_other)
  moreover have "obj_get ?F ob2 = Some (Inr (wm_vp_formats_supported m))"
    unfolding ob2
  proof (rule typed_param.get_insert [OF typed_param_vp_formats [OF L] wf1])
    have "obj_get ?F ob = Some (Inr (wm_vp_formats_supported m))"
      using m by (auto dest: metadata_try_from_Inr)
    then show "\<exists>j. from_value (de_formats L) j = Inr (wm_vp_formats_supported m)"
      by (auto simp: obj_get_Some_iff vp_formats_param_def)
  qed
  ultimately have "metadata_try_from L ob2 = Inr (m\<lparr>wm_object := ob2\<rparr>)"
    using m frame [of "response_types_param L"]
    by (auto simp: metadata_try_from_def res_simps parsing_error_opt_def
        get_parsed_or_cong [OF frame [of "client_id_prefixes_param L"]]
        get_parsed_or_cong [OF frame [of "request_object_signing_algs_param L"]]
        get_parsed_or_cong [OF frame [of "scopes_param L"]]
        get_parsed_or_cong [OF frame [of "subject_syntax_types_param L"]]
        get_parsed_or_cong [OF frame [of "id_token_types_param L"]]
        get_parsed_or_cong [OF frame [of "id_token_signing_algs_param L"]])
  then show ?thesis by (simp add: ob2_def)
qed

text \<open>
  The list of prefixes that the wallet is asked about is a cache: adding a prefix to the
  metadata changes the object, and shows only once the object is read again.
\<close>

lemma add_client_id_prefixes_cached:
  "add_client_id_prefixes_supported L ps m = (r, m') \<Longrightarrow>
     is_client_id_prefix_supported m' p = is_client_id_prefix_supported m p"
  by (auto simp: add_client_id_prefixes_supported_def is_client_id_prefix_supported_def split: sum.splits)

lemma add_client_id_prefixes_reread:
  assumes L: "param_lib_ok L" and wf: "bt_wf (wm_object m)"
    and add: "add_client_id_prefixes_supported L ps m = (Inr (), m')"
    and read: "metadata_try_from L (wm_object m') = Inr m2" and p: "p \<in> set ps"
  shows "is_client_id_prefix_supported m2 p"
proof -
  let ?T = "client_id_prefixes_param L"
  obtain qs where m': "wm_object m' = snd (obj_insert ?T (qs @ ps) (wm_object m))"
    using add by (auto simp: add_client_id_prefixes_supported_def split: sum.splits)
  have "typed_param ?T (\<lambda>_. True)"
    using L by (intro typed_param_client_id_prefixes) (simp add: param_lib_ok_def)
  then have "obj_get ?T (wm_object m') = Some (Inr (qs @ ps))"
    unfolding m' using wf by (rule typed_param.get_insert) simp
  then have "wm_client_id_prefixes_supported m2 = qs @ ps"
    using read by (auto simp: metadata_try_from_def res_simps get_parsed_or_present)
  with p show ?thesis by (simp add: is_client_id_prefix_supported_def)
qed

text \<open>A form carries the metadata: what is decoded is what the encoded object reads as.\<close>

definition printed_members :: "form_codec \<Rightarrow> json_map \<Rightarrow> (string, string) hmap" where
  "printed_members c ob = hm_of_list (map (\<lambda>(k, v). (k, json_print c v)) ob)"

text \<open>The two laws of the codec, for the members of one object.\<close>

definition form_carries :: "form_codec \<Rightarrow> json_map \<Rightarrow> bool" where
  "form_carries c ob \<longleftrightarrow>
     (case form_encode c (printed_members c ob) of
        Inl _ \<Rightarrow> True
      | Inr s \<Rightarrow>
          (case form_decode c s of
             Inl _ \<Rightarrow> False
           | Inr m \<Rightarrow> hm_wf m \<and> hm_get m = hm_get (printed_members c ob))) \<and>
     list_all (\<lambda>(k, v). json_parse c (json_print c v) = Inr v) ob"

lemma form_codec_ok_carries: "form_codec_ok c \<Longrightarrow> form_carries c ob"
  by (auto simp: form_carries_def form_codec_ok_def printed_members_def list_all_iff split: sum.split)
    (metis hm_wf_of_list sum.distinct(1), metis hm_wf_of_list sum.inject(2), metis hm_wf_of_list sum.inject(2))

lemma form_round_trip:
  assumes c: "form_carries c ob" and wf: "bt_wf ob"
    and enc: "form_encode c (printed_members c ob) = Inr s"
  shows "\<exists>flat. form_decode c s = Inr flat \<and>
    bt_of_list (map (\<lambda>(k, v). (k, case json_parse c v of Inr j \<Rightarrow> j | Inl _ \<Rightarrow> JString v)) flat) = ob"
proof -
  let ?m = "printed_members c ob"
  let ?g = "\<lambda>v. case json_parse c v of Inr j \<Rightarrow> j | Inl _ \<Rightarrow> JString v"
  have pp: "bt_get ob k = Some j \<Longrightarrow> json_parse c (json_print c j) = Inr j" for k j
    using c by (auto simp: form_carries_def list_all_iff dest!: bt_get_in)
  obtain flat where flat: "form_decode c s = Inr flat" "hm_wf flat" "hm_get flat = hm_get ?m"
    using c enc by (auto simp: form_carries_def split: sum.splits)
  have get_m: "hm_get ?m k = map_option (json_print c) (bt_get ob k)" for k
  proof -
    have "map_of (rev (map (\<lambda>(k, v). (k, json_print c v)) ob)) = map_of (map (\<lambda>(k, v). (k, json_print c v)) ob)"
      using bt_wf_distinct [OF wf] by (intro map_of_rev_distinct) (simp add: comp_def split_beta)
    then show ?thesis by (simp add: printed_members_def hm_get_of_list map_of_map bt_get_map_of)
  qed
  have "bt_of_list (map (\<lambda>(k, v). (k, ?g v)) flat) = ob"
  proof (rule bt_get_ext [OF _ wf])
    fix k
    have "map_of (rev (map (\<lambda>(k, v). (k, ?g v)) flat)) = map_of (map (\<lambda>(k, v). (k, ?g v)) flat)"
      using flat(2) by (intro map_of_rev_distinct) (simp add: comp_def split_beta hm_wf_def)
    then have "bt_get (bt_of_list (map (\<lambda>(k, v). (k, ?g v)) flat)) k = map_option ?g (hm_get flat k)"
      by (simp add: bt_get_of_list map_of_map hm_get_def)
    then show "bt_get (bt_of_list (map (\<lambda>(k, v). (k, ?g v)) flat)) k = bt_get ob k"
      using pp [of k] by (cases "bt_get ob k") (simp_all add: flat(3) get_m)
  qed simp
  with flat(1) show ?thesis by blast
qed

lemma url_wallet_metadata_round_trip:
  assumes L: "param_lib_ok L" and c: "form_carries c (object_of_metadata L m)"
    and wf: "bt_wf (object_of_metadata L m)"
    and enc: "url_encode_wallet_metadata L c m = Inr s"
  shows "url_decode_wallet_metadata L c s =
    map_err (fmt_err ''failed to decode wallet metadata: '') (metadata_try_from L (object_of_metadata L m))"
proof -
  let ?ob = "object_of_metadata L m"
  have "form_encode c (printed_members c ?ob) = Inr s"
    using enc by (simp add: url_encode_wallet_metadata_def printed_members_def res_simps)
  from form_round_trip [OF c wf this] obtain flat where "form_decode c s = Inr flat"
    "bt_of_list (map (\<lambda>(k, v). (k, case json_parse c v of Inr j \<Rightarrow> j | Inl _ \<Rightarrow> JString v)) flat) = ?ob"
    by blast
  with L show ?thesis by (simp add: url_decode_wallet_metadata_def param_lib_ok_def Let_def)
qed

lemma object_of_metadata_wf: "bt_wf (wm_object m) \<Longrightarrow> bt_wf (object_of_metadata L m)"
  by (simp add: object_of_metadata_def Let_def bt_wf_insert)

section \<open>Properties\<close>

text \<open>
  Adding prefixes to the metadata of a wallet updates only its JSON object: the list the
  request builder consults is unchanged, and the new prefixes count once the object is parsed again.
\<close>

theorem added_prefixes_count_after_parsing:
  assumes "param_lib_ok L" and "bt_wf (wm_object m)"
    and "add_client_id_prefixes_supported L ps m = (Inr (), m')"
    and "metadata_try_from L (wm_object m') = Inr m2"
  shows "is_client_id_prefix_supported m' = is_client_id_prefix_supported m \<and>
    set ps \<subseteq> set (wm_client_id_prefixes_supported m2)"
proof
  show "is_client_id_prefix_supported m' = is_client_id_prefix_supported m"
    using add_client_id_prefixes_cached [OF assms(3)] by blast
  show "set ps \<subseteq> set (wm_client_id_prefixes_supported m2)"
    using add_client_id_prefixes_reread [OF assms]
    by (auto simp: is_client_id_prefix_supported_def)
qed

end
