(* ===== verification/Http.thy ===== *)
theory Http
  imports Parameters
begin

text \<open>
  \<open>src/src/core/util/http.rs\<close>: the requests the library makes and the client that it offers
  to execute them; a wallet may bring another. Header values and URIs are checked by foreign parsers, and
  the client of \<open>reqwest\<close> is a record of operations. A status is the number of the HTTP status
  code, and the typed extensions of a response are entries under the names of their types.
\<close>

datatype http_verb = HttpGet | HttpPost

record http_request =
  http_uri :: string
  http_verb_of :: http_verb
  http_headers :: "(string \<times> string) list"
  http_request_body :: string

record http_response =
  http_status :: nat
  http_version :: string
  http_extensions :: "(string \<times> string) list"
  http_response_headers :: "(string \<times> string) list"
  http_body :: string

text \<open>A response with a status and a body only.\<close>

definition plain_response :: "nat \<Rightarrow> string \<Rightarrow> http_response" where
  "plain_response status body = \<lparr>http_status = status, http_version = ''HTTP/1.1'', http_extensions = [],
     http_response_headers = [], http_body = body\<rparr>"

lemma plain_response_simps [simp]:
  "http_status (plain_response status body) = status"
  "http_body (plain_response status body) = body"
  by (simp_all add: plain_response_def)

text \<open>\<open>HeaderValue::from_str\<close> and \<open>Uri::from_str\<close>.\<close>

record http_lib =
  header_value :: "string \<Rightarrow> anyhow + string"
  uri_from_str :: "string \<Rightarrow> anyhow + string"

text \<open>\<open>AsyncHttpClient::execute\<close>.\<close>

type_synonym 'w http_client = "http_request \<Rightarrow> ('w, anyhow, http_response) io"

section \<open>The client of the library\<close>

text \<open>
  \<open>reqwest\<close>: building a client with its TLS stack, converting a request, sending it, and what
  is read from an answer; the body arrives later than the head, so reading it is an effect.
\<close>

record ('w, 'c, 'q, 'p) reqwest_lib =
  client_build :: "anyhow + 'c"
  request_convert :: "http_request \<Rightarrow> anyhow + 'q"
  client_execute :: "'c \<Rightarrow> 'q \<Rightarrow> ('w, anyhow, 'p) io"
  answer_status :: "'p \<Rightarrow> nat"
  answer_version :: "'p \<Rightarrow> string"
  answer_extensions :: "'p \<Rightarrow> (string \<times> string) list"
  answer_headers :: "'p \<Rightarrow> (string \<times> string) list"
  answer_bytes :: "'p \<Rightarrow> ('w, anyhow, string) io"

datatype 'c reqwest_client = ReqwestClient (reqwest_as_ref: 'c)

definition reqwest_new :: "('w, 'c, 'q, 'p) reqwest_lib \<Rightarrow> anyhow + 'c reqwest_client" where
  "reqwest_new Q = map_ok ReqwestClient (map_err (Context ''unable to build http_client'') (client_build Q))"

text \<open>
  \<open>http::response::Builder\<close> holds the head of a response, or the first error of what it was
  given; \<open>extensions_mut\<close> and \<open>headers_mut\<close> answer \<open>None\<close> when it holds an error.
\<close>

type_synonym response_builder = "anyhow + http_response"

definition builder_mut ::
  "string \<Rightarrow> (http_response \<Rightarrow> http_response) \<Rightarrow> response_builder \<Rightarrow> anyhow + response_builder" where
  "builder_mut message f builder =
     (case builder of Inl _ \<Rightarrow> Inl (Msg message) | Inr head \<Rightarrow> Inr (Inr (f head)))"

definition builder_body :: "string \<Rightarrow> response_builder \<Rightarrow> anyhow + http_response" where
  "builder_body body builder = map_ok (\<lambda>head. head\<lparr>http_body := body\<rparr>) builder"

text \<open>The target is not a web assembly, where version and extensions are left out.\<close>

definition reqwest_execute ::
  "('w, 'c, 'q, 'p) reqwest_lib \<Rightarrow> 'c reqwest_client \<Rightarrow> http_request \<Rightarrow> ('w, anyhow, http_response) io" where
  "reqwest_execute Q self request =
     io_bind (io_lift (map_err (Context ''unable to convert request'') (request_convert Q request))) (\<lambda>req.
     io_bind (io_map_err (Context ''http request failed'') (client_execute Q (reqwest_as_ref self) req))
       (\<lambda>response.
     let builder = Inr \<lparr>http_status = answer_status Q response, http_version = answer_version Q response,
           http_extensions = [], http_response_headers = [], http_body = []\<rparr>
     in
     io_bind (io_lift (builder_mut ''unable to set extensions''
       (\<lambda>head. head\<lparr>http_extensions := http_extensions head @ answer_extensions Q response\<rparr>) builder))
       (\<lambda>builder.
     io_bind (io_lift (builder_mut ''unable to set headers''
       (\<lambda>head. head\<lparr>http_response_headers := http_response_headers head @ answer_headers Q response\<rparr>) builder))
       (\<lambda>builder.
     io_bind (io_map_err (Context ''failed to extract response body'') (answer_bytes Q response)) (\<lambda>bytes.
     io_lift (map_err (Context ''unable to construct response'') (builder_body bytes builder)))))))"

text \<open>
  The client hands on the answer of \<open>reqwest\<close> as it is, and fails where \<open>reqwest\<close> does: the
  errors of the builder of the response never occur.
\<close>

lemma reqwest_execute_Inr_iff:
  "reqwest_execute Q self request w = (Inr r, w') \<longleftrightarrow>
     (\<exists>req answer w1. request_convert Q request = Inr req \<and>
        client_execute Q (reqwest_as_ref self) req w = (Inr answer, w1) \<and>
        answer_bytes Q answer w1 = (Inr (http_body r), w') \<and>
        http_status r = answer_status Q answer \<and> http_version r = answer_version Q answer \<and>
        http_extensions r = answer_extensions Q answer \<and> http_response_headers r = answer_headers Q answer)"
  by (auto simp: reqwest_execute_def builder_mut_def builder_body_def io_simps res_simps
      intro!: http_response.equality)

lemma reqwest_execute_Inl_iff:
  "reqwest_execute Q self request w = (Inl e, w') \<longleftrightarrow>
     (\<exists>c. request_convert Q request = Inl c \<and> e = Context ''unable to convert request'' c \<and> w' = w) \<or>
     (\<exists>req c. request_convert Q request = Inr req \<and>
        client_execute Q (reqwest_as_ref self) req w = (Inl c, w') \<and> e = Context ''http request failed'' c) \<or>
     (\<exists>req answer w1 c. request_convert Q request = Inr req \<and>
        client_execute Q (reqwest_as_ref self) req w = (Inr answer, w1) \<and>
        answer_bytes Q answer w1 = (Inl c, w') \<and> e = Context ''failed to extract response body'' c)"
  by (auto simp: reqwest_execute_def builder_mut_def builder_body_def io_simps res_simps)

section \<open>Requests\<close>

text \<open>\<open>StatusCode::is_success\<close> is documented as the range 200 to 299.\<close>

definition is_success :: "nat \<Rightarrow> bool" where
  "is_success status \<longleftrightarrow> 200 \<le> status \<and> status < 300"

definition MIME_TYPE_JSON :: string where
  "MIME_TYPE_JSON = ''application/json''"

definition MIME_TYPE_FORM_URLENCODED :: string where
  "MIME_TYPE_FORM_URLENCODED = ''application/x-www-form-urlencoded''"

definition MIME_TYPE_OAUTH_REQ_JWT :: string where
  "MIME_TYPE_OAUTH_REQ_JWT = ''application/oauth-authz-req+jwt''"

definition MIME_TYPE_OAUTH_REQ_JWT_SHORT :: string where
  "MIME_TYPE_OAUTH_REQ_JWT_SHORT = ''oauth-authz-req+jwt''"

definition MIME_TYPE_TEXT_PLAIN :: string where
  "MIME_TYPE_TEXT_PLAIN = ''text/plain''"

text \<open>A header that is not valid is left out, silently; for a POST both are.\<close>

definition create_post_request ::
  "http_lib \<Rightarrow> url \<Rightarrow> string \<Rightarrow> string \<Rightarrow> string \<Rightarrow> anyhow + http_request" where
  "create_post_request H u body ctype acc =
     (let headers =
        (case (header_value H ctype, header_value H acc) of
           (Inr ct, Inr ac) \<Rightarrow> [(''content-type'', ct), (''accept'', ac)]
         | _ \<Rightarrow> [])
      in and_then (map_err (Context ''could not parse request uri'') (uri_from_str H (url_str u))) (\<lambda>uri.
         Inr \<lparr>http_uri = uri, http_verb_of = HttpPost, http_headers = headers,
              http_request_body = body\<rparr>))"

definition create_get_request :: "http_lib \<Rightarrow> url \<Rightarrow> string \<Rightarrow> anyhow + http_request" where
  "create_get_request H u acc =
     (let headers =
        (case header_value H acc of
           Inr ac \<Rightarrow> [(''accept'', ac)]
         | Inl _ \<Rightarrow> [])
      in and_then (map_err (Context ''could not parse request uri'') (uri_from_str H (url_str u))) (\<lambda>uri.
         Inr \<lparr>http_uri = uri, http_verb_of = HttpGet, http_headers = headers,
              http_request_body = []\<rparr>))"

text \<open>\<open>String::from_utf8\<close>: the well-formed sequences of the Unicode standard.\<close>

fun utf8_cont :: "char \<Rightarrow> bool" where
  "utf8_cont c = (0x80 \<le> (of_char c :: nat) \<and> (of_char c :: nat) \<le> 0xBF)"

fun utf8_second :: "char \<Rightarrow> char \<Rightarrow> bool" where
  "utf8_second a b =
     (if (of_char a :: nat) = 0xE0 then 0xA0 \<le> (of_char b :: nat) \<and> (of_char b :: nat) \<le> 0xBF
      else if (of_char a :: nat) = 0xED then 0x80 \<le> (of_char b :: nat) \<and> (of_char b :: nat) \<le> 0x9F
      else if (of_char a :: nat) = 0xF0 then 0x90 \<le> (of_char b :: nat) \<and> (of_char b :: nat) \<le> 0xBF
      else if (of_char a :: nat) = 0xF4 then 0x80 \<le> (of_char b :: nat) \<and> (of_char b :: nat) \<le> 0x8F
      else utf8_cont b)"

fun utf8_width :: "char \<Rightarrow> nat" where
  "utf8_width a =
     (if (of_char a :: nat) < 0x80 then 1
      else if (of_char a :: nat) < 0xC2 then 0
      else if (of_char a :: nat) < 0xE0 then 2
      else if (of_char a :: nat) < 0xF0 then 3
      else if (of_char a :: nat) < 0xF5 then 4
      else 0)"

fun utf8_valid :: "string \<Rightarrow> bool" where
  "utf8_valid [] = True"
| "utf8_valid (a # s) =
     (if utf8_width a = 1 then utf8_valid s
      else case s of
             [] \<Rightarrow> False
           | b # s1 \<Rightarrow>
               if utf8_width a = 2 then utf8_second a b \<and> utf8_valid s1
               else case s1 of
                      [] \<Rightarrow> False
                    | c # s2 \<Rightarrow>
                        if utf8_width a = 3 then utf8_second a b \<and> utf8_cont c \<and> utf8_valid s2
                        else case s2 of
                               [] \<Rightarrow> False
                             | d # s3 \<Rightarrow>
                                 utf8_width a = 4 \<and> utf8_second a b \<and> utf8_cont c \<and> utf8_cont d \<and>
                                 utf8_valid s3)"

definition string_from_utf8 :: "string \<Rightarrow> anyhow + string" where
  "string_from_utf8 bytes =
     (if utf8_valid bytes then Inr bytes else Inl (Msg ''invalid utf-8 sequence''))"

lemma create_get_request_Inr:
  "create_get_request H u acc = Inr r \<Longrightarrow> http_verb_of r = HttpGet \<and> http_request_body r = []"
  by (auto simp: create_get_request_def Let_def res_simps)

lemma create_post_request_Inr:
  "create_post_request H u body ct acc = Inr r \<Longrightarrow> http_verb_of r = HttpPost \<and> http_request_body r = body"
  by (auto simp: create_post_request_def Let_def res_simps)

lemma utf8_valid_ascii: "\<forall>c \<in> set s. (of_char c :: nat) < 0x80 \<Longrightarrow> utf8_valid s"
  by (induction s) auto

end
