(* ===== verification/Request_Object.thy ===== *)
theory Request_Object
  imports Metadata Dcql Presentation_Definition Http
begin

text \<open>
  \<open>src/src/core/authorization_request/mod.rs\<close>: the authorization request object, how
  it is parsed from an untyped object, from a query and from a URL, and how it is written back. The
  resolution of signed requests is in its own theory, after the wallet's interface.
\<close>

section \<open>Data\<close>

datatype presentation_definition_indirection =
    ByValueDefinition presentation_definition
  | ByReferenceDefinition url

datatype presentation_query =
    QueryDCQL dcql
  | QueryPresentationDefinition presentation_definition_indirection

datatype resolved_presentation_query =
    ResolvedDCQL dcql
  | ResolvedPresentationDefinition presentation_definition

record request_object =
  aro_inner :: untyped_object
  aro_client_id :: client_id
  aro_response_mode :: response_mode
  aro_response_type :: response_type
  aro_presentation_query :: presentation_query
  aro_return_uri :: "url option"
  aro_nonce :: nonce
  aro_client_metadata :: client_metadata
  aro_expected_origins :: "expected_origins option"

record request_reference =
  request_uri :: url
  request_uri_method :: "http_method option"

datatype request_indirection = ByValueRequest string | ByReferenceRequest request_reference

record signed_request =
  signed_client_id :: string
  signed_indirection :: request_indirection

datatype authorization_request = PlainRequest request_object | SignedRequest signed_request

datatype fetched_request = UnverifiedJwt string | FetchedPlain request_object

fun get_presentation_definition :: "resolved_presentation_query \<Rightarrow> presentation_definition option" where
  "get_presentation_definition (ResolvedPresentationDefinition p) = Some p"
| "get_presentation_definition (ResolvedDCQL d) = None"

fun get_dcql :: "resolved_presentation_query \<Rightarrow> dcql option" where
  "get_dcql (ResolvedDCQL d) = Some d"
| "get_dcql (ResolvedPresentationDefinition p) = None"

section \<open>Foreign functions\<close>

record request_lib = metadata_lib +
  de_dcql :: "dcql deserialize"
  ser_dcql :: "dcql serialize"
  de_pd :: "presentation_definition deserialize"
  ser_pd :: "presentation_definition serialize"
  de_item :: "transaction_data_item deserialize"
  url_query :: "url \<Rightarrow> string option"
  url_authority :: "url \<Rightarrow> string"
  url_path :: "url \<Rightarrow> string"
  url_set_query :: "string \<Rightarrow> url \<Rightarrow> url"
  url_set_fragment :: "string \<Rightarrow> url \<Rightarrow> url"
  form_to_object :: "string \<Rightarrow> anyhow + json_map"
  form_of_map :: "(string, string) bmap \<Rightarrow> anyhow + string"
  de_signed :: "signed_request deserialize"
  form_of_signed :: "signed_request \<Rightarrow> anyhow + string"
  json_from_slice :: "string \<Rightarrow> anyhow + json"
  json_to_string :: "json \<Rightarrow> anyhow + string"

section \<open>Parsing an object\<close>

definition object_state :: "'z param_lib_scheme \<Rightarrow> untyped_object \<Rightarrow> string option" where
  "object_state L value =
     map_option state_str (Option.bind (obj_get (state_param L) value) res_ok)"

text \<open>The match on the two URIs and the response mode, in the order of its arms.\<close>

definition parse_return_uri ::
  "'z param_lib_scheme \<Rightarrow> untyped_object \<Rightarrow> response_mode \<Rightarrow>
     core_error + url option \<times> response_mode \<times> expected_origins option" where
  "parse_return_uri L value mode =
     (let state = object_state L value;
          not_allowed = Inl (protocol_invalid_req
            (quoted ''response_uri/redirect_uri'' @ '' is not allowed with this '' @
             quoted (string_of_mode mode) @ '' response mode'') state);
          exclusive = Inl (protocol_invalid_req
            (quoted ''response_uri'' @ '' and '' @ quoted ''redirect_uri'' @ '' are mutually exclusive'') state);
          required = (\<lambda>p. Inl (protocol_invalid_req
            (quoted p @ '' is required for this '' @ quoted (string_of_mode mode) @ '' response mode'') state));
          bad_uri = (\<lambda>e. add_source e (protocol_invalid_req
            (''could not parse a '' @ quoted ''redirect_uri'') state));
          from_redirect = (\<lambda>uri. and_then (map_err bad_uri (parsing_error_res (redirect_uri_param L) uri))
            (\<lambda>u. Inr (Some (redirect_url u), mode, None)));
          from_response = (\<lambda>uri. and_then (map_err bad_uri (parsing_error_res (response_uri_param L) uri))
            (\<lambda>u. Inr (Some (response_url u), mode, None)));
          from_dc_api = Inr (None, mode,
            Option.bind (obj_get (expected_origins_param L) value) res_ok)
      in case (obj_get (redirect_uri_param L) value, obj_get (response_uri_param L) value, mode) of
           (Some uri, None, Fragment) \<Rightarrow> from_redirect uri
         | (Some uri, None, FragmentJwt) \<Rightarrow> from_redirect uri
         | (None, Some uri, DirectPost) \<Rightarrow> from_response uri
         | (None, Some uri, DirectPostJwt) \<Rightarrow> from_response uri
         | (None, None, DcApi) \<Rightarrow> from_dc_api
         | (None, None, DcApiJwt) \<Rightarrow> from_dc_api
         | (_, _, DcApi) \<Rightarrow> not_allowed
         | (_, _, DcApiJwt) \<Rightarrow> not_allowed
         | (_, _, UnsupportedMode m) \<Rightarrow>
             Inl (protocol_invalid_req (quoted m @ '' response_mode is not supported'') state)
         | (Some _, Some _, _) \<Rightarrow> exclusive
         | (_, None, DirectPost) \<Rightarrow> required ''response_uri''
         | (_, None, DirectPostJwt) \<Rightarrow> required ''response_uri''
         | (None, _, Fragment) \<Rightarrow> required ''redirect_uri''
         | (None, _, FragmentJwt) \<Rightarrow> required ''redirect_uri'')"

definition parse_presentation_query ::
  "'z request_lib_scheme \<Rightarrow> untyped_object \<Rightarrow> core_error + presentation_query" where
  "parse_presentation_query L value =
     (let state = object_state L value;
          P = pd_param (de_pd L) (ser_pd L);
          U = presentation_definition_uri_param L;
          D = dcql_param (de_dcql L) (ser_dcql L)
      in case (obj_get P value, obj_get U value, obj_get D value) of
           (None, None, Some dcql) \<Rightarrow>
             and_then (map_err (\<lambda>e. add_source e (protocol InvalidDCQLFormat
                 ''an error occurred in parsing dcql_query'' state)) (parsing_error_res D dcql))
               (\<lambda>v. Inr (QueryDCQL v))
         | (Some pd, None, None) \<Rightarrow>
             and_then (map_err (\<lambda>e. add_source e (protocol InvalidPresentationDefinitionFormat
                 ''an error occurred in parsing presentation_definition'' state)) (parsing_error_res P pd))
               (\<lambda>v. Inr (QueryPresentationDefinition (ByValueDefinition v)))
         | (None, Some by_reference, None) \<Rightarrow>
             and_then (map_err (\<lambda>e. add_source e (protocol InvalidPresentationDefinitionUri
                 (''could parse a '' @ quoted ''presentation_definition_uri'') state))
                 (parsing_error_res U by_reference))
               (\<lambda>v. Inr (QueryPresentationDefinition (ByReferenceDefinition (definition_url v))))
         | _ \<Rightarrow> Inl (protocol_invalid_req
             (''one and only one correctly formatted of '' @ quoted ''presentation_definition'' @ '', '' @
              quoted ''presentation_definition_uri'' @ '' or '' @ quoted ''dcql_query'' @ '' is required'')
             state))"

definition request_try_from ::
  "'z request_lib_scheme \<Rightarrow> untyped_object \<Rightarrow> core_error + request_object" where
  "request_try_from L value =
     and_then (map_err error_from_anyhow (parsing_error_opt client_id_param (obj_get client_id_param value)))
       (\<lambda>client_id.
     and_then (map_err error_from_anyhow
       (obj_get_or_default (response_mode_param L) default_response_mode value)) (\<lambda>mode.
     and_then (parse_return_uri L value mode) (\<lambda>(return_uri, response_mode, expected_origins).
     and_then (map_err error_from_anyhow
       (parsing_error_opt (response_type_param L) (obj_get (response_type_param L) value))) (\<lambda>response_type.
     and_then (parse_presentation_query L value) (\<lambda>presentation_query.
     and_then (map_err error_from_anyhow
       (parsing_error_opt (nonce_param L) (obj_get (nonce_param L) value))) (\<lambda>nonce.
     and_then (map_err error_from_anyhow
       (parsing_error_opt (client_metadata_param L) (obj_get (client_metadata_param L) value)))
       (\<lambda>client_metadata.
     Inr \<lparr>aro_inner = value, aro_client_id = client_id, aro_response_mode = response_mode,
          aro_response_type = response_type, aro_presentation_query = presentation_query,
          aro_return_uri = return_uri, aro_nonce = nonce, aro_client_metadata = client_metadata,
          aro_expected_origins = expected_origins\<rparr>)))))))"

definition object_of_request :: "request_object \<Rightarrow> untyped_object" where
  "object_of_request value = snd (obj_insert client_id_param (aro_client_id value) (aro_inner value))"

definition request_deref_mut :: "(untyped_object \<Rightarrow> untyped_object) \<Rightarrow> request_object \<Rightarrow> request_object" where
  "request_deref_mut f self = self\<lparr>aro_inner := f (aro_inner self)\<rparr>"

section \<open>Reading a request\<close>

definition request_state :: "'z param_lib_scheme \<Rightarrow> request_object \<Rightarrow> string option" where
  "request_state L self =
     map_option state_str (case res_ok (transpose_opt (obj_get (state_param L) (aro_inner self))) of
       None \<Rightarrow> None
     | Some v \<Rightarrow> v)"

definition get_transaction_data :: "'z param_lib_scheme \<Rightarrow> request_object \<Rightarrow> transaction_data option" where
  "get_transaction_data L self =
     (case res_ok (transpose_opt (obj_get (transaction_data_param L) (aro_inner self))) of
        None \<Rightarrow> None
      | Some v \<Rightarrow> v)"

text \<open>The loop over the encoded items stops at the first that cannot be parsed.\<close>

definition get_transaction_data_items ::
  "'z request_lib_scheme \<Rightarrow> request_object \<Rightarrow> core_error + transaction_data_item list option" where
  "get_transaction_data_items L self =
     (case get_transaction_data L self of
        Some td \<Rightarrow>
          map_ok Some (collect_res (\<lambda>item.
            map_err (\<lambda>e. protocol InvalidTransactionData
                (''The transaction data cannot be parsed: '' @ display_core_error False e)
                (request_state L self))
              (item_from_base64url_encoded (url_safe_no_pad L) (de_item L) item)) (td_items td))
      | None \<Rightarrow> Inr None)"

definition resolve_presentation_query ::
  "'z request_lib_scheme \<Rightarrow> http_lib \<Rightarrow> 'w http_client \<Rightarrow> request_object \<Rightarrow>
     ('w, core_error, resolved_presentation_query) io" where
  "resolve_presentation_query L H client self =
     (case aro_presentation_query self of
        QueryDCQL d \<Rightarrow> io_return (ResolvedDCQL d)
      | QueryPresentationDefinition (ByValueDefinition pd) \<Rightarrow> io_return (ResolvedPresentationDefinition pd)
      | QueryPresentationDefinition (ByReferenceDefinition u) \<Rightarrow>
          io_bind (io_lift (map_err error_from_anyhow (create_get_request H u MIME_TYPE_JSON))) (\<lambda>req.
          io_bind (io_map_err Internal (client req)) (\<lambda>resp.
          if \<not> is_success (http_status resp) then
            io_throw (protocol InvalidPresentationDefinitionUri
              (''failed to get Presentation Definition: status_code='' @ string_of_nat (http_status resp))
              (request_state L self))
          else
            io_bind (io_lift (map_err internal (json_from_slice L (http_body resp)))) (\<lambda>j.
            io_bind (io_lift (map_err (\<lambda>e. add_source e (protocol InvalidPresentationDefinitionReference
                ''failed to get parse Presentation Definition: {e}'' (request_state L self)))
              (from_string_or_value (de_pd L) j))) (\<lambda>pd.
            io_return (ResolvedPresentationDefinition pd))))))"

definition request_into_url :: "'z request_lib_scheme \<Rightarrow> request_object \<Rightarrow> url \<Rightarrow> core_error + url" where
  "request_into_url L self authorization_endpoint =
     and_then (map_err error_from_anyhow (flatten_for_form (json_to_string L) (aro_inner self))) (\<lambda>flat.
     and_then (map_err Internal (form_of_map L flat)) (\<lambda>query.
     Inr (url_set_query L query authorization_endpoint)))"

definition signed_into_url :: "'z request_lib_scheme \<Rightarrow> signed_request \<Rightarrow> url \<Rightarrow> core_error + url" where
  "signed_into_url L self authorization_endpoint =
     and_then (map_err Internal (form_of_signed L self)) (\<lambda>query.
     Inr (url_set_query L query authorization_endpoint))"

definition is_id_token_requested :: "request_object \<Rightarrow> bool option" where
  "is_id_token_requested self =
     (case aro_response_type self of
        VpToken \<Rightarrow> Some False
      | VpTokenIdToken \<Rightarrow> Some True
      | UnsupportedType _ \<Rightarrow> None)"

section \<open>Parsing a query\<close>

definition request_from_query_params ::
  "'z request_lib_scheme \<Rightarrow> string \<Rightarrow> core_error + authorization_request" where
  "request_from_query_params L query_params =
     and_then (map_err (\<lambda>e. add_source e (protocol_invalid_req
         ''unable to parse Authorization Request from query params'' None))
       (form_to_object L query_params)) (\<lambda>query_map.
     if bt_get query_map ''request'' \<noteq> None \<or> bt_get query_map ''request_uri'' \<noteq> None then
       and_then (map_err (\<lambda>e. add_source e (protocol_invalid_req
           ''unable to parse Signed Authorization Request from query params'' None))
         (from_value (de_signed L) (JObject query_map))) (\<lambda>signed_req.
       Inr (SignedRequest signed_req))
     else
       and_then (request_try_from L query_map) (\<lambda>auth_req_obj.
       Inr (PlainRequest auth_req_obj)))"

definition request_from_url ::
  "'z request_lib_scheme \<Rightarrow> url \<Rightarrow> url \<Rightarrow> core_error + authorization_request" where
  "request_from_url L u authorization_endpoint =
     and_then (ok_or (protocol_invalid_req ''missing query params in Authorization Request uri'' None)
       (url_query L u)) (\<lambda>query.
     and_then (ensure (url_authority L u = url_authority L authorization_endpoint)
       (protocol_invalid_req
         (''unexpected authorization_endpoint authority, expected '' @
          quoted (url_authority L authorization_endpoint) @ '', received '' @ quoted (url_authority L u))
         None)) (\<lambda>_.
     and_then (ensure (url_path L u = url_path L authorization_endpoint)
       (protocol_invalid_req
         (''unexpected authorization_endpoint path, expected '' @
          quoted (url_path L authorization_endpoint) @ '', received '' @ quoted (url_path L u))
         None)) (\<lambda>_.
     request_from_query_params L query)))"

section \<open>Facts\<close>

lemma request_keys [simp]:
  "KEY client_id_param = ''client_id''"
  "KEY (response_mode_param P) = ''response_mode''"
  "KEY (response_type_param P) = ''response_type''"
  "KEY (state_param P) = ''state''"
  "KEY (nonce_param P) = ''nonce''"
  "KEY (wallet_nonce_param P) = ''wallet_nonce''"
  "KEY (client_metadata_param P) = ''client_metadata''"
  "KEY (redirect_uri_param P) = ''redirect_uri''"
  "KEY (response_uri_param P) = ''response_uri''"
  "KEY (transaction_data_param P) = ''transaction_data''"
  "KEY (expected_origins_param P) = ''expected_origins''"
  "KEY (presentation_definition_uri_param P) = ''presentation_definition_uri''"
  "KEY (pd_param dp sp) = ''presentation_definition''"
  "KEY (dcql_param dq sq) = ''dcql_query''"
  "KEY (audience_param P) = ''aud''"
  "KEY (verifier_info_param dv sv) = ''verifier_info''"
  by (simp_all add: client_id_param_def response_mode_param_def response_type_param_def
      state_param_def nonce_param_def wallet_nonce_param_def client_metadata_param_def
      redirect_uri_param_def response_uri_param_def transaction_data_param_def
      expected_origins_param_def presentation_definition_uri_param_def pd_param_def dcql_param_def
      audience_param_def verifier_info_param_def text_param_def url_param_def)

text \<open>What the response mode fixes about the return URI.\<close>

definition is_dc_api :: "response_mode \<Rightarrow> bool" where
  "is_dc_api m \<longleftrightarrow> m = DcApi \<or> m = DcApiJwt"

definition return_uri_spec ::
  "'z param_lib_scheme \<Rightarrow> untyped_object \<Rightarrow> response_mode \<Rightarrow> url option \<Rightarrow> expected_origins option \<Rightarrow> bool" where
  "return_uri_spec L value mode u os \<longleftrightarrow>
     (case mode of
        Fragment \<Rightarrow> obj_get (response_uri_param L) value = None \<and> os = None \<and>
          (\<exists>r. obj_get (redirect_uri_param L) value = Some (Inr r) \<and> u = Some (redirect_url r))
      | FragmentJwt \<Rightarrow> obj_get (response_uri_param L) value = None \<and> os = None \<and>
          (\<exists>r. obj_get (redirect_uri_param L) value = Some (Inr r) \<and> u = Some (redirect_url r))
      | DirectPost \<Rightarrow> obj_get (redirect_uri_param L) value = None \<and> os = None \<and>
          (\<exists>r. obj_get (response_uri_param L) value = Some (Inr r) \<and> u = Some (response_url r))
      | DirectPostJwt \<Rightarrow> obj_get (redirect_uri_param L) value = None \<and> os = None \<and>
          (\<exists>r. obj_get (response_uri_param L) value = Some (Inr r) \<and> u = Some (response_url r))
      | DcApi \<Rightarrow> obj_get (redirect_uri_param L) value = None \<and>
          obj_get (response_uri_param L) value = None \<and> u = None \<and>
          os = Option.bind (obj_get (expected_origins_param L) value) res_ok
      | DcApiJwt \<Rightarrow> obj_get (redirect_uri_param L) value = None \<and>
          obj_get (response_uri_param L) value = None \<and> u = None \<and>
          os = Option.bind (obj_get (expected_origins_param L) value) res_ok
      | UnsupportedMode m \<Rightarrow> False)"

lemma parse_return_uri_Inr_iff:
  "parse_return_uri L value mode = Inr (u, mode', os) \<longleftrightarrow>
     mode' = mode \<and> return_uri_spec L value mode u os"
  by (cases mode; cases "obj_get (redirect_uri_param L) value";
      cases "obj_get (response_uri_param L) value")
    (auto simp: parse_return_uri_def return_uri_spec_def Let_def res_simps)

text \<open>Every refusal is an \<open>invalid_request\<close> that carries the state of the request.\<close>

lemma parse_return_uri_Inl:
  "parse_return_uri L value mode = Inl e \<Longrightarrow>
     is_protocol InvalidRequest e \<and> error_state e = object_state L value"
  by (cases mode; cases "obj_get (redirect_uri_param L) value";
      cases "obj_get (response_uri_param L) value")
    (auto simp: parse_return_uri_def Let_def res_simps)

definition presentation_query_spec ::
  "'z request_lib_scheme \<Rightarrow> untyped_object \<Rightarrow> presentation_query \<Rightarrow> bool" where
  "presentation_query_spec L value q \<longleftrightarrow>
     (let p = obj_get (pd_param (de_pd L) (ser_pd L)) value;
          u = obj_get (presentation_definition_uri_param L) value;
          d = obj_get (dcql_param (de_dcql L) (ser_dcql L)) value
      in case q of
           QueryDCQL v \<Rightarrow> p = None \<and> u = None \<and> d = Some (Inr v)
         | QueryPresentationDefinition (ByValueDefinition v) \<Rightarrow> p = Some (Inr v) \<and> u = None \<and> d = None
         | QueryPresentationDefinition (ByReferenceDefinition v) \<Rightarrow>
             p = None \<and> u = Some (Inr (PresentationDefinitionUri v)) \<and> d = None)"

lemma parse_presentation_query_Inr_iff:
  "parse_presentation_query L value = Inr q \<longleftrightarrow> presentation_query_spec L value q"
  by (auto simp: parse_presentation_query_def presentation_query_spec_def Let_def res_simps
      split: option.splits presentation_query.splits presentation_definition_indirection.splits)

text \<open>The object that was parsed determines the request, and every check is necessary.\<close>

definition request_spec :: "'z request_lib_scheme \<Rightarrow> untyped_object \<Rightarrow> request_object \<Rightarrow> bool" where
  "request_spec L value r \<longleftrightarrow>
     aro_inner r = value \<and>
     obj_get client_id_param value = Some (Inr (aro_client_id r)) \<and>
     (obj_get (response_mode_param L) value = None \<and> aro_response_mode r = Fragment \<or>
      obj_get (response_mode_param L) value = Some (Inr (aro_response_mode r))) \<and>
     return_uri_spec L value (aro_response_mode r) (aro_return_uri r) (aro_expected_origins r) \<and>
     obj_get (response_type_param L) value = Some (Inr (aro_response_type r)) \<and>
     presentation_query_spec L value (aro_presentation_query r) \<and>
     obj_get (nonce_param L) value = Some (Inr (aro_nonce r)) \<and>
     obj_get (client_metadata_param L) value = Some (Inr (aro_client_metadata r))"

lemma request_try_from_spec:
  "request_try_from L value = Inr r \<longleftrightarrow> request_spec L value r"
proof -
  have "r = \<lparr>aro_inner = aro_inner r, aro_client_id = aro_client_id r,
      aro_response_mode = aro_response_mode r, aro_response_type = aro_response_type r,
      aro_presentation_query = aro_presentation_query r, aro_return_uri = aro_return_uri r,
      aro_nonce = aro_nonce r, aro_client_metadata = aro_client_metadata r,
      aro_expected_origins = aro_expected_origins r\<rparr>"
    by simp
  then show ?thesis
    by (cases r) (auto simp: request_try_from_def request_spec_def res_simps
        obj_get_or_default_Inr_iff default_response_mode_def parse_return_uri_Inr_iff
        parse_presentation_query_Inr_iff)
qed

lemma request_state_eq: "request_state L r = object_state L (aro_inner r)"
  by (auto simp: request_state_def object_state_def res_simps split: option.splits sum.splits)

lemma return_uri_spec_cong:
  assumes "obj_get (redirect_uri_param L) v = obj_get (redirect_uri_param L) w"
    and "obj_get (response_uri_param L) v = obj_get (response_uri_param L) w"
    and "obj_get (expected_origins_param L) v = obj_get (expected_origins_param L) w"
  shows "return_uri_spec L v m u os = return_uri_spec L w m u os"
  using assms by (simp add: return_uri_spec_def split: response_mode.split)

lemma presentation_query_spec_cong:
  assumes "obj_get (pd_param (de_pd L) (ser_pd L)) v = obj_get (pd_param (de_pd L) (ser_pd L)) w"
    and "obj_get (presentation_definition_uri_param L) v = obj_get (presentation_definition_uri_param L) w"
    and "obj_get (dcql_param (de_dcql L) (ser_dcql L)) v = obj_get (dcql_param (de_dcql L) (ser_dcql L)) w"
  shows "presentation_query_spec L v q = presentation_query_spec L w q"
  using assms by (simp add: presentation_query_spec_def Let_def)

lemma object_of_request_get:
  "bt_wf (aro_inner r) \<Longrightarrow> KEY T \<noteq> ''client_id'' \<Longrightarrow>
     obj_get T (object_of_request r) = obj_get T (aro_inner r)"
  by (simp add: object_of_request_def obj_get_insert_other)

text \<open>Writing a parsed request back and parsing it again gives the same request.\<close>

lemma request_round_trip:
  assumes wf: "bt_wf value" and r: "request_try_from L value = Inr r"
  shows "request_try_from L (object_of_request r) = Inr (r\<lparr>aro_inner := object_of_request r\<rparr>)"
proof -
  from r have spec: "request_spec L value r" and inner: "aro_inner r = value"
    by (simp_all add: request_try_from_spec request_spec_def)
  note get = object_of_request_get [of r, unfolded inner, OF wf]
  have "obj_get client_id_param (object_of_request r) = Some (Inr (aro_client_id r))"
    unfolding object_of_request_def inner using wf by (rule client_id_p.get_insert) simp
  moreover have "return_uri_spec L (object_of_request r) m u os = return_uri_spec L value m u os" for m u os
    by (rule return_uri_spec_cong) (simp_all add: get)
  moreover have "presentation_query_spec L (object_of_request r) q = presentation_query_spec L value q" for q
    by (rule presentation_query_spec_cong) (simp_all add: get)
  ultimately show ?thesis
    using spec by (simp add: request_try_from_spec request_spec_def get)
qed

lemma request_from_url_Inr_iff:
  "request_from_url L u ep = Inr a \<longleftrightarrow>
     url_authority L u = url_authority L ep \<and> url_path L u = url_path L ep \<and>
     (\<exists>q. url_query L u = Some q \<and> request_from_query_params L q = Inr a)"
  by (auto simp: request_from_url_def res_simps)

lemma request_from_query_params_Inr_iff:
  "request_from_query_params L q = Inr a \<longleftrightarrow>
     (\<exists>m. form_to_object L q = Inr m \<and>
        (if bt_get m ''request'' = None \<and> bt_get m ''request_uri'' = None
         then \<exists>r. request_spec L m r \<and> a = PlainRequest r
         else \<exists>s. from_value (de_signed L) (JObject m) = Inr s \<and> a = SignedRequest s))"
proof (cases "form_to_object L q")
  case (Inl e)
  then show ?thesis by (simp add: request_from_query_params_def)
next
  case (Inr m)
  then show ?thesis
    by (cases "bt_get m ''request'' = None \<and> bt_get m ''request_uri'' = None")
      (auto simp: request_from_query_params_def res_simps request_try_from_spec)
qed

section \<open>A library for evaluation\<close>

text \<open>
  Foreign functions that satisfy what is assumed of them. A member of
  \<open>vp_formats_supported\<close> is kept as its JSON, any object is the query for one credential, and
  the text of a URL is its query.
\<close>

definition formats_of_members :: "untyped_object \<Rightarrow> claim_format_map" where
  "formats_of_members m = hm_of_list (map (\<lambda>(k, v). (designation_from_name k, PayloadJson v)) m)"

definition members_of_formats :: "claim_format_map \<Rightarrow> untyped_object" where
  "members_of_formats f =
     bt_of_list (map (\<lambda>(d, p). (designation_name d, case p of PayloadJson v \<Rightarrow> v | _ \<Rightarrow> JNull)) f)"

definition formats_of_json :: "json \<Rightarrow> anyhow + claim_format_map" where
  "formats_of_json j =
     (case j of
        JObject m \<Rightarrow>
          (let f = formats_of_members m
           in if formats_of_members (members_of_formats f) = f then Inr f
              else Inl (Msg ''members not in order''))
      | _ \<Rightarrow> Inl (Msg ''invalid type: expected a map''))"

definition json_of_formats :: "claim_format_map \<Rightarrow> anyhow + json" where
  "json_of_formats f = Inr (JObject (members_of_formats f))"

definition ex_dcql :: dcql where
  "ex_dcql = dcql_new (nev_new (credential_new (ID ''pid'') SdJwtVc meta_new))"

definition std_de :: "(json \<Rightarrow> anyhow + 'a) \<Rightarrow> 'a deserialize" where
  "std_de f = \<lparr>from_value = f, from_str = (\<lambda>s. Inl (Msg ''expected value''))\<rparr>"

definition std_ser :: "('a \<Rightarrow> anyhow + json) \<Rightarrow> 'a serialize" where
  "std_ser f = \<lparr>to_value = f, to_string = (\<lambda>x. Inr ''{}'')\<rparr>"

definition std_request_lib :: request_lib where
  "std_request_lib = \<lparr>
     de_string = de_string std_param_lib, de_strings = de_strings std_param_lib,
     de_nev_string = de_nev_string std_param_lib, de_url = de_url std_param_lib,
     de_object = de_object std_param_lib, url_parse = url_parse std_param_lib,
     url_origin = url_origin std_param_lib, origin_unicode = origin_unicode std_param_lib,
     did_from_string = did_from_string std_param_lib, url_safe_no_pad = url_safe_no_pad std_param_lib,
     de_formats = std_de formats_of_json,
     ser_formats = std_ser json_of_formats,
     de_jwks = std_de (\<lambda>j. map_ok (\<lambda>m. [m]) (ok_or (Msg ''invalid type'') (as_object j))),
     de_dcql = std_de (\<lambda>j. map_ok (\<lambda>m. ex_dcql) (ok_or (Msg ''invalid type'') (as_object j))),
     ser_dcql = std_ser (\<lambda>q. Inr (JObject [])),
     de_pd = std_de (\<lambda>j. Inl (Msg ''invalid type'')),
     ser_pd = std_ser (\<lambda>q. Inr (JObject [])),
     de_item = std_de (\<lambda>j. Inl (Msg ''invalid type'')),
     url_query = (\<lambda>u. Some (url_str u)),
     url_authority = (\<lambda>u. []),
     url_path = (\<lambda>u. []),
     url_set_query = (\<lambda>q u. Url (url_str u @ ''?'' @ q)),
     url_set_fragment = (\<lambda>q u. Url (url_str u @ ''#'' @ q)),
     form_to_object = (\<lambda>s. Inr [(s, JString s)]),
     form_of_map = (\<lambda>m. Inr (join_str ''&'' (map (\<lambda>(k, v). k @ ''='' @ v) m))),
     de_signed = std_de (\<lambda>j. Inr \<lparr>signed_client_id = ''c'', signed_indirection = ByValueRequest ''j''\<rparr>),
     form_of_signed = (\<lambda>r. Inr (''client_id='' @ signed_client_id r)),
     json_from_slice = (\<lambda>s. Inr (JString s)),
     json_to_string = (\<lambda>j. Inr ''{}'')\<rparr>"

lemmas std_request_lib_defs =
  std_request_lib_def std_param_lib_def std_string_de_def std_strings_de_def std_de_def std_ser_def

lemma param_lib_ok_std_request: "param_lib_ok std_request_lib"
  using param_lib_ok_std by (simp add: param_lib_ok_def std_request_lib_def)

lemma metadata_lib_ok_std_request: "metadata_lib_ok std_request_lib"
  using param_lib_ok_std_request
  by (auto simp: metadata_lib_ok_def std_request_lib_def std_de_def std_ser_def json_of_formats_def
      formats_of_json_def Let_def split: json.splits if_splits)

text \<open>A request for \<open>ex_dcql\<close> by \<open>direct_post\<close>.\<close>

definition ex_request_json :: untyped_object where
  "ex_request_json = bt_of_list
     [(''client_id'', JString ''redirect_uri:https://v.example''),
      (''client_metadata'', JObject []),
      (''dcql_query'', JObject []),
      (''nonce'', JString ''n-1''),
      (''response_mode'', JString ''direct_post''),
      (''response_type'', JString ''vp_token''),
      (''response_uri'', JString ''https://v.example''),
      (''state'', JString ''s-1'')]"

definition ex_request :: request_object where
  "ex_request = \<lparr>aro_inner = ex_request_json,
     aro_client_id = ClientId ''https://v.example'' RedirectUriPrefix,
     aro_response_mode = DirectPost, aro_response_type = VpToken,
     aro_presentation_query = QueryDCQL ex_dcql,
     aro_return_uri = Some (Url ''https://v.example''), aro_nonce = Nonce ''n-1'',
     aro_client_metadata = ClientMetadata [], aro_expected_origins = None\<rparr>"

lemma ex_request_parses: "request_try_from std_request_lib ex_request_json = Inr ex_request"
  by code_simp

lemma ex_request_wf: "bt_wf ex_request_json"
  by (simp add: ex_request_json_def)

section \<open>Transaction data\<close>

text \<open>
  C26: the transaction data of a request. A list of items is returned exactly when the parameter is
  a list of texts and each decodes to its item, in order; and nothing is returned, without an error, not
  only when the parameter is absent but also when it is there and is not a list of texts.
\<close>

theorem transaction_data_decoding:
  "(get_transaction_data_items L r = Inr None \<longleftrightarrow>
      (\<nexists>td. obj_get (transaction_data_param L) (aro_inner r) = Some (Inr td))) \<and>
   (get_transaction_data_items L r = Inr (Some items) \<longleftrightarrow>
      (\<exists>td. obj_get (transaction_data_param L) (aro_inner r) = Some (Inr td) \<and>
         list_all2 (\<lambda>s i. item_from_base64url_encoded (url_safe_no_pad L) (de_item L) s = Inr i)
           (td_items td) items))"
proof (cases "obj_get (transaction_data_param L) (aro_inner r)")
  case None
  then show ?thesis by (simp add: get_transaction_data_items_def get_transaction_data_def)
next
  case (Some x)
  then show ?thesis
    by (cases x) (simp_all add: get_transaction_data_items_def get_transaction_data_def res_simps)
qed

section \<open>Properties of the metadata\<close>

text \<open>Metadata of a wallet that supports one format, and a codec for its members.\<close>

definition ex_metadata_json :: untyped_object where
  "ex_metadata_json = bt_of_list
     [(''authorization_endpoint'', JString ''openid4vp:''),
      (''response_types_supported'', JArray [JString ''vp_token'']),
      (''vp_formats_supported'', JObject [(''dc+sd-jwt'', JObject [])])]"

definition ex_metadata :: wallet_metadata where
  "ex_metadata = (metadata_new (Url ''openid4vp:'') [(SdJwtVc, PayloadJson (JObject []))] [VpToken]
     (Some ex_metadata_json))"

definition ex_codec :: form_codec where
  "ex_codec = \<lparr>
     form_encode = (\<lambda>m. Inr (join_str ''&'' (map (\<lambda>(k, v). k @ ''='' @ v) m))),
     form_decode = (\<lambda>s. collect_res (\<lambda>p. ok_or (Msg ''no value'') (split_once CHR ''='' p)) (split_all CHR ''&'' s)),
     json_print = (\<lambda>j. case j of JString s \<Rightarrow> s | JArray _ \<Rightarrow> ''[]'' | _ \<Rightarrow> ''{}''),
     json_parse = (\<lambda>s.
       if s = ''[]'' then Inr (JArray [JString ''vp_token''])
       else if s = ''{}'' then Inr (JObject [(''dc+sd-jwt'', JObject [])])
       else Inr (JString s))\<rparr>"

lemma ex_metadata_facts:
  "bt_wf ex_metadata_json"
  "metadata_try_from std_request_lib ex_metadata_json = Inr ex_metadata"
  by code_simp+

lemma added_prefixes_count_after_parsing_witness:
  "\<exists>m' m2. add_client_id_prefixes_supported std_request_lib [X509Hash] ex_metadata = (Inr (), m') \<and>
     metadata_try_from std_request_lib (wm_object m') = Inr m2 \<and>
     \<not> is_client_id_prefix_supported m' X509Hash \<and> is_client_id_prefix_supported m2 X509Hash"
proof -
  define m' where "m' = snd (add_client_id_prefixes_supported std_request_lib [X509Hash] ex_metadata)"
  have "fst (add_client_id_prefixes_supported std_request_lib [X509Hash] ex_metadata) = Inr ()" by code_simp
  then have add: "add_client_id_prefixes_supported std_request_lib [X509Hash] ex_metadata = (Inr (), m')"
    by (simp add: m'_def prod_eq_iff)
  have "\<not> isl (metadata_try_from std_request_lib (wm_object m'))" unfolding m'_def by code_simp
  then obtain m2 where read: "metadata_try_from std_request_lib (wm_object m') = Inr m2"
    using not_isl_Inr by blast
  have wf: "bt_wf (wm_object ex_metadata)" by code_simp
  have no: "\<not> is_client_id_prefix_supported ex_metadata X509Hash" by code_simp
  from added_prefixes_count_after_parsing [OF param_lib_ok_std_request wf add read] no add read
  show ?thesis by (metis is_client_id_prefix_supported_def list.set_intros(1) subset_iff)
qed

text \<open>
  Metadata of a wallet that is written back to an object and parsed again is the same
  metadata, with the cached lists it had.
\<close>

theorem wallet_metadata_round_trip:
  assumes "metadata_lib_ok L" and "bt_wf ob" and "metadata_try_from L ob = Inr m"
  shows "metadata_try_from L (object_of_metadata L m) = Inr (m\<lparr>wm_object := object_of_metadata L m\<rparr>)"
  using assms by (rule metadata_round_trip)

lemma wallet_metadata_round_trip_witness:
  "metadata_try_from std_request_lib (object_of_metadata std_request_lib ex_metadata) =
     Inr (ex_metadata\<lparr>wm_object := object_of_metadata std_request_lib ex_metadata\<rparr>)"
  by (rule wallet_metadata_round_trip [OF metadata_lib_ok_std_request ex_metadata_facts])

text \<open>
  C23: the metadata of a wallet survives its form encoding: what \<open>url_decode_wallet_metadata\<close>
  reads is the metadata that \<open>url_encode_wallet_metadata\<close> wrote, with the object written anew.
\<close>

theorem wallet_metadata_transported:
  assumes "metadata_lib_ok L" and "bt_wf ob" and "metadata_try_from L ob = Inr m"
    and "form_carries c (object_of_metadata L m)"
    and "url_encode_wallet_metadata L c m = Inr s"
  shows "url_decode_wallet_metadata L c s = Inr (m\<lparr>wm_object := object_of_metadata L m\<rparr>)"
proof -
  have "bt_wf (object_of_metadata L m)"
    using assms(2,3) by (intro object_of_metadata_wf) (auto dest: metadata_try_from_Inr)
  with assms show ?thesis
    using url_wallet_metadata_round_trip [of L c m s] metadata_round_trip [OF assms(1-3)]
    by (simp add: metadata_lib_ok_def)
qed

lemma form_carries_ex: "form_carries ex_codec (object_of_metadata std_request_lib ex_metadata)"
  (is "form_carries _ ?ob")
proof -
  have "and_then (form_encode ex_codec (printed_members ex_codec ?ob)) (form_decode ex_codec) =
      Inr (printed_members ex_codec ?ob)"
    by code_simp
  moreover have "list_all (\<lambda>(k, v). json_parse ex_codec (json_print ex_codec v) = Inr v) ?ob"
    by code_simp
  ultimately show ?thesis
    using hm_wf_of_list by (auto simp: form_carries_def printed_members_def res_simps)
qed

lemma wallet_metadata_transported_witness:
  "\<exists>s. url_encode_wallet_metadata std_request_lib ex_codec ex_metadata = Inr s \<and>
     url_decode_wallet_metadata std_request_lib ex_codec s =
       Inr (ex_metadata\<lparr>wm_object := object_of_metadata std_request_lib ex_metadata\<rparr>)"
proof -
  have "\<not> isl (url_encode_wallet_metadata std_request_lib ex_codec ex_metadata)" by code_simp
  then obtain s where s: "url_encode_wallet_metadata std_request_lib ex_codec ex_metadata = Inr s"
    using not_isl_Inr by blast
  from wallet_metadata_transported [OF metadata_lib_ok_std_request ex_metadata_facts form_carries_ex this] s
  show ?thesis by blast
qed

section \<open>Properties of requests\<close>

text \<open>
  C7: an untyped object is an authorization request object exactly when its parts are there
  and consistent: a client identifier, a response mode that fixes which of the two return URIs is
  present, a response type, exactly one presentation query, a nonce and client metadata; and these
  parts are what the request holds.
\<close>

theorem request_object_parsing: "request_try_from L value = Inr r \<longleftrightarrow> request_spec L value r"
  by (rule request_try_from_spec)

text \<open>
  C22: a request that was parsed, written back to an object and parsed again is the same
  request.
\<close>

theorem request_object_round_trip:
  assumes "bt_wf value" and "request_try_from L value = Inr r"
  shows "request_try_from L (object_of_request r) = Inr (r\<lparr>aro_inner := object_of_request r\<rparr>)"
  using assms by (rule request_round_trip)

lemma request_object_round_trip_witness:
  "request_try_from std_request_lib (object_of_request ex_request) =
     Inr (ex_request\<lparr>aro_inner := object_of_request ex_request\<rparr>)"
  by (rule request_object_round_trip [OF ex_request_wf ex_request_parses])

text \<open>The URI that a response mode wants is there and readable, and the other one is absent.\<close>

definition uri_given :: "'t typed_parameter \<Rightarrow> 'o typed_parameter \<Rightarrow> untyped_object \<Rightarrow> bool" where
  "uri_given wanted other value \<longleftrightarrow> (\<exists>u. obj_get wanted value = Some (Inr u)) \<and> obj_get other value = None"

text \<open>
  C31: a request is refused for its return URI exactly when the two return URIs do not fit the
  response mode: the mode is unknown; or it is one of the Digital Credentials API and there is a return
  URI; or it wants one of \<open>redirect_uri\<close> and \<open>response_uri\<close>, and that one is missing or not a URI, or the
  other one is there. The refusal is always an \<open>invalid_request\<close> error and carries the state of the
  request, so the verifier can be told.
\<close>

theorem return_uri_refusal:
  "((\<exists>e. parse_return_uri L value mode = Inl e) \<longleftrightarrow>
     (case mode of
        Fragment \<Rightarrow> \<not> uri_given (redirect_uri_param L) (response_uri_param L) value
      | FragmentJwt \<Rightarrow> \<not> uri_given (redirect_uri_param L) (response_uri_param L) value
      | DirectPost \<Rightarrow> \<not> uri_given (response_uri_param L) (redirect_uri_param L) value
      | DirectPostJwt \<Rightarrow> \<not> uri_given (response_uri_param L) (redirect_uri_param L) value
      | DcApi \<Rightarrow> obj_get (redirect_uri_param L) value \<noteq> None \<or> obj_get (response_uri_param L) value \<noteq> None
      | DcApiJwt \<Rightarrow> obj_get (redirect_uri_param L) value \<noteq> None \<or> obj_get (response_uri_param L) value \<noteq> None
      | UnsupportedMode m \<Rightarrow> True)) \<and>
   (parse_return_uri L value mode = Inl e \<longrightarrow>
     is_protocol InvalidRequest e \<and> error_state e = object_state L value)"
proof -
  have "(\<exists>e. parse_return_uri L value mode = Inl e) \<longleftrightarrow> (\<nexists>u os. return_uri_spec L value mode u os)"
  proof (cases "parse_return_uri L value mode")
    case (Inl x)
    with parse_return_uri_Inr_iff [of L "value" mode _ mode] show ?thesis by auto
  next
    case (Inr p)
    moreover obtain u m os where "p = (u, m, os)" by (cases p)
    ultimately show ?thesis using parse_return_uri_Inr_iff [of L "value" mode u m os] by auto
  qed
  then show ?thesis
    using parse_return_uri_Inl [of L "value" mode e]
    by (auto simp: return_uri_spec_def uri_given_def split: response_mode.splits)
qed

lemma return_uri_refusal_witness:
  "\<exists>e. parse_return_uri std_request_lib ex_request_json Fragment = Inl e \<and>
     is_protocol InvalidRequest e \<and> error_state e = Some ''s-1''"
proof -
  have "\<not> uri_given (redirect_uri_param std_request_lib) (response_uri_param std_request_lib) ex_request_json"
  proof -
    have "obj_get (response_uri_param std_request_lib) ex_request_json \<noteq> None" by code_simp
    then show ?thesis by (simp add: uri_given_def)
  qed
  then obtain e where e: "parse_return_uri std_request_lib ex_request_json Fragment = Inl e"
    using return_uri_refusal [of std_request_lib ex_request_json Fragment] by auto
  have "object_state std_request_lib ex_request_json = Some ''s-1''" by code_simp
  with return_uri_refusal [of std_request_lib ex_request_json Fragment e] e show ?thesis by simp
qed

text \<open>
  C25: which URLs are authorization requests for a wallet: the authority and the path of its
  endpoint (the scheme is not compared), and a query that is a form; with a \<open>request\<close> or a
  \<open>request_uri\<close> member it is a signed request, and otherwise a plain request object.
\<close>

theorem authorization_request_urls:
  "request_from_url L u endpoint = Inr a \<longleftrightarrow>
     url_authority L u = url_authority L endpoint \<and> url_path L u = url_path L endpoint \<and>
     (\<exists>q m. url_query L u = Some q \<and> form_to_object L q = Inr m \<and>
        (if bt_get m ''request'' = None \<and> bt_get m ''request_uri'' = None
         then \<exists>r. request_spec L m r \<and> a = PlainRequest r
         else \<exists>s. from_value (de_signed L) (JObject m) = Inr s \<and> a = SignedRequest s))"
  by (simp add: request_from_url_Inr_iff request_from_query_params_Inr_iff)

end
