(* ===== verification/Verification.thy ===== *)
theory Verification
  imports Request_Object
begin

text \<open>
  \<open>src/src/core/authorization_request/verification/mod.rs\<close> and the interface of
  \<open>src/src/wallet.rs\<close>: the verification of a fetched request. The traits
  \<open>RequestVerifier\<close> and \<open>Wallet\<close> are records of the operations the
  application implements; an operation threads the external world \<open>'w\<close>.
\<close>

section \<open>Foreign functions\<close>

record jwt_lib = request_lib +
  decode_unverified :: "string \<Rightarrow> anyhow + untyped_object"
  split_jws :: "string \<Rightarrow> anyhow + string \<times> string \<times> string"
  metadata_to_string :: "wallet_metadata \<Rightarrow> anyhow + string"
  byte_serialize :: "string \<Rightarrow> string"
  payload_to_string :: "claim_format_payload \<Rightarrow> string"

section \<open>The traits\<close>

type_synonym 'w jwt_check = "request_object \<Rightarrow> string \<Rightarrow> ('w, core_error, unit) io"

record 'w request_verifier =
  rv_decentralized_identifier :: "'w jwt_check"
  rv_openid_federation :: "'w jwt_check"
  rv_preregistered :: "'w jwt_check"
  rv_redirect_uri :: "request_object \<Rightarrow> url \<Rightarrow> ('w, core_error, unit) io"
  rv_verifier_attestation :: "'w jwt_check"
  rv_origin :: "'w jwt_check"
  rv_x509_san_dns :: "'w jwt_check"
  rv_x509_hash :: "'w jwt_check"
  rv_redirect_uri_jwt :: "'w jwt_check"

record 'w wallet = "'w request_verifier" +
  w_metadata :: wallet_metadata
  w_http_client :: "'w http_client"
  w_generate_nonce :: "('w, anyhow, wallet_nonce option) io"
  w_validate_nonce :: "wallet_nonce \<Rightarrow> ('w, anyhow, bool) io"

section \<open>Default operations\<close>

definition not_supported :: "'z param_lib_scheme \<Rightarrow> string \<Rightarrow> request_object \<Rightarrow> ('w, core_error, unit) io" where
  "not_supported L name decoded_request =
     io_throw (protocol_access_denied (quoted name @ '' client verification is not supported'')
       (request_state L decoded_request))"

definition is_signed_jwt :: "'z jwt_lib_scheme \<Rightarrow> string \<Rightarrow> anyhow + bool" where
  "is_signed_jwt L jwt =
     and_then (split_jws L jwt) (\<lambda>(h, b, signature). Inr (signature \<noteq> []))"

text \<open>The default body calls back \<open>redirect_uri\<close> of the implementation.\<close>

definition default_redirect_uri_jwt ::
  "'z jwt_lib_scheme \<Rightarrow> (request_object \<Rightarrow> url \<Rightarrow> ('w, core_error, unit) io) \<Rightarrow> 'w jwt_check" where
  "default_redirect_uri_jwt L redirect_uri decoded_request request_jwt =
     io_bind (io_lift (map_err (\<lambda>e. add_source e (protocol_invalid_req
         ''unable to decode Authorization Request Object JWT'' None)) (is_signed_jwt L request_jwt))) (\<lambda>signed.
     if signed then
       io_throw (protocol_invalid_req
         (''Client id prefix '' @ quoted ''redirect_uri'' @ '' can not be used in signed auth requests'')
         (request_state L decoded_request))
     else
       case aro_return_uri decoded_request of
         Some return_url \<Rightarrow> redirect_uri decoded_request return_url
       | None \<Rightarrow> io_throw (internal (Msg
           ''redirect_uri_jwt was called for a request without return_uri'')))"

definition default_verifier :: "'z jwt_lib_scheme \<Rightarrow> 'w request_verifier" where
  "default_verifier L = \<lparr>
     rv_decentralized_identifier = (\<lambda>r jwt. not_supported L ''decentralized_identifier'' r),
     rv_openid_federation = (\<lambda>r jwt. not_supported L ''openid_federation'' r),
     rv_preregistered = (\<lambda>r jwt. not_supported L ''preregistered'' r),
     rv_redirect_uri = (\<lambda>r uri. not_supported L ''redirect_uri'' r),
     rv_verifier_attestation = (\<lambda>r jwt. not_supported L ''verifier_attestation'' r),
     rv_origin = (\<lambda>r jwt. not_supported L ''origin'' r),
     rv_x509_san_dns = (\<lambda>r jwt. not_supported L ''x509_san_dns'' r),
     rv_x509_hash = (\<lambda>r jwt. not_supported L ''x509_hash'' r),
     rv_redirect_uri_jwt =
       default_redirect_uri_jwt L (\<lambda>r uri. not_supported L ''redirect_uri'' r)\<rparr>"

section \<open>Checks against the metadata of the wallet\<close>

definition validate_response_type ::
  "'z param_lib_scheme \<Rightarrow> request_object \<Rightarrow> wallet_metadata \<Rightarrow> core_error + unit" where
  "validate_response_type L request wallet_metadata =
     (let state = request_state L request in
      and_then (ok_or (protocol_invalid_req (quoted ''response_type'' @
          '' is not declared, it is a required parameter of authorization request object'') state)
        (obj_get (response_type_param L) (aro_inner request))) (\<lambda>rt.
      and_then (map_err (\<lambda>e. error_from_anyhow (Context ''error occurred when retrieving response type'' e)) rt)
        (\<lambda>response_type.
      and_then (ensure (response_type \<in> set (wm_response_types_supported wallet_metadata))
        (protocol_invalid_req (''response type = '' @ quoted (string_of_response_type response_type) @
          '' is not supported'') state)) (\<lambda>_.
      if response_type = VpTokenIdToken then
        and_then (ok_or (protocol_invalid_req (quoted ''client_metadata'' @
            '' is required when response type is '' @ quoted ''vp_token id_token'') state)
          (obj_get (client_metadata_param L) (aro_inner request))) (\<lambda>cm.
        and_then (map_err (\<lambda>e. error_from_anyhow (Context
            (''error occurred when retrieving '' @ quoted ''client_metadata'') e)) cm) (\<lambda>client_metadata.
        and_then (ok_or (protocol_invalid_req (quoted ''subject_syntax_types_supported'' @
            '' is required when response type is '' @ quoted ''vp_token id_token'') state)
          (obj_get (subject_syntax_types_param L) (cm_object client_metadata))) (\<lambda>st.
        and_then (map_err (\<lambda>e. error_from_anyhow (Context
            (''error occurred when retrieving '' @ quoted ''subject_syntax_types_supported'') e)) st)
          (\<lambda>subject_syntax_types.
        case List.find (\<lambda>s. \<not> subject_syntax_types_contains
            (wm_subject_syntax_types_supported wallet_metadata) s) subject_syntax_types of
          Some unsupported \<Rightarrow>
            Inl (protocol_invalid_req
              (''subject syntax type = '' @ quoted unsupported @ '' is not supported'') state)
        | None \<Rightarrow> Inr ()))))
      else Inr ()))))"

definition validate_vp_formats_supported ::
  "'z jwt_lib_scheme \<Rightarrow> client_metadata \<Rightarrow> wallet_metadata \<Rightarrow> string option \<Rightarrow> core_error + unit" where
  "validate_vp_formats_supported L metadata wallet_metadata state =
     (case parsing_error_opt (vp_formats_param L) (obj_get (vp_formats_param L) (cm_object metadata)) of
        Inl _ \<Rightarrow> Inr ()
      | Inr vp_formats \<Rightarrow>
          if vp_formats = [] then
            Inl (protocol_vp_formats_not_supported (''the verifier advertised an empty '' @
              quoted ''vp_formats_supported'' @ '' object'') state)
          else if list_ex (\<lambda>(format, alg). contains_claim_format_with_payload
              (wm_vp_formats_supported wallet_metadata) format alg) vp_formats
          then Inr ()
          else
            Inl (protocol_vp_formats_not_supported
              (''none of the vp formats offered by the verifier are supported: '' @
               join_str '', '' (map (\<lambda>(format, alg). quoted (string_of_designation format) @
                 '' with alg values '' @ quoted (payload_to_string L alg)) vp_formats)) state))"

definition validate_request_against_metadata ::
  "'z jwt_lib_scheme \<Rightarrow> wallet_metadata \<Rightarrow> request_object \<Rightarrow> core_error + unit" where
  "validate_request_against_metadata L wallet_metadata request =
     (let state = request_state L request;
          client_id_prefix = get_prefix (aro_client_id request) in
      and_then (map_err error_from_anyhow (obj_get_or_default (client_id_prefixes_param L)
          default_client_id_prefixes (wm_object wallet_metadata))) (\<lambda>prefixes.
      and_then (ensure (client_id_prefix \<in> set prefixes)
        (protocol_invalid_req (''wallet does not support client_id_prefix '' @
          quoted (string_of_prefix client_id_prefix)) state)) (\<lambda>_.
      and_then (validate_response_type L request wallet_metadata) (\<lambda>_.
      and_then (map_err error_from_anyhow (client_metadata_resolve L (aro_inner request))) (\<lambda>client_metadata.
      validate_vp_formats_supported L client_metadata wallet_metadata state)))))"

section \<open>Verification\<close>

definition prefix_check :: "'w wallet \<Rightarrow> client_id_prefix \<Rightarrow> 'w jwt_check" where
  "prefix_check W prefix =
     (case prefix of
        DecentralizedIdentifier \<Rightarrow> rv_decentralized_identifier W
      | OpenidFederation \<Rightarrow> rv_openid_federation W
      | PreRegistered \<Rightarrow> rv_preregistered W
      | VerifierAttestation \<Rightarrow> rv_verifier_attestation W
      | OriginPrefix \<Rightarrow> rv_origin W
      | X509SanDns \<Rightarrow> rv_x509_san_dns W
      | X509Hash \<Rightarrow> rv_x509_hash W
      | RedirectUriPrefix \<Rightarrow> rv_redirect_uri_jwt W)"

definition verify_request ::
  "'z jwt_lib_scheme \<Rightarrow> 'w wallet \<Rightarrow> fetched_request \<Rightarrow> ('w, core_error, request_object) io" where
  "verify_request L W fetched_request =
     io_bind
       (case fetched_request of
          FetchedPlain request \<Rightarrow>
            (case aro_return_uri request of
               Some uri \<Rightarrow> io_bind (rv_redirect_uri W request uri) (\<lambda>_. io_return request)
             | None \<Rightarrow>
                 if aro_response_mode request \<noteq> DcApi \<and> aro_response_mode request \<noteq> DcApiJwt then
                   io_throw (protocol_invalid_req (quoted ''response_uri/redirect_uri'' @
                     '' is required when response_mode is '' @
                     quoted (string_of_mode (aro_response_mode request))) (request_state L request))
                 else io_return request)
        | UnverifiedJwt jwt \<Rightarrow>
            io_bind (io_lift (map_err (\<lambda>e. add_source e (protocol_invalid_req
                ''unable to decode Authorization Request Object JWT'' None)) (decode_unverified L jwt)))
              (\<lambda>ob.
            io_bind (io_lift (request_try_from L ob)) (\<lambda>request.
            io_bind (prefix_check W (get_prefix (aro_client_id request)) request jwt) (\<lambda>_.
            io_return request))))
       (\<lambda>request.
     io_bind (io_lift (validate_request_against_metadata L (w_metadata W) request)) (\<lambda>_.
     io_return request))"

section \<open>What an accepted request satisfies\<close>

definition response_type_supported :: "'z param_lib_scheme \<Rightarrow> wallet_metadata \<Rightarrow> request_object \<Rightarrow> bool" where
  "response_type_supported L m r \<longleftrightarrow>
     (\<exists>t. obj_get (response_type_param L) (aro_inner r) = Some (Inr t) \<and>
        t \<in> set (wm_response_types_supported m) \<and>
        (t = VpTokenIdToken \<longrightarrow>
          (\<exists>cm ss. obj_get (client_metadata_param L) (aro_inner r) = Some (Inr cm) \<and>
             obj_get (subject_syntax_types_param L) (cm_object cm) = Some (Inr ss) \<and>
             set ss \<subseteq> set (wm_subject_syntax_types_supported m))))"

definition formats_supported :: "'z metadata_lib_scheme \<Rightarrow> wallet_metadata \<Rightarrow> client_metadata \<Rightarrow> bool" where
  "formats_supported L m cm \<longleftrightarrow>
     (\<forall>fs. obj_get (vp_formats_param L) (cm_object cm) = Some (Inr fs) \<longrightarrow>
        (\<exists>f p q. (f, p) \<in> set fs \<and> hm_get (wm_vp_formats_supported m) f = Some q \<and>
           payload_contains q p))"

definition metadata_supports :: "'z metadata_lib_scheme \<Rightarrow> wallet_metadata \<Rightarrow> request_object \<Rightarrow> bool" where
  "metadata_supports L m r \<longleftrightarrow>
     (\<exists>ps. obj_get_or_default (client_id_prefixes_param L) [PreRegistered] (wm_object m) = Inr ps \<and>
        get_prefix (aro_client_id r) \<in> set ps) \<and>
     response_type_supported L m r \<and>
     (\<exists>cm. client_metadata_resolve L (aro_inner r) = Inr cm \<and> formats_supported L m cm)"

lemma validate_response_type_iff:
  "validate_response_type L r m = Inr () \<longleftrightarrow> response_type_supported L m r"
proof (cases "\<exists>t. obj_get (response_type_param L) (aro_inner r) = Some (Inr t)")
  case False
  then show ?thesis
    by (auto simp: validate_response_type_def response_type_supported_def Let_def res_simps)
next
  case True
  then obtain t where t: "obj_get (response_type_param L) (aro_inner r) = Some (Inr t)" by blast
  have none: "List.find (\<lambda>s. s \<notin> A) ss = None \<longleftrightarrow> set ss \<subseteq> A" for A and ss :: "string list"
    by (auto simp: find_None_iff)
  have find: "(case List.find (\<lambda>s. s \<notin> A) ss of Some u \<Rightarrow> Inl (f u) | None \<Rightarrow> Inr ()) = Inr () \<longleftrightarrow>
      set ss \<subseteq> A" for A and ss :: "string list" and f :: "string \<Rightarrow> core_error"
    using none [of A ss] by (cases "List.find (\<lambda>s. s \<notin> A) ss") simp_all
  show ?thesis
  proof (cases "t = VpTokenIdToken")
    case True
    with t show ?thesis
      by (auto simp: validate_response_type_def response_type_supported_def Let_def res_simps
          subject_syntax_types_contains_def find)
  next
    case False
    with t show ?thesis
      by (auto simp: validate_response_type_def response_type_supported_def Let_def res_simps)
  qed
qed

lemma contains_claim_format_with_payload_iff:
  "contains_claim_format_with_payload m f p \<longleftrightarrow> (\<exists>q. hm_get m f = Some q \<and> payload_contains q p)"
  by (simp add: contains_claim_format_with_payload_def split: option.split)

lemma validate_vp_formats_iff:
  "validate_vp_formats_supported L cm m state = Inr () \<longleftrightarrow> formats_supported L m cm"
proof (cases "\<exists>fs. obj_get (vp_formats_param L) (cm_object cm) = Some (Inr fs)")
  case True
  then obtain fs where fs: "obj_get (vp_formats_param L) (cm_object cm) = Some (Inr fs)" by blast
  then have "parsing_error_opt (vp_formats_param L) (obj_get (vp_formats_param L) (cm_object cm)) = Inr fs"
    by (simp add: res_simps)
  with fs show ?thesis
    by (auto simp: validate_vp_formats_supported_def formats_supported_def list_ex_iff Bex_def
        contains_claim_format_with_payload_iff)
next
  case False
  then obtain e where
    "parsing_error_opt (vp_formats_param L) (obj_get (vp_formats_param L) (cm_object cm)) = Inl e"
    by (cases rule: parsing_error_opt_cases) blast+
  with False show ?thesis
    by (simp add: validate_vp_formats_supported_def formats_supported_def)
qed

lemma validate_vp_formats_error:
  "validate_vp_formats_supported L cm m state = Inl e \<Longrightarrow>
     is_protocol VpFormatsNotSupported e \<and> error_state e = state"
  by (auto simp: validate_vp_formats_supported_def split: sum.splits if_splits)

lemma validate_against_metadata_iff:
  "validate_request_against_metadata L m r = Inr () \<longleftrightarrow> metadata_supports L m r"
  by (auto simp: validate_request_against_metadata_def metadata_supports_def Let_def res_simps
      validate_response_type_iff validate_vp_formats_iff default_client_id_prefixes_def)

lemma verify_request_plain_iff:
  "verify_request L W (FetchedPlain r) w = (Inr r', w') \<longleftrightarrow>
     r' = r \<and> metadata_supports L (w_metadata W) r \<and>
     (case aro_return_uri r of
        Some u \<Rightarrow> rv_redirect_uri W r u w = (Inr (), w')
      | None \<Rightarrow> aro_response_mode r \<in> {DcApi, DcApiJwt} \<and> w' = w)"
  by (auto simp: verify_request_def io_simps validate_against_metadata_iff split: option.splits)

lemma verify_request_jwt_iff:
  "verify_request L W (UnverifiedJwt jwt) w = (Inr r, w') \<longleftrightarrow>
     metadata_supports L (w_metadata W) r \<and>
     (\<exists>ob. decode_unverified L jwt = Inr ob \<and> request_try_from L ob = Inr r) \<and>
     prefix_check W (get_prefix (aro_client_id r)) r jwt w = (Inr (), w')"
  by (auto simp: verify_request_def io_simps res_simps validate_against_metadata_iff)

section \<open>Properties\<close>

text \<open>
  C14: the checks of a request against the metadata of the wallet pass exactly when the wallet
  supports it: the prefix of the client identifier is listed, the response type is supported (with its
  subject syntax types, when an identity token is asked for), and one of the offered formats, if any
  are given, has a payload in common with the wallet's.
\<close>

theorem metadata_checks_decide:
  "validate_request_against_metadata L m r = Inr () \<longleftrightarrow> metadata_supports L m r"
  by (rule validate_against_metadata_iff)

text \<open>
  C8: which fetched requests a wallet accepts, and with which effects. A token is decoded and
  parsed, and the one check that its client identifier prefix names is run on it; a plain request with
  a return URI is given to the \<open>redirect_uri\<close> check, and one without is accepted only in a
  response mode of the Digital Credentials API; either way the metadata must support the request.
\<close>

theorem verified_requests:
  "verify_request L W f w = (Inr r, w') \<longleftrightarrow>
     metadata_supports L (w_metadata W) r \<and>
     (case f of
        UnverifiedJwt jwt \<Rightarrow>
          (\<exists>ob. decode_unverified L jwt = Inr ob \<and> request_spec L ob r) \<and>
          prefix_check W (get_prefix (aro_client_id r)) r jwt w = (Inr (), w')
      | FetchedPlain p \<Rightarrow>
          p = r \<and>
          (case aro_return_uri r of
             Some u \<Rightarrow> rv_redirect_uri W r u w = (Inr (), w')
           | None \<Rightarrow> aro_response_mode r \<in> {DcApi, DcApiJwt} \<and> w' = w))"
  by (cases f)
    (auto simp: verify_request_jwt_iff verify_request_plain_iff request_try_from_spec split: option.splits)

text \<open>A wallet that leaves every check at its default.\<close>

definition default_wallet :: "'z jwt_lib_scheme \<Rightarrow> wallet_metadata \<Rightarrow> 'w http_client \<Rightarrow> 'w wallet" where
  "default_wallet L m client =
     request_verifier.extend (default_verifier L)
       (wallet.fields m client (io_return None) (\<lambda>n. io_return False))"

lemma not_supported_refuses: "not_supported L name r w \<noteq> (Inr u, w')"
  by (simp add: not_supported_def io_simps)

lemma default_checks_refuse:
  "prefix_check (default_wallet L m client) prefix r jwt w \<noteq> (Inr u, w')"
  by (cases prefix)
    (auto simp: prefix_check_def default_wallet_def request_verifier.defs wallet.defs default_verifier_def
      not_supported_refuses default_redirect_uri_jwt_def io_simps split: option.splits if_splits)

lemma default_wallet_metadata: "w_metadata (default_wallet L m client) = m"
  by (simp add: default_wallet_def request_verifier.defs wallet.defs default_verifier_def)

lemma default_redirect_uri_refuses: "rv_redirect_uri (default_wallet L m client) r u w \<noteq> (Inr v, w')"
  by (simp add: default_wallet_def request_verifier.defs wallet.defs default_verifier_def not_supported_refuses)

text \<open>
  A wallet that implements none of the checks accepts no signed request and no plain request
  with a return URI, whatever it says: only a plain request through the Digital Credentials API, on
  which no check is run, gets past it.
\<close>

theorem default_wallet_accepts:
  "verify_request L (default_wallet L m client) f w = (Inr r, w') \<longleftrightarrow>
     f = FetchedPlain r \<and> aro_return_uri r = None \<and> aro_response_mode r \<in> {DcApi, DcApiJwt} \<and>
     metadata_supports L m r \<and> w' = w"
  by (cases f)
    (auto simp: verify_request_jwt_iff verify_request_plain_iff default_checks_refuse
      default_redirect_uri_refuses default_wallet_metadata split: option.splits)

section \<open>A library for evaluation\<close>

text \<open>Three parts between dots, and tokens and forms that all hold the example request.\<close>

definition split_dots :: "string \<Rightarrow> anyhow + string \<times> string \<times> string" where
  "split_dots s =
     (case split_all CHR ''.'' s of
        [h, b, sg] \<Rightarrow> Inr (h, b, sg)
      | _ \<Rightarrow> Inl (Msg ''invalid JWS''))"

definition ex_jwt_lib :: jwt_lib where
  "ex_jwt_lib = request_lib.extend (std_request_lib\<lparr>form_to_object := (\<lambda>s. Inr ex_request_json)\<rparr>)
     (jwt_lib.fields (\<lambda>s. Inr ex_request_json) split_dots (\<lambda>m. Inr ''{}'') (\<lambda>s. s) (\<lambda>p. ''[]''))"

text \<open>A wallet that knows three kinds of clients and counts its calls.\<close>

definition ex_wallet_json :: untyped_object where
  "ex_wallet_json = bt_of_list
     [(''authorization_endpoint'', JString ''openid4vp:''),
      (''client_id_prefixes_supported'', JArray [JString ''redirect_uri'', JString ''x509_hash'',
         JString ''decentralized_identifier'']),
      (''request_object_signing_alg_values_supported'', JArray [JString ''ES256'']),
      (''response_types_supported'', JArray [JString ''vp_token'']),
      (''vp_formats_supported'', JObject [(''dc+sd-jwt'', JObject [])])]"

definition ex_wallet_metadata :: wallet_metadata where
  "ex_wallet_metadata = (case metadata_try_from ex_jwt_lib ex_wallet_json of
     Inr m \<Rightarrow> m
   | Inl _ \<Rightarrow> ex_metadata)"

definition ex_wallet :: "nat wallet" where
  "ex_wallet = (default_wallet ex_jwt_lib ex_wallet_metadata
       (\<lambda>req n. (Inr (plain_response 200 ''{}''), Suc n)))
     \<lparr>rv_redirect_uri := (\<lambda>r u n. (Inr (), Suc n)),
      rv_redirect_uri_jwt := (\<lambda>r jwt n. (Inr (), Suc n))\<rparr>"

lemma param_lib_ok_ex_jwt: "param_lib_ok ex_jwt_lib"
  using param_lib_ok_std_request by (simp add: param_lib_ok_def ex_jwt_lib_def request_lib.defs)

lemma split_all_no: "c \<notin> set s \<Longrightarrow> split_all c s = [s]"
  by (induction s) auto

lemma split_all_append: "c \<notin> set s \<Longrightarrow> split_all c (s @ c # t) = s # split_all c t"
  by (induction s) (auto simp: split_all_nonempty split: list.split)

lemma split_dots_parts:
  "CHR ''.'' \<notin> set h \<Longrightarrow> CHR ''.'' \<notin> set b \<Longrightarrow> CHR ''.'' \<notin> set s \<Longrightarrow>
     split_dots (h @ ''.'' @ b @ ''.'' @ s) = Inr (h, b, s)"
  by (simp add: split_dots_def split_all_append split_all_no)

end
