(* ===== verification/Request_Resolution.thy ===== *)
theory Request_Resolution
  imports Verification
begin

text \<open>
  The resolution of authorization requests: \<open>AuthorizationRequest::validate\<close> and
  \<open>SignedAuthorizationRequest\<close> in
  \<open>src/src/core/authorization_request/mod.rs\<close>, and \<open>Wallet::validate_request\<close> in
  \<open>src/src/wallet.rs\<close>.
\<close>

section \<open>Fetching a signed request\<close>

definition http_resp_to_unverified_jwt :: "http_response \<Rightarrow> core_error + string" where
  "http_resp_to_unverified_jwt resp =
     (if \<not> is_success (http_status resp) then
        Inl (internal (Msg ''failed to get authorization request object''))
      else map_err (\<lambda>e. internal (fmt_err ''cannot parse authorization request object: '' e))
             (string_from_utf8 (http_body resp)))"

text \<open>The body of a POST; a nonce that cannot be generated is left out.\<close>

definition request_uri_body :: "string \<Rightarrow> wallet_nonce option option \<Rightarrow> string" where
  "request_uri_body encoded_metadata generated =
     (let body = ''wallet_metadata='' @ encoded_metadata
      in case generated of
           Some (Some nonce) \<Rightarrow> body @ ''&wallet_nonce='' @ wallet_nonce_str nonce
         | _ \<Rightarrow> body)"

definition get_by_reference ::
  "'z jwt_lib_scheme \<Rightarrow> http_lib \<Rightarrow> 'w wallet \<Rightarrow> request_reference \<Rightarrow> ('w, core_error, string) io" where
  "get_by_reference L H W request_reference =
     (let http_method = (case request_uri_method request_reference of None \<Rightarrow> GET | Some m \<Rightarrow> m) in
      io_bind
        (case http_method of
           GET \<Rightarrow>
             io_bind (io_lift (map_err error_from_anyhow
               (create_get_request H (request_uri request_reference) MIME_TYPE_OAUTH_REQ_JWT))) (\<lambda>req.
             io_map_err Internal (w_http_client W req))
         | POST \<Rightarrow>
             io_bind (io_lift (map_ok (byte_serialize L)
               (map_err Internal (metadata_to_string L (w_metadata W))))) (\<lambda>encoded_metadata.
             io_bind (io_ok (w_generate_nonce W)) (\<lambda>generated.
             io_bind (io_lift (map_err error_from_anyhow
               (create_post_request H (request_uri request_reference)
                 (request_uri_body encoded_metadata generated)
                 MIME_TYPE_FORM_URLENCODED MIME_TYPE_OAUTH_REQ_JWT))) (\<lambda>req.
             io_map_err Internal (w_http_client W req)))))
        (\<lambda>resp. io_lift (http_resp_to_unverified_jwt resp)))"

definition retrieve_unverified_jwt ::
  "'z jwt_lib_scheme \<Rightarrow> http_lib \<Rightarrow> 'w wallet \<Rightarrow> signed_request \<Rightarrow> ('w, core_error, string) io" where
  "retrieve_unverified_jwt L H W self =
     (case signed_indirection self of
        ByValueRequest jwt \<Rightarrow> io_return jwt
      | ByReferenceRequest request_reference \<Rightarrow> get_by_reference L H W request_reference)"

section \<open>Resolution\<close>

definition validate_nonce ::
  "'z param_lib_scheme \<Rightarrow> 'w wallet \<Rightarrow> request_object \<Rightarrow> ('w, core_error, unit) io" where
  "validate_nonce L W aro =
     io_bind (io_lift (map_err error_from_anyhow
       (transpose_opt (obj_get (wallet_nonce_param L) (aro_inner aro))))) (\<lambda>wallet_nonce.
     case wallet_nonce of
       Some nonce \<Rightarrow>
         io_bind (io_map_err error_from_anyhow (w_validate_nonce W nonce)) (\<lambda>valid.
         if \<not> valid then
           io_throw (protocol InvalidRequest ''wallet_nonce validation did not pass'' None)
         else io_return ())
     | None \<Rightarrow> io_return ())"

definition resolve_auth_request ::
  "'z jwt_lib_scheme \<Rightarrow> http_lib \<Rightarrow> 'w wallet \<Rightarrow> signed_request \<Rightarrow> ('w, core_error, request_object) io" where
  "resolve_auth_request L H W self =
     io_bind (retrieve_unverified_jwt L H W self) (\<lambda>unverified_jwt.
     io_bind (verify_request L W (UnverifiedJwt unverified_jwt)) (\<lambda>aro.
     io_bind (validate_nonce L W aro) (\<lambda>_.
     if signed_client_id self \<noteq> get_full_id (aro_client_id aro) then
       io_throw (protocol_invalid_req
         (''Authorization Request and Request Object have different client ids: '' @
          quoted (signed_client_id self) @ '' vs. '' @ quoted (get_full_id (aro_client_id aro)))
         (request_state L aro))
     else io_return aro)))"

definition resolve_response_uri_and_mode ::
  "'z jwt_lib_scheme \<Rightarrow> http_lib \<Rightarrow> 'w wallet \<Rightarrow> signed_request \<Rightarrow>
     ('w, core_error, url option \<times> response_mode) io" where
  "resolve_response_uri_and_mode L H W self =
     io_bind (retrieve_unverified_jwt L H W self) (\<lambda>jwt.
     io_bind (io_lift (map_err (\<lambda>e. internal (fmt_err
         ''unable to decode Authorization Request Object JWT: '' e)) (decode_unverified L jwt))) (\<lambda>ob.
     io_bind (io_lift (request_try_from L ob)) (\<lambda>aro.
     io_bind (validate_nonce L W aro) (\<lambda>_.
     io_return (aro_return_uri aro, aro_response_mode aro)))))"

definition validate ::
  "'z jwt_lib_scheme \<Rightarrow> http_lib \<Rightarrow> 'w wallet \<Rightarrow> authorization_request \<Rightarrow> ('w, core_error, request_object) io" where
  "validate L H W self =
     (case self of
        PlainRequest aro \<Rightarrow> verify_request L W (FetchedPlain aro)
      | SignedRequest sr \<Rightarrow> resolve_auth_request L H W sr)"

text \<open>Both steps wrap the error they get: a protocol error becomes an internal one.\<close>

definition validate_request ::
  "'z jwt_lib_scheme \<Rightarrow> http_lib \<Rightarrow> 'w wallet \<Rightarrow> url \<Rightarrow> ('w, core_error, request_object) io" where
  "validate_request L H W u =
     io_bind (io_lift (map_err (\<lambda>e. error_from_anyhow
         (Context ''unable to parse authorization request'' (OfError e)))
       (request_from_url L u (wm_authorization_endpoint (w_metadata W))))) (\<lambda>ar.
     io_map_err (\<lambda>e. error_from_anyhow (Context ''unable to validate authorization request'' (OfError e)))
       (validate L H W ar))"

section \<open>What was accepted\<close>

definition nonce_accepted :: "'z param_lib_scheme \<Rightarrow> 'w wallet \<Rightarrow> request_object \<Rightarrow> 'w \<Rightarrow> 'w \<Rightarrow> bool" where
  "nonce_accepted L W r w w' \<longleftrightarrow>
     (case obj_get (wallet_nonce_param L) (aro_inner r) of
        None \<Rightarrow> w' = w
      | Some n \<Rightarrow> (\<exists>v. n = Inr v \<and> w_validate_nonce W v w = (Inr True, w')))"

lemma validate_nonce_iff:
  "validate_nonce L W r w = (Inr (), w') \<longleftrightarrow> nonce_accepted L W r w w'"
proof (cases "obj_get (wallet_nonce_param L) (aro_inner r)")
  case None
  then show ?thesis by (auto simp: validate_nonce_def nonce_accepted_def io_simps)
next
  case (Some n)
  then show ?thesis
    by (cases n) (auto simp: validate_nonce_def nonce_accepted_def io_simps split: if_splits)
qed

text \<open>
  A signed request is resolved exactly when its token can be retrieved (it is in the request,
  or the answer of its request URI), the token passes the verification of the wallet, the wallet accepts
  its nonce if it holds one, and the client identifier outside the token is the full one inside it.
\<close>

lemma resolve_auth_request_iff:
  "resolve_auth_request L H W s w = (Inr r, w') \<longleftrightarrow>
     signed_client_id s = get_full_id (aro_client_id r) \<and>
     (\<exists>jwt w1 w2. retrieve_unverified_jwt L H W s w = (Inr jwt, w1) \<and>
        verify_request L W (UnverifiedJwt jwt) w1 = (Inr r, w2) \<and> nonce_accepted L W r w2 w')"
  by (auto simp: resolve_auth_request_def io_simps validate_nonce_iff split: if_splits)

lemma validate_plain: "validate L H W (PlainRequest r) = verify_request L W (FetchedPlain r)"
  by (simp add: validate_def)

lemma validate_signed: "validate L H W (SignedRequest s) = resolve_auth_request L H W s"
  by (simp add: validate_def)

lemma validate_request_iff:
  "validate_request L H W u w = (Inr r, w') \<longleftrightarrow>
     (\<exists>ar. request_from_url L u (wm_authorization_endpoint (w_metadata W)) = Inr ar \<and>
        validate L H W ar w = (Inr r, w'))"
  by (auto simp: validate_request_def io_simps res_simps)

text \<open>The error of a refused request is always an internal one.\<close>

lemma validate_request_internal:
  "validate_request L H W u w = (Inl e, w') \<Longrightarrow> \<exists>c x. e = Internal (Context c (OfError x))"
  by (auto simp: validate_request_def io_simps res_simps error_from_anyhow_def)

section \<open>Properties\<close>

text \<open>
  C33: a signed request whose outer client identifier has no prefix is never resolved: it is
  compared with the full identifier of the token, which always has one. So a client that the wallet knows
  by pre-registration, whose identifier has no prefix, cannot send a signed request.
\<close>

theorem unprefixed_signed_request_refused:
  assumes "CHR '':'' \<notin> set (signed_client_id s)"
  shows "resolve_auth_request L H W s w \<noteq> (Inr r, w')"
proof
  assume "resolve_auth_request L H W s w = (Inr r, w')"
  then have "signed_client_id s = get_full_id (aro_client_id r)"
    by (simp add: resolve_auth_request_iff)
  with assms show False by (simp add: get_full_id_def)
qed

lemma unprefixed_signed_request_refused_witness:
  "(\<forall>r w'. resolve_auth_request ex_jwt_lib \<lparr>header_value = Inr, uri_from_str = Inr\<rparr> ex_wallet
      \<lparr>signed_client_id = ''verifier'', signed_indirection = ByValueRequest ''h.b.''\<rparr> 0 \<noteq> (Inr r, w'))"
proof (intro allI)
  fix r w'
  have "CHR '':'' \<notin> set (signed_client_id
      \<lparr>signed_client_id = ''verifier'', signed_indirection = ByValueRequest ''h.b.''\<rparr>)"
    by simp
  from unprefixed_signed_request_refused [OF this]
  show "resolve_auth_request ex_jwt_lib \<lparr>header_value = Inr, uri_from_str = Inr\<rparr> ex_wallet
      \<lparr>signed_client_id = ''verifier'', signed_indirection = ByValueRequest ''h.b.''\<rparr> 0 \<noteq> (Inr r, w')" .
qed

text \<open>
  C39: whatever goes wrong in \<open>validate_request\<close>, the wallet gets an internal error: the
  protocol error that was raised, with its code and the state of the request, is only the source inside
  a context and its type is not seen by the caller.
\<close>

theorem validation_errors_internal:
  assumes "validate_request L H W u w = (Inl e, w')"
  shows "(\<exists>c x. e = Internal (Context c (OfError x))) \<and> (\<forall>t. \<not> is_protocol t e) \<and> error_state e = None"
  using validate_request_internal [OF assms] by auto

lemma validation_errors_internal_witness:
  "\<exists>e. fst (validate_request (ex_jwt_lib\<lparr>url_query := (\<lambda>u. None)\<rparr>)
      \<lparr>header_value = Inr, uri_from_str = Inr\<rparr> ex_wallet (Url ''openid4vp:'') 0) = Inl e \<and>
    \<not> is_protocol InvalidRequest e"
proof -
  let ?run = "validate_request (ex_jwt_lib\<lparr>url_query := (\<lambda>u. None)\<rparr>)
      \<lparr>header_value = Inr, uri_from_str = Inr\<rparr> ex_wallet (Url ''openid4vp:'') 0"
  have "isl (fst ?run)" by code_simp
  then obtain e where e: "fst ?run = Inl e" by (auto simp: isl_def)
  then have "?run = (Inl e, snd ?run)" by (simp add: prod_eq_iff)
  from validation_errors_internal [OF this] e show ?thesis by blast
qed

text \<open>
  C9: which requests \<open>validate_request\<close> returns, and what was checked of them. The metadata of the
  wallet supports the request, and it came out of the URL in one of three ways. It is the plain request of
  the URL and the \<open>redirect_uri\<close> check accepted it with its return URI; or it is the plain request of
  the URL, has no return URI and a response mode of the Digital Credentials API, and no check was run; or
  the URL is a signed request with the full client identifier of the request, which was read from the very token
  that was retrieved for it and on which the check of its client identifier prefix was run, and its
  nonce, if it has one, was accepted. The checks are run one after the other, from the first state of the world to
  the last.
\<close>

theorem accepted_requests_were_checked:
  "validate_request L H W u w = (Inr r, w') \<longleftrightarrow>
     metadata_supports L (w_metadata W) r \<and>
     (let read = request_from_url L u (wm_authorization_endpoint (w_metadata W)) in
      (\<exists>uri. read = Inr (PlainRequest r) \<and> aro_return_uri r = Some uri \<and>
         rv_redirect_uri W r uri w = (Inr (), w')) \<or>
      (read = Inr (PlainRequest r) \<and> aro_return_uri r = None \<and> is_dc_api (aro_response_mode r) \<and> w' = w) \<or>
      (\<exists>s jwt ob w1 w2. read = Inr (SignedRequest s) \<and>
         signed_client_id s = get_full_id (aro_client_id r) \<and>
         retrieve_unverified_jwt L H W s w = (Inr jwt, w1) \<and>
         decode_unverified L jwt = Inr ob \<and> request_spec L ob r \<and>
         prefix_check W (get_prefix (aro_client_id r)) r jwt w1 = (Inr (), w2) \<and>
         nonce_accepted L W r w2 w'))"
proof -
  have plain: "validate L H W (PlainRequest p) w = (Inr r, w') \<longleftrightarrow>
      p = r \<and> metadata_supports L (w_metadata W) r \<and>
      ((\<exists>uri. aro_return_uri r = Some uri \<and> rv_redirect_uri W r uri w = (Inr (), w')) \<or>
       aro_return_uri r = None \<and> is_dc_api (aro_response_mode r) \<and> w' = w)" for p
    by (cases "aro_return_uri r") (auto simp: validate_plain verify_request_plain_iff is_dc_api_def)
  have signed: "validate L H W (SignedRequest s) w = (Inr r, w') \<longleftrightarrow>
      metadata_supports L (w_metadata W) r \<and>
      (\<exists>jwt ob w1 w2. signed_client_id s = get_full_id (aro_client_id r) \<and>
         retrieve_unverified_jwt L H W s w = (Inr jwt, w1) \<and>
         decode_unverified L jwt = Inr ob \<and> request_spec L ob r \<and>
         prefix_check W (get_prefix (aro_client_id r)) r jwt w1 = (Inr (), w2) \<and>
         nonce_accepted L W r w2 w')" for s
    by (auto simp: validate_signed resolve_auth_request_iff verify_request_jwt_iff request_try_from_spec)
  show ?thesis
  proof (cases "request_from_url L u (wm_authorization_endpoint (w_metadata W))")
    case (Inl e)
    then show ?thesis by (simp add: validate_request_iff)
  next
    case (Inr ar)
    then have "validate_request L H W u w = (Inr r, w') \<longleftrightarrow> validate L H W ar w = (Inr r, w')"
      by (simp add: validate_request_iff)
    with Inr show ?thesis
      by (cases ar) (simp_all only: plain signed Let_def sum.inject authorization_request.inject
          authorization_request.distinct simp_thms ex_simps, blast)
  qed
qed

lemma accepted_requests_were_checked_witness:
  "\<exists>r w'. validate_request ex_jwt_lib \<lparr>header_value = Inr, uri_from_str = Inr\<rparr> ex_wallet
      (Url ''openid4vp:'') 0 = (Inr r, w') \<and> metadata_supports ex_jwt_lib ex_wallet_metadata r"
proof -
  let ?run = "validate_request ex_jwt_lib \<lparr>header_value = Inr, uri_from_str = Inr\<rparr> ex_wallet
      (Url ''openid4vp:'') 0"
  have "\<not> isl (fst ?run)" by code_simp
  then obtain r where r: "fst ?run = Inr r" using not_isl_Inr by blast
  then have run: "?run = (Inr r, snd ?run)" by (simp add: prod_eq_iff)
  have "w_metadata ex_wallet = ex_wallet_metadata"
    by (simp add: ex_wallet_def default_wallet_metadata)
  with conjunct1 [OF iffD1 [OF accepted_requests_were_checked run]]
  have "metadata_supports ex_jwt_lib ex_wallet_metadata r" by simp
  with run show ?thesis by blast
qed

text \<open>
  What the decoder of forms keeps of the names: a body of pairs, with plain names and no ampersand in the values,
  has the names that are written in it.
\<close>

definition plain_name :: "string \<Rightarrow> bool" where
  "plain_name k \<longleftrightarrow> k \<noteq> [] \<and> set k \<inter> {CHR ''&'', CHR ''='', CHR ''%'', CHR ''+''} = {}"

definition form_names_kept :: "form_codec \<Rightarrow> bool" where
  "form_names_kept c \<longleftrightarrow>
     (\<forall>ps flat. (\<forall>(k, v) \<in> set ps. plain_name k \<and> CHR ''&'' \<notin> set v) \<and>
        form_decode c (join_str ''&'' (map (\<lambda>(k, v). k @ ''='' @ v) ps)) = Inr flat \<longrightarrow>
        fst ` set flat = fst ` set ps)"

lemma request_uri_body_pairs:
  "request_uri_body encoded generated = join_str ''&'' (map (\<lambda>(k, v). k @ ''='' @ v)
     ((''wallet_metadata'', encoded) #
      (case generated of Some (Some n) \<Rightarrow> [(''wallet_nonce'', wallet_nonce_str n)] | _ \<Rightarrow> [])))"
  by (simp add: request_uri_body_def Let_def split: option.split)

text \<open>
  C34: the body that a wallet posts to a request URI is not one that \<open>url_decode_wallet_metadata\<close>
  of the same crate reads. The wallet writes all its metadata, as JSON text, under the one name
  \<open>wallet_metadata\<close>, and its nonce under \<open>wallet_nonce\<close>; that function expects every member of
  the metadata as a field of the form, so it refuses, at least as long as the nonce (which the wallet does not
  encode) has no ampersand that would add fields of its own.
\<close>

theorem posted_metadata_not_decoded:
  assumes "param_lib_ok L" and "form_names_kept c"
    and "metadata_to_string L (w_metadata W) = Inr j" and "CHR ''&'' \<notin> set (byte_serialize L j)"
    and "\<And>n. generated = Some (Some n) \<Longrightarrow> CHR ''&'' \<notin> set (wallet_nonce_str n)"
  shows "\<exists>e. url_decode_wallet_metadata L c (request_uri_body (byte_serialize L j) generated) = Inl e"
proof (cases "form_decode c (request_uri_body (byte_serialize L j) generated)")
  case (Inl e)
  then show ?thesis by (simp add: url_decode_wallet_metadata_def)
next
  case (Inr flat)
  let ?ps = "(''wallet_metadata'', byte_serialize L j) #
      (case generated of Some (Some n) \<Rightarrow> [(''wallet_nonce'', wallet_nonce_str n)] | _ \<Rightarrow> [])"
  have "\<forall>(k, v) \<in> set ?ps. plain_name k \<and> CHR ''&'' \<notin> set v"
    using assms(4,5) by (auto simp: plain_name_def split: option.splits)
  with assms(2) Inr have "fst ` set flat = fst ` set ?ps"
    unfolding request_uri_body_pairs form_names_kept_def by blast
  then have names: "''authorization_endpoint'' \<notin> fst ` set flat" by (auto split: option.splits)
  let ?ob = "bt_of_list (map (\<lambda>(k, v). (k, case json_parse c v of Inr j \<Rightarrow> j | Inl _ \<Rightarrow> JString v)) flat)"
  have keys: "fst ` set (map (\<lambda>(k, v). (k, g v)) flat) = fst ` set flat" for g :: "string \<Rightarrow> json"
    by (simp add: image_image split_beta)
  from names have "bt_get ?ob ''authorization_endpoint'' = None"
    unfolding bt_get_of_list map_of_eq_None_iff set_rev keys .
  then have "obj_get (authorization_endpoint_param L) ?ob = None"
    by (simp add: obj_get_None_iff)
  then have "\<nexists>m. metadata_try_from L ?ob = Inr m"
    by (auto dest: metadata_try_from_Inr)
  then obtain e where "metadata_try_from L ?ob = Inl e"
    by (cases "metadata_try_from L ?ob") auto
  with assms(1) Inr show ?thesis
    by (simp add: url_decode_wallet_metadata_def param_lib_ok_def Let_def)
qed

lemma split_all_pairs:
  assumes "\<forall>p \<in> set ps. CHR ''&'' \<notin> set p" and "ps \<noteq> []"
  shows "split_all CHR ''&'' (join_str ''&'' ps) = ps"
  using assms
proof (induction ps rule: induct_list012)
  case (3 x y zs)
  then show ?case by (simp add: split_all_append)
qed (simp_all add: split_all_no)

lemma ex_codec_names: "form_names_kept ex_codec"
  unfolding form_names_kept_def
proof (intro allI impI, elim conjE)
  fix ps :: "(string \<times> string) list" and flat
  assume plain: "\<forall>(k, v) \<in> set ps. plain_name k \<and> CHR ''&'' \<notin> set v"
    and dec: "form_decode ex_codec (join_str ''&'' (map (\<lambda>(k, v). k @ ''='' @ v) ps)) = Inr flat"
  show "fst ` set flat = fst ` set ps"
  proof (cases "ps = []")
    case True
    with dec show ?thesis by (simp add: ex_codec_def split_once_def)
  next
    case False
    have "\<forall>p \<in> set (map (\<lambda>(k, v). k @ ''='' @ v) ps). CHR ''&'' \<notin> set p"
      using plain by (auto simp: plain_name_def)
    then have "split_all CHR ''&'' (join_str ''&'' (map (\<lambda>(k, v). k @ ''='' @ v) ps)) =
        map (\<lambda>(k, v). k @ ''='' @ v) ps"
      using False by (intro split_all_pairs) simp_all
    moreover have "collect_res (\<lambda>p. ok_or (Msg ''no value'') (split_once CHR ''='' p))
        (map (\<lambda>(k, v). k @ ''='' @ v) ps) = Inr ps"
      using plain
    proof (induction ps)
      case (Cons p ps)
      have "split_once CHR ''='' (fst p @ CHR ''='' # snd p) = Some p"
        using Cons.prems by (cases p) (simp add: split_once_append plain_name_def)
      with Cons show ?case by (cases p) simp
    qed simp
    ultimately have "flat = ps" using dec by (simp add: ex_codec_def)
    then show ?thesis by simp
  qed
qed

lemma posted_metadata_not_decoded_witness:
  "\<exists>e. url_decode_wallet_metadata ex_jwt_lib ex_codec
     (request_uri_body ''{}'' (Some (Some (WalletNonce ''n-1'')))) = Inl e"
proof -
  have "metadata_to_string ex_jwt_lib (w_metadata ex_wallet) = Inr ''{}''" by code_simp
  moreover have "byte_serialize ex_jwt_lib ''{}'' = ''{}''" by code_simp
  ultimately show ?thesis
    using posted_metadata_not_decoded [OF param_lib_ok_ex_jwt ex_codec_names, of ex_wallet "''{}''"
        "Some (Some (WalletNonce ''n-1''))"] by simp
qed

end
