(* ===== verification/Response.thy ===== *)
theory Response
  imports Presentation_Submission Parameters
begin

text \<open>
  \<open>src/src/core/response/\<close>: authorization responses, their parameters, and their
  encoding as a form. What \<open>serde\<close> derives, the form codec and the decoding of a token
  are foreign.
\<close>

section \<open>Parameters\<close>

record 'jwk id_token_body =
  idt_issuer :: string
  idt_subject :: string
  idt_audience :: string
  idt_nonce :: string
  idt_sub_jwk :: "'jwk option"
  idt_issued_at :: "64 word option"
  idt_expiration_time :: "64 word"
  idt_other :: "json_map option"

record 'jwk id_token =
  id_token_raw :: string
  id_token_parsed :: "'jwk id_token_body"

datatype vp_token_item = TokenString string | TokenObject json_map

datatype vp_token = VpTokenItems (vp_items: "vp_token_item list")

text \<open>Strings become items as they are, presentations of \<open>ssi\<close> through their JSON.\<close>

definition vp_token_item_from_string :: "string \<Rightarrow> vp_token_item" where
  "vp_token_item_from_string value = TokenString value"

definition vp_token_item_from_presentation :: "('p \<Rightarrow> anyhow + json) \<Rightarrow> 'p \<Rightarrow> anyhow + vp_token_item" where
  "vp_token_item_from_presentation to_json value =
     and_then (to_json value) (\<lambda>j.
     case j of
       JObject ob \<Rightarrow> Inr (TokenObject ob)
     | _ \<Rightarrow> Inl (Msg ''panicked: entered unreachable code''))"

definition vp_token_from_item :: "vp_token_item \<Rightarrow> vp_token" where
  "vp_token_from_item value = VpTokenItems [value]"

definition vp_token_from_string :: "string \<Rightarrow> vp_token" where
  "vp_token_from_string value = VpTokenItems [vp_token_item_from_string value]"

text \<open>The four presentations that make a token: a vector of the one item.\<close>

definition vp_token_from_presentation :: "('p \<Rightarrow> anyhow + json) \<Rightarrow> 'p \<Rightarrow> anyhow + vp_token" where
  "vp_token_from_presentation to_json value =
     map_ok (\<lambda>item. VpTokenItems [item]) (vp_token_item_from_presentation to_json value)"

definition vp_token_is_empty :: "vp_token \<Rightarrow> bool" where
  "vp_token_is_empty self \<longleftrightarrow> vp_items self = []"

definition vp_token_len :: "vp_token \<Rightarrow> nat" where
  "vp_token_len self = length (vp_items self)"

record 'jwk response_lib = param_lib +
  de_vp_token :: "vp_token deserialize"
  ser_vp_token :: "vp_token serialize"
  de_submission :: "presentation_submission deserialize"
  ser_submission :: "presentation_submission serialize"
  ser_hashes :: "string list serialize"
  ser_hash_alg :: "hash_algorithm serialize"
  decode_id_token :: "string \<Rightarrow> anyhow + 'jwk id_token_body"

definition format_to_string :: "('jwk, 'z) response_lib_scheme \<Rightarrow> vp_token \<Rightarrow> anyhow + string" where
  "format_to_string R self =
     and_then (to_string (ser_vp_token R) self) (\<lambda>vp_token.
     Inr (case vp_items self of
            [TokenString _] \<Rightarrow> trim_matches (CHR 0x22) vp_token
          | _ \<Rightarrow> vp_token))"

definition vp_token_try_from_json :: "('jwk, 'z) response_lib_scheme \<Rightarrow> json \<Rightarrow> anyhow + vp_token" where
  "vp_token_try_from_json R = from_value (de_vp_token R)"

text \<open>The source unwraps the value: an error here is a panic there.\<close>

definition vp_token_into_json :: "('jwk, 'z) response_lib_scheme \<Rightarrow> vp_token \<Rightarrow> anyhow + json" where
  "vp_token_into_json R = to_value (ser_vp_token R)"

declare vp_token_try_from_json_def [simp] vp_token_into_json_def [simp]

definition vp_token_param :: "('jwk, 'z) response_lib_scheme \<Rightarrow> vp_token typed_parameter" where
  "vp_token_param R =
     \<lparr>KEY = ''vp_token'', try_from_json = vp_token_try_from_json R,
      try_into_json = vp_token_into_json R\<rparr>"

definition id_token_try_from :: "('jwk, 'z) response_lib_scheme \<Rightarrow> string \<Rightarrow> anyhow + 'jwk id_token" where
  "id_token_try_from R raw =
     and_then (decode_id_token R raw) (\<lambda>parsed.
     Inr \<lparr>id_token_raw = raw, id_token_parsed = parsed\<rparr>)"

definition id_token_try_from_json :: "('jwk, 'z) response_lib_scheme \<Rightarrow> json \<Rightarrow> anyhow + 'jwk id_token" where
  "id_token_try_from_json R raw =
     (case raw of
        JString s \<Rightarrow> and_then (decode_id_token R s) (\<lambda>parsed.
          Inr \<lparr>id_token_raw = s, id_token_parsed = parsed\<rparr>)
      | _ \<Rightarrow> Inl (Msg ''IdToken must be json string''))"

definition id_token_into_json :: "'jwk id_token \<Rightarrow> json" where
  "id_token_into_json value = JString (id_token_raw value)"

text \<open>\<open>Serialize\<close> and \<open>Deserialize\<close> of the token are those of its text.\<close>

definition id_token_serialize :: "string serialize \<Rightarrow> 'jwk id_token \<Rightarrow> anyhow + json" where
  "id_token_serialize ser self = to_value ser (id_token_raw self)"

definition id_token_deserialize ::
  "('jwk, 'z) response_lib_scheme \<Rightarrow> json \<Rightarrow> anyhow + 'jwk id_token" where
  "id_token_deserialize R deserializer =
     and_then (from_value (de_string R) deserializer) (\<lambda>jwt. id_token_try_from R jwt)"

text \<open>What is serialised is read back, as the parameter and as a member.\<close>

lemma id_token_serde:
  assumes "string_de (de_string R)" and "\<And>s. to_value ser s = Inr (JString s)"
    and "id_token_try_from R s = Inr t"
  shows "id_token_serialize ser t = Inr (id_token_into_json t)"
    and "id_token_deserialize R (id_token_into_json t) = Inr t"
    and "id_token_try_from_json R (id_token_into_json t) = Inr t"
proof -
  have raw: "id_token_raw t = s" using assms(3) by (auto simp: id_token_try_from_def res_simps)
  show "id_token_serialize ser t = Inr (id_token_into_json t)"
    by (simp add: id_token_serialize_def id_token_into_json_def assms(2))
  show "id_token_deserialize R (id_token_into_json t) = Inr t"
    using assms(1,3) raw by (simp add: id_token_deserialize_def id_token_into_json_def string_de_def)
  show "id_token_try_from_json R (id_token_into_json t) = Inr t"
    using assms(3) raw by (simp add: id_token_try_from_json_def id_token_into_json_def id_token_try_from_def)
qed

definition id_token_param :: "('jwk, 'z) response_lib_scheme \<Rightarrow> 'jwk id_token typed_parameter" where
  "id_token_param R =
     \<lparr>KEY = ''id_token'', try_from_json = id_token_try_from_json R,
      try_into_json = (\<lambda>t. Inr (id_token_into_json t))\<rparr>"

datatype transaction_data_hashes = TransactionDataHashes (tdh_hashes: "string list")

definition transaction_data_hashes_param :: "'z param_lib_scheme \<Rightarrow> transaction_data_hashes typed_parameter" where
  "transaction_data_hashes_param R =
     \<lparr>KEY = ''transaction_data_hashes'',
      try_from_json = (\<lambda>value. map_ok TransactionDataHashes (from_value (de_strings R) value)),
      try_into_json = (\<lambda>t. Inr (JArray (map JString (tdh_hashes t))))\<rparr>"

datatype transaction_data_hashes_alg = TransactionDataHashesAlg (tdha_alg: hash_algorithm)

text \<open>\<open>serde(try_from = "String")\<close> on \<open>HashAlgorithm\<close>.\<close>

definition transaction_data_hashes_alg_param ::
  "'z param_lib_scheme \<Rightarrow> transaction_data_hashes_alg typed_parameter" where
  "transaction_data_hashes_alg_param R =
     \<lparr>KEY = ''transaction_data_hashes_alg'',
      try_from_json = (\<lambda>value. map_ok TransactionDataHashesAlg
        (and_then (from_value (de_string R) value) hash_algorithm_try_from)),
      try_into_json = (\<lambda>t. Inr (JString (display_hash_algorithm (tdha_alg t))))\<rparr>"

section \<open>Responses\<close>

record transaction_data_response =
  tdr_hashes :: transaction_data_hashes
  tdr_alg :: "transaction_data_hashes_alg option"

record json_transaction_data_response =
  jtdr_hashes :: string
  jtdr_alg :: "string option"

definition tdr_try_from_json ::
  "('jwk, 'z) response_lib_scheme \<Rightarrow> json_transaction_data_response \<Rightarrow> anyhow + transaction_data_response" where
  "tdr_try_from_json R value =
     and_then (map_err (\<lambda>_. Msg ''failed to serialize transaction_data_hashes'')
       (from_str (de_strings R) (jtdr_hashes value))) (\<lambda>hashes.
     and_then (case jtdr_alg value of
         Some alg \<Rightarrow>
           map_ok (\<lambda>a. Some (TransactionDataHashesAlg a))
             (map_err (\<lambda>_. Msg ''failed to convert transaction_data_hashes_alg to HashAlgorithm'')
               (hash_algorithm_try_from alg))
       | None \<Rightarrow> Inr None) (\<lambda>alg.
     Inr \<lparr>tdr_hashes = TransactionDataHashes hashes, tdr_alg = alg\<rparr>))"

definition json_try_from_tdr ::
  "('jwk, 'z) response_lib_scheme \<Rightarrow> transaction_data_response \<Rightarrow> anyhow + json_transaction_data_response" where
  "json_try_from_tdr R value =
     and_then (to_string (ser_hashes R) (tdh_hashes (tdr_hashes value))) (\<lambda>hashes.
     and_then (transpose_opt (map_option (\<lambda>alg. to_string (ser_hash_alg R) (tdha_alg alg)) (tdr_alg value)))
       (\<lambda>alg.
     Inr \<lparr>jtdr_hashes = hashes, jtdr_alg = alg\<rparr>))"

record json_encoded_response =
  jer_vp_token :: string
  jer_presentation_submission :: "string option"
  jer_id_token :: "string option"
  jer_state :: "string option"
  jer_transaction_data :: "json_transaction_data_response option"

record 'jwk unencoded_response =
  uar_vp_token :: vp_token
  uar_presentation_submission :: "presentation_submission option"
  uar_id_token :: "'jwk id_token option"
  uar_state :: "string option"
  uar_transaction_data :: "transaction_data_response option"

datatype jwt_response = JwtResponse (jwt_response_text: string)

datatype 'jwk authorization_response =
    Unencoded "'jwk unencoded_response"
  | JwtEncoded jwt_response

datatype post_redirection = PostRedirection (post_redirect_uri: url)

definition response_try_from_json ::
  "('jwk, 'z) response_lib_scheme \<Rightarrow> json_encoded_response \<Rightarrow> anyhow + 'jwk unencoded_response" where
  "response_try_from_json R value =
     and_then (map_err (\<lambda>_. Msg ''failed to decode vp token'')
       (from_str (de_vp_token R) (jer_vp_token value))) (\<lambda>vp_token.
     and_then (transpose_opt (map_option (from_str (de_submission R)) (jer_presentation_submission value)))
       (\<lambda>submission.
     and_then (transpose_opt (map_option
         (\<lambda>jwt. parsing_error_res (id_token_param R) (id_token_try_from R jwt)) (jer_id_token value)))
       (\<lambda>id_token.
     and_then (transpose_opt (map_option (tdr_try_from_json R) (jer_transaction_data value))) (\<lambda>tdr.
     Inr \<lparr>uar_vp_token = vp_token, uar_presentation_submission = submission, uar_id_token = id_token,
          uar_state = jer_state value, uar_transaction_data = tdr\<rparr>))))"

definition json_try_from_response ::
  "('jwk, 'z) response_lib_scheme \<Rightarrow> 'jwk unencoded_response \<Rightarrow> anyhow + json_encoded_response" where
  "json_try_from_response R value =
     and_then (format_to_string R (uar_vp_token value)) (\<lambda>vp_token.
     and_then (transpose_opt (map_option (json_try_from_tdr R) (uar_transaction_data value))) (\<lambda>tdr.
     Inr \<lparr>jer_vp_token = vp_token,
          jer_presentation_submission =
            Option.bind (uar_presentation_submission value) (\<lambda>ps. res_ok (to_string (ser_submission R) ps)),
          jer_id_token = map_option id_token_raw (uar_id_token value),
          jer_state = uar_state value,
          jer_transaction_data = tdr\<rparr>))"

text \<open>The codec of forms, for the two shapes of a response.\<close>

record response_codec =
  form_of_response :: "json_encoded_response \<Rightarrow> anyhow + string"
  response_of_form :: "string \<Rightarrow> anyhow + json_encoded_response"
  form_of_jwt :: "jwt_response \<Rightarrow> anyhow + string"
  jwt_of_form :: "string \<Rightarrow> anyhow + jwt_response"

definition response_into_form ::
  "('jwk, 'z) response_lib_scheme \<Rightarrow> response_codec \<Rightarrow> 'jwk unencoded_response \<Rightarrow> anyhow + string" where
  "response_into_form R c self =
     and_then (json_try_from_response R self) (\<lambda>j.
     map_err (\<lambda>_. Msg (''failed to encode UnencodedAuthorizationResponse as '' @
       quoted ''application/x-www-form-urlencoded'')) (form_of_response c j))"

definition jwt_into_form :: "response_codec \<Rightarrow> jwt_response \<Rightarrow> anyhow + string" where
  "jwt_into_form c self =
     map_err (\<lambda>_. Msg (''failed to encode response as '' @ quoted ''application/x-www-form-urlencoded''))
       (form_of_jwt c self)"

definition response_from_form ::
  "('jwk, 'z) response_lib_scheme \<Rightarrow> response_codec \<Rightarrow> string \<Rightarrow> anyhow + 'jwk authorization_response" where
  "response_from_form R c bytes =
     (case jwt_of_form c bytes of
        Inr jwt \<Rightarrow> Inr (JwtEncoded jwt)
      | Inl _ \<Rightarrow>
          and_then (map_err (\<lambda>_. Msg ''failed to construct flat map'') (response_of_form c bytes)) (\<lambda>j.
          map_ok Unencoded (response_try_from_json R j)))"

definition response_try_from_object ::
  "('jwk, 'z) response_lib_scheme \<Rightarrow> untyped_object \<Rightarrow> anyhow + 'jwk unencoded_response" where
  "response_try_from_object R value =
     and_then (parsing_error_opt (vp_token_param R) (obj_get (vp_token_param R) value)) (\<lambda>vp_token.
     and_then (map_err (fmt_err ''Error getting presentation_submission: '') (transpose_opt
       (obj_get (submission_param (de_submission R) (ser_submission R)) value))) (\<lambda>submission.
     and_then (map_err (fmt_err ''Error getting id_token: '') (transpose_opt
       (obj_get (id_token_param R) value))) (\<lambda>id_token.
     and_then (map_err (fmt_err ''Error getting state: '') (transpose_opt
       (obj_get (state_param R) value))) (\<lambda>state.
     and_then (map_err (fmt_err ''Error getting transaction_data_hashes: '') (transpose_opt
       (obj_get (transaction_data_hashes_param R) value))) (\<lambda>hashes.
     and_then (map_err (fmt_err ''Error getting transaction_data_hashes_alg: '') (transpose_opt
       (obj_get (transaction_data_hashes_alg_param R) value))) (\<lambda>alg.
     Inr \<lparr>uar_vp_token = vp_token, uar_presentation_submission = submission, uar_id_token = id_token,
          uar_state = map_option state_str state,
          uar_transaction_data =
            map_option (\<lambda>tdh. \<lparr>tdr_hashes = tdh, tdr_alg = alg\<rparr>) hashes\<rparr>))))))"

section \<open>Round trips\<close>

text \<open>What the derived conversions promise: the text of a value reads back as the value.\<close>

definition response_lib_ok :: "('jwk, 'z) response_lib_scheme \<Rightarrow> bool" where
  "response_lib_ok R \<longleftrightarrow>
     (\<forall>v s. to_string (ser_vp_token R) v = Inr s \<longrightarrow> from_str (de_vp_token R) s = Inr v) \<and>
     (\<forall>v s. to_string (ser_hashes R) v = Inr s \<longrightarrow> from_str (de_strings R) s = Inr v) \<and>
     (\<forall>a. to_string (ser_hash_alg R) a =
        Inr (CHR 0x22 # string_of_hash_algorithm a @ [CHR 0x22]))"

text \<open>An identity token that was decoded from its own text.\<close>

definition id_token_wf :: "('jwk, 'z) response_lib_scheme \<Rightarrow> 'jwk id_token \<Rightarrow> bool" where
  "id_token_wf R t \<longleftrightarrow> decode_id_token R (id_token_raw t) = Inr (id_token_parsed t)"

lemma id_token_wf_try_from: "id_token_try_from R s = Inr t \<Longrightarrow> id_token_wf R t \<and> id_token_raw t = s"
  by (auto simp: id_token_try_from_def id_token_wf_def res_simps)

lemma id_token_try_from_wf: "id_token_wf R t \<Longrightarrow> id_token_try_from R (id_token_raw t) = Inr t"
  by (simp add: id_token_try_from_def id_token_wf_def)

lemma hash_algorithm_quoted:
  "\<exists>e. hash_algorithm_try_from (CHR 0x22 # s @ [CHR 0x22]) = Inl e"
  by (simp add: hash_algorithm_try_from_def)

text \<open>
  The algorithm of the hashes is printed as JSON, with its quotes, and read as plain text:
  a response that names one cannot be read back.
\<close>

lemma tdr_with_alg_unreadable:
  assumes R: "response_lib_ok R" and j: "json_try_from_tdr R t = Inr j" and a: "tdr_alg t \<noteq> None"
  shows "\<exists>e. tdr_try_from_json R j = Inl e"
proof -
  from a obtain b where "tdr_alg t = Some b" by blast
  with j R obtain hashes where "jtdr_alg j = Some (CHR 0x22 # string_of_hash_algorithm (tdha_alg b) @ [CHR 0x22])"
    and "from_str (de_strings R) (jtdr_hashes j) = Inr hashes"
    by (auto simp: json_try_from_tdr_def response_lib_ok_def res_simps)
  with hash_algorithm_quoted [of "string_of_hash_algorithm (tdha_alg b)"] show ?thesis
    by (auto simp: tdr_try_from_json_def)
qed

lemma tdr_round_trip:
  assumes "response_lib_ok R" and "json_try_from_tdr R t = Inr j" and "tdr_alg t = None"
  shows "tdr_try_from_json R j = Inr t"
  using assms
  by (cases "tdr_hashes t") (auto simp: json_try_from_tdr_def tdr_try_from_json_def response_lib_ok_def res_simps)

text \<open>Responses whose parts survive the form: no bare text as the token, no hash algorithm.\<close>

definition form_safe :: "('jwk, 'z) response_lib_scheme \<Rightarrow> 'jwk unencoded_response \<Rightarrow> bool" where
  "form_safe R u \<longleftrightarrow>
     (\<forall>s. vp_items (uar_vp_token u) \<noteq> [TokenString s]) \<and>
     pred_option (id_token_wf R) (uar_id_token u) \<and>
     pred_option (\<lambda>ps. \<exists>s. to_string (ser_submission R) ps = Inr s \<and> from_str (de_submission R) s = Inr ps)
       (uar_presentation_submission u) \<and>
     pred_option (\<lambda>t. tdr_alg t = None) (uar_transaction_data u)"

lemma format_to_string_plain:
  assumes "format_to_string R t = Inr s" and "\<forall>x. vp_items t \<noteq> [TokenString x]"
  shows "to_string (ser_vp_token R) t = Inr s"
proof -
  have "(case vp_items t of [TokenString _] \<Rightarrow> trim_matches (CHR 0x22) p | _ \<Rightarrow> p) = p" for p
    using assms(2) by (simp split: list.split vp_token_item.split)
  with assms(1) show ?thesis by (simp add: format_to_string_def res_simps)
qed

lemma response_json_round_trip:
  assumes R: "response_lib_ok R" and safe: "form_safe R u" and j: "json_try_from_response R u = Inr j"
  shows "response_try_from_json R j = Inr u"
proof -
  have "format_to_string R (uar_vp_token u) = Inr (jer_vp_token j)"
    using j by (auto simp: json_try_from_response_def res_simps)
  moreover have "\<forall>s. vp_items (uar_vp_token u) \<noteq> [TokenString s]"
    using safe by (simp add: form_safe_def)
  ultimately have "to_string (ser_vp_token R) (uar_vp_token u) = Inr (jer_vp_token j)"
    by (rule format_to_string_plain)
  then have "from_str (de_vp_token R) (jer_vp_token j) = Inr (uar_vp_token u)"
    using R by (simp add: response_lib_ok_def)
  moreover have "transpose_opt (map_option (from_str (de_submission R)) (jer_presentation_submission j)) =
      Inr (uar_presentation_submission u)"
    using j R safe
    by (cases "uar_presentation_submission u")
      (auto simp: json_try_from_response_def form_safe_def response_lib_ok_def res_simps)
  moreover have "transpose_opt (map_option
        (\<lambda>jwt. parsing_error_res (id_token_param R) (id_token_try_from R jwt)) (jer_id_token j)) =
      Inr (uar_id_token u)"
    using j safe
    by (cases "uar_id_token u")
      (auto simp: json_try_from_response_def form_safe_def res_simps id_token_try_from_wf)
  moreover have "transpose_opt (map_option (tdr_try_from_json R) (jer_transaction_data j)) =
      Inr (uar_transaction_data u)"
    using j R safe
    by (cases "uar_transaction_data u")
      (auto simp: json_try_from_response_def form_safe_def res_simps tdr_round_trip)
  moreover have "jer_state j = uar_state u"
    using j by (auto simp: json_try_from_response_def res_simps)
  ultimately show ?thesis by (simp add: response_try_from_json_def)
qed

text \<open>
  What a JSON text that holds one string looks like. A token that is a single string is printed within
  quotes, with a backslash before every quote inside; and a text is read as such a token (a string, or an
  array of one) only if it has a quote with no backslash before it.
\<close>

definition quotes_escaped :: "string \<Rightarrow> bool" where
  "quotes_escaped q \<longleftrightarrow> (\<forall>a b. q = a @ CHR 0x22 # b \<longrightarrow> a \<noteq> [] \<and> last a = CHR 0x5C)"

definition token_texts_ok :: "('jwk, 'z) response_lib_scheme \<Rightarrow> bool" where
  "token_texts_ok R \<longleftrightarrow>
     (\<forall>s p. to_string (ser_vp_token R) (VpTokenItems [TokenString s]) = Inr p \<longrightarrow>
        (\<exists>q. p = CHR 0x22 # q @ [CHR 0x22] \<and> quotes_escaped q)) \<and>
     (\<forall>t s. from_str (de_vp_token R) t = Inr (VpTokenItems [TokenString s]) \<longrightarrow>
        (\<exists>a b. t = a @ CHR 0x22 # b \<and> CHR 0x5C \<notin> set a))"

lemma trim_matches_quoted:
  assumes "quotes_escaped q"
  obtains r where "q = trim_matches (CHR 0x22) (CHR 0x22 # q @ [CHR 0x22]) @ r"
proof -
  have start: "trim_start_matches (CHR 0x22) (CHR 0x22 # q @ [CHR 0x22]) =
      (if q = [] then [] else q @ [CHR 0x22])"
  proof (cases q)
    case (Cons c q')
    then have "c \<noteq> CHR 0x22" using assms unfolding quotes_escaped_def by fastforce
    with Cons show ?thesis by (simp add: trim_start_matches_def)
  qed (simp add: trim_start_matches_def)
  show ?thesis
  proof (cases "q = []")
    case False
    let ?w = "takeWhile (\<lambda>x. x = CHR 0x22) (rev q)" and ?d = "dropWhile (\<lambda>x. x = CHR 0x22) (rev q)"
    have "trim_matches (CHR 0x22) (CHR 0x22 # q @ [CHR 0x22]) = rev ?d"
      using False unfolding trim_matches_def start by (simp add: trim_end_matches_def)
    moreover have "rev ?d @ rev ?w = rev (?w @ ?d)" by (simp only: rev_append)
    then have "rev ?d @ rev ?w = q" by (simp only: takeWhile_dropWhile_id rev_rev_ident)
    ultimately show ?thesis by (intro that [of "rev ?w"]) (simp only:)
  next
    case True
    then show ?thesis by (intro that [of "[]"]) (simp add: trim_matches_def start trim_end_matches_def
        trim_start_matches_def)
  qed
qed

text \<open>So a token that is one bare string never reads back: its quotes are gone.\<close>

lemma bare_token_unreadable:
  assumes "token_texts_ok R" and "format_to_string R (VpTokenItems [TokenString s]) = Inr t"
  shows "from_str (de_vp_token R) t \<noteq> Inr (VpTokenItems [TokenString s])"
proof
  assume "from_str (de_vp_token R) t = Inr (VpTokenItems [TokenString s])"
  with assms(1) obtain a b where t: "t = a @ CHR 0x22 # b" and a: "CHR 0x5C \<notin> set a"
    unfolding token_texts_ok_def by blast
  from assms obtain q where q: "quotes_escaped q"
    and "t = trim_matches (CHR 0x22) (CHR 0x22 # q @ [CHR 0x22])"
    unfolding format_to_string_def token_texts_ok_def by (fastforce simp: res_simps)
  with trim_matches_quoted [OF q] obtain r where "q = t @ r" by metis
  with t have "q = a @ CHR 0x22 # (b @ r)" by simp
  with q have "a \<noteq> []" "last a = CHR 0x5C" unfolding quotes_escaped_def by blast+
  with a show False using last_in_set [of a] by simp
qed

lemma response_json_read_back:
  assumes R: "response_lib_ok R" "token_texts_ok R" and j: "json_try_from_response R u = Inr j"
  shows "response_try_from_json R j = Inr u \<longleftrightarrow> form_safe R u"
proof
  assume "response_try_from_json R j = Inr u"
  then have parts: "from_str (de_vp_token R) (jer_vp_token j) = Inr (uar_vp_token u)"
    "transpose_opt (map_option (from_str (de_submission R)) (jer_presentation_submission j)) =
      Inr (uar_presentation_submission u)"
    "transpose_opt (map_option
        (\<lambda>jwt. parsing_error_res (id_token_param R) (id_token_try_from R jwt)) (jer_id_token j)) =
      Inr (uar_id_token u)"
    "transpose_opt (map_option (tdr_try_from_json R) (jer_transaction_data j)) =
      Inr (uar_transaction_data u)"
    by (auto simp: response_try_from_json_def res_simps)
  have "vp_items (uar_vp_token u) \<noteq> [TokenString s]" for s
  proof
    assume "vp_items (uar_vp_token u) = [TokenString s]"
    then have "uar_vp_token u = VpTokenItems [TokenString s]" by (cases "uar_vp_token u") simp
    with parts(1) j bare_token_unreadable [OF R(2), of s "jer_vp_token j"] show False
      by (auto simp: json_try_from_response_def res_simps)
  qed
  moreover have "pred_option (id_token_wf R) (uar_id_token u)"
    using parts(3) j
    by (cases "uar_id_token u")
      (auto simp: json_try_from_response_def res_simps dest!: id_token_wf_try_from)
  moreover have "pred_option (\<lambda>ps. \<exists>s. to_string (ser_submission R) ps = Inr s \<and>
      from_str (de_submission R) s = Inr ps) (uar_presentation_submission u)"
    using parts(2) j
    by (cases "uar_presentation_submission u")
      (auto simp: json_try_from_response_def res_simps res_ok_Some_iff split: option.splits
        bind_splits)
  moreover have "pred_option (\<lambda>t. tdr_alg t = None) (uar_transaction_data u)"
  proof (cases "uar_transaction_data u")
    case (Some t)
    with j obtain tj where tj: "json_try_from_tdr R t = Inr tj" "jer_transaction_data j = Some tj"
      by (auto simp: json_try_from_response_def res_simps)
    with parts(4) Some have "tdr_try_from_json R tj = Inr t" by (auto simp: res_simps)
    with tdr_with_alg_unreadable [OF R(1) tj(1)] have "tdr_alg t = None" by (metis Inl_Inr_False)
    with Some show ?thesis by simp
  qed simp
  ultimately show "form_safe R u" by (simp add: form_safe_def)
qed (rule response_json_round_trip [OF R(1) _ j])

section \<open>Properties\<close>

text \<open>What the codec of forms promises: a form that was encoded from a response reads as it.\<close>

definition response_codec_ok :: "response_codec \<Rightarrow> bool" where
  "response_codec_ok c \<longleftrightarrow>
     (\<forall>j s. form_of_response c j = Inr s \<longrightarrow> isl (jwt_of_form c s) \<and> response_of_form c s = Inr j) \<and>
     (\<forall>r s. form_of_jwt c r = Inr s \<longrightarrow> jwt_of_form c s = Inr r)"

lemma response_from_into_form:
  assumes "response_codec_ok c" and "response_into_form R c u = Inr s"
  obtains j where "json_try_from_response R u = Inr j"
    "response_from_form R c s = map_ok Unencoded (response_try_from_json R j)"
proof -
  from assms(2) obtain j where j: "json_try_from_response R u = Inr j" "form_of_response c j = Inr s"
    by (auto simp: response_into_form_def res_simps)
  with assms(1) have "isl (jwt_of_form c s)" "response_of_form c s = Inr j"
    by (auto simp: response_codec_ok_def)
  with that j(1) show ?thesis by (auto simp: response_from_form_def isl_def)
qed

lemma response_read_back:
  assumes "response_lib_ok R" and "token_texts_ok R" and "response_codec_ok c"
    and "response_into_form R c u = Inr s"
  shows "response_from_form R c s = Inr (Unencoded u) \<longleftrightarrow> form_safe R u"
proof -
  obtain j where "json_try_from_response R u = Inr j"
    "response_from_form R c s = map_ok Unencoded (response_try_from_json R j)"
    using response_from_into_form [OF assms(3,4)] .
  then show ?thesis using response_json_read_back [OF assms(1,2)] by (auto simp: res_simps)
qed

lemma jwt_read_back:
  "response_codec_ok c \<Longrightarrow> jwt_into_form c r = Inr s \<Longrightarrow> response_from_form R c s = Inr (JwtEncoded r)"
  by (auto simp: response_codec_ok_def jwt_into_form_def response_from_form_def res_simps)

text \<open>
  A library for evaluation: it prints the empty token and tokens of one string without quotes and
  backslashes, and reads both.
\<close>

definition read_token :: "string \<Rightarrow> anyhow + vp_token" where
  "read_token t =
     (if t = ''[]'' then Inr (VpTokenItems [])
      else case t of
        c # r \<Rightarrow> if c = CHR 0x22 \<and> r \<noteq> [] \<and> last r = CHR 0x22 then Inr (VpTokenItems [TokenString (butlast r)])
          else Inl (Msg ''expected value'')
      | [] \<Rightarrow> Inl (Msg ''expected value''))"

definition print_token :: "vp_token \<Rightarrow> anyhow + string" where
  "print_token v =
     (case vp_items v of
        [] \<Rightarrow> Inr ''[]''
      | [TokenString s] \<Rightarrow>
          if CHR 0x22 \<in> set s \<or> CHR 0x5C \<in> set s then Inl (Msg ''not printed'')
          else Inr (CHR 0x22 # s @ [CHR 0x22])
      | _ \<Rightarrow> Inl (Msg ''not printed''))"

definition ex_response_lib :: "unit response_lib" where
  "ex_response_lib = param_lib.extend std_param_lib (response_lib.fields
     \<lparr>from_value = (\<lambda>j. Inl (Msg ''expected value'')), from_str = read_token\<rparr>
     \<lparr>to_value = (\<lambda>v. Inr (JArray [])), to_string = print_token\<rparr>
     \<lparr>from_value = (\<lambda>j. Inl (Msg ''expected value'')), from_str = (\<lambda>s. Inl (Msg ''expected value''))\<rparr>
     \<lparr>to_value = (\<lambda>v. Inr JNull), to_string = (\<lambda>v. Inl (Msg ''not printed''))\<rparr>
     \<lparr>to_value = (\<lambda>v. Inr (JArray [])),
      to_string = (\<lambda>v. if v = [] then Inr ''[]'' else Inl (Msg ''not printed''))\<rparr>
     \<lparr>to_value = (\<lambda>a. Inr JNull), to_string = (\<lambda>a. Inr (CHR 0x22 # string_of_hash_algorithm a @ [CHR 0x22]))\<rparr>
     (\<lambda>s. Inl (Msg ''invalid token'')))\<lparr>de_strings :=
       \<lparr>from_value = (\<lambda>j. Inr []), from_str = (\<lambda>s. Inr [])\<rparr>\<rparr>"

text \<open>A codec for three forms: nothing, no hashes under an algorithm, and a token of one string; and for a JWT.\<close>

definition ex_form :: "json_transaction_data_response option \<Rightarrow> json_encoded_response" where
  "ex_form t = \<lparr>jer_vp_token = ''[]'', jer_presentation_submission = None, jer_id_token = None,
     jer_state = None, jer_transaction_data = t\<rparr>"

definition ex_hashes_form :: json_transaction_data_response where
  "ex_hashes_form = \<lparr>jtdr_hashes = ''[]'', jtdr_alg = Some (CHR 0x22 # ''sha-256'' @ [CHR 0x22])\<rparr>"

definition ex_token_form :: json_encoded_response where
  "ex_token_form = (ex_form None)\<lparr>jer_vp_token := ''h.p.s''\<rparr>"

definition ex_response_codec :: response_codec where
  "ex_response_codec = \<lparr>
     form_of_response = (\<lambda>j. if j = ex_form None then Inr ''plain''
        else if j = ex_form (Some ex_hashes_form) then Inr ''hashes''
        else if j = ex_token_form then Inr ''token''
        else Inl (Msg ''not encoded'')),
     response_of_form = (\<lambda>s. if s = ''plain'' then Inr (ex_form None)
        else if s = ''token'' then Inr ex_token_form else Inr (ex_form (Some ex_hashes_form))),
     form_of_jwt = (\<lambda>r. Inr (''response='' @ jwt_response_text r)),
     jwt_of_form = (\<lambda>s. ok_or (Msg ''missing field'') (map_option JwtResponse (strip_prefix ''response='' s)))\<rparr>"

definition ex_response :: "transaction_data_response option \<Rightarrow> unit unencoded_response" where
  "ex_response t = \<lparr>uar_vp_token = VpTokenItems [], uar_presentation_submission = None,
     uar_id_token = None, uar_state = None, uar_transaction_data = t\<rparr>"

lemma ex_response_codec_ok: "response_codec_ok ex_response_codec"
  by (auto simp: response_codec_ok_def ex_response_codec_def ex_token_form_def ex_form_def split: if_splits)

lemma ex_token_read: "print_token v = Inr s \<Longrightarrow> read_token s = Inr v"
  by (cases v) (auto simp: print_token_def read_token_def split: list.splits vp_token_item.splits if_splits)

lemma ex_response_lib_fields:
  "to_string (ser_vp_token ex_response_lib) = print_token" "from_str (de_vp_token ex_response_lib) = read_token"
  by (simp_all add: ex_response_lib_def param_lib.defs response_lib.defs)

lemma ex_response_lib_ok: "response_lib_ok ex_response_lib"
  unfolding response_lib_ok_def ex_response_lib_fields
  by (auto simp: ex_token_read) (auto simp: ex_response_lib_def param_lib.defs response_lib.defs split: if_splits)

lemma ex_token_texts_ok: "token_texts_ok ex_response_lib"
  unfolding token_texts_ok_def ex_response_lib_fields
proof (intro conjI allI impI)
  fix s p
  assume "print_token (VpTokenItems [TokenString s]) = Inr p"
  then have "p = CHR 0x22 # s @ [CHR 0x22]" "CHR 0x22 \<notin> set s"
    by (auto simp: print_token_def split: if_splits)
  then show "\<exists>q. p = CHR 0x22 # q @ [CHR 0x22] \<and> quotes_escaped q"
    by (auto simp: quotes_escaped_def)
next
  fix t s
  assume "read_token t = Inr (VpTokenItems [TokenString s])"
  then obtain r where "t = [] @ CHR 0x22 # r" by (auto simp: read_token_def split: if_splits list.splits)
  then show "\<exists>a b. t = a @ CHR 0x22 # b \<and> CHR 0x5C \<notin> set a"
    by (intro exI [of _ "[]"] exI [of _ r]) simp
qed

text \<open>
  A response that names the hash algorithm of its transaction data can be encoded as a form
  but never decoded again: the algorithm is written as JSON, within quotes, and read as plain text.
\<close>

theorem hash_algorithm_not_decoded:
  assumes "response_lib_ok R" and "response_codec_ok c"
    and "uar_transaction_data u = Some t" and "tdr_alg t = Some a"
    and "response_into_form R c u = Inr s"
  shows "\<exists>e. response_from_form R c s = Inl e"
proof -
  obtain j where j: "json_try_from_response R u = Inr j"
    "response_from_form R c s = map_ok Unencoded (response_try_from_json R j)"
    using response_from_into_form [OF assms(2,5)] .
  then obtain tj where "json_try_from_tdr R t = Inr tj" and tj: "jer_transaction_data j = Some tj"
    using assms(3) by (auto simp: json_try_from_response_def res_simps)
  then obtain e where "tdr_try_from_json R tj = Inl e"
    using tdr_with_alg_unreadable [OF assms(1)] assms(4) by blast
  with tj have "\<nexists>v. response_try_from_json R j = Inr v"
    by (simp add: response_try_from_json_def res_simps)
  with j(2) show ?thesis
    by (cases "response_try_from_json R j") auto
qed

lemma hash_algorithm_not_decoded_witness:
  "response_into_form ex_response_lib ex_response_codec (ex_response (Some
     \<lparr>tdr_hashes = TransactionDataHashes [], tdr_alg = Some (TransactionDataHashesAlg Sha256)\<rparr>)) = Inr ''hashes'' \<and>
   (\<exists>e. response_from_form ex_response_lib ex_response_codec ''hashes'' = Inl e)"
  (is "response_into_form _ _ (ex_response (Some ?t)) = _ \<and> _")
proof -
  have enc: "response_into_form ex_response_lib ex_response_codec (ex_response (Some ?t)) = Inr ''hashes''"
    by code_simp
  have "uar_transaction_data (ex_response (Some ?t)) = Some ?t" by (simp add: ex_response_def)
  from hash_algorithm_not_decoded [OF ex_response_lib_ok ex_response_codec_ok this _ enc] enc
  show ?thesis by simp
qed

end
