(* ===== verification/Response_Json.thy ===== *)
theory Response_Json
  imports Response Flatten
begin

text \<open>
  The derived forms of \<open>src/src/core/response/\<close>: the JSON of tokens and of the body of an identity
  token, and the form fields of a response. The one-or-many form of a list is the one of \<open>ssi\<close>, a JWK is
  read by that crate, and the pairs of a form are encoded by \<open>serde_urlencoded\<close>; all three are arguments.
\<close>

section \<open>Presentation tokens\<close>

definition vp_token_item_of_json :: "vp_token_item reader" where
  "vp_token_item_of_json j =
     (case j of
        JString s \<Rightarrow> Some (TokenString s)
      | JObject kvs \<Rightarrow> Some (TokenObject (bt_of_list kvs))
      | _ \<Rightarrow> None)"

fun json_of_vp_token_item :: "vp_token_item \<Rightarrow> json" where
  "json_of_vp_token_item (TokenString s) = JString s"
| "json_of_vp_token_item (TokenObject m) = JObject m"

fun vp_token_item_ok :: "vp_token_item \<Rightarrow> bool" where
  "vp_token_item_ok (TokenString s) \<longleftrightarrow> True"
| "vp_token_item_ok (TokenObject m) \<longleftrightarrow> bt_wf m"

text \<open>\<open>OneOrMany\<close> of \<open>ssi\<close>: a single item is written as itself, any other number of them as an array.\<close>

record one_or_many =
  one_or_many_read :: "vp_token_item reader \<Rightarrow> vp_token_item list reader"
  one_or_many_write :: "(vp_token_item \<Rightarrow> json) \<Rightarrow> vp_token_item list \<Rightarrow> json"

definition one_or_many_ok :: "one_or_many \<Rightarrow> bool" where
  "one_or_many_ok M \<longleftrightarrow>
     (\<forall>parse j. one_or_many_read M parse j =
        (case parse j of Some x \<Rightarrow> Some [x] | None \<Rightarrow> vec_of_json parse j)) \<and>
     (\<forall>print xs. one_or_many_write M print xs = (case xs of [x] \<Rightarrow> print x | _ \<Rightarrow> json_of_vec print xs))"

definition vp_token_of_json :: "one_or_many \<Rightarrow> vp_token reader" where
  "vp_token_of_json M j = map_option VpTokenItems (one_or_many_read M vp_token_item_of_json j)"

definition json_of_vp_token :: "one_or_many \<Rightarrow> vp_token \<Rightarrow> json" where
  "json_of_vp_token M self = one_or_many_write M json_of_vp_token_item (vp_items self)"

definition vp_token_ok :: "vp_token \<Rightarrow> bool" where
  "vp_token_ok t \<longleftrightarrow> list_all vp_token_item_ok (vp_items t)"

interpretation vp_token_item_json: value_codec vp_token_item_of_json json_of_vp_token_item vp_token_item_ok
proof (rule value_codecI)
  show "vp_token_item_ok x" if "vp_token_item_of_json j = Some x" for j x
    using that by (cases j) (auto simp: vp_token_item_of_json_def)
  show "vp_token_item_of_json (json_of_vp_token_item x) = Some x" if "vp_token_item_ok x" for x
    using that by (cases x) (simp_all add: vp_token_item_of_json_def bt_of_list_same)
  show "json_of_vp_token_item x \<noteq> JNull" for x by (cases x) simp_all
qed

lemma vp_token_codec:
  assumes "one_or_many_ok M"
  shows "value_codec (vp_token_of_json M) (json_of_vp_token M) vp_token_ok"
proof (rule value_codecI)
  note items = vec_value_codec [OF vp_token_item_json.json_codec_axioms]
  show "vp_token_ok t" if "vp_token_of_json M j = Some t" for j t
    using that assms json_reader.parse_ok [OF value_codec.axioms(1) [OF items]]
    by (auto simp: vp_token_of_json_def one_or_many_ok_def vp_token_ok_def
        dest: vp_token_item_json.parse_ok split: option.splits)
  show "vp_token_of_json M (json_of_vp_token M t) = Some t" if "vp_token_ok t" for t
  proof -
    have many: "vec_of_json vp_token_item_of_json (json_of_vec json_of_vp_token_item (vp_items t)) = Some (vp_items t)"
      using that json_printer.parse_print_iff [OF json_printer.vec_printer [OF vp_token_item_json.json_printer_axioms]]
      by (simp add: vp_token_ok_def)
    have array: "vp_token_item_of_json (json_of_vec json_of_vp_token_item xs) = None" for xs
      by (simp add: vp_token_item_of_json_def json_of_vec_def)
    show ?thesis
    proof (cases "\<exists>x. vp_items t = [x]")
      case True
      then obtain x where x: "t = VpTokenItems [x]" by (cases t) auto
      with that assms show ?thesis
        by (simp add: vp_token_of_json_def json_of_vp_token_def one_or_many_ok_def vp_token_ok_def
            vp_token_item_json.parse_print_iff [THEN iffD2])
    next
      case False
      then have "json_of_vp_token M t = json_of_vec json_of_vp_token_item (vp_items t)"
        using assms by (auto simp: json_of_vp_token_def one_or_many_ok_def split: list.split)
      with many array assms show ?thesis
        by (cases t) (simp add: vp_token_of_json_def one_or_many_ok_def)
    qed
  qed
  show "json_of_vp_token M t \<noteq> JNull" if "vp_token_ok t" for t
    using assms that vp_token_item_json.print_not_null
    by (auto simp: json_of_vp_token_def one_or_many_ok_def vp_token_ok_def json_of_vec_def split: list.split)
qed

section \<open>The body of an identity token\<close>

text \<open>\<open>i64\<close>.\<close>

fun i64_of_json :: "64 word reader" where
  "i64_of_json (JNumber (PosInt n)) = (if n < 2 ^ 63 then Some (of_nat n) else None)"
| "i64_of_json (JNumber (NegInt i)) = (if - (2 ^ 63) \<le> i \<and> i < 0 then Some (of_int i) else None)"
| "i64_of_json _ = None"

definition json_of_i64 :: "64 word \<Rightarrow> json" where
  "json_of_i64 x = JNumber (if 0 \<le> sint x then PosInt (nat (sint x)) else NegInt (sint x))"

interpretation i64_json: value_codec i64_of_json json_of_i64 "\<lambda>_. True"
proof (rule value_codecI)
  show "i64_of_json (json_of_i64 x) = Some x" for x
    using sint_lt [of x] sint_ge [of x] by (auto simp: json_of_i64_def nat_less_iff)
qed (simp_all add: json_of_i64_def)

definition id_token_names :: "string list" where
  "id_token_names = [''iss'', ''sub'', ''aud'', ''nonce'', ''sub_jwk'', ''iat'', ''exp'']"

definition other_claims :: "'jwk id_token_body \<Rightarrow> json_map" where
  "other_claims self = (case idt_other self of None \<Rightarrow> [] | Some m \<Rightarrow> m)"

text \<open>The other claims are flattened; read, they are never \<open>None\<close>.\<close>

definition id_token_body_of_json :: "'jwk reader \<Rightarrow> 'jwk id_token_body reader" where
  "id_token_body_of_json jwk_of j = do {
     m \<leftarrow> object_members j;
     issuer \<leftarrow> required as_str (bt_get m ''iss'');
     subject \<leftarrow> required as_str (bt_get m ''sub'');
     audience \<leftarrow> required as_str (bt_get m ''aud'');
     nonce \<leftarrow> required as_str (bt_get m ''nonce'');
     sub_jwk \<leftarrow> optional jwk_of (bt_get m ''sub_jwk'');
     issued_at \<leftarrow> optional i64_of_json (bt_get m ''iat'');
     expiration_time \<leftarrow> required i64_of_json (bt_get m ''exp'');
     Some \<lparr>idt_issuer = issuer, idt_subject = subject, idt_audience = audience, idt_nonce = nonce,
       idt_sub_jwk = sub_jwk, idt_issued_at = issued_at, idt_expiration_time = expiration_time,
       idt_other = Some (bt_without id_token_names m)\<rparr> }"

definition json_of_id_token_body :: "('jwk \<Rightarrow> json) \<Rightarrow> 'jwk id_token_body \<Rightarrow> json" where
  "json_of_id_token_body print_jwk self = json_of_fields [
     field ''iss'' (JString (idt_issuer self)),
     field ''sub'' (JString (idt_subject self)),
     field ''aud'' (JString (idt_audience self)),
     field ''nonce'' (JString (idt_nonce self)),
     opt_field ''sub_jwk'' print_jwk (idt_sub_jwk self),
     field ''iat'' (json_of_option json_of_i64 (idt_issued_at self)),
     field ''exp'' (json_of_i64 (idt_expiration_time self)),
     flat_field (other_claims self)]"

definition other_claims_ok :: "'jwk id_token_body \<Rightarrow> bool" where
  "other_claims_ok b \<longleftrightarrow> bt_wf (other_claims b) \<and> bt_disjoint id_token_names (other_claims b)"

text \<open>What is read back: the same body, with a map for the other claims.\<close>

definition body_read :: "'jwk id_token_body \<Rightarrow> 'jwk id_token_body" where
  "body_read b = b\<lparr>idt_other := Some (other_claims b)\<rparr>"

lemma id_token_body_written:
  assumes "value_printer jwk_of print_jwk jwk_exact" and "pred_option jwk_exact (idt_sub_jwk b)"
    and "other_claims_ok b"
  shows "id_token_body_of_json jwk_of (json_of_id_token_body print_jwk b) = Some (body_read b)"
proof -
  let ?o = "other_claims b"
  have o: "bt_wf ?o" "bt_disjoint id_token_names ?o" using assms(3) by (simp_all add: other_claims_ok_def)
  have none: "bt_get ?o k = None" if "k \<in> set id_token_names" for k
    using bt_disjoint_get [OF o(2) that] .
  define ms where "ms = [field ''iss'' (JString (idt_issuer b)), field ''sub'' (JString (idt_subject b)),
     field ''aud'' (JString (idt_audience b)), field ''nonce'' (JString (idt_nonce b)),
     opt_field ''sub_jwk'' print_jwk (idt_sub_jwk b), field ''iat'' (json_of_option json_of_i64 (idt_issued_at b)),
     field ''exp'' (json_of_i64 (idt_expiration_time b)), flat_field ?o]"
  let ?m = "bt_of_list (concat ms)"
  have get: "bt_get ?m ''iss'' = Some (JString (idt_issuer b))" "bt_get ?m ''sub'' = Some (JString (idt_subject b))"
    "bt_get ?m ''aud'' = Some (JString (idt_audience b))" "bt_get ?m ''nonce'' = Some (JString (idt_nonce b))"
    "bt_get ?m ''sub_jwk'' = map_option print_jwk (idt_sub_jwk b)"
    "bt_get ?m ''iat'' = Some (json_of_option json_of_i64 (idt_issued_at b))"
    "bt_get ?m ''exp'' = Some (json_of_i64 (idt_expiration_time b))"
    using o(1) none by (simp_all add: ms_def id_token_names_def del: concat.simps)
  have rest: "bt_without id_token_names ?m = ?o"
    by (rule flat_field_left [OF o(1) _ o(2)])
      (use o(1) in \<open>simp_all add: ms_def id_token_names_def del: concat.simps\<close>)
  have jwk: "optional jwk_of (map_option print_jwk (idt_sub_jwk b)) = Some (idt_sub_jwk b)"
    using assms(1,2) by (simp add: value_printer.optional_iff)
  have sub_jwk: "optional jwk_of (bt_get ?m ''sub_jwk'') = Some (idt_sub_jwk b)"
    by (simp only: get(5) jwk)
  have "id_token_body_of_json jwk_of (json_of_fields ms) = Some (body_read b)"
    by (cases b) (simp add: id_token_body_of_json_def get(1-4,6,7) sub_jwk rest body_read_def required_def
        i64_json.optional_null_iff [THEN iffD2] i64_json.parse_print_iff [THEN iffD2] del: bt_get_members)
  then show ?thesis by (simp add: json_of_id_token_body_def ms_def)
qed

section \<open>Forms\<close>

text \<open>The pairs of a form: absent values are left out, and a name that occurs twice is an error.\<close>

definition opt_pair :: "string \<Rightarrow> string option \<Rightarrow> (string \<times> string) list" where
  "opt_pair k v = (case v of None \<Rightarrow> [] | Some s \<Rightarrow> [(k, s)])"

definition unique_pair :: "(string \<times> string) list \<Rightarrow> string \<Rightarrow> string option option" where
  "unique_pair ps k =
     (case filter (\<lambda>(n, _). n = k) ps of
        [] \<Rightarrow> Some None
      | [(_, v)] \<Rightarrow> Some (Some v)
      | _ \<Rightarrow> None)"

definition response_pairs :: "json_encoded_response \<Rightarrow> (string \<times> string) list" where
  "response_pairs self =
     (''vp_token'', jer_vp_token self) #
     opt_pair ''presentation_submission'' (jer_presentation_submission self) @
     opt_pair ''id_token'' (jer_id_token self) @
     opt_pair ''state'' (jer_state self) @
     (case jer_transaction_data self of
        None \<Rightarrow> []
      | Some t \<Rightarrow> (''transaction_data_hashes'', jtdr_hashes t) # opt_pair ''transaction_data_hashes_alg'' (jtdr_alg t))"

text \<open>The flattened part is optional: when it cannot be read it is absent.\<close>

definition transaction_data_of_pairs :: "(string \<times> string) list \<Rightarrow> json_transaction_data_response option" where
  "transaction_data_of_pairs ps =
     (case (unique_pair ps ''transaction_data_hashes'', unique_pair ps ''transaction_data_hashes_alg'') of
        (Some (Some hashes), Some alg) \<Rightarrow> Some \<lparr>jtdr_hashes = hashes, jtdr_alg = alg\<rparr>
      | _ \<Rightarrow> None)"

definition response_of_pairs :: "(string \<times> string) list \<Rightarrow> json_encoded_response option" where
  "response_of_pairs ps = do {
     vp \<leftarrow> unique_pair ps ''vp_token'';
     vp_token \<leftarrow> vp;
     submission \<leftarrow> unique_pair ps ''presentation_submission'';
     id_token \<leftarrow> unique_pair ps ''id_token'';
     state \<leftarrow> unique_pair ps ''state'';
     Some \<lparr>jer_vp_token = vp_token, jer_presentation_submission = submission, jer_id_token = id_token,
       jer_state = state, jer_transaction_data = transaction_data_of_pairs ps\<rparr> }"

definition jwt_pairs :: "jwt_response \<Rightarrow> (string \<times> string) list" where
  "jwt_pairs self = [(''response'', jwt_response_text self)]"

definition jwt_of_pairs :: "(string \<times> string) list \<Rightarrow> jwt_response option" where
  "jwt_of_pairs ps = do { r \<leftarrow> unique_pair ps ''response''; map_option JwtResponse r }"

lemma unique_pair_append [simp]:
  "unique_pair [] k = Some None"
  "unique_pair ((n, v) # ps) k =
     (if n = k then (if unique_pair ps k = Some None then Some (Some v) else None) else unique_pair ps k)"
  "n \<noteq> k \<Longrightarrow> unique_pair (opt_pair n x @ ps) k = unique_pair ps k"
  "unique_pair ps k = Some None \<Longrightarrow> unique_pair (opt_pair k x @ ps) k = Some x"
  "n \<noteq> k \<Longrightarrow> unique_pair (opt_pair n x) k = Some None"
  "unique_pair (opt_pair k x) k = Some x"
  by (auto simp: unique_pair_def opt_pair_def split: list.splits option.splits)

lemma response_of_pairs_written: "response_of_pairs (response_pairs j) = Some j"
proof (cases "jer_transaction_data j")
  case None
  then show ?thesis
    by (cases j) (simp add: response_of_pairs_def response_pairs_def transaction_data_of_pairs_def)
next
  case (Some t)
  then show ?thesis
    by (cases j; cases t) (simp add: response_of_pairs_def response_pairs_def transaction_data_of_pairs_def)
qed

lemma jwt_of_pairs_written: "jwt_of_pairs (jwt_pairs r) = Some r"
  by (cases r) (simp add: jwt_of_pairs_def jwt_pairs_def)

lemma jwt_of_response_pairs: "jwt_of_pairs (response_pairs j) = None"
  by (cases "jer_transaction_data j") (simp_all add: jwt_of_pairs_def response_pairs_def)

text \<open>The encoding of pairs, and the codec over it: its contract is the one the properties of forms rest on.\<close>

record pair_codec =
  print_pairs :: "(string \<times> string) list \<Rightarrow> string"
  read_pairs :: "string \<Rightarrow> (string \<times> string) list"

definition pair_codec_ok :: "pair_codec \<Rightarrow> bool" where
  "pair_codec_ok F \<longleftrightarrow> (\<forall>ps. read_pairs F (print_pairs F ps) = ps)"

definition derived_forms :: "pair_codec \<Rightarrow> response_codec \<Rightarrow> bool" where
  "derived_forms F c \<longleftrightarrow>
     (\<forall>j. form_of_response c j = Inr (print_pairs F (response_pairs j))) \<and>
     (\<forall>s. res_ok (response_of_form c s) = response_of_pairs (read_pairs F s)) \<and>
     (\<forall>r. form_of_jwt c r = Inr (print_pairs F (jwt_pairs r))) \<and>
     (\<forall>s. res_ok (jwt_of_form c s) = jwt_of_pairs (read_pairs F s))"

lemma derived_forms_ok:
  assumes "pair_codec_ok F" and "derived_forms F c"
  shows "response_codec_ok c"
proof -
  have "isl (jwt_of_form c s) \<and> response_of_form c s = Inr j" if s: "form_of_response c j = Inr s" for j s
  proof -
    from s assms have "read_pairs F s = response_pairs j" by (auto simp: derived_forms_def pair_codec_ok_def)
    with assms(2) have "res_ok (jwt_of_form c s) = None" "res_ok (response_of_form c s) = Some j"
      by (simp_all add: derived_forms_def jwt_of_response_pairs response_of_pairs_written)
    then show ?thesis by (auto simp: res_ok_None_iff res_ok_Some_iff isl_def)
  qed
  moreover have "jwt_of_form c s = Inr r" if s: "form_of_jwt c r = Inr s" for r s
  proof -
    from s assms have "read_pairs F s = jwt_pairs r" by (auto simp: derived_forms_def pair_codec_ok_def)
    with assms(2) have "res_ok (jwt_of_form c s) = Some r"
      by (simp add: derived_forms_def jwt_of_pairs_written)
    then show ?thesis by (simp add: res_ok_Some_iff)
  qed
  ultimately show ?thesis by (simp add: response_codec_ok_def)
qed

end
