(* ===== verification/Wallet.thy ===== *)
theory Wallet
  imports Request_Resolution Response_Json
begin

text \<open>
  The rest of \<open>src/src/wallet.rs\<close>: the submission of an authorization response, and
  the identity token of a wallet that is known by a DID. The interface of the trait is in the theory
  of verification, which calls it.
\<close>

section \<open>Submitting a response\<close>

text \<open>The body of the answer read as a redirection, and the text of a status code.\<close>

record submit_lib =
  redirection_from_slice :: "string \<Rightarrow> anyhow + post_redirection"
  status_display :: "nat \<Rightarrow> string"

definition submission_body_error :: "http_response \<Rightarrow> submit_lib \<Rightarrow> core_error" where
  "submission_body_error resp S =
     internal (Msg (''error submitting authorization response: status_code='' @
       status_display S (http_status resp) @ '', response_body='' @
       (case string_from_utf8 (http_body resp) of Inr s \<Rightarrow> s | Inl _ \<Rightarrow> [])))"

definition send_response ::
  "submit_lib \<Rightarrow> 'w wallet \<Rightarrow> http_request \<Rightarrow> ('w, core_error, url option) io" where
  "send_response S W req =
     io_bind (io_map_err (\<lambda>e. error_from_anyhow (Context ''failed to make authorization response request'' e))
       (w_http_client W req)) (\<lambda>resp.
     if \<not> is_success (http_status resp) then io_throw (submission_body_error resp S)
     else io_return (map_option post_redirect_uri (res_ok (redirection_from_slice S (http_body resp)))))"

definition unexpected_format :: core_error where
  "unexpected_format = internal (Msg ''unexpected AuthorizationResponse format'')"

definition submit_response ::
  "'z request_lib_scheme \<Rightarrow> ('jwk, 'y) response_lib_scheme \<Rightarrow> response_codec \<Rightarrow> http_lib \<Rightarrow> submit_lib \<Rightarrow>
     'w wallet \<Rightarrow> url \<Rightarrow> response_mode \<Rightarrow> 'jwk authorization_response \<Rightarrow> ('w, core_error, url option) io" where
  "submit_response L R c H S W response_uri response_mode response =
     (case response_mode of
        DirectPost \<Rightarrow>
          (case response of
             Unencoded un_encoded \<Rightarrow>
               io_bind (io_lift (map_err error_from_anyhow (response_into_form R c un_encoded))) (\<lambda>body.
               io_bind (io_lift (map_err error_from_anyhow (create_post_request H response_uri body
                 MIME_TYPE_FORM_URLENCODED MIME_TYPE_JSON))) (send_response S W))
           | _ \<Rightarrow> io_throw unexpected_format)
      | DirectPostJwt \<Rightarrow>
          (case response of
             JwtEncoded jwt \<Rightarrow>
               io_bind (io_lift (map_err error_from_anyhow (jwt_into_form c jwt))) (\<lambda>body.
               io_bind (io_lift (map_err error_from_anyhow (create_post_request H response_uri body
                 MIME_TYPE_FORM_URLENCODED MIME_TYPE_JSON))) (send_response S W))
           | _ \<Rightarrow> io_throw unexpected_format)
      | DcApi \<Rightarrow> io_throw (internal (Msg (''in response_mode '' @ string_of_mode response_mode @
          '', authorization response could not be submitted'')))
      | DcApiJwt \<Rightarrow> io_throw (internal (Msg (''in response_mode '' @ string_of_mode response_mode @
          '', authorization response could not be submitted'')))
      | UnsupportedMode rm \<Rightarrow> io_throw (internal (Msg (''unsupported response_mode '' @ rm)))
      | _ \<Rightarrow>
          (case response of
             Unencoded un_encoded \<Rightarrow>
               io_bind (io_lift (map_err error_from_anyhow (response_into_form R c un_encoded))) (\<lambda>url_encoded.
               io_return (Some (url_set_fragment L url_encoded response_uri)))
           | _ \<Rightarrow> io_throw unexpected_format))"

section \<open>Identity tokens\<close>

record 'd id_token_params =
  itp_audience :: string
  itp_nonce :: nonce
  itp_lifetime :: 'd
  itp_other :: "json_map option"

text \<open>The clock of the world, dates and durations, and the parts of a DID URL.\<close>

record ('w, 't, 'd) clock_lib =
  now_utc :: "'w \<Rightarrow> 't \<times> 'w"
  time_add :: "'t \<Rightarrow> 'd \<Rightarrow> 't"
  unix_timestamp :: "'t \<Rightarrow> 64 word"
  did_of_url :: "string \<Rightarrow> string"

definition id_token_of_params ::
  "('w, 't, 'd) clock_lib \<Rightarrow> string \<Rightarrow> 'd id_token_params \<Rightarrow> 't \<Rightarrow> 'jwk id_token_body" where
  "id_token_of_params K did_url params now =
     \<lparr>idt_issuer = did_of_url K did_url, idt_subject = did_of_url K did_url,
      idt_audience = itp_audience params, idt_nonce = nonce_str (itp_nonce params),
      idt_sub_jwk = None, idt_issued_at = Some (unix_timestamp K now),
      idt_expiration_time = unix_timestamp K (time_add K now (itp_lifetime params)),
      idt_other = itp_other params\<rparr>"

definition id_token_header :: "string \<Rightarrow> string \<Rightarrow> json" where
  "id_token_header algorithm did_url =
     JObject [(''alg'', JString algorithm), (''kid'', JString did_url), (''typ'', JString ''JWT'')]"

definition generate_did_based_id_token ::
  "('w, 't, 'd) clock_lib \<Rightarrow> base64 \<Rightarrow> json serialize \<Rightarrow> 'jwk id_token_body serialize \<Rightarrow> string \<Rightarrow>
     'd id_token_params \<Rightarrow> ('w, 'k) signer \<Rightarrow> ('w, anyhow, string) io" where
  "generate_did_based_id_token K b64 header_ser body_ser did_url params signer =
     (\<lambda>w. let (now, w1) = now_utc K w in
       io_bind (io_lift (map_err (Context ''failed to retrieve signing algorithm'') (signer_alg signer)))
         (\<lambda>algorithm.
       generate_jwt b64 header_ser body_ser (id_token_header algorithm did_url)
         (id_token_of_params K did_url params now) signer) w1)"

section \<open>Facts\<close>

text \<open>The encodings that each response mode takes.\<close>

fun mode_accepts :: "response_mode \<Rightarrow> 'jwk authorization_response \<Rightarrow> bool" where
  "mode_accepts DirectPost (Unencoded u) = True"
| "mode_accepts DirectPostJwt (JwtEncoded j) = True"
| "mode_accepts Fragment (Unencoded u) = True"
| "mode_accepts FragmentJwt (Unencoded u) = True"
| "mode_accepts _ _ = False"

lemma submit_response_accepts:
  "submit_response L R c H S W u m r w = (Inr v, w') \<Longrightarrow> mode_accepts m r"
  by (cases m; cases r) (auto simp: submit_response_def io_simps)

text \<open>A response mode that does not submit over HTTP leaves the world alone.\<close>

lemma submit_response_no_http:
  assumes "submit_response L R c H S W u m r w = (res, w')" and "m \<notin> {DirectPost, DirectPostJwt}"
  shows "w' = w"
  using assms
  by (cases res; cases m; cases r) (auto simp: submit_response_def io_simps)

lemma submit_response_fragment:
  "m \<in> {Fragment, FragmentJwt} \<Longrightarrow>
     submit_response L R c H S W u m r w = (Inr v, w') \<longleftrightarrow>
       w' = w \<and> (\<exists>x body. r = Unencoded x \<and> response_into_form R c x = Inr body \<and>
         v = Some (url_set_fragment L body u))"
  by (cases r) (auto simp: submit_response_def io_simps res_simps)

lemma send_response_iff:
  "send_response S W req w = (Inr v, w') \<longleftrightarrow>
     (\<exists>resp. w_http_client W req w = (Inr resp, w') \<and> is_success (http_status resp) \<and>
        v = map_option post_redirect_uri (res_ok (redirection_from_slice S (http_body resp))))"
  by (auto simp: send_response_def io_simps split: if_splits)

lemma submit_response_direct_post:
  "submit_response L R c H S W u DirectPost r w = (Inr v, w') \<longleftrightarrow>
     (\<exists>x body req. r = Unencoded x \<and> response_into_form R c x = Inr body \<and>
        create_post_request H u body MIME_TYPE_FORM_URLENCODED MIME_TYPE_JSON = Inr req \<and>
        send_response S W req w = (Inr v, w'))"
  by (cases r) (auto simp: submit_response_def io_simps res_simps)

lemma submit_response_direct_post_jwt:
  "submit_response L R c H S W u DirectPostJwt r w = (Inr v, w') \<longleftrightarrow>
     (\<exists>x body req. r = JwtEncoded x \<and> jwt_into_form c x = Inr body \<and>
        create_post_request H u body MIME_TYPE_FORM_URLENCODED MIME_TYPE_JSON = Inr req \<and>
        send_response S W req w = (Inr v, w'))"
  by (cases r) (auto simp: submit_response_def io_simps res_simps)

section \<open>Properties\<close>

text \<open>
  C24: how a response leaves the wallet. A direct post sends the encoded response to the response
  URI and succeeds when the answer has a success status, with the redirection in it, if any; a fragment
  mode makes no request and returns the URI with the encoded response as its fragment. The encoding must
  be the one the mode takes (a \<open>fragment.jwt\<close> mode takes an unencoded response), and no other
  mode submits anything.
\<close>

theorem submitted_responses:
  "submit_response L R c H S W u m r w = (Inr v, w') \<longleftrightarrow>
     (case (m, r) of
        (DirectPost, Unencoded x) \<Rightarrow>
          (\<exists>body req resp. response_into_form R c x = Inr body \<and>
             create_post_request H u body MIME_TYPE_FORM_URLENCODED MIME_TYPE_JSON = Inr req \<and>
             w_http_client W req w = (Inr resp, w') \<and> is_success (http_status resp) \<and>
             v = map_option post_redirect_uri (res_ok (redirection_from_slice S (http_body resp))))
      | (DirectPostJwt, JwtEncoded x) \<Rightarrow>
          (\<exists>body req resp. jwt_into_form c x = Inr body \<and>
             create_post_request H u body MIME_TYPE_FORM_URLENCODED MIME_TYPE_JSON = Inr req \<and>
             w_http_client W req w = (Inr resp, w') \<and> is_success (http_status resp) \<and>
             v = map_option post_redirect_uri (res_ok (redirection_from_slice S (http_body resp))))
      | (Fragment, Unencoded x) \<Rightarrow>
          w' = w \<and> (\<exists>body. response_into_form R c x = Inr body \<and> v = Some (url_set_fragment L body u))
      | (FragmentJwt, Unencoded x) \<Rightarrow>
          w' = w \<and> (\<exists>body. response_into_form R c x = Inr body \<and> v = Some (url_set_fragment L body u))
      | _ \<Rightarrow> False)"
proof (cases "mode_accepts m r")
  case True
  then show ?thesis
    by (cases m; cases r)
      (auto simp: submit_response_direct_post submit_response_direct_post_jwt submit_response_fragment
        send_response_iff)
next
  case False
  then show ?thesis
    using submit_response_accepts [of L R c H S W u m r w v w'] by (cases m; cases r) auto
qed

text \<open>
  What the wallet prints as the body of a token under \<open>header\<close>, its own, is what the verifier decodes
  from a token of that header, that body and any signature, when the other claims have names of their
  own: \<open>id_token_body_written\<close>, seen through the text and the token.
\<close>

definition body_carries ::
  "('jwk, 'z) response_lib_scheme \<Rightarrow> base64 \<Rightarrow> json serialize \<Rightarrow> 'jwk id_token_body serialize \<Rightarrow> json \<Rightarrow> bool" where
  "body_carries R b64 hs bs header \<longleftrightarrow>
     (\<forall>body h p sg. other_claims_ok body \<and> idt_sub_jwk body = None \<and> to_string hs header = Inr h \<and>
        to_string bs body = Inr p \<longrightarrow>
        decode_id_token R (b64_encode b64 h @ ''.'' @ b64_encode b64 p @ ''.'' @ b64_encode b64 sg) =
          Inr (body_read body))"

text \<open>The derived forms keep this contract: the text of a body reads as its value does.\<close>

definition derived_body ::
  "('jwk, 'z) response_lib_scheme \<Rightarrow> base64 \<Rightarrow> json serialize \<Rightarrow> 'jwk id_token_body serialize \<Rightarrow> json \<Rightarrow>
     'jwk reader \<Rightarrow> ('jwk \<Rightarrow> json) \<Rightarrow> bool" where
  "derived_body R b64 hs bs header jwk_of print_jwk \<longleftrightarrow>
     (\<forall>body h p sg. other_claims_ok body \<and> to_string hs header = Inr h \<and> to_string bs body = Inr p \<longrightarrow>
        res_ok (decode_id_token R (b64_encode b64 h @ ''.'' @ b64_encode b64 p @ ''.'' @ b64_encode b64 sg)) =
          id_token_body_of_json jwk_of (json_of_id_token_body print_jwk body))"

lemma derived_body_carries:
  assumes "value_printer jwk_of print_jwk jwk_exact" and "derived_body R b64 hs bs header jwk_of print_jwk"
  shows "body_carries R b64 hs bs header"
  unfolding body_carries_def
proof (intro allI impI)
  fix body h p sg
  let ?t = "b64_encode b64 h @ ''.'' @ b64_encode b64 p @ ''.'' @ b64_encode b64 sg"
  assume body: "other_claims_ok body \<and> idt_sub_jwk body = None \<and> to_string hs header = Inr h \<and>
    to_string bs body = Inr p"
  then have "id_token_body_of_json jwk_of (json_of_id_token_body print_jwk body) = Some (body_read body)"
    using id_token_body_written [OF assms(1), of body] by simp
  with body have "res_ok (decode_id_token R ?t) = Some (body_read body)"
    using assms(2) unfolding derived_body_def by metis
  then show "decode_id_token R ?t = Inr (body_read body)"
    by (simp add: res_ok_Some_iff)
qed

lemma did_id_token_parts:
  "generate_did_based_id_token K b64 hs bs did_url params signer w = (Inr jwt, w') \<longleftrightarrow>
     (\<exists>now w1 alg h p sg. now_utc K w = (now, w1) \<and> signer_alg signer = Inr alg \<and>
        to_string hs (id_token_header alg did_url) = Inr h \<and>
        to_string bs (id_token_of_params K did_url params now) = Inr p \<and>
        signer_sign signer (b64_encode b64 h @ ''.'' @ b64_encode b64 p) w1 = (Inr sg, w') \<and>
        jwt = b64_encode b64 h @ ''.'' @ b64_encode b64 p @ ''.'' @ b64_encode b64 sg)"
  by (auto simp: generate_did_based_id_token_def generate_jwt_def jwt_payload_def io_simps res_simps
      split: prod.splits)

text \<open>
  C32: the identity token of a wallet known by a DID reaches the verifier. The token is a header
  that names the signer's algorithm and the DID URL, a body, and the signature of the signer over both; and
  the verifier reads out of it a body issued and held by the DID of that URL, for the audience and the
  nonce that were asked for, issued at the time of the call and valid for the given lifetime, with the
  other claims of the call, whose names are not those of the claims that the wallet writes itself.
\<close>

theorem did_id_token_received:
  assumes "generate_did_based_id_token K b64 hs bs did_url params signer w = (Inr jwt, w')"
    and "\<And>alg. signer_alg signer = Inr alg \<Longrightarrow> body_carries R b64 hs bs (id_token_header alg did_url)"
    and "\<And>m. itp_other params = Some m \<Longrightarrow> bt_wf m \<and> bt_disjoint id_token_names m"
  shows "\<exists>now w1 alg h p sg t. now_utc K w = (now, w1) \<and> signer_alg signer = Inr alg \<and>
    to_string hs (id_token_header alg did_url) = Inr h \<and>
    signer_sign signer (b64_encode b64 h @ ''.'' @ b64_encode b64 p) w1 = (Inr sg, w') \<and>
    jwt = b64_encode b64 h @ ''.'' @ b64_encode b64 p @ ''.'' @ b64_encode b64 sg \<and>
    id_token_try_from R jwt = Inr t \<and> id_token_raw t = jwt \<and>
    idt_issuer (id_token_parsed t) = did_of_url K did_url \<and>
    idt_subject (id_token_parsed t) = did_of_url K did_url \<and>
    idt_audience (id_token_parsed t) = itp_audience params \<and>
    idt_nonce (id_token_parsed t) = nonce_str (itp_nonce params) \<and>
    idt_issued_at (id_token_parsed t) = Some (unix_timestamp K now) \<and>
    idt_expiration_time (id_token_parsed t) = unix_timestamp K (time_add K now (itp_lifetime params)) \<and>
    other_claims (id_token_parsed t) = (case itp_other params of None \<Rightarrow> [] | Some m \<Rightarrow> m)"
proof -
  from assms(1) obtain now w1 alg h p sg where t: "now_utc K w = (now, w1)" "signer_alg signer = Inr alg"
    "to_string hs (id_token_header alg did_url) = Inr h"
    "to_string bs (id_token_of_params K did_url params now) = Inr p"
    "signer_sign signer (b64_encode b64 h @ ''.'' @ b64_encode b64 p) w1 = (Inr sg, w')"
    "jwt = b64_encode b64 h @ ''.'' @ b64_encode b64 p @ ''.'' @ b64_encode b64 sg"
    by (auto simp: did_id_token_parts)
  let ?body = "id_token_of_params K did_url params now"
  have other: "other_claims ?body = (case itp_other params of None \<Rightarrow> [] | Some m \<Rightarrow> m)"
    by (simp add: other_claims_def id_token_of_params_def)
  have "other_claims_ok ?body"
    using assms(3) by (cases "itp_other params") (simp_all add: other_claims_ok_def other bt_disjoint_def)
  moreover have "idt_sub_jwk ?body = None" by (simp add: id_token_of_params_def)
  ultimately have "decode_id_token R jwt = Inr (body_read ?body)"
    using assms(2) [OF t(2)] t(3,4) unfolding t(6) body_carries_def by blast
  then have "id_token_try_from R jwt = Inr \<lparr>id_token_raw = jwt, id_token_parsed = body_read ?body\<rparr>"
    by (simp add: id_token_try_from_def)
  with t show ?thesis
    by (intro exI [of _ now] exI [of _ w1] exI [of _ alg] exI [of _ h] exI [of _ p] exI [of _ sg]
        exI [of _ "\<lparr>id_token_raw = jwt, id_token_parsed = body_read ?body\<rparr>"])
      (simp add: body_read_def other [symmetric], simp add: other_claims_def id_token_of_params_def)
qed

text \<open>
  A clock that counts, and bodies that differ in their nonce, which is all that is printed of them: a
  token is decoded from the text between its dots.
\<close>

definition ex_clock :: "(nat, nat, nat) clock_lib" where
  "ex_clock = \<lparr>now_utc = (\<lambda>n. (n, Suc n)), time_add = (+), unix_timestamp = of_nat,
     did_of_url = takeWhile (\<lambda>c. c \<noteq> CHR ''#'')\<rparr>"

definition ex_token_params :: "string \<Rightarrow> nat id_token_params" where
  "ex_token_params n = \<lparr>itp_audience = ''https://v.example'', itp_nonce = Nonce n, itp_lifetime = 60,
     itp_other = None\<rparr>"

definition ex_token_body :: "string \<Rightarrow> unit id_token_body" where
  "ex_token_body n = id_token_of_params ex_clock ''did:example:1#k'' (ex_token_params n) 5"

definition ex_header_ser :: "json serialize" where
  "ex_header_ser = \<lparr>to_value = Inr, to_string = (\<lambda>j. Inr ''header'')\<rparr>"

definition ex_body_ser :: "unit id_token_body serialize" where
  "ex_body_ser = \<lparr>to_value = (\<lambda>b. Inr JNull),
     to_string = (\<lambda>b. if b = ex_token_body (idt_nonce b) then Inr (idt_nonce b) else Inl (Msg ''not printed''))\<rparr>"

definition ex_token_lib :: "unit response_lib" where
  "ex_token_lib = ex_response_lib\<lparr>decode_id_token := (\<lambda>s.
     case split_all CHR ''.'' s of
       [h, p, sg] \<Rightarrow> map_ok (\<lambda>n. body_read (ex_token_body n)) (b64_decode hex64 p)
     | _ \<Rightarrow> Inl (Msg ''invalid token''))\<rparr>"

definition ex_token_signer :: "(nat, unit) signer" where
  "ex_token_signer = \<lparr>signer_alg = Inr ''ES256'', signer_jwk = Inr (),
     signer_sign = (\<lambda>p n. (Inr (rev p), Suc n))\<rparr>"

lemma ex_body_carries: "body_carries ex_token_lib hex64 ex_header_ser ex_body_ser header"
  unfolding body_carries_def
proof (intro allI impI)
  fix body :: "unit id_token_body" and h p sg
  assume "other_claims_ok body \<and> idt_sub_jwk body = None \<and> to_string ex_header_ser header = Inr h \<and>
    to_string ex_body_ser body = Inr p"
  then have body: "body = ex_token_body (idt_nonce body)" "p = idt_nonce body"
    by (simp_all add: ex_body_ser_def split: if_splits)
  have "split_all CHR ''.'' (b64_encode hex64 h @ ''.'' @ b64_encode hex64 p @ ''.'' @ b64_encode hex64 sg) =
      [b64_encode hex64 h, b64_encode hex64 p, b64_encode hex64 sg]"
    using base64_ok_hex64 by (simp add: base64_ok_def split_all_append split_all_no)
  moreover have "b64_decode hex64 (b64_encode hex64 p) = Inr p"
    using base64_ok_hex64 by (simp add: base64_ok_def)
  ultimately have "decode_id_token ex_token_lib
      (b64_encode hex64 h @ ''.'' @ b64_encode hex64 p @ ''.'' @ b64_encode hex64 sg) =
      Inr (body_read (ex_token_body (idt_nonce body)))"
    using body(2) by (simp add: ex_token_lib_def)
  then show "decode_id_token ex_token_lib
      (b64_encode hex64 h @ ''.'' @ b64_encode hex64 p @ ''.'' @ b64_encode hex64 sg) = Inr (body_read body)"
    using body(1) by simp
qed

lemma did_id_token_received_witness:
  "\<exists>jwt t. generate_did_based_id_token ex_clock hex64 ex_header_ser ex_body_ser ''did:example:1#k''
       (ex_token_params ''n-1'') ex_token_signer 5 = (Inr jwt, 7) \<and>
     id_token_try_from ex_token_lib jwt = Inr t \<and>
     idt_issuer (id_token_parsed t) = ''did:example:1'' \<and> idt_nonce (id_token_parsed t) = ''n-1''"
proof -
  let ?e = "b64_encode hex64"
  let ?jwt = "?e ''header'' @ ''.'' @ ?e ''n-1'' @ ''.'' @ ?e (rev (?e ''header'' @ ''.'' @ ?e ''n-1''))"
  have "ex_token_body ''n-1'' = id_token_of_params ex_clock ''did:example:1#k'' (ex_token_params ''n-1'') 5"
    "idt_nonce (ex_token_body ''n-1'') = ''n-1''"
    by (simp_all add: ex_token_body_def id_token_of_params_def ex_token_params_def)
  then have run: "generate_did_based_id_token ex_clock hex64 ex_header_ser ex_body_ser ''did:example:1#k''
      (ex_token_params ''n-1'') ex_token_signer 5 = (Inr ?jwt, 7)"
    unfolding did_id_token_parts
    by (simp add: ex_clock_def ex_token_signer_def ex_body_ser_def ex_header_ser_def)
  from did_id_token_received [OF run ex_body_carries] run show ?thesis
    by (auto simp: ex_clock_def ex_token_params_def)
qed

text \<open>
  C18: what the verifier receives of a response that the wallet submits. The response leaves as the
  body of one request to the response URI, or as the fragment of the URI that is returned. A JWT arrives
  as it was sent. A response that is not encoded is decoded to itself exactly when its token is not a
  single bare string (such a token, an ordinary JWT or SD-JWT, loses its quotes and is not read as JSON), it
  names no hash algorithm, its identity token decodes to its body, and its submission is read back from
  its text.
\<close>

theorem submitted_response_received:
  assumes "response_lib_ok R" and "token_texts_ok R" and "response_codec_ok c"
    and "submit_response L R c H S W u m r w = (Inr v, w')"
  shows "\<exists>body.
    (m \<in> {DirectPost, DirectPostJwt} \<and>
       (\<exists>req resp. create_post_request H u body MIME_TYPE_FORM_URLENCODED MIME_TYPE_JSON = Inr req \<and>
          http_request_body req = body \<and> w_http_client W req w = (Inr resp, w') \<and>
          is_success (http_status resp)) \<or>
     m \<in> {Fragment, FragmentJwt} \<and> w' = w \<and> v = Some (url_set_fragment L body u)) \<and>
    (case r of
       JwtEncoded jwt \<Rightarrow> m = DirectPostJwt \<and> response_from_form R c body = Inr r
     | Unencoded x \<Rightarrow> m \<noteq> DirectPostJwt \<and> (response_from_form R c body = Inr r \<longleftrightarrow> form_safe R x))"
proof -
  have "mode_accepts m r" using submit_response_accepts [OF assms(4)] .
  then consider x where "m = DirectPost" "r = Unencoded x" | x where "m = DirectPostJwt" "r = JwtEncoded x"
    | x where "m \<in> {Fragment, FragmentJwt}" "r = Unencoded x" by (cases m; cases r) auto
  then show ?thesis
  proof cases
    case 1
    with assms(4) obtain body req where body: "response_into_form R c x = Inr body"
      and req: "create_post_request H u body MIME_TYPE_FORM_URLENCODED MIME_TYPE_JSON = Inr req"
      and "send_response S W req w = (Inr v, w')"
      by (auto simp: submit_response_direct_post)
    with response_read_back [OF assms(1-3) body] create_post_request_Inr [OF req] 1 show ?thesis
      by (intro exI [of _ body]) (auto simp: send_response_iff)
  next
    case 2
    with assms(4) obtain body req where body: "jwt_into_form c x = Inr body"
      and req: "create_post_request H u body MIME_TYPE_FORM_URLENCODED MIME_TYPE_JSON = Inr req"
      and "send_response S W req w = (Inr v, w')"
      by (auto simp: submit_response_direct_post_jwt)
    with jwt_read_back [OF assms(3) body, of R] create_post_request_Inr [OF req] 2 show ?thesis
      by (intro exI [of _ body]) (auto simp: send_response_iff)
  next
    case 3
    with assms(4) obtain body where body: "response_into_form R c x = Inr body"
      and "w' = w" "v = Some (url_set_fragment L body u)"
      by (auto simp: submit_response_fragment)
    with response_read_back [OF assms(1-3) body] 3 show ?thesis
      by (intro exI [of _ body]) auto
  qed
qed

text \<open>An empty token arrives; the token \<open>h.p.s\<close> is sent all the same, and does not.\<close>

definition ex_token_response :: "unit unencoded_response" where
  "ex_token_response = (ex_response None)\<lparr>uar_vp_token := VpTokenItems [TokenString ''h.p.s'']\<rparr>"

definition ex_submit :: "unit unencoded_response \<Rightarrow> nat \<Rightarrow> (core_error + url option) \<times> nat" where
  "ex_submit x = submit_response ex_jwt_lib ex_response_lib ex_response_codec
     \<lparr>header_value = Inr, uri_from_str = Inr\<rparr>
     \<lparr>redirection_from_slice = (\<lambda>s. Inl (Msg ''not a redirection'')), status_display = string_of_nat\<rparr>
     ex_wallet (Url ''https://v.example'') DirectPost (Unencoded x)"

lemma submitted_response_received_witness:
  "(\<exists>req resp. w_http_client ex_wallet req 0 = (Inr resp, 1) \<and>
      response_from_form ex_response_lib ex_response_codec (http_request_body req) =
        Inr (Unencoded (ex_response None))) \<and>
   (\<exists>req resp. w_http_client ex_wallet req 0 = (Inr resp, 1) \<and>
      response_from_form ex_response_lib ex_response_codec (http_request_body req) \<noteq>
        Inr (Unencoded ex_token_response))"
proof -
  note received = submitted_response_received [OF ex_response_lib_ok ex_token_texts_ok ex_response_codec_ok]
  have run: "\<exists>v. ex_submit x 0 = (Inr v, 1)" if "\<not> isl (fst (ex_submit x 0)) \<and> snd (ex_submit x 0) = 1" for x
    using that by (cases "ex_submit x 0"; cases "fst (ex_submit x 0)") auto
  have "\<not> isl (fst (ex_submit (ex_response None) 0)) \<and> snd (ex_submit (ex_response None) 0) = 1" by code_simp
  then obtain v where "ex_submit (ex_response None) 0 = (Inr v, 1)" using run by blast
  note plain = received [OF this [unfolded ex_submit_def]]
  have "\<not> isl (fst (ex_submit ex_token_response 0)) \<and> snd (ex_submit ex_token_response 0) = 1" by code_simp
  then obtain v' where "ex_submit ex_token_response 0 = (Inr v', 1)" using run by blast
  note token = received [OF this [unfolded ex_submit_def]]
  have "form_safe ex_response_lib (ex_response None)" "\<not> form_safe ex_response_lib ex_token_response"
    by (simp_all add: form_safe_def ex_response_def ex_token_response_def)
  with plain token show ?thesis by auto
qed

end
