(* ===== verification/Session.thy ===== *)
theory Session
  imports Request_Object Presentation_Submission
begin

text \<open>
  \<open>src/src/verifier/session.rs\<close> and \<open>src/oid4vp-frontend/src/lib.rs\<close>: the
  status of a session with its partial order, and the in-memory store of sessions as an
  implementation of the interface \<open>session_store\<close>.
\<close>

section \<open>Status and outcome\<close>

datatype session_outcome =
    OutcomeError (cause: string)
  | OutcomeFailure (reason: string)
  | OutcomeSuccess (info: json)

datatype status =
    SentRequestByReference
  | SentRequest
  | ReceivedResponse
  | Complete session_outcome

datatype ordering = Less | Equal | Greater

definition cmp_nat :: "nat \<Rightarrow> nat \<Rightarrow> ordering option" where
  "cmp_nat m n = Some (if m < n then Less else if m = n then Equal else Greater)"

text \<open>\<open>PartialEq\<close> compares discriminants, \<open>PartialOrd\<close> the ranks of \<open>ordering\<close>.\<close>

fun outcome_discriminant :: "session_outcome \<Rightarrow> nat" where
  "outcome_discriminant (OutcomeError _) = 0"
| "outcome_discriminant (OutcomeFailure _) = 1"
| "outcome_discriminant (OutcomeSuccess _) = 2"

definition outcome_eq :: "session_outcome \<Rightarrow> session_outcome \<Rightarrow> bool" where
  "outcome_eq self other \<longleftrightarrow> outcome_discriminant self = outcome_discriminant other"

fun outcome_ordering :: "session_outcome \<Rightarrow> nat" where
  "outcome_ordering (OutcomeError _) = 0"
| "outcome_ordering (OutcomeFailure _) = 1"
| "outcome_ordering (OutcomeSuccess _) = 2"

definition outcome_partial_cmp :: "session_outcome \<Rightarrow> session_outcome \<Rightarrow> ordering option" where
  "outcome_partial_cmp self other = cmp_nat (outcome_ordering self) (outcome_ordering other)"

text \<open>The derived instances of \<open>Status\<close>: the variant first, then its field.\<close>

fun status_discriminant :: "status \<Rightarrow> nat" where
  "status_discriminant SentRequestByReference = 0"
| "status_discriminant SentRequest = 1"
| "status_discriminant ReceivedResponse = 2"
| "status_discriminant (Complete _) = 3"

fun status_eq :: "status \<Rightarrow> status \<Rightarrow> bool" where
  "status_eq (Complete o1) (Complete o2) = outcome_eq o1 o2"
| "status_eq s t = (status_discriminant s = status_discriminant t)"

fun status_partial_cmp :: "status \<Rightarrow> status \<Rightarrow> ordering option" where
  "status_partial_cmp (Complete o1) (Complete o2) = outcome_partial_cmp o1 o2"
| "status_partial_cmp s t = cmp_nat (status_discriminant s) (status_discriminant t)"

text \<open>The order is that of a rank, so it is total and agrees with the equality.\<close>

definition status_rank :: "status \<Rightarrow> nat" where
  "status_rank s =
     (case s of Complete o1 \<Rightarrow> 3 + outcome_ordering o1 | _ \<Rightarrow> status_discriminant s)"

lemma cmp_nat_simps [simp]:
  "cmp_nat m n = Some Less \<longleftrightarrow> m < n"
  "cmp_nat m n = Some Equal \<longleftrightarrow> m = n"
  "cmp_nat m n = Some Greater \<longleftrightarrow> n < m"
  by (auto simp: cmp_nat_def)

lemma outcome_ordering_discriminant: "outcome_ordering r = outcome_discriminant r"
  by (cases r) auto

lemma status_cmp_rank: "status_partial_cmp s t = cmp_nat (status_rank s) (status_rank t)"
  by (cases s; cases t) (auto simp: status_rank_def outcome_partial_cmp_def cmp_nat_def)

lemma status_eq_rank: "status_eq s t \<longleftrightarrow> status_rank s = status_rank t"
  by (cases s; cases t)
    (auto simp: status_rank_def outcome_eq_def outcome_ordering_discriminant)

section \<open>Sessions\<close>

record session =
  s_uuid :: uuid
  s_status :: status
  s_authorization_request_jwt :: string
  s_authorization_request_object :: request_object
  s_presentation_definition :: presentation_definition

text \<open>
  The store: the map behind the mutex, and whether another task holds the lock, in which
  case \<open>try_lock\<close> fails.
\<close>

record memory_store =
  ms_locked :: bool
  ms_sessions :: "(uuid, session) bmap"

definition default_memory_store :: memory_store where
  "default_memory_store = \<lparr>ms_locked = False, ms_sessions = []\<rparr>"

definition try_lock :: "memory_store \<Rightarrow> anyhow + (uuid, session) bmap" where
  "try_lock self =
     (if ms_locked self then Inl (Msg ''operation would block'') else Inr (ms_sessions self))"

definition session_not_found :: anyhow where
  "session_not_found = Msg ''session not found''"

definition store_initiate :: "session \<Rightarrow> memory_store \<Rightarrow> (anyhow + unit) \<times> memory_store" where
  "store_initiate session self =
     (case try_lock self of
        Inl e \<Rightarrow> (Inl e, self)
      | Inr m \<Rightarrow> (Inr (), self\<lparr>ms_sessions := bt_put (s_uuid session) session m\<rparr>))"

definition store_update_status :: "uuid \<Rightarrow> status \<Rightarrow> memory_store \<Rightarrow> (anyhow + unit) \<times> memory_store" where
  "store_update_status i status self =
     (case try_lock self of
        Inl e \<Rightarrow> (Inl e, self)
      | Inr m \<Rightarrow>
          (case bt_get m i of
             Some session \<Rightarrow>
               (Inr (), self\<lparr>ms_sessions := bt_put i (session\<lparr>s_status := status\<rparr>) m\<rparr>)
           | None \<Rightarrow> (Inl session_not_found, self)))"

definition store_get_session :: "uuid \<Rightarrow> memory_store \<Rightarrow> (anyhow + session) \<times> memory_store" where
  "store_get_session i self =
     (case try_lock self of
        Inl e \<Rightarrow> (Inl e, self)
      | Inr m \<Rightarrow>
          (case bt_get m i of
             Some session \<Rightarrow> (Inr session, self)
           | None \<Rightarrow> (Inl session_not_found, self)))"

definition store_remove_session :: "uuid \<Rightarrow> memory_store \<Rightarrow> (anyhow + unit) \<times> memory_store" where
  "store_remove_session i self =
     (case try_lock self of
        Inl e \<Rightarrow> (Inl e, self)
      | Inr m \<Rightarrow>
          (case bt_get m i of
             Some _ \<Rightarrow> (Inr (), self\<lparr>ms_sessions := bt_del i m\<rparr>)
           | None \<Rightarrow> (Inl session_not_found, self)))"

section \<open>Sequences of operations\<close>

datatype store_op =
    OpInitiate session
  | OpUpdateStatus uuid status
  | OpGetSession uuid
  | OpRemoveSession uuid

fun store_step ::
  "(session \<Rightarrow> 's \<Rightarrow> (anyhow + unit) \<times> 's) \<Rightarrow> (uuid \<Rightarrow> status \<Rightarrow> 's \<Rightarrow> (anyhow + unit) \<times> 's) \<Rightarrow>
   (uuid \<Rightarrow> 's \<Rightarrow> (anyhow + session) \<times> 's) \<Rightarrow> (uuid \<Rightarrow> 's \<Rightarrow> (anyhow + unit) \<times> 's) \<Rightarrow>
   store_op \<Rightarrow> 's \<Rightarrow> (anyhow + session option) \<times> 's" where
  "store_step ini upd gt rem (OpInitiate x) s = (case ini x s of (r, s') \<Rightarrow> (map_ok (\<lambda>_. None) r, s'))"
| "store_step ini upd gt rem (OpUpdateStatus i st) s = (case upd i st s of (r, s') \<Rightarrow> (map_ok (\<lambda>_. None) r, s'))"
| "store_step ini upd gt rem (OpGetSession i) s = (case gt i s of (r, s') \<Rightarrow> (map_ok Some r, s'))"
| "store_step ini upd gt rem (OpRemoveSession i) s = (case rem i s of (r, s') \<Rightarrow> (map_ok (\<lambda>_. None) r, s'))"

text \<open>The same operations on the finite map a store stands for.\<close>

fun spec_step :: "store_op \<Rightarrow> (uuid \<Rightarrow> session option) \<Rightarrow>
  (anyhow + session option) \<times> (uuid \<Rightarrow> session option)" where
  "spec_step (OpInitiate x) m = (Inr None, m(s_uuid x \<mapsto> x))"
| "spec_step (OpUpdateStatus i st) m =
     (case m i of
        Some x \<Rightarrow> (Inr None, m(i \<mapsto> x\<lparr>s_status := st\<rparr>))
      | None \<Rightarrow> (Inl session_not_found, m))"
| "spec_step (OpGetSession i) m =
     (case m i of Some x \<Rightarrow> (Inr (Some x), m) | None \<Rightarrow> (Inl session_not_found, m))"
| "spec_step (OpRemoveSession i) m =
     (case m i of Some x \<Rightarrow> (Inr None, m(i := None)) | None \<Rightarrow> (Inl session_not_found, m))"

fun run_ops :: "(store_op \<Rightarrow> 's \<Rightarrow> 'r \<times> 's) \<Rightarrow> store_op list \<Rightarrow> 's \<Rightarrow> 'r list \<times> 's" where
  "run_ops step [] s = ([], s)"
| "run_ops step (x # xs) s =
     (case step x s of (r, s1) \<Rightarrow> case run_ops step xs s1 of (rs, s2) \<Rightarrow> (r # rs, s2))"

definition memory_step :: "store_op \<Rightarrow> memory_store \<Rightarrow> (anyhow + session option) \<times> memory_store" where
  "memory_step = store_step store_initiate store_update_status store_get_session store_remove_session"

section \<open>The interface of a session store\<close>

text \<open>
  What the trait promises, over the finite map the store stands for: a store that is ready
  answers every operation as the map does, and a store that is not leaves it as it is.
\<close>

locale session_store =
  fixes initiate :: "session \<Rightarrow> 's \<Rightarrow> (anyhow + unit) \<times> 's"
    and update_status :: "uuid \<Rightarrow> status \<Rightarrow> 's \<Rightarrow> (anyhow + unit) \<times> 's"
    and get_session :: "uuid \<Rightarrow> 's \<Rightarrow> (anyhow + session) \<times> 's"
    and remove_session :: "uuid \<Rightarrow> 's \<Rightarrow> (anyhow + unit) \<times> 's"
    and view :: "'s \<Rightarrow> uuid \<Rightarrow> session option"
    and ready :: "'s \<Rightarrow> bool"
  assumes initiate_spec: "ready s \<Longrightarrow> \<exists>s'. initiate x s = (Inr (), s') \<and> ready s' \<and>
      view s' = (view s)(s_uuid x \<mapsto> x)"
    and update_spec: "ready s \<Longrightarrow> \<exists>s'. ready s' \<and>
      (case view s i of
         Some x \<Rightarrow> update_status i st s = (Inr (), s') \<and> view s' = (view s)(i \<mapsto> x\<lparr>s_status := st\<rparr>)
       | None \<Rightarrow> update_status i st s = (Inl session_not_found, s') \<and> view s' = view s)"
    and get_spec: "ready s \<Longrightarrow> get_session i s = (ok_or session_not_found (view s i), s)"
    and remove_spec: "ready s \<Longrightarrow> \<exists>s'. ready s' \<and>
      (case view s i of
         Some x \<Rightarrow> remove_session i s = (Inr (), s') \<and> view s' = (view s)(i := None)
       | None \<Rightarrow> remove_session i s = (Inl session_not_found, s') \<and> view s' = view s)"
begin

lemma get_after_initiate:
  assumes "ready s" and "initiate x s = (Inr (), s')"
  shows "fst (get_session (s_uuid x) s') = Inr x"
  using initiate_spec [OF assms(1), of x] assms(2) by (auto simp: get_spec)

lemma get_after_update:
  assumes "ready s" and "view s i = Some x"
  shows "fst (get_session i (snd (update_status i st s))) = Inr (x\<lparr>s_status := st\<rparr>)"
  using update_spec [OF assms(1), of i st] assms(2) by (auto simp: get_spec)

lemma get_after_remove:
  assumes "ready s" and "remove_session i s = (Inr (), s')"
  shows "fst (get_session i s') = Inl session_not_found"
  using remove_spec [OF assms(1), of i] assms(2) by (auto simp: get_spec split: option.splits)

lemma step_simulates:
  assumes "ready s"
  shows "\<exists>s'. store_step initiate update_status get_session remove_session x s =
      (fst (spec_step x (view s)), s') \<and> ready s' \<and> view s' = snd (spec_step x (view s))"
proof (cases x)
  case (OpInitiate y)
  then show ?thesis using initiate_spec [OF assms, of y] by auto
next
  case (OpUpdateStatus i st)
  then show ?thesis using update_spec [OF assms, of i st] by (cases "view s i") auto
next
  case (OpGetSession i)
  then show ?thesis using get_spec [OF assms, of i] assms by (cases "view s i") auto
next
  case (OpRemoveSession i)
  then show ?thesis using remove_spec [OF assms, of i] by (cases "view s i") auto
qed

lemma run_simulates:
  "ready s \<Longrightarrow> \<exists>s'. run_ops (store_step initiate update_status get_session remove_session) xs s =
      (fst (run_ops spec_step xs (view s)), s') \<and> ready s' \<and> view s' = snd (run_ops spec_step xs (view s))"
proof (induction xs arbitrary: s)
  case Nil
  then show ?case by auto
next
  case (Cons x xs)
  obtain s1 where s1: "store_step initiate update_status get_session remove_session x s =
      (fst (spec_step x (view s)), s1)" "ready s1" "view s1 = snd (spec_step x (view s))"
    using step_simulates [OF Cons.prems] by blast
  from Cons.IH [OF s1(2)] s1 show ?case by (auto simp: split_beta)
qed

lemma update_missing:
  "ready s \<Longrightarrow> view s i = None \<Longrightarrow> fst (update_status i st s) = Inl session_not_found"
  using update_spec [of s i st] by auto

end

text \<open>The map of a store that no other task holds.\<close>

definition memory_ready :: "memory_store \<Rightarrow> bool" where
  "memory_ready s \<longleftrightarrow> \<not> ms_locked s \<and> bt_wf (ms_sessions s)"

definition memory_view :: "memory_store \<Rightarrow> uuid \<Rightarrow> session option" where
  "memory_view s i = bt_get (ms_sessions s) i"

interpretation mem: session_store store_initiate store_update_status store_get_session
    store_remove_session memory_view memory_ready
proof
  fix s :: memory_store and x :: session and i :: uuid and st :: status
  assume s: "memory_ready s"
  then have lock: "try_lock s = Inr (ms_sessions s)" and wf: "bt_wf (ms_sessions s)" and free: "\<not> ms_locked s"
    by (simp_all add: memory_ready_def try_lock_def)
  show "\<exists>s'. store_initiate x s = (Inr (), s') \<and> memory_ready s' \<and>
      memory_view s' = (memory_view s)(s_uuid x \<mapsto> x)"
    using free wf by (auto simp: store_initiate_def lock memory_ready_def memory_view_def bt_get_put bt_wf_put)
  show "\<exists>s'. memory_ready s' \<and>
      (case memory_view s i of
         Some x \<Rightarrow> store_update_status i st s = (Inr (), s') \<and>
           memory_view s' = (memory_view s)(i \<mapsto> x\<lparr>s_status := st\<rparr>)
       | None \<Rightarrow> store_update_status i st s = (Inl session_not_found, s') \<and> memory_view s' = memory_view s)"
    using free wf s
    by (cases "bt_get (ms_sessions s) i")
      (auto simp: store_update_status_def lock memory_ready_def memory_view_def bt_get_put bt_wf_put)
  show "store_get_session i s = (ok_or session_not_found (memory_view s i), s)"
    by (simp add: store_get_session_def lock memory_view_def split: option.split)
  show "\<exists>s'. memory_ready s' \<and>
      (case memory_view s i of
         Some x \<Rightarrow> store_remove_session i s = (Inr (), s') \<and> memory_view s' = (memory_view s)(i := None)
       | None \<Rightarrow> store_remove_session i s = (Inl session_not_found, s') \<and> memory_view s' = memory_view s)"
    using free wf s
    by (cases "bt_get (ms_sessions s) i")
      (auto simp: store_remove_session_def lock memory_ready_def memory_view_def bt_get_del bt_wf_del)
qed

section \<open>Properties\<close>

text \<open>
  C16: the in-memory store is a finite map of sessions: over any sequence of operations, on a store
  that no other task holds, it gives the answers of the map and ends as the map does.
\<close>

theorem memory_store_refines_map:
  assumes "memory_ready s"
  shows "fst (run_ops memory_step xs s) = fst (run_ops spec_step xs (memory_view s)) \<and>
    memory_view (snd (run_ops memory_step xs s)) = snd (run_ops spec_step xs (memory_view s)) \<and>
    memory_ready (snd (run_ops memory_step xs s))"
  using mem.run_simulates [OF assms, of xs] unfolding memory_step_def by auto

definition ex_session :: session where
  "ex_session = \<lparr>s_uuid = 7, s_status = SentRequestByReference, s_authorization_request_jwt = ''h.b.s'',
     s_authorization_request_object = ex_request, s_presentation_definition = ex_definition\<rparr>"

lemma memory_store_refines_map_witness:
  "memory_ready default_memory_store \<and>
   fst (run_ops memory_step [OpInitiate ex_session, OpUpdateStatus 7 SentRequest, OpGetSession 7,
       OpRemoveSession 7, OpUpdateStatus 7 ReceivedResponse] default_memory_store) =
     [Inr None, Inr None, Inr (Some (ex_session\<lparr>s_status := SentRequest\<rparr>)), Inr None,
      Inl session_not_found]"
proof
  show ready: "memory_ready default_memory_store" by (simp add: memory_ready_def default_memory_store_def)
  have "memory_view default_memory_store = (\<lambda>i. None)"
    by (rule ext) (simp add: memory_view_def default_memory_store_def)
  then have "fst (run_ops memory_step [OpInitiate ex_session, OpUpdateStatus 7 SentRequest, OpGetSession 7,
       OpRemoveSession 7, OpUpdateStatus 7 ReceivedResponse] default_memory_store) =
     fst (run_ops spec_step [OpInitiate ex_session, OpUpdateStatus 7 SentRequest, OpGetSession 7,
       OpRemoveSession 7, OpUpdateStatus 7 ReceivedResponse] (\<lambda>i. None))"
    using memory_store_refines_map [OF ready] by (simp only:)
  also have "\<dots> = [Inr None, Inr None, Inr (Some (ex_session\<lparr>s_status := SentRequest\<rparr>)), Inr None,
      Inl session_not_found]"
    by (simp add: ex_session_def)
  finally show "fst (run_ops memory_step [OpInitiate ex_session, OpUpdateStatus 7 SentRequest, OpGetSession 7,
       OpRemoveSession 7, OpUpdateStatus 7 ReceivedResponse] default_memory_store) =
     [Inr None, Inr None, Inr (Some (ex_session\<lparr>s_status := SentRequest\<rparr>)), Inr None,
      Inl session_not_found]" .
qed

text \<open>
  While another task holds the lock, every operation of the store fails and changes nothing.
\<close>

theorem locked_store_refuses:
  "memory_step x (s\<lparr>ms_locked := True\<rparr>) = (Inl (Msg ''operation would block''), s\<lparr>ms_locked := True\<rparr>)"
  by (cases x) (simp_all add: memory_step_def try_lock_def store_initiate_def store_update_status_def
      store_get_session_def store_remove_session_def)

text \<open>
  The partial order of session statuses is the order of a rank, so it is total and
  transitive, it agrees with the equality (which does not look into an outcome), and a completed
  session is above every other, with success above failure above error.
\<close>

theorem status_order:
  "status_partial_cmp s t = cmp_nat (status_rank s) (status_rank t) \<and>
   (status_partial_cmp s t = Some Equal \<longleftrightarrow> status_eq s t) \<and>
   (status_partial_cmp s t = Some Less \<longleftrightarrow> status_partial_cmp t s = Some Greater) \<and>
   status_partial_cmp ReceivedResponse (Complete (OutcomeError c)) = Some Less \<and>
   status_partial_cmp (Complete (OutcomeError c)) (Complete (OutcomeFailure d)) = Some Less \<and>
   status_partial_cmp (Complete (OutcomeFailure d)) (Complete (OutcomeSuccess i)) = Some Less"
  by (simp add: status_cmp_rank status_eq_rank) (simp add: status_rank_def)

end
