(* ===== verification/Session_Concurrent.thy ===== *)
theory Session_Concurrent
  imports Session
begin

text \<open>
  The in-memory store of \<open>src/src/verifier/session.rs\<close> behind its \<open>Arc<Mutex<..>>\<close>,
  as several threads see it: every method is a program of small steps (take the lock, look at the
  tree, write it back, drop the guard) and a schedule interleaves the steps of the calls at will.
  An invariant of the schedules shows that the lock makes the methods atomic.
\<close>

section \<open>The methods, one step at a time\<close>

text \<open>
  Where a call is: before \<open>try_lock\<close>; with the guard, before it looks at the tree; with the
  guard and the tree it is about to write; with its result, before the guard is dropped; returned.
\<close>

datatype task_pc =
    AtLock
  | AtAccess
  | AtWrite "(uuid, session) bmap" "anyhow + session option"
  | AtUnlock "anyhow + session option"
  | Returned "anyhow + session option"

text \<open>
  The steps act on the memory whether or not the lock is held: only \<open>try_lock\<close> looks at it.
\<close>

fun task_step :: "store_op \<Rightarrow> task_pc \<Rightarrow> memory_store \<Rightarrow> task_pc \<times> memory_store" where
  "task_step x AtLock self =
     (case try_lock self of
        Inl e \<Rightarrow> (Returned (Inl e), self)
      | Inr _ \<Rightarrow> (AtAccess, self\<lparr>ms_locked := True\<rparr>))"
| "task_step (OpInitiate session) AtAccess self =
     (AtWrite (bt_put (s_uuid session) session (ms_sessions self)) (Inr None), self)"
| "task_step (OpUpdateStatus i status) AtAccess self =
     (case bt_get (ms_sessions self) i of
        Some session \<Rightarrow>
          (AtWrite (bt_put i (session\<lparr>s_status := status\<rparr>) (ms_sessions self)) (Inr None), self)
      | None \<Rightarrow> (AtUnlock (Inl session_not_found), self))"
| "task_step (OpGetSession i) AtAccess self =
     (case bt_get (ms_sessions self) i of
        Some session \<Rightarrow> (AtUnlock (Inr (Some session)), self)
      | None \<Rightarrow> (AtUnlock (Inl session_not_found), self))"
| "task_step (OpRemoveSession i) AtAccess self =
     (case bt_get (ms_sessions self) i of
        Some _ \<Rightarrow> (AtWrite (bt_del i (ms_sessions self)) (Inr None), self)
      | None \<Rightarrow> (AtUnlock (Inl session_not_found), self))"
| "task_step x (AtWrite m r) self = (AtUnlock r, self\<lparr>ms_sessions := m\<rparr>)"
| "task_step x (AtUnlock r) self = (Returned r, self\<lparr>ms_locked := False\<rparr>)"
| "task_step x (Returned r) self = (Returned r, self)"

text \<open>A call that runs alone returns within four steps what the method returns.\<close>

lemma task_alone:
  "((\<lambda>(pc, s). task_step x pc s) ^^ 4) (AtLock, self) =
     (case memory_step x self of (r, self') \<Rightarrow> (Returned r, self'))"
  by (cases x) (auto simp: numeral_eq_Suc try_lock_def memory_step_def store_initiate_def
      store_update_status_def store_get_session_def store_remove_session_def split: option.split)

section \<open>Schedules\<close>

text \<open>
  The calls of the threads, each with its operation and where it is, and the answers given so far,
  in the order of the returns.
\<close>

record shared =
  sh_store :: memory_store
  sh_tasks :: "nat \<Rightarrow> (store_op \<times> task_pc) option"
  sh_log :: "(nat \<times> store_op \<times> (anyhow + session option)) list"

definition shared_start :: "memory_store \<Rightarrow> shared" where
  "shared_start st = \<lparr>sh_store = st, sh_tasks = (\<lambda>t. None), sh_log = []\<rparr>"

datatype sched_event = Invoke nat store_op | Run nat

fun is_returned :: "task_pc \<Rightarrow> bool" where
  "is_returned (Returned r) \<longleftrightarrow> True"
| "is_returned pc \<longleftrightarrow> False"

fun newly_returned :: "nat \<Rightarrow> store_op \<Rightarrow> task_pc \<Rightarrow> (nat \<times> store_op \<times> (anyhow + session option)) list" where
  "newly_returned t x (Returned r) = [(t, x, r)]"
| "newly_returned t x pc = []"

text \<open>The call of thread \<open>t\<close> has moved on to \<open>pc\<close> and left the memory \<open>st\<close> and the answers \<open>l\<close>.\<close>

definition moved :: "shared \<Rightarrow> nat \<Rightarrow> store_op \<Rightarrow> task_pc \<Rightarrow> memory_store \<Rightarrow>
  (nat \<times> store_op \<times> (anyhow + session option)) list \<Rightarrow> shared" where
  "moved s t x pc st l = \<lparr>sh_store = st, sh_tasks = (sh_tasks s)(t \<mapsto> (x, pc)), sh_log = sh_log s @ l\<rparr>"

lemma moved_simps [simp]:
  "sh_store (moved s t x pc st l) = st"
  "sh_tasks (moved s t x pc st l) = (sh_tasks s)(t \<mapsto> (x, pc))"
  "sh_log (moved s t x pc st l) = sh_log s @ l"
  by (simp_all add: moved_def)

text \<open>A thread calls a method when its last call has returned; a scheduled call makes its next step.\<close>

fun sched_step :: "sched_event \<Rightarrow> shared \<Rightarrow> shared" where
  "sched_step (Invoke t x) s =
     (case sh_tasks s t of
        None \<Rightarrow> moved s t x AtLock (sh_store s) []
      | Some (y, pc) \<Rightarrow>
          if is_returned pc then moved s t x AtLock (sh_store s) [] else s)"
| "sched_step (Run t) s =
     (case sh_tasks s t of
        None \<Rightarrow> s
      | Some (x, pc) \<Rightarrow>
          if is_returned pc then s
          else case task_step x pc (sh_store s) of (pc', st) \<Rightarrow>
            moved s t x pc' st (newly_returned t x pc'))"

fun schedule :: "sched_event list \<Rightarrow> shared \<Rightarrow> shared" where
  "schedule [] s = s"
| "schedule (e # es) s = schedule es (sched_step e s)"

lemma schedule_append [simp]: "schedule (es @ fs) s = schedule fs (schedule es s)"
  by (induction es arbitrary: s) auto

lemma schedule_log: "\<exists>l. sh_log (schedule es s) = sh_log s @ l"
proof (induction es arbitrary: s)
  case (Cons e es)
  have "\<exists>l. sh_log (sched_step e s) = sh_log s @ l"
    by (cases e) (auto split: option.split prod.split)
  with Cons [of "sched_step e s"] show ?case by auto
qed simp

section \<open>Mutual exclusion and atomicity\<close>

text \<open>The answers of the calls that got the lock.\<close>

definition would_block :: "anyhow + session option" where
  "would_block = Inl (Msg ''operation would block'')"

fun served ::
  "(nat \<times> store_op \<times> (anyhow + session option)) list \<Rightarrow> (store_op \<times> (anyhow + session option)) list" where
  "served [] = []"
| "served ((t, x, r) # es) = (if r = would_block then served es else (x, r) # served es)"

fun holding :: "task_pc \<Rightarrow> bool" where
  "holding AtLock \<longleftrightarrow> False"
| "holding (Returned r) \<longleftrightarrow> False"
| "holding pc \<longleftrightarrow> True"

definition holds_lock :: "shared \<Rightarrow> nat \<Rightarrow> bool" where
  "holds_lock s t \<longleftrightarrow> (case sh_tasks s t of Some (x, pc) \<Rightarrow> holding pc | None \<Rightarrow> False)"

definition served_map :: "memory_store \<Rightarrow> shared \<Rightarrow> uuid \<Rightarrow> session option" where
  "served_map st s = snd (run_ops spec_step (map fst (served (sh_log s))) (memory_view st))"

text \<open>What the memory \<open>v\<close> is at a point of a call, over the map \<open>m\<close> of the calls served before.\<close>

fun pc_ok :: "store_op \<Rightarrow> task_pc \<Rightarrow> (uuid \<Rightarrow> session option) \<Rightarrow> (uuid \<Rightarrow> session option) \<Rightarrow> bool" where
  "pc_ok x AtAccess v m \<longleftrightarrow> v = m"
| "pc_ok x (AtWrite n r) v m \<longleftrightarrow> bt_wf n \<and> spec_step x m = (r, bt_get n)"
| "pc_ok x (AtUnlock r) v m \<longleftrightarrow> spec_step x m = (r, v)"
| "pc_ok x pc v m \<longleftrightarrow> True"

definition shared_inv :: "memory_store \<Rightarrow> shared \<Rightarrow> bool" where
  "shared_inv st s \<longleftrightarrow>
     bt_wf (ms_sessions (sh_store s)) \<and>
     (ms_locked (sh_store s) \<longleftrightarrow> (\<exists>t. holds_lock s t)) \<and>
     (\<forall>t u. holds_lock s t \<longrightarrow> holds_lock s u \<longrightarrow> t = u) \<and>
     fst (run_ops spec_step (map fst (served (sh_log s))) (memory_view st)) = map snd (served (sh_log s)) \<and>
     (\<forall>t x pc. sh_tasks s t = Some (x, pc) \<longrightarrow> pc_ok x pc (memory_view (sh_store s)) (served_map st s)) \<and>
     (\<not> ms_locked (sh_store s) \<longrightarrow> memory_view (sh_store s) = served_map st s)"

lemma served_append [simp]: "served (es @ fs) = served es @ served fs"
  by (induction es rule: served.induct) auto

lemma run_ops_snoc:
  "run_ops f (xs @ [x]) s =
     (fst (run_ops f xs s) @ [fst (f x (snd (run_ops f xs s)))], snd (f x (snd (run_ops f xs s))))"
  by (induction xs arbitrary: s) (auto simp: split_beta)

lemma spec_step_answers: "fst (spec_step x m) \<noteq> would_block"
  by (cases x) (auto simp: would_block_def session_not_found_def split: option.split)

lemma not_found_answers [simp]: "Inl session_not_found \<noteq> would_block" "Inr y \<noteq> would_block"
  by (auto simp: would_block_def session_not_found_def)

lemma memory_view_lock [simp]: "memory_view (st\<lparr>ms_locked := b\<rparr>) = memory_view st"
  by (rule ext) (simp add: memory_view_def)

lemma memory_view_sessions [simp]: "memory_view (st\<lparr>ms_sessions := n\<rparr>) = bt_get n"
  by (rule ext) (simp add: memory_view_def)

lemma bt_get_put_fun: "bt_wf m \<Longrightarrow> bt_get (bt_put k v m) = (bt_get m)(k \<mapsto> v)"
  by (rule ext) (simp add: bt_get_put)

lemma bt_get_del_fun: "bt_wf m \<Longrightarrow> bt_get (bt_del k m) = (bt_get m)(k := None)"
  by (rule ext) (simp add: bt_get_del)

lemma not_holding_ok: "\<not> holding pc \<Longrightarrow> pc_ok x pc v m"
  by (cases pc) auto

lemma holds_lock_moved [simp]:
  "holds_lock (moved s t x pc st l) u \<longleftrightarrow> (if u = t then holding pc else holds_lock s u)"
  by (simp add: holds_lock_def)

lemma served_map_moved [simp]: "served l = [] \<Longrightarrow> served_map st (moved s t x pc st' l) = served_map st s"
  by (simp add: served_map_def)

text \<open>What one step of the lock holder, or of a call before the lock, does to the memory.\<close>

lemma access_step:
  assumes "bt_wf (ms_sessions st)" "task_step x AtAccess st = (pc', st')" "memory_view st = m"
  shows "st' = st \<and> holding pc' \<and> pc_ok x pc' (memory_view st) m"
proof -
  have "m = bt_get (ms_sessions st)" using assms(3) by (auto simp: memory_view_def)
  with assms(1,2) show ?thesis
    by (cases x) (auto simp: bt_get_put_fun bt_get_del_fun bt_wf_put bt_wf_del memory_view_def
        fun_eq_iff split: option.splits)
qed

lemma inv_start: "memory_ready st \<Longrightarrow> shared_inv st (shared_start st)"
  by (simp add: shared_inv_def shared_start_def memory_ready_def holds_lock_def served_map_def)

text \<open>
  A move of \<open>t\<close> that leaves the served calls as they are keeps the invariant if it keeps
  the memory well formed, the lock with its holder, and what its new point promises.
\<close>

lemma inv_moved:
  assumes inv: "shared_inv st s" and l: "served l = []"
    and wf: "bt_wf (ms_sessions st')"
    and lock: "ms_locked st' \<longleftrightarrow> (\<exists>u. if u = t then holding pc else holds_lock s u)"
    and one: "\<And>u. holding pc \<Longrightarrow> u \<noteq> t \<Longrightarrow> \<not> holds_lock s u"
    and own: "pc_ok x pc (memory_view st') (served_map st s)"
    and others: "\<And>u. u \<noteq> t \<Longrightarrow> holds_lock s u \<Longrightarrow> memory_view st' = memory_view (sh_store s)"
    and free: "\<not> ms_locked st' \<Longrightarrow> memory_view st' = served_map st s"
  shows "shared_inv st (moved s t x pc st' l)"
proof -
  have ok: "pc_ok y q (memory_view st') (served_map st s)"
    if u: "sh_tasks (moved s t x pc st' l) u = Some (y, q)" for u y q
  proof (cases "u = t \<or> \<not> holding q")
    case False
    with u have h: "sh_tasks s u = Some (y, q)" "holds_lock s u" by (simp_all add: holds_lock_def)
    with inv have "pc_ok y q (memory_view (sh_store s)) (served_map st s)"
      by (auto simp: shared_inv_def)
    with others [of u] h False show ?thesis by simp
  qed (use u own in \<open>auto intro: not_holding_ok\<close>)
  have excl: "\<forall>u w. holds_lock (moved s t x pc st' l) u \<longrightarrow>
      holds_lock (moved s t x pc st' l) w \<longrightarrow> u = w"
  proof (intro allI impI)
    fix u w
    assume h: "holds_lock (moved s t x pc st' l) u" "holds_lock (moved s t x pc st' l) w"
    have "holds_lock s u \<Longrightarrow> holds_lock s w \<Longrightarrow> u = w" using inv by (simp add: shared_inv_def)
    with h one [of u] one [of w] show "u = w" by (simp split: if_splits)
  qed
  have run: "fst (run_ops spec_step (map fst (served (sh_log s))) (memory_view st)) =
      map snd (served (sh_log s))"
    using inv by (simp add: shared_inv_def)
  have "\<forall>u y q. sh_tasks (moved s t x pc st' l) u = Some (y, q) \<longrightarrow>
      pc_ok y q (memory_view st') (served_map st s)"
    using ok by blast
  moreover have "ms_locked st' \<longleftrightarrow> (\<exists>u. holds_lock (moved s t x pc st' l) u)"
    unfolding lock by (rule ex_cong1) simp
  ultimately show ?thesis
    unfolding shared_inv_def served_map_moved [OF l]
    by (intro conjI excl) (simp_all add: wf free run l del: moved_simps(2) holds_lock_moved)
qed

lemma inv_holder:
  assumes "shared_inv st s" and "holds_lock s t"
  shows "ms_locked (sh_store s)" and "u \<noteq> t \<Longrightarrow> \<not> holds_lock s u"
  using assms unfolding shared_inv_def by blast+

lemma inv_free: "shared_inv st s \<Longrightarrow> \<not> ms_locked (sh_store s) \<Longrightarrow> \<not> holds_lock s u"
  unfolding shared_inv_def by blast

lemma inv_parts:
  assumes "shared_inv st s"
  shows "bt_wf (ms_sessions (sh_store s))"
    and "ms_locked (sh_store s) \<longleftrightarrow> (\<exists>t. holds_lock s t)"
    and "sh_tasks s t = Some (x, pc) \<Longrightarrow> pc_ok x pc (memory_view (sh_store s)) (served_map st s)"
    and "\<not> ms_locked (sh_store s) \<Longrightarrow> memory_view (sh_store s) = served_map st s"
  using assms unfolding shared_inv_def by blast+

text \<open>A call that is not in its method may start anew or give up without the lock.\<close>

lemma inv_outside:
  assumes "shared_inv st s" "\<not> holds_lock s t" "\<not> holding pc" "served l = []"
  shows "shared_inv st (moved s t x pc (sh_store s) l)"
proof (rule inv_moved [OF assms(1,4)])
  show "ms_locked (sh_store s) \<longleftrightarrow> (\<exists>u. if u = t then holding pc else holds_lock s u)"
    using inv_parts(2) [OF assms(1)] assms(2,3) by (metis (full_types))
qed (use assms inv_parts [OF assms(1)] in \<open>auto intro: not_holding_ok\<close>)

text \<open>A step of the lock holder inside its method keeps the invariant, and so does its return.\<close>

lemma inv_inside:
  assumes inv: "shared_inv st s" and h: "holds_lock s t"
    and new: "holding pc'" "ms_locked st'" "bt_wf (ms_sessions st')"
      "pc_ok x pc' (memory_view st') (served_map st s)"
  shows "shared_inv st (moved s t x pc' st' [])"
  by (rule inv_moved [OF inv]) (use new inv_holder [OF inv h] in auto)

lemma inv_return:
  assumes inv: "shared_inv st s" and t: "sh_tasks s t = Some (x, AtUnlock r)"
  shows "shared_inv st (moved s t x (Returned r) ((sh_store s)\<lparr>ms_locked := False\<rparr>) [(t, x, r)])"
proof -
  let ?s = "moved s t x (Returned r) ((sh_store s)\<lparr>ms_locked := False\<rparr>) [(t, x, r)]"
  let ?m = "served_map st s"
  have h: "holds_lock s t" using t by (simp add: holds_lock_def)
  have other: "\<not> holds_lock s u" if "u \<noteq> t" for u by (rule inv_holder(2) [OF inv h that])
  have spec: "spec_step x ?m = (r, memory_view (sh_store s))"
    using inv_parts(3) [OF inv t] by simp
  then have "fst (spec_step x ?m) = r" by simp
  with spec_step_answers [of x ?m] have r: "r \<noteq> would_block" by blast
  have "fst (run_ops spec_step (map fst (served (sh_log s))) (memory_view st)) = map snd (served (sh_log s))"
    using inv by (simp add: shared_inv_def)
  with spec r have run: "fst (run_ops spec_step (map fst (served (sh_log ?s))) (memory_view st)) =
      map snd (served (sh_log ?s))" and view: "served_map st ?s = memory_view (sh_store s)"
    by (simp_all add: run_ops_snoc served_map_def)
  have none: "\<not> holds_lock ?s u" for u using other by simp
  have ok: "pc_ok y q v m" if "sh_tasks ?s u = Some (y, q)" for u y q v m
    using none [of u] that by (intro not_holding_ok) (simp add: holds_lock_def del: holds_lock_moved)
  show ?thesis
    using run view none ok inv_parts(1) [OF inv] unfolding shared_inv_def
    by (simp del: holds_lock_moved)
qed

lemma inv_lock:
  assumes inv: "shared_inv st s" and t: "sh_tasks s t = Some (x, AtLock)"
  shows "shared_inv st (sched_step (Run t) s)"
proof (cases "ms_locked (sh_store s)")
  case True
  have "\<not> holds_lock s t" using t by (simp add: holds_lock_def)
  from inv_outside [OF inv this, of "Returned would_block" "[(t, x, would_block)]" x] True t
  show ?thesis by (simp add: try_lock_def would_block_def)
next
  case False
  have "shared_inv st (moved s t x AtAccess ((sh_store s)\<lparr>ms_locked := True\<rparr>) [])"
    by (rule inv_moved [OF inv]) (use False inv_free [OF inv False] inv_parts [OF inv] in auto)
  with False t show ?thesis by (simp add: try_lock_def)
qed

lemma inv_run:
  assumes inv: "shared_inv st s" and t: "sh_tasks s t = Some (x, pc)"
  shows "shared_inv st (sched_step (Run t) s)"
proof (cases pc)
  case AtLock
  with inv t show ?thesis by (simp add: inv_lock del: sched_step.simps)
next
  case AtAccess
  have h: "holds_lock s t" using t AtAccess by (simp add: holds_lock_def)
  obtain pc' st' where step: "task_step x AtAccess (sh_store s) = (pc', st')" by fastforce
  have "memory_view (sh_store s) = served_map st s"
    using inv_parts(3) [OF inv t] AtAccess by simp
  with access_step [OF inv_parts(1) [OF inv] step] have st': "st' = sh_store s" "holding pc'"
    "pc_ok x pc' (memory_view (sh_store s)) (served_map st s)" by auto
  have "newly_returned t x pc' = []" using st'(2) by (cases pc') auto
  with inv_inside [OF inv h st'(2), of "sh_store s" x] st' inv_parts(1) [OF inv]
    inv_holder(1) [OF inv h] t AtAccess step
  show ?thesis by simp
next
  case (AtWrite n r)
  have h: "holds_lock s t" using t AtWrite by (simp add: holds_lock_def)
  have "pc_ok x (AtWrite n r) (memory_view (sh_store s)) (served_map st s)"
    using inv_parts(3) [OF inv t] AtWrite by simp
  with inv_inside [OF inv h, of "AtUnlock r" "(sh_store s)\<lparr>ms_sessions := n\<rparr>" x]
    inv_holder(1) [OF inv h] t AtWrite
  show ?thesis by simp
next
  case (AtUnlock r)
  with inv_return [OF inv, of t x r] t show ?thesis by simp
next
  case (Returned r)
  with inv t show ?thesis by simp
qed

lemma inv_step:
  assumes inv: "shared_inv st s"
  shows "shared_inv st (sched_step e s)"
proof (cases e)
  case (Invoke t x)
  have "shared_inv st (moved s t x AtLock (sh_store s) [])"
    if "sh_tasks s t = None \<or> (\<exists>y r. sh_tasks s t = Some (y, Returned r))"
    using that inv by (intro inv_outside) (auto simp: holds_lock_def)
  moreover have "is_returned pc \<Longrightarrow> \<exists>r. pc = Returned r" for pc by (cases pc) auto
  ultimately show ?thesis using inv Invoke by (auto split: option.split)
next
  case (Run t)
  show ?thesis
  proof (cases "sh_tasks s t")
    case (Some xpc)
    then obtain x pc where "sh_tasks s t = Some (x, pc)" by (cases xpc) auto
    from inv_run [OF inv this] Run show ?thesis by simp
  qed (use inv Run in simp)
qed

lemma inv_schedule: "shared_inv st s \<Longrightarrow> shared_inv st (schedule es s)"
  by (induction es arbitrary: s) (auto intro: inv_step)

text \<open>What a call has returned is in the answers.\<close>

definition returns_logged :: "shared \<Rightarrow> bool" where
  "returns_logged s \<longleftrightarrow> (\<forall>t x r. sh_tasks s t = Some (x, Returned r) \<longrightarrow> (t, x, r) \<in> set (sh_log s))"

lemma returns_logged_step: "returns_logged s \<Longrightarrow> returns_logged (sched_step e s)"
  by (cases e) (auto simp: returns_logged_def split: option.split prod.split)

lemma returns_logged_schedule: "returns_logged s \<Longrightarrow> returns_logged (schedule es s)"
  by (induction es arbitrary: s) (auto intro: returns_logged_step)

section \<open>Every call returns\<close>

definition own_steps :: "nat \<Rightarrow> sched_event list \<Rightarrow> nat" where
  "own_steps t es = length (filter (\<lambda>e. e = Run t) es)"

fun steps_left :: "task_pc \<Rightarrow> nat" where
  "steps_left AtLock = 4"
| "steps_left AtAccess = 3"
| "steps_left (AtWrite m r) = 2"
| "steps_left (AtUnlock r) = 1"
| "steps_left (Returned r) = 0"

lemma holding_step:
  "holding pc \<Longrightarrow> task_step x pc st = (pc', st') \<Longrightarrow>
     (\<exists>r. pc = AtUnlock r \<and> pc' = Returned r) \<or> (holding pc' \<and> steps_left pc' < steps_left pc)"
  by (cases pc; cases x) (auto split: option.splits)

lemma other_step:
  assumes "e \<noteq> Run t" and "sh_tasks s t = Some (x, pc)" and "\<not> is_returned pc"
  shows "sh_tasks (sched_step e s) t = Some (x, pc)"
  using assms by (cases e) (auto split: option.split prod.split)

lemma holder_returns:
  assumes "shared_inv st s" and "sh_tasks s t = Some (x, pc)" and "holding pc"
    and "steps_left pc \<le> own_steps t es"
  shows "\<exists>r l l'. r \<noteq> would_block \<and> sh_log (schedule es s) = sh_log s @ l @ (t, x, r) # l'"
  using assms
proof (induction es arbitrary: s pc)
  case Nil
  then show ?case by (cases pc) (auto simp: own_steps_def)
next
  case (Cons e es)
  note inv = inv_step [OF Cons.prems(1), of e]
  have nr: "\<not> is_returned pc" using Cons.prems(3) by (cases pc) auto
  obtain l0 where l0: "sh_log (sched_step e s) = sh_log s @ l0" using schedule_log [of "[e]" s] by auto
  have go: ?case if pc': "sh_tasks (sched_step e s) t = Some (x, pc')" "holding pc'"
      "steps_left pc' \<le> own_steps t es" for pc'
  proof -
    obtain r l l' where "r \<noteq> would_block"
      "sh_log (schedule es (sched_step e s)) = sh_log s @ (l0 @ l) @ (t, x, r) # l'"
      using Cons.IH [OF inv pc'] l0 by auto
    then show ?thesis unfolding schedule.simps by blast
  qed
  show ?case
  proof (cases "e = Run t")
    case False
    with other_step [OF False Cons.prems(2) nr] go Cons.prems(3,4) show ?thesis
      by (auto simp: own_steps_def)
  next
    case True
    obtain pc' st' where step: "task_step x pc (sh_store s) = (pc', st')" by fastforce
    then have s': "sched_step e s = moved s t x pc' st' (newly_returned t x pc')"
      using True Cons.prems(2) nr by simp
    from holding_step [OF Cons.prems(3) step] show ?thesis
    proof
      assume "\<exists>r. pc = AtUnlock r \<and> pc' = Returned r"
      then obtain r where r: "pc = AtUnlock r" "pc' = Returned r" by blast
      have "spec_step x (served_map st s) = (r, memory_view (sh_store s))"
        using inv_parts(3) [OF Cons.prems(1,2)] r by simp
      with spec_step_answers [of x "served_map st s"] have "r \<noteq> would_block" by auto
      moreover obtain l' where "sh_log (schedule es (sched_step e s)) = sh_log (sched_step e s) @ l'"
        using schedule_log by blast
      ultimately show ?thesis
        using s' r by (intro exI [of _ r] exI [of _ "[]"] exI [of _ l']) simp
    next
      assume "holding pc' \<and> steps_left pc' < steps_left pc"
      with go [of pc'] s' True Cons.prems(4) show ?thesis by (simp add: own_steps_def)
    qed
  qed
qed

section \<open>Properties\<close>

text \<open>
  C15: threads that share the in-memory store see a finite map that changes atomically. However the
  steps of their calls interleave, the calls that got the lock, in the order they return, are a
  sequential run of the map with the same answers; whenever no call holds the lock the store contains
  what that run leaves; the lock is held exactly while a call is between \<open>try_lock\<close> and the drop
  of its guard, by that call alone; and what a call has returned is among those answers, or the refusal of
  a held lock.
\<close>

theorem concurrent_store_linearizable:
  fixes es :: "sched_event list"
  assumes "memory_ready st" and "s = schedule es (shared_start st)"
  shows "fst (run_ops spec_step (map fst (served (sh_log s))) (memory_view st)) =
      map snd (served (sh_log s)) \<and>
    (\<not> ms_locked (sh_store s) \<longrightarrow> memory_view (sh_store s) =
      snd (run_ops spec_step (map fst (served (sh_log s))) (memory_view st))) \<and>
    (ms_locked (sh_store s) \<longleftrightarrow> (\<exists>t. holds_lock s t)) \<and>
    (\<forall>t u. holds_lock s t \<longrightarrow> holds_lock s u \<longrightarrow> t = u) \<and>
    (\<forall>t x r. sh_tasks s t = Some (x, Returned r) \<longrightarrow> r = would_block \<or> (x, r) \<in> set (served (sh_log s)))"
proof -
  have inv: "shared_inv st s"
    using inv_schedule [OF inv_start [OF assms(1)], of es] assms(2) by simp
  have "returns_logged s"
    unfolding assms(2)
    by (rule returns_logged_schedule) (simp add: returns_logged_def shared_start_def)
  moreover have "(t, x, r) \<in> set l \<Longrightarrow> r = would_block \<or> (x, r) \<in> set (served l)" for t x r l
    by (induction l rule: served.induct) auto
  ultimately have "\<forall>t x r. sh_tasks s t = Some (x, Returned r) \<longrightarrow>
      r = would_block \<or> (x, r) \<in> set (served (sh_log s))"
    unfolding returns_logged_def by blast
  with inv show ?thesis unfolding shared_inv_def served_map_def by blast
qed

text \<open>
  C17: the shared store is wait-free. Whatever the other threads do, a call that starts gives its
  answer after at most four steps of its own; the answer is the refusal of a held lock exactly when
  another call is between \<open>try_lock\<close> and the drop of its guard at its first step, so once
  every call has returned no lock is left behind.
\<close>

theorem concurrent_store_wait_free:
  fixes es es' :: "sched_event list"
  assumes "memory_ready st" and "s = schedule es (shared_start st)"
    and "sh_tasks s t = Some (x, AtLock)" and "3 \<le> own_steps t es'"
  shows "\<exists>r l l'. sh_log (schedule (Run t # es') s) = sh_log s @ l @ (t, x, r) # l' \<and>
    (r = would_block \<longleftrightarrow> (\<exists>u. u \<noteq> t \<and> holds_lock s u))"
proof -
  have inv: "shared_inv st s"
    using inv_schedule [OF inv_start [OF assms(1)], of es] assms(2) by simp
  have t: "\<not> holds_lock s t" using assms(3) by (simp add: holds_lock_def)
  let ?s = "sched_step (Run t) s"
  obtain l' where l': "sh_log (schedule es' ?s) = sh_log ?s @ l'" using schedule_log by blast
  show ?thesis
  proof (cases "ms_locked (sh_store s)")
    case True
    then have "\<exists>u. u \<noteq> t \<and> holds_lock s u" using inv_parts(2) [OF inv] t by metis
    moreover have "sh_log ?s = sh_log s @ [(t, x, would_block)]"
      using True assms(3) by (simp add: try_lock_def would_block_def)
    ultimately show ?thesis using l' by (intro exI [of _ would_block] exI [of _ "[]"] exI [of _ l']) simp
  next
    case False
    have "sh_tasks ?s t = Some (x, AtAccess)" "sh_log ?s = sh_log s"
      using False assms(3) by (simp_all add: try_lock_def)
    with holder_returns [OF inv_step [OF inv], of "Run t" t x AtAccess es'] assms(4)
      inv_free [OF inv False]
    show ?thesis by (auto simp del: sched_step.simps)
  qed
qed

text \<open>
  Two threads on an empty store: the second is refused while the first, inside \<open>initiate\<close>,
  has not written the tree back; a third call, after it, finds the session.
\<close>

definition ex_schedule :: "sched_event list" where
  "ex_schedule = [Invoke 1 (OpInitiate ex_session), Run 1, Invoke 2 (OpGetSession 7), Run 1, Run 2,
     Run 1, Run 1, Invoke 2 (OpGetSession 7), Run 2, Run 2, Run 2]"

lemma ex_store_ready: "memory_ready default_memory_store"
  by (simp add: memory_ready_def default_memory_store_def)

lemma ex_schedule_log:
  "sh_log (schedule ex_schedule (shared_start default_memory_store)) =
     [(2, OpGetSession 7, would_block), (1, OpInitiate ex_session, Inr None),
      (2, OpGetSession 7, Inr (Some ex_session))]"
  by (simp add: ex_schedule_def shared_start_def default_memory_store_def try_lock_def would_block_def
      ex_session_def)

lemma concurrent_store_linearizable_witness:
  "(let s = schedule ex_schedule (shared_start default_memory_store) in
     fst (run_ops spec_step [OpInitiate ex_session, OpGetSession 7] (\<lambda>i. None)) =
       [Inr None, Inr (Some ex_session)] \<and> ms_locked (sh_store s) = (\<exists>t. holds_lock s t))"
proof -
  have "memory_view default_memory_store = (\<lambda>i. None)"
    by (rule ext) (simp add: memory_view_def default_memory_store_def)
  with concurrent_store_linearizable [OF ex_store_ready refl, of ex_schedule]
  show ?thesis by (simp add: ex_schedule_log Let_def)
qed

lemma concurrent_store_wait_free_witness:
  "\<exists>r l l'. sh_log (schedule [Run 2, Run 1, Run 2, Run 2, Run 2]
      (schedule (take 3 ex_schedule) (shared_start default_memory_store))) = l @ (2, OpGetSession 7, r) # l' \<and>
    r = would_block"
proof -
  let ?s = "schedule (take 3 ex_schedule) (shared_start default_memory_store)"
  have s: "sh_tasks ?s 2 = Some (OpGetSession 7, AtLock)" "holds_lock ?s 1" "sh_log ?s = []"
    by (simp_all add: ex_schedule_def shared_start_def default_memory_store_def try_lock_def
        holds_lock_def ex_session_def)
  have "3 \<le> own_steps 2 [Run 1, Run 2, Run 2, Run 2]" by (simp add: own_steps_def)
  from concurrent_store_wait_free [OF ex_store_ready refl s(1) this] s(2)
  show ?thesis unfolding s(3) by force
qed

end
