(* ===== verification/Client_Verification.thy ===== *)
theory Client_Verification
  imports Verification
begin

text \<open>
  The ready-made checks of a signed request: \<open>did.rs\<close>, \<open>x509_san.rs\<close> and
  \<open>verifier.rs\<close> under \<open>src/src/core/authorization_request/verification/\<close>. The
  resolution of a DID, the certificates and the signatures are foreign.
\<close>

section \<open>Decentralized identifiers\<close>

record ('w, 'jwk) did_lib =
  headers_from_slice :: "string \<Rightarrow> anyhow + json_map"
  fetch_public_jwk :: "string option \<Rightarrow> ('w, anyhow, 'jwk) io"
  decode_verify :: "string \<Rightarrow> 'jwk \<Rightarrow> anyhow + json"

definition verify_with_resolver ::
  "'z jwt_lib_scheme \<Rightarrow> ('w, 'jwk) did_lib \<Rightarrow> wallet_metadata \<Rightarrow> request_object \<Rightarrow> string \<Rightarrow>
     string list option \<Rightarrow> ('w, core_error, unit) io" where
  "verify_with_resolver L D wallet_metadata request_object request_jwt trusted_dids =
     (let state = request_state L request_object;
          denied = (\<lambda>m. protocol_access_denied m state) in
      io_bind (io_lift (map_err internal (split_jws L request_jwt))) (\<lambda>(headers_b64, _, _).
      io_bind (io_lift (map_err (\<lambda>e. add_source e (denied ''jwt headers were not valid base64url''))
        (b64_decode (url_safe_no_pad L) headers_b64))) (\<lambda>headers_json_bytes.
      io_bind (io_lift (map_err (\<lambda>e. add_source e (denied ''jwt headers were not valid json''))
        (headers_from_slice D headers_json_bytes))) (\<lambda>headers.
      io_bind (io_lift (ok_or (denied (quoted ''alg'' @ '' was missing from jwt headers''))
        (bt_get headers ''alg''))) (\<lambda>alg_json.
      io_bind (io_lift (ok_or (denied (quoted ''alg'' @ '' header of jwt is not a string''))
        (as_str alg_json))) (\<lambda>alg.
      io_bind (io_lift (map_err error_from_anyhow
        (parsing_error_opt (request_object_signing_algs_param L)
          (obj_get (request_object_signing_algs_param L) (wm_object wallet_metadata))))) (\<lambda>supported_algs.
      io_bind (io_lift (ensure (alg \<in> set supported_algs)
        (denied (''request was signed with unsupported algorithm: '' @ alg)))) (\<lambda>_.
      io_bind (io_lift (ok_or (error_from_anyhow (Msg (quoted ''kid'' @ '' was missing from jwt headers'')))
        (bt_get (bt_del ''alg'' headers) ''kid''))) (\<lambda>kid_json.
      io_bind (io_lift (ok_or (denied (quoted ''kid'' @ '' header of jwt is not a string: '' @ alg))
        (as_str kid_json))) (\<lambda>kid.
      io_bind (io_lift (ok_or (denied (''expected a DID verification method in '' @ quoted ''kid'' @
          '' header, received '' @ quoted kid)) (split_once CHR ''#'' kid))) (\<lambda>(did, _).
      io_bind (io_lift (ensure (get_id (aro_client_id request_object) = did)
        (denied (''DIDs from '' @ quoted ''kid'' @ '' ('' @ did @ '') and '' @ quoted ''client_id'' @
          '' ('' @ get_full_id (aro_client_id request_object) @ '') do not match'')))) (\<lambda>_.
      io_bind (io_lift (case trusted_dids of
          Some dids \<Rightarrow> ensure (did \<in> set dids)
            (denied (quoted ''client_id'' @ '' ({did}) is not in the list of trusted dids''))
        | None \<Rightarrow> Inr ())) (\<lambda>_.
      io_bind (io_map_err (\<lambda>e. add_source e
          (denied (''unable to resolve verification method from '' @ quoted ''kid'' @ '' header'')))
        (fetch_public_jwk D (Some kid))) (\<lambda>jwk.
      io_bind (io_lift (map_err (\<lambda>e. add_source e (denied ''request signature could not be verified''))
        (decode_verify D request_jwt jwk))) (\<lambda>_.
      io_return ())))))))))))))))"

text \<open>What the header of the token must say, and what must hold of it.\<close>

definition did_header ::
  "'z jwt_lib_scheme \<Rightarrow> ('w, 'jwk) did_lib \<Rightarrow> string \<Rightarrow> string \<Rightarrow> string \<Rightarrow> bool" where
  "did_header L D jwt alg kid \<longleftrightarrow>
     (\<exists>h b s bytes headers. split_jws L jwt = Inr (h, b, s) \<and>
        b64_decode (url_safe_no_pad L) h = Inr bytes \<and> headers_from_slice D bytes = Inr headers \<and>
        bt_get headers ''alg'' = Some (JString alg) \<and>
        bt_get (bt_del ''alg'' headers) ''kid'' = Some (JString kid))"

lemma verify_with_resolver_iff:
  "verify_with_resolver L D m r jwt trusted w = (Inr (), w') \<longleftrightarrow>
     (\<exists>alg did frag algs jwk claims.
        did_header L D jwt alg (did @ ''#'' @ frag) \<and> CHR ''#'' \<notin> set did \<and>
        obj_get (request_object_signing_algs_param L) (wm_object m) = Some (Inr algs) \<and> alg \<in> set algs \<and>
        get_id (aro_client_id r) = did \<and> pred_option (\<lambda>dids. did \<in> set dids) trusted \<and>
        fetch_public_jwk D (Some (did @ ''#'' @ frag)) w = (Inr jwk, w') \<and>
        decode_verify D jwt jwk = Inr claims)"
  (is "?l \<longleftrightarrow> ?r")
proof
  assume ?l
  then show ?r
    by (auto simp: verify_with_resolver_def did_header_def Let_def io_simps res_simps
        split_once_Some_iff split: prod.splits option.splits)
next
  assume ?r
  then show ?l
    by (fastforce simp: verify_with_resolver_def did_header_def Let_def io_simps res_simps
        split_once_Some_iff split: option.splits)
qed

section \<open>Certificates\<close>

datatype x509_variant = VariantHash | VariantSanDns

fun variant_to_prefix :: "x509_variant \<Rightarrow> client_id_prefix" where
  "variant_to_prefix VariantHash = X509Hash"
| "variant_to_prefix VariantSanDns = X509SanDns"

datatype general_name = DnsName string | OtherName

text \<open>The trait \<open>Verifier\<close>.\<close>

record ('spki, 'v) spki_verifier =
  from_spki :: "'spki \<Rightarrow> string \<Rightarrow> anyhow + 'v"
  verify_signature :: "'v \<Rightarrow> string \<Rightarrow> string \<Rightarrow> anyhow + unit"

text \<open>\<open>P256Verifier\<close> over the key and signature parsers of \<open>p256\<close>.\<close>

definition p256_verifier ::
  "('spki \<Rightarrow> anyhow + 'key) \<Rightarrow> (string \<Rightarrow> anyhow + 'sig) \<Rightarrow> ('key \<Rightarrow> string \<Rightarrow> 'sig \<Rightarrow> anyhow + unit) \<Rightarrow>
     ('spki, 'key) spki_verifier" where
  "p256_verifier key_try_from signature_from_slice key_verify = \<lparr>
     from_spki = (\<lambda>spki algorithm.
       if algorithm \<noteq> ''ES256'' then
         Inl (Msg (''P256Verifier cannot verify requests signed with '' @ quoted algorithm))
       else key_try_from spki),
     verify_signature = (\<lambda>self payload signature.
       and_then (signature_from_slice signature) (\<lambda>s. key_verify self payload s))\<rparr>"

record ('cert, 'spki) cert_lib =
  x509_headers_from_slice :: "string \<Rightarrow> anyhow + json_map"
  standard_no_pad :: base64
  cert_from_der :: "string \<Rightarrow> anyhow + 'cert"
  cert_sans :: "'cert \<Rightarrow> (anyhow + general_name list) list"
  cert_spki :: "'cert \<Rightarrow> 'spki"
  sha256 :: "string \<Rightarrow> string"

text \<open>An extension that cannot be parsed, and a name that is not a DNS name, are skipped.\<close>

definition cert_dns_names :: "('cert, 'spki) cert_lib \<Rightarrow> 'cert \<Rightarrow> string list" where
  "cert_dns_names X leaf_cert =
     List.map_filter (\<lambda>gn. case gn of DnsName dns \<Rightarrow> Some dns | OtherName \<Rightarrow> None)
       (concat (List.map_filter res_ok (cert_sans X leaf_cert)))"

definition ensure_client_id_matches_leaf ::
  "'z jwt_lib_scheme \<Rightarrow> ('cert, 'spki) cert_lib \<Rightarrow> x509_variant \<Rightarrow> string \<Rightarrow> 'cert \<Rightarrow> string \<Rightarrow> anyhow + unit" where
  "ensure_client_id_matches_leaf L X variant client_id leaf_cert leaf_cert_der =
     (case variant of
        VariantHash \<Rightarrow>
          (let hash = b64_encode (url_safe_no_pad L) (sha256 X leaf_cert_der)
           in if hash \<noteq> client_id then
                Inl (Msg (''client_id does not match the hash of the leaf certificate in '' @ quoted ''x5c''))
              else Inr ())
      | VariantSanDns \<Rightarrow>
          if \<not> list_ex (\<lambda>dns. dns = client_id) (cert_dns_names X leaf_cert) then
            Inl (Msg ''client_id does not match any Subject Alternative Name'')
          else Inr ())"

definition x509_validate ::
  "'z jwt_lib_scheme \<Rightarrow> ('cert, 'spki) cert_lib \<Rightarrow> ('spki, 'v) spki_verifier \<Rightarrow> x509_variant \<Rightarrow>
     wallet_metadata \<Rightarrow> request_object \<Rightarrow> string \<Rightarrow> 'cert list option \<Rightarrow> anyhow + unit" where
  "x509_validate L X V variant wallet_metadata request_object request_jwt trusted_roots =
     (let client_id = get_id (aro_client_id request_object);
          client_id_source =
            (case strip_prefix (string_of_prefix (variant_to_prefix variant) @ '':'') client_id of
               Some s \<Rightarrow> s
             | None \<Rightarrow> client_id) in
      and_then (split_jws L request_jwt) (\<lambda>(headers_b64, body_b64, sig_b64).
      and_then (map_err (Context ''jwt headers were not valid base64url'')
        (b64_decode (url_safe_no_pad L) headers_b64)) (\<lambda>headers_json_bytes.
      and_then (map_err (Context ''jwt headers were not valid json'')
        (x509_headers_from_slice X headers_json_bytes)) (\<lambda>headers.
      and_then (ok_or (Msg (quoted ''alg'' @ '' was missing from jwt headers''))
        (bt_get headers ''alg'')) (\<lambda>alg_json.
      and_then (ok_or (Msg (quoted ''alg'' @ '' header was not a string'')) (as_str alg_json)) (\<lambda>alg.
      and_then (parsing_error_opt (request_object_signing_algs_param L)
        (obj_get (request_object_signing_algs_param L) (wm_object wallet_metadata))) (\<lambda>supported_algs.
      and_then (ensure (alg \<in> set supported_algs)
        (Msg (''request was signed with unsupported algorithm: '' @ alg))) (\<lambda>_.
      and_then (ok_or (Msg (quoted ''x5c'' @ '' was missing from jwt headers''))
        (bt_get (bt_del ''alg'' headers) ''x5c'')) (\<lambda>x5c_json.
      and_then (ok_or (Msg (quoted ''x5c'' @ '' header was not an array'')) (as_array x5c_json)) (\<lambda>x5chain.
      and_then (ok_or (Msg (quoted ''x5c'' @ '' was an empty array''))
        (list_first x5chain)) (\<lambda>first_json.
      and_then (ok_or (Msg (quoted ''x5c'' @ '' header was not an array of strings''))
        (as_str first_json)) (\<lambda>b64_x509.
      and_then (map_err (Context (''leaf certificate in '' @ quoted ''x5c'' @ '' was not valid base64''))
        (b64_decode (standard_no_pad X) (trim_end_matches CHR ''='' b64_x509))) (\<lambda>leaf_cert_der.
      and_then (map_err (Context (''leaf certificate in '' @ quoted ''x5c'' @ '' was not valid DER''))
        (cert_from_der X leaf_cert_der)) (\<lambda>leaf_cert.
      and_then (ensure_client_id_matches_leaf L X variant client_id_source leaf_cert leaf_cert_der) (\<lambda>_.
      and_then (case trusted_roots of Some _ \<Rightarrow> Inr () | None \<Rightarrow> Inr ()) (\<lambda>_.
      and_then (map_err (Context ''unable to parse SPKI'')
        (from_spki V (cert_spki X leaf_cert) alg)) (\<lambda>verifier.
      and_then (map_err (Context ''could not decode base64url encoded jwt signature'')
        (b64_decode (url_safe_no_pad L) sig_b64)) (\<lambda>signature.
      map_err (Context ''request signature could not be verified'')
        (verify_signature V verifier (headers_b64 @ ''.'' @ body_b64) signature)))))))))))))))))))"

definition x509_binding ::
  "'z jwt_lib_scheme \<Rightarrow> ('cert, 'spki) cert_lib \<Rightarrow> x509_variant \<Rightarrow> string \<Rightarrow> 'cert \<Rightarrow> string \<Rightarrow> bool" where
  "x509_binding L X variant cid cert der \<longleftrightarrow>
     (case variant of
        VariantHash \<Rightarrow> cid = b64_encode (url_safe_no_pad L) (sha256 X der)
      | VariantSanDns \<Rightarrow>
          \<exists>names. Inr names \<in> set (cert_sans X cert) \<and> DnsName cid \<in> set names)"

lemma cert_dns_names_iff:
  "dns \<in> set (cert_dns_names X c) \<longleftrightarrow> (\<exists>names. Inr names \<in> set (cert_sans X c) \<and> DnsName dns \<in> set names)"
proof -
  have case_iff: "(case gn of DnsName d \<Rightarrow> Some d | OtherName \<Rightarrow> None) = Some dns \<longleftrightarrow> gn = DnsName dns" for gn
    by (cases gn) auto
  show ?thesis
    by (auto simp: cert_dns_names_def in_map_filter_iff res_simps case_iff)
qed

lemma ensure_client_id_matches_leaf_iff:
  "ensure_client_id_matches_leaf L X variant cid cert der = Inr () \<longleftrightarrow> x509_binding L X variant cid cert der"
  by (cases variant)
    (auto simp: ensure_client_id_matches_leaf_def x509_binding_def Let_def list_ex_iff cert_dns_names_iff)

text \<open>
  A request accepted under \<open>x509_hash\<close> or \<open>x509_san_dns\<close>: the leaf certificate of its
  header is bound to the client identifier, the algorithm is one the wallet lists, and the key of the
  leaf verifies the signature over the signed parts.
\<close>

lemma x509_validate_Inr:
  assumes "x509_validate L X V variant m r jwt roots = Inr u"
  shows "\<exists>h b sg bytes headers alg algs leaf chain der cert key s.
    split_jws L jwt = Inr (h, b, sg) \<and> b64_decode (url_safe_no_pad L) h = Inr bytes \<and>
    x509_headers_from_slice X bytes = Inr headers \<and> bt_get headers ''alg'' = Some (JString alg) \<and>
    obj_get (request_object_signing_algs_param L) (wm_object m) = Some (Inr algs) \<and> alg \<in> set algs \<and>
    bt_get (bt_del ''alg'' headers) ''x5c'' = Some (JArray (JString leaf # chain)) \<and>
    b64_decode (standard_no_pad X) (trim_end_matches CHR ''='' leaf) = Inr der \<and>
    cert_from_der X der = Inr cert \<and>
    x509_binding L X variant
      (case strip_prefix (string_of_prefix (variant_to_prefix variant) @ '':'') (get_id (aro_client_id r)) of
         Some s \<Rightarrow> s | None \<Rightarrow> get_id (aro_client_id r)) cert der \<and>
    from_spki V (cert_spki X cert) alg = Inr key \<and> b64_decode (url_safe_no_pad L) sg = Inr s \<and>
    verify_signature V key (h @ ''.'' @ b) s = Inr u"
  using assms
  by (simp add: x509_validate_def Let_def res_simps ensure_client_id_matches_leaf_iff split_paired_Ex)
    blast

text \<open>The list of trusted roots is not consulted.\<close>

lemma x509_validate_roots: "x509_validate L X V variant m r jwt roots = x509_validate L X V variant m r jwt None"
  by (cases roots) (simp_all add: x509_validate_def)

section \<open>Properties\<close>

text \<open>
  C11: a request signed under a decentralized identifier is accepted exactly when the header of
  its token names an algorithm the wallet lists and a key of the DID in the client identifier, the
  DID is one of the trusted ones if there is such a list, the key resolves, and the signature verifies
  under that key.
\<close>

theorem did_verification:
  "verify_with_resolver L D m r jwt trusted w = (Inr (), w') \<longleftrightarrow>
     (\<exists>alg did frag algs jwk claims.
        did_header L D jwt alg (did @ ''#'' @ frag) \<and> CHR ''#'' \<notin> set did \<and>
        obj_get (request_object_signing_algs_param L) (wm_object m) = Some (Inr algs) \<and> alg \<in> set algs \<and>
        get_id (aro_client_id r) = did \<and> pred_option (\<lambda>dids. did \<in> set dids) trusted \<and>
        fetch_public_jwk D (Some (did @ ''#'' @ frag)) w = (Inr jwk, w') \<and>
        decode_verify D jwt jwk = Inr claims)"
  by (rule verify_with_resolver_iff)

text \<open>What it takes for a request to be accepted under its certificate.\<close>

definition x509_accepts ::
  "'z jwt_lib_scheme \<Rightarrow> ('cert, 'spki) cert_lib \<Rightarrow> ('spki, 'v) spki_verifier \<Rightarrow> x509_variant \<Rightarrow>
     wallet_metadata \<Rightarrow> string \<Rightarrow> string \<Rightarrow> bool" where
  "x509_accepts L X V variant m cid jwt \<longleftrightarrow>
     (\<exists>h b sg bytes headers alg algs leaf chain der cert key s.
        split_jws L jwt = Inr (h, b, sg) \<and> b64_decode (url_safe_no_pad L) h = Inr bytes \<and>
        x509_headers_from_slice X bytes = Inr headers \<and> bt_get headers ''alg'' = Some (JString alg) \<and>
        obj_get (request_object_signing_algs_param L) (wm_object m) = Some (Inr algs) \<and> alg \<in> set algs \<and>
        bt_get (bt_del ''alg'' headers) ''x5c'' = Some (JArray (JString leaf # chain)) \<and>
        b64_decode (standard_no_pad X) (trim_end_matches CHR ''='' leaf) = Inr der \<and>
        cert_from_der X der = Inr cert \<and> x509_binding L X variant cid cert der \<and>
        from_spki V (cert_spki X cert) alg = Inr key \<and> b64_decode (url_safe_no_pad L) sg = Inr s \<and>
        verify_signature V key (h @ ''.'' @ b) s = Inr ())"

text \<open>The source of the identifier: what follows the prefix, when the identifier repeats it.\<close>

definition client_id_source :: "x509_variant \<Rightarrow> request_object \<Rightarrow> string" where
  "client_id_source variant r =
     (case strip_prefix (string_of_prefix (variant_to_prefix variant) @ '':'') (get_id (aro_client_id r)) of
        Some s \<Rightarrow> s
      | None \<Rightarrow> get_id (aro_client_id r))"

lemma x509_accepts_validate:
  assumes "x509_accepts L X V variant m (client_id_source variant r) jwt"
  shows "x509_validate L X V variant m r jwt roots = Inr ()"
proof -
  have roots: "(case roots of None \<Rightarrow> Inr () | Some _ \<Rightarrow> Inr ()) = Inr ()" by (cases roots) simp_all
  from assms show ?thesis
    unfolding x509_accepts_def client_id_source_def
    by (elim exE conjE)
      (simp add: x509_validate_def Let_def ensure_client_id_matches_leaf_iff [THEN iffD2] parsing_error_opt_def
        roots)
qed

text \<open>
  C10: a request signed under a certificate is accepted exactly when its token holds a chain whose
  leaf is bound to the client identifier (its hash, or one of its DNS names), the algorithm is one the
  wallet lists, and the key of the leaf verifies the signature over the header and the body of the
  token. The trusted roots play no part: the chain above the leaf is not checked.
\<close>

theorem x509_verification:
  "x509_validate L X V variant m r jwt roots = Inr () \<longleftrightarrow>
     x509_accepts L X V variant m (client_id_source variant r) jwt"
proof
  assume "x509_validate L X V variant m r jwt roots = Inr ()"
  from x509_validate_Inr [OF this]
  show "x509_accepts L X V variant m (client_id_source variant r) jwt"
    unfolding x509_accepts_def client_id_source_def .
qed (rule x509_accepts_validate)

end
