(* ===== verification/Clients.thy ===== *)
theory Clients
  imports Client_Verification
begin

text \<open>
  \<open>src/src/verifier/client.rs\<close>: how a verifier identifies itself and signs its requests.
  The trait \<open>Client\<close> is a record of its operations; the interface \<open>client_impl\<close> says
  what the builder of requests relies on, and is interpreted on the three clients of the source.
\<close>

record 'w client =
  cl_id :: client_id
  cl_prefix :: client_id_prefix
  cl_generate_jwt :: "request_object \<Rightarrow> ('w, anyhow, string) io"

text \<open>Serialising a request object, a header, and \<open>Certificate::to_der\<close>.\<close>

record ('cert, 'spki) client_lib =
  cl_certs :: "('cert, 'spki) cert_lib"
  cert_to_der :: "'cert \<Rightarrow> anyhow + string"
  standard_padded :: base64
  header_ser :: "json serialize"
  request_ser :: "request_object serialize"

section \<open>The clients\<close>

record ('w, 'jwk) did_client =
  dc_id :: client_id
  dc_vm :: string
  dc_signer :: "('w, 'jwk) signer"

definition did_client_new ::
  "('w, 'jwk) did_lib \<Rightarrow> string \<Rightarrow> ('w, 'jwk) signer \<Rightarrow> ('w, anyhow, ('w, 'jwk) did_client) io" where
  "did_client_new D vm signer =
     io_bind (io_lift (ok_or (Msg (''expected a DID verification method, received '' @ quoted vm))
       (rsplit_once CHR ''#'' vm))) (\<lambda>(ident, _).
     io_bind (io_map_err (Context ''unable to resolve key from verification method'')
       (fetch_public_jwk D (Some vm))) (\<lambda>jwk.
     io_bind (io_lift (map_err (Context ''signer did not have a JWK'') (signer_jwk signer))) (\<lambda>own.
     if jwk \<noteq> own then
       io_throw (Msg
         ''verification method resolved from DID document did not match public key of signer'')
     else
       io_lift (map_ok (\<lambda>i. \<lparr>dc_id = i, dc_vm = vm, dc_signer = signer\<rparr>)
         (client_id_new (''decentralized_identifier:'' @ ident))))))"

definition did_client_jwt ::
  "'z jwt_lib_scheme \<Rightarrow> ('cert, 'spki) client_lib \<Rightarrow> ('w, 'jwk) did_client \<Rightarrow> request_object \<Rightarrow> ('w, anyhow, string) io" where
  "did_client_jwt L X self body =
     io_bind (io_lift (map_err (Context ''failed to retrieve signing algorithm'')
       (signer_alg (dc_signer self)))) (\<lambda>algorithm.
     generate_jwt (url_safe_no_pad L) (header_ser X) (request_ser X)
       (JObject [(''alg'', JString algorithm), (''kid'', JString (dc_vm self)),
                 (''typ'', JString MIME_TYPE_OAUTH_REQ_JWT_SHORT)]) body (dc_signer self))"

definition did_client_client ::
  "'z jwt_lib_scheme \<Rightarrow> ('cert, 'spki) client_lib \<Rightarrow> ('w, 'jwk) did_client \<Rightarrow> 'w client" where
  "did_client_client L X self =
     \<lparr>cl_id = dc_id self, cl_prefix = DecentralizedIdentifier,
      cl_generate_jwt = did_client_jwt L X self\<rparr>"

record ('w, 'jwk, 'cert) x509_client =
  xc_id :: client_id
  xc_x5c :: "'cert list"
  xc_signer :: "('w, 'jwk) signer"
  xc_variant :: x509_variant

definition x509_client_id ::
  "'z jwt_lib_scheme \<Rightarrow> ('cert, 'spki) client_lib \<Rightarrow> 'cert list \<Rightarrow> x509_variant \<Rightarrow> anyhow + client_id" where
  "x509_client_id L X x5c variant =
     and_then (ok_or (Msg ''x509 certificate chain is empty'') (list_first x5c)) (\<lambda>leaf.
     and_then (case variant of
         VariantHash \<Rightarrow>
           map_ok (\<lambda>der. b64_encode (url_safe_no_pad L) (sha256 (cl_certs X) der)) (cert_to_der X leaf)
       | VariantSanDns \<Rightarrow>
           ok_or (Msg ''x509 certificate does not contain Subject Alternative Name'')
             (list_first (cert_dns_names (cl_certs X) leaf))) (\<lambda>ident.
     client_id_new (string_of_prefix (variant_to_prefix variant) @ '':'' @ ident)))"

definition x509_client_new ::
  "'z jwt_lib_scheme \<Rightarrow> ('cert, 'spki) client_lib \<Rightarrow> 'cert list \<Rightarrow> ('w, 'jwk) signer \<Rightarrow> x509_variant \<Rightarrow>
     anyhow + ('w, 'jwk, 'cert) x509_client" where
  "x509_client_new L X x5c signer variant =
     and_then (x509_client_id L X x5c variant) (\<lambda>i.
     Inr \<lparr>xc_id = i, xc_x5c = x5c, xc_signer = signer, xc_variant = variant\<rparr>)"

definition x509_client_prefix :: "('w, 'jwk, 'cert) x509_client \<Rightarrow> client_id_prefix" where
  "x509_client_prefix self =
     (case xc_variant self of VariantSanDns \<Rightarrow> X509SanDns | VariantHash \<Rightarrow> X509Hash)"

definition x509_client_jwt ::
  "'z jwt_lib_scheme \<Rightarrow> ('cert, 'spki) client_lib \<Rightarrow> ('w, 'jwk, 'cert) x509_client \<Rightarrow> request_object \<Rightarrow>
     ('w, anyhow, string) io" where
  "x509_client_jwt L X self body =
     io_bind (io_lift (map_err (Context ''failed to retrieve signing algorithm'')
       (signer_alg (xc_signer self)))) (\<lambda>algorithm.
     io_bind (io_lift (collect_res (\<lambda>x509. map_ok (b64_encode (standard_padded X)) (cert_to_der X x509))
       (xc_x5c self))) (\<lambda>x5c.
     generate_jwt (url_safe_no_pad L) (header_ser X) (request_ser X)
       (JObject [(''alg'', JString algorithm), (''typ'', JString MIME_TYPE_OAUTH_REQ_JWT_SHORT),
                 (''x5c'', JArray (map JString x5c))]) body (xc_signer self)))"

definition x509_client_client ::
  "'z jwt_lib_scheme \<Rightarrow> ('cert, 'spki) client_lib \<Rightarrow> ('w, 'jwk, 'cert) x509_client \<Rightarrow> 'w client" where
  "x509_client_client L X self =
     \<lparr>cl_id = xc_id self, cl_prefix = x509_client_prefix self, cl_generate_jwt = x509_client_jwt L X self\<rparr>"

datatype redirect_uri_client = RedirectUriClient (rc_id: client_id)

definition redirect_uri_client_new :: "string \<Rightarrow> anyhow + redirect_uri_client" where
  "redirect_uri_client_new ident =
     and_then (client_id_new (''redirect_uri:'' @ ident)) (\<lambda>i. Inr (RedirectUriClient i))"

definition redirect_uri_client_client :: "redirect_uri_client \<Rightarrow> 'w client" where
  "redirect_uri_client_client self =
     \<lparr>cl_id = rc_id self, cl_prefix = RedirectUriPrefix,
      cl_generate_jwt = (\<lambda>_. io_throw (Msg (''generation of signed jwt is not supported in '' @
        quoted ''redirect_uri'' @ '' client identifier'')))\<rparr>"

section \<open>The interface of a client\<close>

text \<open>A client that its constructor built announces the prefix of its own identifier.\<close>

locale client_impl =
  fixes view :: "'c \<Rightarrow> 'w client" and built :: "'c \<Rightarrow> bool"
  assumes prefix_of_id: "built c \<Longrightarrow> get_prefix (cl_id (view c)) = cl_prefix (view c)"
begin

text \<open>What a wallet is asked to support is what the request will claim.\<close>

lemma full_id_prefix:
  "built c \<Longrightarrow> client_id_new (string_of_prefix (cl_prefix (view c)) @ '':'' @ get_id (cl_id (view c))) =
     Inr (cl_id (view c))"
  using prefix_of_id client_id_new_full [of "cl_id (view c)"] by (simp add: get_full_id_def)

end

definition did_client_built :: "('w, 'jwk) did_client \<Rightarrow> bool" where
  "did_client_built c \<longleftrightarrow> get_prefix (dc_id c) = DecentralizedIdentifier"

definition x509_client_built :: "('w, 'jwk, 'cert) x509_client \<Rightarrow> bool" where
  "x509_client_built c \<longleftrightarrow> get_prefix (xc_id c) = variant_to_prefix (xc_variant c)"

definition redirect_uri_client_built :: "redirect_uri_client \<Rightarrow> bool" where
  "redirect_uri_client_built c \<longleftrightarrow> get_prefix (rc_id c) = RedirectUriPrefix"

lemma client_id_new_prefixed:
  "client_id_new (string_of_prefix p @ '':'' @ i) = Inr c \<longleftrightarrow> c = ClientId i p"
  using client_id_new_full [of "ClientId i p"] by (auto simp: get_full_id_def)

lemma did_client_new_built:
  assumes "did_client_new D vm signer w = (Inr c, w')"
  shows "did_client_built c \<and> dc_vm c = vm \<and> dc_signer c = signer \<and>
    (\<exists>frag jwk. vm = get_id (dc_id c) @ ''#'' @ frag \<and> CHR ''#'' \<notin> set frag \<and>
       fetch_public_jwk D (Some vm) w = (Inr jwk, w') \<and> signer_jwk signer = Inr jwk)"
proof -
  have "client_id_new (''decentralized_identifier:'' @ i) = Inr x \<longleftrightarrow> x = ClientId i DecentralizedIdentifier" for i x
    using client_id_new_prefixed [of DecentralizedIdentifier i x] by simp
  with assms show ?thesis
    by (auto simp: did_client_new_def did_client_built_def io_simps res_simps rsplit_once_Some_iff
        split: if_splits)
qed

lemma x509_client_id_Inr:
  assumes "x509_client_id L X x5c variant = Inr i"
  shows "\<exists>leaf rest. x5c = leaf # rest \<and> get_prefix i = variant_to_prefix variant \<and>
    (case variant of
       VariantHash \<Rightarrow> \<exists>der. cert_to_der X leaf = Inr der \<and>
         get_id i = b64_encode (url_safe_no_pad L) (sha256 (cl_certs X) der)
     | VariantSanDns \<Rightarrow> \<exists>names. cert_dns_names (cl_certs X) leaf = get_id i # names)"
  using assms
  by (auto simp: x509_client_id_def res_simps client_id_new_prefixed simp del: append_Cons append_Nil
      split: x509_variant.splits)

lemma x509_client_new_built:
  "x509_client_new L X x5c signer variant = Inr c \<Longrightarrow>
     x509_client_built c \<and> xc_x5c c = x5c \<and> xc_signer c = signer \<and> xc_variant c = variant \<and>
     x509_client_id L X x5c variant = Inr (xc_id c)"
  using x509_client_id_Inr [of L X x5c variant "xc_id c"]
  by (cases "x509_client_id L X x5c variant")
    (auto simp: x509_client_new_def x509_client_built_def res_simps)

lemma redirect_uri_client_new_built:
  assumes "redirect_uri_client_new s = Inr c"
  shows "redirect_uri_client_built c \<and> get_id (rc_id c) = s"
proof -
  have "client_id_new (''redirect_uri:'' @ s) = Inr x \<longleftrightarrow> x = ClientId s RedirectUriPrefix" for x
    using client_id_new_prefixed [of RedirectUriPrefix s x] by simp
  with assms show ?thesis
    unfolding redirect_uri_client_new_def redirect_uri_client_built_def and_then_Inr_iff by fastforce
qed

interpretation did_cl: client_impl "did_client_client L X" did_client_built
  by unfold_locales (simp add: did_client_built_def did_client_client_def)

interpretation x509_cl: client_impl "x509_client_client L X" x509_client_built
  by unfold_locales
    (simp add: x509_client_built_def x509_client_client_def x509_client_prefix_def split: x509_variant.split)

interpretation redirect_cl: client_impl redirect_uri_client_client redirect_uri_client_built
  by unfold_locales (simp add: redirect_uri_client_built_def redirect_uri_client_client_def)

section \<open>Clients and wallets agree\<close>

text \<open>
  What the foreign functions promise on both sides: base64 decodes what it encodes, a token
  splits at its dots, and a header of texts and lists of texts that was printed reads back as its members.
\<close>

definition header_members :: "json_map \<Rightarrow> bool" where
  "header_members m \<longleftrightarrow> bt_wf m \<and>
     list_all (\<lambda>(k, v). case v of JString _ \<Rightarrow> True | JArray js \<Rightarrow> list_all (\<lambda>j. as_str j \<noteq> None) js | _ \<Rightarrow> False) m"

definition jws_ok :: "'z jwt_lib_scheme \<Rightarrow> ('cert, 'spki) client_lib \<Rightarrow> (string \<Rightarrow> anyhow + json_map) \<Rightarrow> bool" where
  "jws_ok L X read_header \<longleftrightarrow>
     base64_ok (url_safe_no_pad L) \<and>
     (\<forall>h b s. CHR ''.'' \<notin> set h \<and> CHR ''.'' \<notin> set b \<and> CHR ''.'' \<notin> set s \<longrightarrow>
        split_jws L (h @ ''.'' @ b @ ''.'' @ s) = Inr (h, b, s)) \<and>
     (\<forall>m s. header_members m \<and> to_string (header_ser X) (JObject m) = Inr s \<longrightarrow> read_header s = Inr m)"

text \<open>Certificates read back from their bytes, and the bytes from their padded base64.\<close>

definition certs_ok :: "('cert, 'spki) client_lib \<Rightarrow> bool" where
  "certs_ok X \<longleftrightarrow>
     (\<forall>der. b64_decode (standard_no_pad (cl_certs X))
        (trim_end_matches CHR ''='' (b64_encode (standard_padded X) der)) = Inr der) \<and>
     (\<forall>c der. cert_to_der X c = Inr der \<longrightarrow> cert_from_der (cl_certs X) der = Inr c)"

text \<open>A key verifies what a signer signs.\<close>

definition signs_for :: "('w, 'jwk) signer \<Rightarrow> (string \<Rightarrow> string \<Rightarrow> bool) \<Rightarrow> bool" where
  "signs_for signer verifies \<longleftrightarrow>
     (\<forall>payload w sg w'. signer_sign signer payload w = (Inr sg, w') \<longrightarrow> verifies payload sg)"

lemma jws_parts:
  assumes ok: "jws_ok L X rd"
    and hm: "header_members hm"
    and gen: "generate_jwt (url_safe_no_pad L) (header_ser X) bs (JObject hm) body signer w = (Inr jwt, w')"
  obtains h p hb sg where "jwt = h @ ''.'' @ p @ ''.'' @ b64_encode (url_safe_no_pad L) sg"
    "split_jws L jwt = Inr (h, p, b64_encode (url_safe_no_pad L) sg)"
    "b64_decode (url_safe_no_pad L) h = Inr hb" "rd hb = Inr hm"
    "b64_decode (url_safe_no_pad L) (b64_encode (url_safe_no_pad L) sg) = Inr sg"
    "signer_sign signer (h @ ''.'' @ p) w = (Inr sg, w')"
proof -
  let ?e = "b64_encode (url_safe_no_pad L)"
  obtain h p sg where parts: "to_string (header_ser X) (JObject hm) = Inr h" "to_string bs body = Inr p"
    "signer_sign signer (?e h @ ''.'' @ ?e p) w = (Inr sg, w')" "jwt = ?e h @ ''.'' @ ?e p @ ''.'' @ ?e sg"
    using gen by (rule generate_jwt_parts)
  have dots: "CHR ''.'' \<notin> set (?e x)" and dec: "b64_decode (url_safe_no_pad L) (?e x) = Inr x" for x
    using ok by (simp_all add: jws_ok_def base64_ok_def)
  have "split_jws L jwt = Inr (?e h, ?e p, ?e sg)"
    unfolding parts(4) using ok dots unfolding jws_ok_def by blast
  moreover have "rd h = Inr hm" using ok hm parts(1) unfolding jws_ok_def by blast
  ultimately show ?thesis using that [OF parts(4)] dec parts(3) by blast
qed

text \<open>The identifier of a client is bound to the leaf it was built from.\<close>

lemma x509_client_binding:
  assumes "x509_client_id L X (leaf # chain) variant = Inr i" and "cert_to_der X leaf = Inr der"
  shows "x509_binding L (cl_certs X) variant (get_id i) leaf der"
proof (cases variant)
  case VariantHash
  with x509_client_id_Inr [OF assms(1)] assms(2) show ?thesis by (auto simp: x509_binding_def)
next
  case VariantSanDns
  with x509_client_id_Inr [OF assms(1)] obtain names where
    "cert_dns_names (cl_certs X) leaf = get_id i # names" by auto
  then have "get_id i \<in> set (cert_dns_names (cl_certs X) leaf)" by simp
  with VariantSanDns show ?thesis by (simp add: x509_binding_def cert_dns_names_iff)
qed

text \<open>
  A wallet accepts what an X.509 client signs. The token that a client built from a
  certificate chain signs for a request passes the check of the wallet when the request carries the
  client's identifier, the wallet lists the signer's algorithm and the key of the leaf verifies what the
  signer signs; the identifier must not itself begin with the prefix, which the wallet would strip.
\<close>

lemma x509_client_accepted:
  assumes "jws_ok L X (x509_headers_from_slice (cl_certs X))" and "certs_ok X"
    and new: "x509_client_new L X (leaf # chain) signer variant = Inr c"
    and jwt: "x509_client_jwt L X c body w = (Inr jwt, w')"
    and cid: "aro_client_id r = xc_id c"
    and pre: "strip_prefix (string_of_prefix (variant_to_prefix variant) @ '':'') (get_id (xc_id c)) = None"
    and alg: "signer_alg signer = Inr alg" "alg \<in> set algs"
      "obj_get (request_object_signing_algs_param L) (wm_object m) = Some (Inr algs)"
    and key: "from_spki V (cert_spki (cl_certs X) leaf) alg = Inr key"
      "signs_for signer (\<lambda>p sg. verify_signature V key p sg = Inr ())"
  shows "x509_validate L (cl_certs X) V variant m r jwt roots = Inr ()"
proof (rule x509_accepts_validate)
  from x509_client_new_built [OF new] have c: "xc_x5c c = leaf # chain" "xc_signer c = signer"
    "x509_client_id L X (leaf # chain) variant = Inr (xc_id c)" by auto
  from jwt c alg(1) obtain der ders where x5c: "cert_to_der X leaf = Inr der"
    and gen: "generate_jwt (url_safe_no_pad L) (header_ser X) (request_ser X)
       (JObject [(''alg'', JString alg), (''typ'', JString MIME_TYPE_OAUTH_REQ_JWT_SHORT),
                 (''x5c'', JArray (map JString (b64_encode (standard_padded X) der # ders)))]) body signer w =
       (Inr jwt, w')"
    by (auto simp: x509_client_jwt_def io_simps res_simps list_all2_Cons1)
  have "header_members [(''alg'', JString alg), (''typ'', JString MIME_TYPE_OAUTH_REQ_JWT_SHORT),
      (''x5c'', JArray (map JString (b64_encode (standard_padded X) der # ders)))]"
    by (simp add: header_members_def list_all_iff)
  with assms(1) obtain h p hb sg where
    "split_jws L jwt = Inr (h, p, b64_encode (url_safe_no_pad L) sg)"
    "b64_decode (url_safe_no_pad L) h = Inr hb"
    "x509_headers_from_slice (cl_certs X) hb = Inr [(''alg'', JString alg),
       (''typ'', JString MIME_TYPE_OAUTH_REQ_JWT_SHORT),
       (''x5c'', JArray (map JString (b64_encode (standard_padded X) der # ders)))]"
    "b64_decode (url_safe_no_pad L) (b64_encode (url_safe_no_pad L) sg) = Inr sg"
    "signer_sign signer (h @ ''.'' @ p) w = (Inr sg, w')"
    using gen by (rule jws_parts)
  moreover have "verify_signature V key (h @ ''.'' @ p) sg = Inr ()"
    using key(2) calculation(5) unfolding signs_for_def by blast
  moreover have "cert_from_der (cl_certs X) der = Inr leaf" and
    "b64_decode (standard_no_pad (cl_certs X))
       (trim_end_matches CHR ''='' (b64_encode (standard_padded X) der)) = Inr der"
    using assms(2) x5c unfolding certs_ok_def by blast+
  moreover have "x509_binding L (cl_certs X) variant (client_id_source variant r) leaf der"
    using x509_client_binding [OF c(3) x5c] cid pre by (simp add: client_id_source_def)
  ultimately show "x509_accepts L (cl_certs X) V variant m (client_id_source variant r) jwt"
    unfolding x509_accepts_def using alg key(1)
    by (intro exI conjI) (assumption | simp)+
qed

text \<open>
  A wallet accepts what a DID client signs. The token that a client built for a verification
  method signs passes the check of the wallet when the request carries the client's identifier, the
  wallet lists the signer's algorithm and trusts the DID, the method resolves to a key that verifies what
  the signer signs, and the DID has no fragment of its own (the client splits the method at its last
  hash sign, the wallet at its first).
\<close>

lemma did_client_accepted:
  assumes "jws_ok L X (headers_from_slice D)"
    and new: "did_client_new D vm signer w0 = (Inr c, w1)"
    and jwt: "did_client_jwt L X c body w = (Inr jwt, w')"
    and cid: "aro_client_id r = dc_id c"
    and frag: "CHR ''#'' \<notin> set (get_id (dc_id c))"
    and trusted: "pred_option (\<lambda>dids. get_id (dc_id c) \<in> set dids) trusted"
    and alg: "signer_alg signer = Inr alg" "alg \<in> set algs"
      "obj_get (request_object_signing_algs_param L) (wm_object m) = Some (Inr algs)"
    and key: "fetch_public_jwk D (Some vm) v = (Inr jwk, v')"
      "signs_for signer (\<lambda>p sg. \<not> isl (decode_verify D (p @ ''.'' @ b64_encode (url_safe_no_pad L) sg) jwk))"
  shows "verify_with_resolver L D m r jwt trusted v = (Inr (), v')"
proof -
  from did_client_new_built [OF new] obtain f where c: "dc_vm c = vm" "dc_signer c = signer"
    and vm: "vm = get_id (dc_id c) @ ''#'' @ f" by auto
  from jwt c alg(1) have gen: "generate_jwt (url_safe_no_pad L) (header_ser X) (request_ser X)
       (JObject [(''alg'', JString alg), (''kid'', JString vm),
                 (''typ'', JString MIME_TYPE_OAUTH_REQ_JWT_SHORT)]) body signer w = (Inr jwt, w')"
    by (auto simp: did_client_jwt_def io_simps)
  have "header_members [(''alg'', JString alg), (''kid'', JString vm),
      (''typ'', JString MIME_TYPE_OAUTH_REQ_JWT_SHORT)]"
    by (simp add: header_members_def)
  with assms(1) obtain h p hb sg where parts: "jwt = h @ ''.'' @ p @ ''.'' @ b64_encode (url_safe_no_pad L) sg"
    "split_jws L jwt = Inr (h, p, b64_encode (url_safe_no_pad L) sg)"
    "b64_decode (url_safe_no_pad L) h = Inr hb"
    "headers_from_slice D hb = Inr [(''alg'', JString alg), (''kid'', JString vm),
                 (''typ'', JString MIME_TYPE_OAUTH_REQ_JWT_SHORT)]"
    "signer_sign signer (h @ ''.'' @ p) w = (Inr sg, w')"
    using gen by (rule jws_parts)
  have "\<not> isl (decode_verify D ((h @ ''.'' @ p) @ ''.'' @ b64_encode (url_safe_no_pad L) sg) jwk)"
    using key(2) parts(5) unfolding signs_for_def by blast
  then obtain claims where "decode_verify D jwt jwk = Inr claims"
    using parts(1) not_isl_Inr by fastforce
  moreover have "did_header L D jwt alg vm"
    unfolding did_header_def using parts(2,3,4) by fastforce
  ultimately show ?thesis
    unfolding verify_with_resolver_iff cid using frag trusted alg(2,3) key(1) unfolding vm by blast
qed

section \<open>A client and a wallet for evaluation\<close>

text \<open>
  Headers are printed a member to a line, as text or as a list of texts, when what is printed
  reads back; a signature is the payload reversed, a certificate is its bytes, and its key and its only
  name are the same bytes.
\<close>

definition ex_header_read :: "string \<Rightarrow> anyhow + json_map" where
  "ex_header_read s = collect_res (\<lambda>line.
     case split_once CHR ''='' line of
       Some (k, v) \<Rightarrow> Inr (k, JString v)
     | None \<Rightarrow>
         (case split_once CHR ''['' line of
            Some (k, v) \<Rightarrow> Inr (k, JArray (map JString (split_all CHR '','' v)))
          | None \<Rightarrow> Inl (Msg ''not a header''))) (split_all CHR '';'' s)"

fun ex_member_print :: "string \<times> json \<Rightarrow> string" where
  "ex_member_print (k, JString s) = k @ ''='' @ s"
| "ex_member_print (k, JArray xs) =
     k @ ''['' @ join_str '','' (map (\<lambda>j. case j of JString s \<Rightarrow> s | _ \<Rightarrow> []) xs)"
| "ex_member_print (k, _) = k"

definition ex_header_print :: "json \<Rightarrow> anyhow + string" where
  "ex_header_print j =
     (case j of
        JObject m \<Rightarrow>
          (let s = join_str '';'' (map ex_member_print m)
           in if ex_header_read s = Inr m then Inr s else Inl (Msg ''not printed''))
      | _ \<Rightarrow> Inl (Msg ''not an object''))"

definition ex_client_lib :: "(string, string) client_lib" where
  "ex_client_lib = \<lparr>
     cl_certs = \<lparr>x509_headers_from_slice = ex_header_read, standard_no_pad = hex64,
       cert_from_der = Inr, cert_sans = (\<lambda>c. [Inr [DnsName c]]), cert_spki = (\<lambda>c. c), sha256 = (\<lambda>s. s)\<rparr>,
     cert_to_der = Inr, standard_padded = hex64,
     header_ser = \<lparr>to_value = Inr, to_string = ex_header_print\<rparr>,
     request_ser = \<lparr>to_value = (\<lambda>r. Inr JNull), to_string = (\<lambda>r. Inr ''{}'')\<rparr>\<rparr>"

definition ex_did_lib :: "(nat, string) did_lib" where
  "ex_did_lib = \<lparr>headers_from_slice = ex_header_read,
     fetch_public_jwk = (\<lambda>k n. (Inr ''key'', Suc n)),
     decode_verify = (\<lambda>jwt jwk. case rsplit_once CHR ''.'' jwt of
        Some (payload, sg) \<Rightarrow>
          if b64_encode hex64 (rev payload) = sg then Inr JNull else Inl (Msg ''invalid signature'')
      | None \<Rightarrow> Inl (Msg ''not a token''))\<rparr>"

definition ex_signer :: "(nat, string) signer" where
  "ex_signer = \<lparr>signer_alg = Inr ''ES256'', signer_jwk = Inr ''key'',
     signer_sign = (\<lambda>p n. (Inr (rev p), Suc n))\<rparr>"

definition ex_verifier :: "(string, string) spki_verifier" where
  "ex_verifier = \<lparr>from_spki = (\<lambda>spki alg. Inr spki),
     verify_signature = (\<lambda>key p sg. if sg = rev p then Inr () else Inl (Msg ''invalid signature''))\<rparr>"

lemma ex_jws_ok: "jws_ok ex_jwt_lib ex_client_lib ex_header_read"
proof -
  have "m = m'" if "ex_header_print (JObject m) = Inr s" "ex_header_read s = Inr m'" for m m' s
    using that by (auto simp: ex_header_print_def Let_def split: if_splits)
  moreover have "\<exists>m'. ex_header_read s = Inr m'" if "ex_header_print (JObject m) = Inr s" for m s
    using that by (auto simp: ex_header_print_def Let_def split: if_splits)
  ultimately have "ex_header_read s = Inr m" if "ex_header_print (JObject m) = Inr s" for m s
    using that by metis
  moreover have "base64_ok (url_safe_no_pad ex_jwt_lib)"
    using param_lib_ok_ex_jwt by (simp add: param_lib_ok_def)
  moreover have "split_jws ex_jwt_lib = split_dots"
    by (simp add: ex_jwt_lib_def request_lib.defs jwt_lib.defs)
  ultimately show ?thesis by (simp add: jws_ok_def ex_client_lib_def split_dots_parts [simplified])
qed

lemma ex_url_safe: "url_safe_no_pad ex_jwt_lib = hex64"
  by (simp add: ex_jwt_lib_def std_request_lib_def std_param_lib_def request_lib.defs)

lemma ex_wallet_algs:
  "obj_get (request_object_signing_algs_param ex_jwt_lib) (wm_object ex_wallet_metadata) = Some (Inr [''ES256''])"
  by code_simp

definition ex_did_client :: "(nat, string) did_client" where
  "ex_did_client = \<lparr>dc_id = ClientId ''did:example:1'' DecentralizedIdentifier,
     dc_vm = ''did:example:1#k'', dc_signer = ex_signer\<rparr>"

lemma ex_did_client_new: "did_client_new ex_did_lib ''did:example:1#k'' ex_signer 0 = (Inr ex_did_client, 1)"
proof -
  have "rsplit_once CHR ''#'' ''did:example:1#k'' = Some (''did:example:1'', ''k'')" by code_simp
  moreover have "client_id_new ''decentralized_identifier:did:example:1'' =
      Inr (ClientId ''did:example:1'' DecentralizedIdentifier)" by code_simp
  ultimately show ?thesis
    by (simp add: did_client_new_def io_run_simps ex_did_lib_def ex_signer_def ex_did_client_def)
qed

lemma ex_did_signs:
  "signs_for ex_signer (\<lambda>p sg. \<not> isl (decode_verify ex_did_lib (p @ ''.'' @
     b64_encode (url_safe_no_pad ex_jwt_lib) sg) ''key''))"
proof -
  have "rsplit_once CHR ''.'' (p @ ''.'' @ b64_encode hex64 sg) = Some (p, b64_encode hex64 sg)" for p sg
    using base64_ok_hex64 by (simp add: rsplit_once_Some_iff base64_ok_def)
  then show ?thesis
    by (simp add: signs_for_def ex_signer_def ex_did_lib_def ex_url_safe)
qed

definition ex_x509_client :: "(nat, string, string) x509_client" where
  "ex_x509_client = \<lparr>xc_id = ClientId (b64_encode hex64 ''leaf'') X509Hash, xc_x5c = [''leaf'', ''root''],
     xc_signer = ex_signer, xc_variant = VariantHash\<rparr>"

lemma ex_x509_client_new:
  "x509_client_new ex_jwt_lib ex_client_lib [''leaf'', ''root''] ex_signer VariantHash = Inr ex_x509_client"
proof -
  have "x509_client_id ex_jwt_lib ex_client_lib [''leaf'', ''root''] VariantHash =
      Inr (ClientId (b64_encode hex64 ''leaf'') X509Hash)"
    by code_simp
  then show ?thesis by (simp add: x509_client_new_def ex_x509_client_def)
qed

lemma ex_certs_ok: "certs_ok ex_client_lib"
proof -
  have "trim_end_matches CHR ''='' (b64_encode hex64 der) = b64_encode hex64 der" for der
    using base64_ok_hex64 unfolding base64_ok_def
    by (intro trim_end_matches_noop) (metis last_in_set)
  then show ?thesis
    using base64_ok_hex64 by (simp add: certs_ok_def ex_client_lib_def base64_ok_def)
qed

end
