(* ===== verification/Request_Builder.thy ===== *)
theory Request_Builder
  imports Clients
begin

text \<open>
  \<open>src/src/verifier/mod.rs\<close>, \<open>request_builder.rs\<close> and
  \<open>by_reference.rs\<close>: a verifier, its builder, and the builder of authorization
  requests with the checks it makes against the metadata of the wallet.
\<close>

section \<open>The verifier\<close>

record 'w verifier =
  v_client :: "'w client"
  v_default_request_params :: untyped_object
  v_submission_endpoint :: "url option"

record 'w verifier_builder =
  vb_client :: "'w client option"
  vb_default_request_params :: untyped_object
  vb_submission_endpoint :: "url option"

definition verifier_builder :: "'w verifier_builder" where
  "verifier_builder =
     \<lparr>vb_client = None, vb_default_request_params = [], vb_submission_endpoint = None\<rparr>"

definition verifier_build :: "'w verifier_builder \<Rightarrow> anyhow + 'w verifier" where
  "verifier_build self =
     (case vb_client self of
        None \<Rightarrow> Inl (Msg ''client is required, see `with_client`'')
      | Some client \<Rightarrow>
          Inr \<lparr>v_client = client, v_default_request_params = vb_default_request_params self,
               v_submission_endpoint = vb_submission_endpoint self\<rparr>)"

definition with_default_request_parameter ::
  "'a typed_parameter \<Rightarrow> 'a \<Rightarrow> 'w verifier_builder \<Rightarrow> 'w verifier_builder" where
  "with_default_request_parameter T t self =
     self\<lparr>vb_default_request_params := snd (obj_insert T t (vb_default_request_params self))\<rparr>"

definition with_client :: "'w client \<Rightarrow> 'w verifier_builder \<Rightarrow> 'w verifier_builder" where
  "with_client client self = self\<lparr>vb_client := Some client\<rparr>"

definition with_submission_endpoint :: "url \<Rightarrow> 'w verifier_builder \<Rightarrow> 'w verifier_builder" where
  "with_submission_endpoint endpoint self = self\<lparr>vb_submission_endpoint := Some endpoint\<rparr>"

section \<open>The builder of requests\<close>

datatype by_reference = ByReferenceFalse | ByReferenceTrue request_reference

definition default_by_reference :: by_reference where
  "default_by_reference = ByReferenceFalse"

datatype request_type = PlainType | SignedJwtType by_reference

record 'w request_builder =
  rb_presentation_definition :: "presentation_definition option"
  rb_dcql :: "dcql option"
  rb_request_parameters :: untyped_object
  rb_verifier :: "'w verifier"

definition build_authorization_request :: "'w verifier \<Rightarrow> 'w request_builder" where
  "build_authorization_request verifier =
     \<lparr>rb_presentation_definition = None, rb_dcql = None,
      rb_request_parameters = v_default_request_params verifier, rb_verifier = verifier\<rparr>"

definition with_presentation_definition ::
  "presentation_definition \<Rightarrow> 'w request_builder \<Rightarrow> 'w request_builder" where
  "with_presentation_definition pd self = self\<lparr>rb_presentation_definition := Some pd\<rparr>"

definition with_dcql :: "dcql \<Rightarrow> 'w request_builder \<Rightarrow> 'w request_builder" where
  "with_dcql q self = self\<lparr>rb_dcql := Some q\<rparr>"

definition with_request_parameter ::
  "'a typed_parameter \<Rightarrow> 'a \<Rightarrow> 'w request_builder \<Rightarrow> 'w request_builder" where
  "with_request_parameter T t self =
     self\<lparr>rb_request_parameters := snd (obj_insert T t (rb_request_parameters self))\<rparr>"

subsection \<open>Checking a query\<close>

text \<open>The loop over the claims of a credential collects their identifiers in a set.\<close>

fun claim_ids_loop :: "string list \<Rightarrow> dcql_claim list \<Rightarrow> core_error + string list" where
  "claim_ids_loop claim_ids [] = Inr claim_ids"
| "claim_ids_loop claim_ids (claim # claims) =
     (case claim_id claim of
        Some i \<Rightarrow> claim_ids_loop (List.insert (id_as_str i) claim_ids) claims
      | None \<Rightarrow> Inl (internal (Msg ''Claim id cannot be empty if Claim set is given'')))"

definition validate_credential :: "dcql_credential \<Rightarrow> core_error + unit" where
  "validate_credential cred =
     (case (cred_claims cred, cred_claim_sets cred) of
        (Some claims, Some _) \<Rightarrow>
          and_then (claim_ids_loop [] (nev_list claims)) (\<lambda>claim_ids.
            if length claim_ids \<noteq> length (nev_list claims) then
              Inl (internal (Msg ''Claim IDs must be unique in the Credential query''))
            else Inr ())
      | (None, Some _) \<Rightarrow> Inl (internal (Msg ''Claim set cannot be given if Claims is empty''))
      | _ \<Rightarrow> Inr ())"

fun validate_credentials :: "dcql_credential list \<Rightarrow> core_error + unit" where
  "validate_credentials [] = Inr ()"
| "validate_credentials (cred # creds) =
     and_then (validate_credential cred) (\<lambda>_. validate_credentials creds)"

definition validate_dcql :: "dcql \<Rightarrow> core_error + unit" where
  "validate_dcql q =
     (let creds = nev_list (dcql_credentials q);
          cred_ids = remdups (map (\<lambda>v. id_as_str (cred_id v)) creds)
      in if length cred_ids \<noteq> length creds then
           Inl (internal (Msg ''Credential IDs must be unique in the dcql query''))
         else validate_credentials creds)"

definition validate_presentation_definition :: "presentation_definition \<Rightarrow> core_error + unit" where
  "validate_presentation_definition pd =
     (if pd_id pd = [] then
        Inl (internal (Msg (''presentation definition '' @ quoted ''id'' @ '' cannot be empty'')))
      else if pd_input_descriptors pd = [] then
        Inl (internal (Msg (quoted ''input_descriptors'' @
          '' of presentation definition cannot be empty'')))
      else Inr ())"

subsection \<open>Checking the response type and mode\<close>

definition SUBJECT_SYNTAX_REQUIRED :: "string \<Rightarrow> string" where
  "SUBJECT_SYNTAX_REQUIRED p = quoted p @
     '' is required while building an authorization request with '' @ quoted ''vp_token id_token'' @
     '' response type''"

definition builder_validate_response_type ::
  "'z param_lib_scheme \<Rightarrow> untyped_object \<Rightarrow> wallet_metadata \<Rightarrow> core_error + unit" where
  "builder_validate_response_type L params metadata =
     and_then (map_err error_from_anyhow
       (ok_or (Msg ''response type is required, see `with_request_parameter`'')
         (obj_get (response_type_param L) params))) (\<lambda>r.
     and_then (map_err (\<lambda>e. error_from_anyhow (Context ''error occurred when retrieving response type'' e)) r)
       (\<lambda>response_type.
     if response_type \<notin> set (wm_response_types_supported metadata) then
       Inl (internal (Msg (''response type = '' @ quoted (string_of_response_type response_type) @
         '' is not supported by the wallet'')))
     else if VpTokenIdToken = response_type then
       and_then (map_err error_from_anyhow
         (ok_or (Msg (SUBJECT_SYNTAX_REQUIRED ''client_metadata'')) (obj_get (client_metadata_param L) params)))
         (\<lambda>r.
       and_then (map_err (\<lambda>e. error_from_anyhow (Context
           (''error occurred when retrieving '' @ quoted ''client_metadata'') e)) r) (\<lambda>client_metadata.
       and_then (map_err error_from_anyhow
         (ok_or (Msg (SUBJECT_SYNTAX_REQUIRED ''subject_syntax_types_supported''))
           (obj_get (subject_syntax_types_param L) (cm_object client_metadata)))) (\<lambda>r.
       and_then (map_err (\<lambda>e. error_from_anyhow (Context
           (''error occurred when retrieving '' @ quoted ''subject_syntax_types_supported'') e)) r)
         (\<lambda>subject_syntax_types_supported.
       case List.find (\<lambda>s. s \<notin> set (wm_subject_syntax_types_supported metadata))
           subject_syntax_types_supported of
         Some unsupported \<Rightarrow> Inl (internal (Msg (''subject syntax type = '' @ quoted unsupported @
             '' is not supported by the wallet'')))
       | None \<Rightarrow> Inr ()))))
     else Inr ()))"

definition endpoint_required :: "response_mode \<Rightarrow> core_error" where
  "endpoint_required response_mode =
     internal (Msg (''submission endpoint is required for '' @ quoted (string_of_mode response_mode) @
       '' response mode''))"

definition build_helper ::
  "'z param_lib_scheme \<Rightarrow> url option \<Rightarrow> request_type \<Rightarrow> untyped_object \<Rightarrow> core_error + untyped_object" where
  "build_helper L submission_endpoint request_type params =
     and_then (map_err (\<lambda>e. error_from_anyhow (Context ''error occurred when retrieving response mode'' e))
       (transpose_opt (obj_get (response_mode_param L) params))) (\<lambda>m.
     and_then (ok_or (internal (Msg (quoted ''response_mode'' @ '' parameter is missed''))) m)
       (\<lambda>response_mode.
     case response_mode of
       UnsupportedMode r \<Rightarrow> Inl (internal (Msg (''unsupported response_mode: '' @ r)))
     | DirectPost \<Rightarrow>
         map_ok (\<lambda>response_uri. snd (obj_insert (response_uri_param L) (ResponseUri response_uri) params))
           (ok_or (endpoint_required response_mode) submission_endpoint)
     | DirectPostJwt \<Rightarrow>
         map_ok (\<lambda>response_uri. snd (obj_insert (response_uri_param L) (ResponseUri response_uri) params))
           (ok_or (endpoint_required response_mode) submission_endpoint)
     | Fragment \<Rightarrow>
         map_ok (\<lambda>response_uri. snd (obj_insert (redirect_uri_param L) (RedirectUri response_uri) params))
           (ok_or (endpoint_required response_mode) submission_endpoint)
     | FragmentJwt \<Rightarrow>
         map_ok (\<lambda>response_uri. snd (obj_insert (redirect_uri_param L) (RedirectUri response_uri) params))
           (ok_or (endpoint_required response_mode) submission_endpoint)
     | _ \<Rightarrow>
         map_ok (\<lambda>params. snd (obj_remove (redirect_uri_param L) (snd (obj_remove (response_uri_param L) params))))
           (case request_type of
              PlainType \<Rightarrow> Inr (snd (obj_remove client_id_param params))
            | SignedJwtType _ \<Rightarrow>
                and_then (map_err (\<lambda>e. error_from_anyhow
                  (Context ''error occurred when retrieving expected origins'' e))
                  (transpose_opt (obj_get (expected_origins_param L) params))) (\<lambda>os.
                and_then (ok_or (internal (Msg (quoted ''expected_origins'' @ '' parameter is missed''))) os)
                  (\<lambda>_. Inr params)))))"

subsection \<open>Building\<close>

text \<open>The query of the builder is checked and written into the parameters.\<close>

definition insert_query ::
  "'z request_lib_scheme \<Rightarrow> dcql option \<Rightarrow> presentation_definition option \<Rightarrow> untyped_object \<Rightarrow>
     core_error + untyped_object" where
  "insert_query L q pd params =
     (case (q, pd) of
        (Some q, None) \<Rightarrow>
          and_then (validate_dcql q) (\<lambda>_.
          Inr (snd (obj_insert (dcql_param (de_dcql L) (ser_dcql L)) q params)))
      | (None, Some pd) \<Rightarrow>
          and_then (validate_presentation_definition pd) (\<lambda>_.
          Inr (snd (obj_insert (pd_param (de_pd L) (ser_pd L)) pd params)))
      | _ \<Rightarrow> Inl (internal (Msg ''either presentation definition or dcql query must be present'')))"

definition build_request_object ::
  "'z request_lib_scheme \<Rightarrow> wallet_metadata \<Rightarrow> request_type \<Rightarrow> 'w request_builder \<Rightarrow>
     core_error + request_object" where
  "build_request_object L metadata request_type self =
     (let client = v_client (rb_verifier self);
          params = snd (obj_insert client_id_param (cl_id client) (rb_request_parameters self))
      in
     and_then (insert_query L (rb_dcql self) (rb_presentation_definition self) params) (\<lambda>params.
     and_then (builder_validate_response_type L params metadata) (\<lambda>_.
     if \<not> is_client_id_prefix_supported metadata (cl_prefix client) then
       Inl (internal (Msg (''the wallet does not support the client_id_prefix '' @
         quoted (string_of_prefix (cl_prefix client)))))
     else
       and_then (build_helper L (v_submission_endpoint (rb_verifier self)) request_type params) (\<lambda>params.
       map_err (\<lambda>e. error_from_anyhow (Context
         ''unable to construct the Authorization Request from provided request parameters'' (OfError e)))
         (request_try_from L params)))))"

definition url_context :: "core_error \<Rightarrow> core_error" where
  "url_context e = error_from_anyhow (Context ''unable to generate authorization request URL'' (OfError e))"

definition request_build ::
  "'z request_lib_scheme \<Rightarrow> wallet_metadata \<Rightarrow> request_type \<Rightarrow> 'w request_builder \<Rightarrow>
     ('w, core_error, url \<times> string option) io" where
  "request_build L metadata request_type self =
     io_bind (io_lift (build_request_object L metadata request_type self)) (\<lambda>request.
     io_bind (io_lift (map_err error_from_anyhow (parsing_error_opt (authorization_endpoint_param L)
       (obj_get (authorization_endpoint_param L) (wm_object metadata))))) (\<lambda>authorization_endpoint.
     case request_type of
       PlainType \<Rightarrow>
         io_bind (io_lift (map_err url_context (request_into_url L request authorization_endpoint))) (\<lambda>u.
         io_return (u, None))
     | SignedJwtType pass_by_reference \<Rightarrow>
         io_bind (io_map_err error_from_anyhow (cl_generate_jwt (v_client (rb_verifier self)) request))
           (\<lambda>auth_req_jwt.
         let request_indirection = (case pass_by_reference of
               ByReferenceFalse \<Rightarrow> ByValueRequest auth_req_jwt
             | ByReferenceTrue rr \<Rightarrow> ByReferenceRequest rr)
         in io_bind (io_lift (map_err url_context (signed_into_url L
              \<lparr>signed_client_id = get_full_id (cl_id (v_client (rb_verifier self))),
               signed_indirection = request_indirection\<rparr> authorization_endpoint))) (\<lambda>u.
            io_return (u, Some auth_req_jwt)))))"

section \<open>What the checks decide\<close>

definition claim_keys :: "dcql_claim list \<Rightarrow> string list" where
  "claim_keys claims = map (\<lambda>c. case claim_id c of Some i \<Rightarrow> id_as_str i | None \<Rightarrow> []) claims"

definition credential_ids_ok :: "dcql_credential \<Rightarrow> bool" where
  "credential_ids_ok cred \<longleftrightarrow>
     (case cred_claim_sets cred of
        None \<Rightarrow> True
      | Some _ \<Rightarrow>
          (case cred_claims cred of
             None \<Rightarrow> False
           | Some claims \<Rightarrow>
               list_all (\<lambda>c. claim_id c \<noteq> None) (nev_list claims) \<and> distinct (claim_keys (nev_list claims))))"

definition dcql_ids_ok :: "dcql \<Rightarrow> bool" where
  "dcql_ids_ok q \<longleftrightarrow>
     distinct (map cred_id (nev_list (dcql_credentials q))) \<and>
     list_all credential_ids_ok (nev_list (dcql_credentials q))"

lemma claim_ids_loop_Inr:
  "distinct acc \<Longrightarrow> claim_ids_loop acc claims = Inr ids \<Longrightarrow>
     distinct ids \<and> set ids = set acc \<union> set (claim_keys claims)"
  by (induction acc claims rule: claim_ids_loop.induct)
    (auto simp: claim_keys_def split: option.splits)

lemma claim_ids_loop_defined:
  "list_all (\<lambda>c. claim_id c \<noteq> None) claims \<longleftrightarrow> (\<exists>ids. claim_ids_loop acc claims = Inr ids)"
  by (induction acc claims rule: claim_ids_loop.induct) (auto split: option.splits)

lemma claim_ids_loop_length:
  assumes "claim_ids_loop [] claims = Inr ids"
  shows "length ids = length claims \<longleftrightarrow> distinct (claim_keys claims)"
proof -
  have ids: "distinct ids" "set ids = set (claim_keys claims)"
    using claim_ids_loop_Inr [OF _ assms] by auto
  have "length ids = card (set (claim_keys claims))"
    using distinct_card [OF ids(1)] ids(2) by simp
  moreover have "length (claim_keys claims) = length claims" by (simp add: claim_keys_def)
  ultimately show ?thesis
    using card_distinct [of "claim_keys claims"] distinct_card [of "claim_keys claims"] by auto
qed

lemma validate_credential_iff: "validate_credential cred = Inr u \<longleftrightarrow> credential_ids_ok cred"
proof (cases "(cred_claims cred, cred_claim_sets cred)")
  case (Pair c cs)
  show ?thesis
  proof (cases "c = None \<or> cs = None")
    case True
    with Pair show ?thesis
      by (auto simp: validate_credential_def credential_ids_ok_def split: option.splits)
  next
    case False
    with Pair obtain claims sets where c: "cred_claims cred = Some claims" "cred_claim_sets cred = Some sets"
      by auto
    then show ?thesis
      using claim_ids_loop_defined [of "nev_list claims" "[]"] claim_ids_loop_length [of "nev_list claims"]
      by (auto simp: validate_credential_def credential_ids_ok_def res_simps split: if_splits)
  qed
qed

lemma validate_credentials_iff: "validate_credentials creds = Inr u \<longleftrightarrow> list_all credential_ids_ok creds"
  by (induction creds) (auto simp: res_simps validate_credential_iff)

lemma remdups_length: "length (remdups xs) = length xs \<longleftrightarrow> distinct xs"
  by (metis distinct_card distinct_remdups card_distinct length_remdups_card_conv)

lemma distinct_cred_ids:
  "distinct (map (\<lambda>v. id_as_str (cred_id v)) creds) \<longleftrightarrow> distinct (map cred_id creds)"
proof -
  have "inj id_as_str" by (metis injI dcql_id.expand)
  then show ?thesis
    by (simp add: distinct_map inj_on_def comp_def) (metis dcql_id.expand)
qed

lemma validate_dcql_decides: "validate_dcql q = Inr u \<longleftrightarrow> dcql_ids_ok q"
  using remdups_length [of "map (\<lambda>v. id_as_str (cred_id v)) (nev_list (dcql_credentials q))"]
  by (auto simp: validate_dcql_def dcql_ids_ok_def Let_def validate_credentials_iff distinct_cred_ids)

lemma validate_pd_iff:
  "validate_presentation_definition pd = Inr u \<longleftrightarrow> pd_id pd \<noteq> [] \<and> pd_input_descriptors pd \<noteq> []"
  by (auto simp: validate_presentation_definition_def)

definition wallet_accepts_type :: "'z param_lib_scheme \<Rightarrow> untyped_object \<Rightarrow> wallet_metadata \<Rightarrow> response_type \<Rightarrow> bool" where
  "wallet_accepts_type L params metadata t \<longleftrightarrow>
     obj_get (response_type_param L) params = Some (Inr t) \<and>
     t \<in> set (wm_response_types_supported metadata) \<and>
     (t = VpTokenIdToken \<longrightarrow>
        (\<exists>cm ts. obj_get (client_metadata_param L) params = Some (Inr cm) \<and>
           obj_get (subject_syntax_types_param L) (cm_object cm) = Some (Inr ts) \<and>
           set ts \<subseteq> set (wm_subject_syntax_types_supported metadata)))"

lemma builder_validate_response_type_iff:
  "builder_validate_response_type L params metadata = Inr u \<longleftrightarrow>
     (\<exists>t. wallet_accepts_type L params metadata t)"
proof (cases "\<exists>t. obj_get (response_type_param L) params = Some (Inr t)")
  case True
  then obtain t where t: "obj_get (response_type_param L) params = Some (Inr t)" by blast
  have "wallet_accepts_type L params metadata t' \<longleftrightarrow> t' = t \<and> wallet_accepts_type L params metadata t" for t'
    using t by (auto simp: wallet_accepts_type_def)
  moreover have "builder_validate_response_type L params metadata = Inr u \<longleftrightarrow>
      wallet_accepts_type L params metadata t"
  proof (cases "t = VpTokenIdToken")
    case True
    have find: "(case List.find P xs of None \<Rightarrow> Inr () | Some x \<Rightarrow> Inl (f x)) = Inr () \<longleftrightarrow>
        (\<forall>x \<in> set xs. \<not> P x)" for P and xs :: "string list" and f :: "string \<Rightarrow> core_error"
      by (auto simp: find_None_iff find_Some_iff split: option.splits)
    from True t show ?thesis
      by (auto simp: builder_validate_response_type_def wallet_accepts_type_def res_simps find subset_iff)
  next
    case False
    with t show ?thesis
      by (auto simp: builder_validate_response_type_def wallet_accepts_type_def)
  qed
  ultimately show ?thesis by blast
next
  case False
  then show ?thesis by (auto simp: builder_validate_response_type_def wallet_accepts_type_def res_simps)
qed

section \<open>What a built request holds\<close>

text \<open>A value whose JSON reads back as itself satisfies the contract of its parameter.\<close>

definition reads_back :: "'a typed_parameter \<Rightarrow> 'a \<Rightarrow> bool" where
  "reads_back T t \<longleftrightarrow>
     (case try_into_json T t of Inl _ \<Rightarrow> False | Inr v \<Rightarrow> res_ok (try_from_json T v) = Some t)"

interpretation written: typed_param T "reads_back T"
  by unfold_locales (auto simp: reads_back_def res_simps split: sum.splits)

lemma build_helper_reads_mode:
  assumes "build_helper L ep rt p = Inr p'"
  obtains m where "obj_get (response_mode_param L) p = Some (Inr m)"
proof -
  have "\<exists>m. obj_get (response_mode_param L) p = Some (Inr m)"
  proof (rule ccontr)
    assume "\<nexists>m. obj_get (response_mode_param L) p = Some (Inr m)"
    with assms show False by (auto simp: build_helper_def and_then_Inr_iff res_simps)
  qed
  with that show ?thesis by blast
qed

lemma build_helper_endpoint:
  assumes "build_helper L ep rt p = Inr p'" and "obj_get (response_mode_param L) p = Some (Inr m)"
  shows "is_dc_api m \<or> (\<exists>u. ep = Some u)"
  using assms by (cases m) (auto simp: build_helper_def res_simps is_dc_api_def)

lemma build_helper_frame:
  assumes "build_helper L ep rt p = Inr p'" and "bt_wf p"
    and "obj_get (response_mode_param L) p = Some (Inr m)"
    and "KEY T \<noteq> ''response_uri''" and "KEY T \<noteq> ''redirect_uri''"
    and "rt = PlainType \<Longrightarrow> is_dc_api m \<Longrightarrow> KEY T \<noteq> ''client_id''"
  shows "obj_get T p' = obj_get T p"
  using assms
  by (cases m; cases rt) (auto simp: build_helper_def res_simps is_dc_api_def obj_get_frame)

lemma build_helper_plain_dc_api:
  assumes "build_helper L ep PlainType p = Inr p'" and "bt_wf p"
    and "obj_get (response_mode_param L) p = Some (Inr m)" and "is_dc_api m"
  shows "obj_get client_id_param p' = None"
  using assms
  by (auto simp: build_helper_def res_simps is_dc_api_def obj_get_frame)

lemma build_helper_uri:
  assumes "build_helper L (Some u) rt p = Inr p'" and "bt_wf p"
    and "obj_get (response_mode_param L) p = Some (Inr m)"
    and "reads_back (response_uri_param L) (ResponseUri u)"
    and "reads_back (redirect_uri_param L) (RedirectUri u)"
  shows "(m = DirectPost \<or> m = DirectPostJwt \<longrightarrow> obj_get (response_uri_param L) p' = Some (Inr (ResponseUri u))) \<and>
    (m = Fragment \<or> m = FragmentJwt \<longrightarrow> obj_get (redirect_uri_param L) p' = Some (Inr (RedirectUri u)))"
  using assms
  by (auto simp: build_helper_def res_simps written.get_insert)

lemma insert_query_wf: "insert_query L q pd p = Inr p' \<Longrightarrow> bt_wf p \<Longrightarrow> bt_wf p'"
  by (auto simp: insert_query_def res_simps bt_wf_insert split: option.splits)

lemma insert_query_frame:
  assumes "insert_query L q pd p = Inr p'" and "bt_wf p"
    and "KEY T \<noteq> ''dcql_query''" and "KEY T \<noteq> ''presentation_definition''"
  shows "obj_get T p' = obj_get T p"
  using assms by (auto simp: insert_query_def res_simps obj_get_frame split: option.splits)

text \<open>The query a builder holds, when it holds exactly one, after its checks.\<close>

definition builder_query :: "'w request_builder \<Rightarrow> presentation_query option" where
  "builder_query self =
     (case (rb_dcql self, rb_presentation_definition self) of
        (Some q, None) \<Rightarrow> if dcql_ids_ok q then Some (QueryDCQL q) else None
      | (None, Some pd) \<Rightarrow>
          if pd_id pd \<noteq> [] \<and> pd_input_descriptors pd \<noteq> []
          then Some (QueryPresentationDefinition (ByValueDefinition pd)) else None
      | _ \<Rightarrow> None)"

definition query_reads_back :: "'z request_lib_scheme \<Rightarrow> presentation_query \<Rightarrow> bool" where
  "query_reads_back L q =
     (case q of
        QueryDCQL d \<Rightarrow> reads_back (dcql_param (de_dcql L) (ser_dcql L)) d
      | QueryPresentationDefinition (ByValueDefinition pd) \<Rightarrow> reads_back (pd_param (de_pd L) (ser_pd L)) pd
      | _ \<Rightarrow> True)"

lemma insert_query_builder:
  assumes "insert_query L (rb_dcql self) (rb_presentation_definition self) p = Inr p'"
  shows "\<exists>q. builder_query self = Some q"
  using assms
  by (auto simp: insert_query_def builder_query_def res_simps validate_dcql_decides validate_pd_iff
      split: option.splits)

lemma insert_query_spec:
  assumes ins: "insert_query L (rb_dcql self) (rb_presentation_definition self) p = Inr p'"
    and wf: "bt_wf p" and q: "builder_query self = Some q" and rb: "query_reads_back L q"
    and spec: "presentation_query_spec L p' q'"
  shows "q' = q"
  using assms
  by (auto simp: insert_query_def builder_query_def query_reads_back_def presentation_query_spec_def Let_def
      res_simps written.get_insert split: option.splits if_splits presentation_query.splits
      presentation_definition_indirection.splits)

lemma wallet_accepts_type_cong:
  assumes "obj_get (response_type_param L) p = obj_get (response_type_param L) p'"
    and "obj_get (client_metadata_param L) p = obj_get (client_metadata_param L) p'"
  shows "wallet_accepts_type L p md t = wallet_accepts_type L p' md t"
  using assms by (simp add: wallet_accepts_type_def)

text \<open>The parameters of a successful build, step by step.\<close>

lemma build_request_object_steps:
  assumes "build_request_object L md rt self = Inr req" and "bt_wf (rb_request_parameters self)"
  obtains p1 p2 p3 m where
    "p1 = snd (obj_insert client_id_param (cl_id (v_client (rb_verifier self))) (rb_request_parameters self))"
    "bt_wf p1"
    "insert_query L (rb_dcql self) (rb_presentation_definition self) p1 = Inr p2" "bt_wf p2"
    "\<exists>t. wallet_accepts_type L p2 md t"
    "is_client_id_prefix_supported md (cl_prefix (v_client (rb_verifier self)))"
    "build_helper L (v_submission_endpoint (rb_verifier self)) rt p2 = Inr p3"
    "obj_get (response_mode_param L) p2 = Some (Inr m)"
    "request_spec L p3 req"
proof -
  define p1 where "p1 = snd (obj_insert client_id_param (cl_id (v_client (rb_verifier self)))
    (rb_request_parameters self))"
  have wf1: "bt_wf p1" using assms(2) by (simp add: p1_def bt_wf_insert)
  from assms(1) obtain p2 p3 where steps:
    "insert_query L (rb_dcql self) (rb_presentation_definition self) p1 = Inr p2"
    "\<exists>t. wallet_accepts_type L p2 md t"
    "is_client_id_prefix_supported md (cl_prefix (v_client (rb_verifier self)))"
    "build_helper L (v_submission_endpoint (rb_verifier self)) rt p2 = Inr p3" "request_spec L p3 req"
    by (auto simp: build_request_object_def Let_def res_simps p1_def builder_validate_response_type_iff
        request_try_from_spec split: if_splits)
  from steps(4) obtain m where "obj_get (response_mode_param L) p2 = Some (Inr m)"
    by (rule build_helper_reads_mode)
  from that [OF p1_def wf1 steps(1) insert_query_wf [OF steps(1) wf1] steps(2-4) this steps(5)]
  show ?thesis .
qed

lemma plain_dc_api_refused:
  assumes wf: "bt_wf (rb_request_parameters self)"
    and mode: "obj_get (response_mode_param L) (rb_request_parameters self) = Some (Inr m)"
    and dc: "is_dc_api m"
  shows "\<exists>e. build_request_object L md PlainType self = Inl e"
proof (rule ccontr)
  assume "\<nexists>e. build_request_object L md PlainType self = Inl e"
  then obtain req where "build_request_object L md PlainType self = Inr req"
    by (cases "build_request_object L md PlainType self") auto
  then obtain p1 p2 p3 m' where p1: "p1 = snd (obj_insert client_id_param
        (cl_id (v_client (rb_verifier self))) (rb_request_parameters self))" "bt_wf p1"
    and p2: "insert_query L (rb_dcql self) (rb_presentation_definition self) p1 = Inr p2" "bt_wf p2"
    and p3: "build_helper L (v_submission_endpoint (rb_verifier self)) PlainType p2 = Inr p3"
    and spec: "request_spec L p3 req"
    using wf by (rule build_request_object_steps) auto
  have "obj_get (response_mode_param L) p2 = Some (Inr m)"
    using insert_query_frame [OF p2(1) p1(2), of "response_mode_param L"] wf mode
    by (simp add: p1(1) obj_get_insert_other)
  then have "obj_get client_id_param p3 = None"
    using build_helper_plain_dc_api [OF p3 p2(2) _ dc] by blast
  with spec show False by (simp add: request_spec_def)
qed

lemma build_request_object_sound:
  assumes ok: "build_request_object L md rt self = Inr req"
    and wf: "bt_wf (rb_request_parameters self)"
    and q: "\<And>q. builder_query self = Some q \<Longrightarrow> query_reads_back L q"
    and uri: "\<And>u. v_submission_endpoint (rb_verifier self) = Some u \<Longrightarrow>
      reads_back (response_uri_param L) (ResponseUri u) \<and> reads_back (redirect_uri_param L) (RedirectUri u)"
  shows "builder_query self = Some (aro_presentation_query req)"
    and "aro_client_id req = cl_id (v_client (rb_verifier self))"
    and "obj_get (response_mode_param L) (rb_request_parameters self) = Some (Inr (aro_response_mode req))"
    and "wallet_accepts_type L (rb_request_parameters self) md (aro_response_type req)"
    and "is_client_id_prefix_supported md (cl_prefix (v_client (rb_verifier self)))"
    and "aro_return_uri req = (if is_dc_api (aro_response_mode req) then None
      else v_submission_endpoint (rb_verifier self))"
proof -
  obtain p1 p2 p3 m where p1: "p1 = snd (obj_insert client_id_param
        (cl_id (v_client (rb_verifier self))) (rb_request_parameters self))" "bt_wf p1"
    and p2: "insert_query L (rb_dcql self) (rb_presentation_definition self) p1 = Inr p2" "bt_wf p2"
    and accepted: "\<exists>t. wallet_accepts_type L p2 md t"
    and pre: "is_client_id_prefix_supported md (cl_prefix (v_client (rb_verifier self)))"
    and p3: "build_helper L (v_submission_endpoint (rb_verifier self)) rt p2 = Inr p3"
    and mode: "obj_get (response_mode_param L) p2 = Some (Inr m)"
    and spec: "request_spec L p3 req"
    using ok wf by (rule build_request_object_steps)
  note f1 = obj_get_insert_other [OF wf, of client_id_param _ "cl_id (v_client (rb_verifier self))", folded p1(1)]
  note f2 = insert_query_frame [OF p2(1) p1(2)]
  note f3 = build_helper_frame [OF p3 p2(2) mode]
  show "is_client_id_prefix_supported md (cl_prefix (v_client (rb_verifier self)))" by fact
  show q': "builder_query self = Some (aro_presentation_query req)"
  proof -
    obtain q where q1: "builder_query self = Some q" using insert_query_builder [OF p2(1)] by blast
    have "presentation_query_spec L p2 q' = presentation_query_spec L p3 q'" for q'
      by (rule presentation_query_spec_cong) (simp_all add: f3)
    then have "presentation_query_spec L p2 (aro_presentation_query req)"
      using spec by (simp add: request_spec_def)
    from insert_query_spec [OF p2(1) p1(2) q1 q [OF q1] this] q1 show ?thesis by simp
  qed
  have nodc: "\<not> (rt = PlainType \<and> is_dc_api m)"
    using build_helper_plain_dc_api [OF _ p2(2) mode] p3 spec by (auto simp: request_spec_def)
  have "obj_get client_id_param p1 = Some (Inr (cl_id (v_client (rb_verifier self))))"
    unfolding p1(1) using wf by (rule client_id_p.get_insert) simp
  then have "obj_get client_id_param p3 = Some (Inr (cl_id (v_client (rb_verifier self))))"
    using f2 [of client_id_param] f3 [of client_id_param] nodc by auto
  with spec show "aro_client_id req = cl_id (v_client (rb_verifier self))" by (simp add: request_spec_def)
  have m: "obj_get (response_mode_param L) p3 = Some (Inr m)" using f3 [of "response_mode_param L"] mode by simp
  then have m_eq: "aro_response_mode req = m" using spec by (auto simp: request_spec_def)
  have "obj_get (response_mode_param L) p3 = obj_get (response_mode_param L) (rb_request_parameters self)"
    using f1 [of "response_mode_param L"] f2 [of "response_mode_param L"] f3 [of "response_mode_param L"] by simp
  with m m_eq show "obj_get (response_mode_param L) (rb_request_parameters self) =
      Some (Inr (aro_response_mode req))" by simp
  show "wallet_accepts_type L (rb_request_parameters self) md (aro_response_type req)"
  proof -
    from accepted obtain t where t: "wallet_accepts_type L p2 md t" by blast
    have "obj_get (response_type_param L) p2 = Some (Inr (aro_response_type req))"
      using f3 [of "response_type_param L"] spec by (simp add: request_spec_def)
    with t have "wallet_accepts_type L p2 md (aro_response_type req)"
      by (auto simp: wallet_accepts_type_def)
    then show ?thesis
      using wallet_accepts_type_cong [of L p2 "rb_request_parameters self" md "aro_response_type req"]
        f1 [of "response_type_param L"] f2 [of "response_type_param L"]
        f1 [of "client_metadata_param L"] f2 [of "client_metadata_param L"] by simp
  qed
  show "aro_return_uri req = (if is_dc_api (aro_response_mode req) then None
      else v_submission_endpoint (rb_verifier self))"
  proof (cases "is_dc_api m")
    case True
    with spec m_eq show ?thesis by (auto simp: request_spec_def return_uri_spec_def is_dc_api_def)
  next
    case False
    then obtain u where u: "v_submission_endpoint (rb_verifier self) = Some u"
      using build_helper_endpoint [OF p3 mode] by blast
    from build_helper_uri [OF p3 [unfolded u] p2(2) mode] uri [OF u]
    have "(m = DirectPost \<or> m = DirectPostJwt \<longrightarrow> obj_get (response_uri_param L) p3 = Some (Inr (ResponseUri u))) \<and>
      (m = Fragment \<or> m = FragmentJwt \<longrightarrow> obj_get (redirect_uri_param L) p3 = Some (Inr (RedirectUri u)))"
      by blast
    with False spec m_eq u show ?thesis
      by (cases m) (auto simp: request_spec_def return_uri_spec_def is_dc_api_def)
  qed
qed

lemma request_build_Inr:
  assumes "request_build L md rt self w = (Inr (u, jwt), w')"
  obtains req endpoint where "build_request_object L md rt self = Inr req"
    "obj_get (authorization_endpoint_param L) (wm_object md) = Some (Inr endpoint)"
    "case rt of
       PlainType \<Rightarrow> jwt = None \<and> w' = w \<and> request_into_url L req endpoint = Inr u
     | SignedJwtType br \<Rightarrow>
         (\<exists>j. jwt = Some j \<and> cl_generate_jwt (v_client (rb_verifier self)) req w = (Inr j, w') \<and>
            signed_into_url L \<lparr>signed_client_id = get_full_id (cl_id (v_client (rb_verifier self))),
              signed_indirection = (case br of ByReferenceFalse \<Rightarrow> ByValueRequest j
                | ByReferenceTrue rr \<Rightarrow> ByReferenceRequest rr)\<rparr> endpoint = Inr u)"
proof -
  have "\<exists>req endpoint. build_request_object L md rt self = Inr req \<and>
    obj_get (authorization_endpoint_param L) (wm_object md) = Some (Inr endpoint) \<and>
    (case rt of
       PlainType \<Rightarrow> jwt = None \<and> w' = w \<and> request_into_url L req endpoint = Inr u
     | SignedJwtType br \<Rightarrow>
         (\<exists>j. jwt = Some j \<and> cl_generate_jwt (v_client (rb_verifier self)) req w = (Inr j, w') \<and>
            signed_into_url L \<lparr>signed_client_id = get_full_id (cl_id (v_client (rb_verifier self))),
              signed_indirection = (case br of ByReferenceFalse \<Rightarrow> ByValueRequest j
                | ByReferenceTrue rr \<Rightarrow> ByReferenceRequest rr)\<rparr> endpoint = Inr u))"
    using assms
    by (cases rt) (auto simp: request_build_def io_simps res_simps Let_def split: by_reference.splits)
  with that show ?thesis by blast
qed

section \<open>Properties\<close>

text \<open>
  C13: the check of a query before it is sent passes exactly when the identifiers of its
  credentials are distinct and every credential with claim sets has claims, all with identifiers and
  all distinct.
\<close>

theorem dcql_query_check: "validate_dcql q = Inr () \<longleftrightarrow> dcql_ids_ok q"
  by (rule validate_dcql_decides)

text \<open>
  C12: what the builder returns is what was asked for and what the wallet supports. The request
  holds the one query of the builder, checked; the identifier of the client; the response mode and a
  response type that were set; the submission endpoint as its return URI unless it goes through the
  Digital Credentials API; and a plain request becomes the URL itself, a signed one a token of the client
  and a URL that carries it or refers to it.
\<close>

theorem built_requests:
  assumes "request_build L md rt self w = (Inr (u, jwt), w')"
    and "bt_wf (rb_request_parameters self)"
    and "\<And>q. builder_query self = Some q \<Longrightarrow> query_reads_back L q"
    and "\<And>e. v_submission_endpoint (rb_verifier self) = Some e \<Longrightarrow>
      reads_back (response_uri_param L) (ResponseUri e) \<and> reads_back (redirect_uri_param L) (RedirectUri e)"
  shows "\<exists>req endpoint.
    builder_query self = Some (aro_presentation_query req) \<and>
    aro_client_id req = cl_id (v_client (rb_verifier self)) \<and>
    is_client_id_prefix_supported md (cl_prefix (v_client (rb_verifier self))) \<and>
    obj_get (response_mode_param L) (rb_request_parameters self) = Some (Inr (aro_response_mode req)) \<and>
    wallet_accepts_type L (rb_request_parameters self) md (aro_response_type req) \<and>
    aro_return_uri req = (if is_dc_api (aro_response_mode req) then None
      else v_submission_endpoint (rb_verifier self)) \<and>
    obj_get (authorization_endpoint_param L) (wm_object md) = Some (Inr endpoint) \<and>
    (case rt of
       PlainType \<Rightarrow> jwt = None \<and> w' = w \<and> request_into_url L req endpoint = Inr u
     | SignedJwtType br \<Rightarrow>
         (\<exists>j. jwt = Some j \<and> cl_generate_jwt (v_client (rb_verifier self)) req w = (Inr j, w') \<and>
            signed_into_url L \<lparr>signed_client_id = get_full_id (cl_id (v_client (rb_verifier self))),
              signed_indirection = (case br of ByReferenceFalse \<Rightarrow> ByValueRequest j
                | ByReferenceTrue rr \<Rightarrow> ByReferenceRequest rr)\<rparr> endpoint = Inr u))"
proof -
  obtain req endpoint where req: "build_request_object L md rt self = Inr req"
    and rest: "obj_get (authorization_endpoint_param L) (wm_object md) = Some (Inr endpoint)"
    "case rt of
       PlainType \<Rightarrow> jwt = None \<and> w' = w \<and> request_into_url L req endpoint = Inr u
     | SignedJwtType br \<Rightarrow>
         (\<exists>j. jwt = Some j \<and> cl_generate_jwt (v_client (rb_verifier self)) req w = (Inr j, w') \<and>
            signed_into_url L \<lparr>signed_client_id = get_full_id (cl_id (v_client (rb_verifier self))),
              signed_indirection = (case br of ByReferenceFalse \<Rightarrow> ByValueRequest j
                | ByReferenceTrue rr \<Rightarrow> ByReferenceRequest rr)\<rparr> endpoint = Inr u)"
    using assms(1) by (rule request_build_Inr)
  note sound = build_request_object_sound [OF req assms(2-4)]
  from sound rest show ?thesis by blast
qed

text \<open>A verifier behind a redirect URI and the request it builds for the wallet of the example.\<close>

definition ex_redirect_client :: "nat client" where
  "ex_redirect_client = redirect_uri_client_client (RedirectUriClient (ClientId ''https://v.example'' RedirectUriPrefix))"

definition ex_builder :: "string \<Rightarrow> nat request_builder" where
  "ex_builder mode = with_dcql ex_dcql (build_authorization_request
     \<lparr>v_client = ex_redirect_client,
      v_default_request_params = bt_of_list
        [(''client_metadata'', JObject []), (''nonce'', JString ''n-1''),
         (''response_mode'', JString mode), (''response_type'', JString ''vp_token'')],
      v_submission_endpoint = Some (Url ''https://v.example/submit'')\<rparr>)"

lemma built_requests_witness:
  "\<exists>u. request_build std_request_lib ex_wallet_metadata PlainType (ex_builder ''direct_post'') 0 = (Inr (u, None), 0) \<and>
     is_client_id_prefix_supported ex_wallet_metadata (cl_prefix ex_redirect_client)"
proof -
  let ?b = "ex_builder ''direct_post''"
  let ?run = "request_build std_request_lib ex_wallet_metadata PlainType ?b 0"
  have "\<not> isl (fst ?run)" by code_simp
  then obtain r where "fst ?run = Inr r" using not_isl_Inr by blast
  then obtain u jwt where run: "?run = (Inr (u, jwt), snd ?run)" by (cases r) (simp add: prod_eq_iff)
  have wf: "bt_wf (rb_request_parameters ?b)" by code_simp
  have ver: "v_client (rb_verifier ?b) = ex_redirect_client"
    "v_submission_endpoint (rb_verifier ?b) = Some (Url ''https://v.example/submit'')"
    by (simp_all add: ex_builder_def with_dcql_def build_authorization_request_def)
  have q: "query_reads_back std_request_lib q" if "builder_query ?b = Some q" for q
  proof -
    have "builder_query ?b = Some (QueryDCQL ex_dcql)" by code_simp
    moreover have "query_reads_back std_request_lib (QueryDCQL ex_dcql)" by code_simp
    ultimately show ?thesis using that by simp
  qed
  have uri: "reads_back (response_uri_param std_request_lib) (ResponseUri e) \<and>
      reads_back (redirect_uri_param std_request_lib) (RedirectUri e)"
    if "v_submission_endpoint (rb_verifier ?b) = Some e" for e
  proof -
    have "reads_back (response_uri_param std_request_lib) (ResponseUri (Url ''https://v.example/submit'')) \<and>
        reads_back (redirect_uri_param std_request_lib) (RedirectUri (Url ''https://v.example/submit''))"
      by code_simp
    with that ver(2) show ?thesis by simp
  qed
  from built_requests [OF run wf q uri] ver(1) have "jwt = None \<and> snd ?run = 0 \<and>
      is_client_id_prefix_supported ex_wallet_metadata (cl_prefix ex_redirect_client)"
    by auto
  with run show ?thesis by metis
qed

text \<open>
  C38: no plain request through the Digital Credentials API can be built: the builder takes the
  client identifier out of its parameters for such a request, and parsing the parameters requires it.
\<close>

theorem plain_dc_api_never_built:
  assumes "bt_wf (rb_request_parameters self)" and "is_dc_api m"
    and "obj_get (response_mode_param L) (rb_request_parameters self) = Some (Inr m)"
  shows "\<exists>e. request_build L md PlainType self w = (Inl e, w)"
  using plain_dc_api_refused [OF assms(1,3,2), of md]
  by (auto simp: request_build_def io_bind_def io_lift_def)

lemma plain_dc_api_never_built_witness:
  "\<exists>e. request_build std_request_lib ex_wallet_metadata PlainType (ex_builder ''dc_api'') 0 = (Inl e, 0)"
proof (rule plain_dc_api_never_built)
  show "bt_wf (rb_request_parameters (ex_builder ''dc_api''))" by code_simp
  show "is_dc_api DcApi" by (simp add: is_dc_api_def)
  show "obj_get (response_mode_param std_request_lib) (rb_request_parameters (ex_builder ''dc_api'')) =
      Some (Inr DcApi)" by code_simp
qed

end
