(* ===== verification/Request_Url.thy ===== *)
theory Request_Url
  imports Request_Builder Request_Resolution
begin

text \<open>
  A request on its way from the verifier to the wallet. A plain request is flattened into the query
  of a URL, and the wallet parses the query into an object whose members are all texts; a signed request is
  a token in the query, out of which the wallet decodes the object that was signed. Both sides are in
  \<open>src/src/core/authorization_request/mod.rs\<close>; here they are shown to agree.
\<close>

section \<open>What the foreign functions promise\<close>

definition reads_text :: "(json \<Rightarrow> anyhow + string) \<Rightarrow> 'a deserialize \<Rightarrow> bool" where
  "reads_text print d \<longleftrightarrow>
     (\<forall>j s x. print j = Inr s \<and> from_value d j = Inr x \<longrightarrow> from_str d s = Inr x)"

text \<open>
  Strings and URLs are read from JSON strings only; a form decodes to the texts it was encoded
  from; a URL keeps the query it is given, and its authority and path when a query is set; and the text of
  a value reads as the value.
\<close>

definition query_lib_ok :: "'z request_lib_scheme \<Rightarrow> bool" where
  "query_lib_ok L \<longleftrightarrow>
     string_de (de_string L) \<and>
     (\<forall>j u. from_value (de_url L) j = Inr u \<longrightarrow> as_str j \<noteq> None) \<and>
     reads_text (json_to_string L) (de_object L) \<and>
     reads_text (json_to_string L) (de_dcql L) \<and>
     reads_text (json_to_string L) (de_pd L)"

definition query_carries :: "'z request_lib_scheme \<Rightarrow> (string, string) bmap \<Rightarrow> url \<Rightarrow> bool" where
  "query_carries L m endpoint \<longleftrightarrow>
     (case form_of_map L m of
        Inl _ \<Rightarrow> True
      | Inr q \<Rightarrow>
          form_to_object L q = Inr (map (\<lambda>(k, v). (k, JString v)) m) \<and>
          url_query L (url_set_query L q endpoint) = Some q \<and>
          url_authority L (url_set_query L q endpoint) = url_authority L endpoint \<and>
          url_path L (url_set_query L q endpoint) = url_path L endpoint)"

section \<open>Reading a flattened object\<close>

lemma bt_get_texts: "bt_get (map (\<lambda>(k, v). (k, JString v)) m) k = map_option JString (bt_get m k)"
  by (induction m) auto

definition texts_of :: "(string, string) bmap \<Rightarrow> untyped_object" where
  "texts_of m = map (\<lambda>(k, v). (k, JString v)) m"

lemma texts_of_get:
  assumes "bt_wf ob" and "flatten_for_form print ob = Inr form"
  shows "bt_get (texts_of form) k =
    (case bt_get ob k of
       None \<Rightarrow> None
     | Some j \<Rightarrow> map_option JString (case j of JString s \<Rightarrow> Some s | _ \<Rightarrow> res_ok (print j)))"
proof -
  have "map_option snd (res_ok (flatten_entry print (k, v))) =
      (case v of JString s \<Rightarrow> Some s | _ \<Rightarrow> res_ok (print v))" for v
    by (cases v; cases "print v") (auto simp: flatten_entry_def)
  then show ?thesis
    by (cases "bt_get ob k") (simp_all add: texts_of_def bt_get_texts flatten_for_form_get [OF assms])
qed

lemma texts_of_defined:
  assumes "bt_wf ob" and "flatten_for_form print ob = Inr form" and "bt_get ob k = Some j"
  shows "\<exists>s. bt_get (texts_of form) k = Some (JString s) \<and> (j = JString s \<or> as_str j = None \<and> print j = Inr s)"
proof -
  from assms(2) obtain rs where rs: "list_all2 (\<lambda>kv r. flatten_entry print kv = Inr r) ob rs"
    by (auto simp: flatten_for_form_def res_simps)
  have "(k, j) \<in> set ob" using assms(3) by (rule bt_get_in)
  with rs obtain r where "flatten_entry print (k, j) = Inr r"
    by (auto simp: list_all2_conv_all_nth in_set_conv_nth) (metis surj_pair)
  then show ?thesis
    using texts_of_get [OF assms(1,2), of k] assms(3)
    by (cases j) (auto simp: flatten_entry_def res_simps)
qed

lemma flat_none: "bt_wf ob \<Longrightarrow> flatten_for_form print ob = Inr form \<Longrightarrow> obj_get T ob = None \<Longrightarrow>
    obj_get T (texts_of form) = None"
  by (simp add: obj_get_None_iff texts_of_get)

lemma flat_some:
  assumes "bt_wf ob" and "flatten_for_form print ob = Inr form" and "obj_get T ob = Some (Inr x)"
    and "\<And>j s. try_from_json T j = Inr x \<Longrightarrow> as_str j = None \<Longrightarrow> print j = Inr s \<Longrightarrow>
      try_from_json T (JString s) = Inr x"
  shows "obj_get T (texts_of form) = Some (Inr x)"
proof -
  from assms(3) obtain j where j: "bt_get ob (KEY T) = Some j" "try_from_json T j = Inr x"
    by (auto simp: obj_get_Some_iff)
  with texts_of_defined [OF assms(1,2) j(1)] assms(4) [OF j(2)] show ?thesis
    by (auto simp: obj_get_Some_iff)
qed

text \<open>Parameters that are read from strings only, and those that are read from a string or a value.\<close>

lemma flat_text:
  assumes "bt_wf ob" and "flatten_for_form print ob = Inr form" and "string_de d"
    and "obj_get (text_param k d parse show) ob = Some (Inr x)"
  shows "obj_get (text_param k d parse show) (texts_of form) = Some (Inr x)"
  by (rule flat_some [OF assms(1,2,4)])
    (use assms(3) in \<open>auto simp: text_param_def res_simps string_de_Inr_iff\<close>)

lemma flat_url:
  assumes "bt_wf ob" and "flatten_for_form print ob = Inr form"
    and "\<forall>j u. from_value (de_url L) j = Inr u \<longrightarrow> as_str j \<noteq> None"
    and "obj_get (url_param k L mk get) ob = Some (Inr x)"
  shows "obj_get (url_param k L mk get) (texts_of form) = Some (Inr x)"
  by (rule flat_some [OF assms(1,2,4)])
    (use assms(3) in \<open>auto simp: url_param_def res_simps\<close>)

lemma flat_string_or_value:
  assumes "bt_wf ob" and "flatten_for_form print ob = Inr form" and "reads_text print d"
    and "obj_get T ob = Some (Inr x)"
    and "\<And>j. try_from_json T j = map_ok f (from_string_or_value d j)"
  shows "obj_get T (texts_of form) = Some (Inr x)"
  by (rule flat_some [OF assms(1,2,4)])
    (use assms(3) in \<open>auto simp: assms(5) res_simps reads_text_def\<close>)

lemma flat_client_id:
  assumes "bt_wf ob" and "flatten_for_form print ob = Inr form"
    and "obj_get client_id_param ob = Some (Inr c)"
  shows "obj_get client_id_param (texts_of form) = Some (Inr c)"
  by (rule flat_some [OF assms])
    (auto simp: client_id_param_def client_id_try_from_json_def split: json.splits)

section \<open>The same request\<close>

lemma flat_presentation_query:
  assumes L: "query_lib_ok L" and wf: "bt_wf ob" and flat: "flatten_for_form (json_to_string L) ob = Inr form"
    and spec: "presentation_query_spec L ob q"
  shows "presentation_query_spec L (texts_of form) q"
proof -
  let ?P = "pd_param (de_pd L) (ser_pd L)" and ?U = "presentation_definition_uri_param L"
    and ?D = "dcql_param (de_dcql L) (ser_dcql L)"
  have pd: "obj_get ?P (texts_of form) = Some (Inr x)" if "obj_get ?P ob = Some (Inr x)" for x
    using L that by (intro flat_string_or_value [OF wf flat, of "de_pd L" ?P x "\<lambda>x. x"])
      (simp_all add: query_lib_ok_def pd_param_def)
  have dcql: "obj_get ?D (texts_of form) = Some (Inr x)" if "obj_get ?D ob = Some (Inr x)" for x
    using L that by (intro flat_string_or_value [OF wf flat, of "de_dcql L" ?D x "\<lambda>x. x"])
      (simp_all add: query_lib_ok_def dcql_param_def)
  have uri: "obj_get ?U (texts_of form) = Some (Inr x)" if "obj_get ?U ob = Some (Inr x)" for x
    using L that unfolding query_lib_ok_def presentation_definition_uri_param_def
    by (intro flat_url [OF wf flat]) auto
  note none = flat_none [OF wf flat]
  show ?thesis
    using spec by (auto simp: presentation_query_spec_def Let_def none dest: pd dcql uri
        split: presentation_query.splits presentation_definition_indirection.splits)
qed

lemma flat_return_uri:
  assumes L: "query_lib_ok L" and wf: "bt_wf ob" and flat: "flatten_for_form (json_to_string L) ob = Inr form"
    and spec: "return_uri_spec L ob m u os" and m: "\<not> is_dc_api m"
  shows "return_uri_spec L (texts_of form) m u os"
proof -
  have uri: "obj_get (redirect_uri_param L) (texts_of form) = Some (Inr x)"
    if "obj_get (redirect_uri_param L) ob = Some (Inr x)" for x
    using L that unfolding query_lib_ok_def redirect_uri_param_def
    by (intro flat_url [OF wf flat]) auto
  have uri': "obj_get (response_uri_param L) (texts_of form) = Some (Inr x)"
    if "obj_get (response_uri_param L) ob = Some (Inr x)" for x
    using L that unfolding query_lib_ok_def response_uri_param_def
    by (intro flat_url [OF wf flat]) auto
  show ?thesis
    using spec m
    by (cases m) (auto simp: return_uri_spec_def is_dc_api_def flat_none [OF wf flat] dest!: uri uri')
qed

lemma flat_request_spec:
  assumes L: "query_lib_ok L" and wf: "bt_wf ob" and flat: "flatten_for_form (json_to_string L) ob = Inr form"
    and spec: "request_spec L ob r" and m: "\<not> is_dc_api (aro_response_mode r)"
  shows "request_spec L (texts_of form) (r\<lparr>aro_inner := texts_of form\<rparr>)"
proof -
  have plain: "obj_get (text_param k (de_string L) parse prt) (texts_of form) = Some (Inr x)"
    if "obj_get (text_param k (de_string L) parse prt) ob = Some (Inr x)" for k parse prt and x :: 'b
    using flat_text [OF wf flat _ that] L by (simp add: query_lib_ok_def)
  have cm: "obj_get (client_metadata_param L) (texts_of form) = Some (Inr x)"
    if "obj_get (client_metadata_param L) ob = Some (Inr x)" for x
    using L that by (intro flat_string_or_value [OF wf flat, of "de_object L" "client_metadata_param L" x ClientMetadata])
      (simp_all add: query_lib_ok_def client_metadata_param_def)
  show ?thesis
    using spec flat_client_id [OF wf flat] flat_return_uri [OF L wf flat _ m] cm
      flat_presentation_query [OF L wf flat]
    by (auto simp: request_spec_def response_mode_param_def response_type_param_def nonce_param_def
        flat_none [OF wf flat] intro: plain)
qed

lemma request_url_parses:
  assumes L: "query_lib_ok L" and wf: "bt_wf (aro_inner r)" and spec: "request_spec L (aro_inner r) r"
    and m: "\<not> is_dc_api (aro_response_mode r)"
    and keys: "bt_get (aro_inner r) ''request'' = None" "bt_get (aro_inner r) ''request_uri'' = None"
    and url: "request_into_url L r endpoint = Inr u"
    and c: "\<And>form. flatten_for_form (json_to_string L) (aro_inner r) = Inr form \<Longrightarrow> query_carries L form endpoint"
  shows "\<exists>form. flatten_for_form (json_to_string L) (aro_inner r) = Inr form \<and>
    request_from_url L u endpoint = Inr (PlainRequest (r\<lparr>aro_inner := texts_of form\<rparr>))"
proof -
  from url obtain form q where flat: "flatten_for_form (json_to_string L) (aro_inner r) = Inr form"
    and q: "form_of_map L form = Inr q" "u = url_set_query L q endpoint"
    by (auto simp: request_into_url_def res_simps)
  from c [OF flat] q have carry: "form_to_object L q = Inr (texts_of form)"
    "url_query L u = Some q" "url_authority L u = url_authority L endpoint"
    "url_path L u = url_path L endpoint"
    by (simp_all add: query_carries_def texts_of_def)
  have "bt_get (texts_of form) ''request'' = None" "bt_get (texts_of form) ''request_uri'' = None"
    using keys by (simp_all add: texts_of_get [OF wf flat])
  with flat_request_spec [OF L wf flat spec m] carry
  have "request_from_url L u endpoint = Inr (PlainRequest (r\<lparr>aro_inner := texts_of form\<rparr>))"
    by (auto simp: request_from_url_Inr_iff request_from_query_params_Inr_iff)
  with flat show ?thesis by blast
qed

section \<open>The builder's object\<close>

lemma build_helper_wf:
  assumes "build_helper L ep rt p = Inr p'" and "bt_wf p"
  shows "bt_wf p'"
proof -
  from assms(1) obtain m where "obj_get (response_mode_param L) p = Some (Inr m)"
    by (rule build_helper_reads_mode)
  with assms show ?thesis
    by (cases m; cases rt) (auto simp: build_helper_def res_simps bt_wf_insert bt_wf_remove)
qed

text \<open>The members the builder writes are five; every other one is as it was set.\<close>

lemma built_object_inner:
  assumes ok: "build_request_object L md rt self = Inr req"
    and wf: "bt_wf (rb_request_parameters self)"
  shows "bt_wf (aro_inner req)" and "request_spec L (aro_inner req) req"
    and "k \<notin> {''client_id'', ''dcql_query'', ''presentation_definition'', ''response_uri'', ''redirect_uri''} \<Longrightarrow>
      bt_get (rb_request_parameters self) k = None \<Longrightarrow> bt_get (aro_inner req) k = None"
proof -
  obtain p1 p2 p3 m where p1: "p1 = snd (obj_insert client_id_param
        (cl_id (v_client (rb_verifier self))) (rb_request_parameters self))" "bt_wf p1"
    and p2: "insert_query L (rb_dcql self) (rb_presentation_definition self) p1 = Inr p2" "bt_wf p2"
    and p3: "build_helper L (v_submission_endpoint (rb_verifier self)) rt p2 = Inr p3"
    and mode: "obj_get (response_mode_param L) p2 = Some (Inr m)"
    and spec: "request_spec L p3 req"
    using ok wf by (rule build_request_object_steps)
  have inner: "aro_inner req = p3" using spec by (simp add: request_spec_def)
  show "bt_wf (aro_inner req)" unfolding inner using p3 p2(2) by (rule build_helper_wf)
  show "request_spec L (aro_inner req) req" unfolding inner by (rule spec)
  show "bt_get (aro_inner req) k = None"
    if k: "k \<notin> {''client_id'', ''dcql_query'', ''presentation_definition'', ''response_uri'', ''redirect_uri''}"
      and none: "bt_get (rb_request_parameters self) k = None"
  proof -
    let ?T = "client_id_param\<lparr>KEY := k\<rparr>"
    have "obj_get ?T p3 = obj_get ?T p2" using build_helper_frame [OF p3 p2(2) mode, of ?T] k by simp
    also have "\<dots> = obj_get ?T p1" using insert_query_frame [OF p2(1) p1(2), of ?T] k by simp
    also have "\<dots> = obj_get ?T (rb_request_parameters self)"
      unfolding p1(1) using wf k by (intro obj_get_insert_other) auto
    finally show ?thesis using none by (simp add: inner obj_get_def split: option.splits)
  qed
qed

section \<open>A signed request in a URL\<close>

text \<open>The form of a signed request decodes to it, and holds one of its two members.\<close>

definition signed_carries :: "'z request_lib_scheme \<Rightarrow> signed_request \<Rightarrow> url \<Rightarrow> bool" where
  "signed_carries L s endpoint \<longleftrightarrow>
     (case form_of_signed L s of
        Inl _ \<Rightarrow> True
      | Inr q \<Rightarrow>
          (case form_to_object L q of
             Inl _ \<Rightarrow> False
           | Inr m \<Rightarrow> (bt_get m ''request'' \<noteq> None \<or> bt_get m ''request_uri'' \<noteq> None) \<and>
               from_value (de_signed L) (JObject m) = Inr s) \<and>
          url_query L (url_set_query L q endpoint) = Some q \<and>
          url_authority L (url_set_query L q endpoint) = url_authority L endpoint \<and>
          url_path L (url_set_query L q endpoint) = url_path L endpoint)"

lemma signed_url_parses:
  assumes "signed_into_url L s endpoint = Inr u" and "signed_carries L s endpoint"
  shows "request_from_url L u endpoint = Inr (SignedRequest s)"
  using assms
  by (auto simp: signed_into_url_def signed_carries_def res_simps request_from_url_Inr_iff
      request_from_query_params_Inr_iff split: sum.splits)

text \<open>
  What a wallet decodes from a token: under the header of the client, and with any signature, the object
  of the request that was printed as its payload.
\<close>

definition payload_carries ::
  "'z jwt_lib_scheme \<Rightarrow> ('cert, 'spki) client_lib \<Rightarrow> json \<Rightarrow> request_object \<Rightarrow> bool" where
  "payload_carries L X header r \<longleftrightarrow>
     (\<forall>h p sg. to_string (header_ser X) header = Inr h \<and> to_string (request_ser X) r = Inr p \<longrightarrow>
        decode_unverified L (b64_encode (url_safe_no_pad L) h @ ''.'' @ b64_encode (url_safe_no_pad L) p @
          ''.'' @ b64_encode (url_safe_no_pad L) sg) = Inr (object_of_request r))"

lemma token_payload:
  assumes "payload_carries L X header r"
    and "generate_jwt (url_safe_no_pad L) (header_ser X) (request_ser X) header r signer w = (Inr jwt, w')"
  shows "decode_unverified L jwt = Inr (object_of_request r)"
proof -
  from assms(2) obtain h p sg where "to_string (header_ser X) header = Inr h"
    "to_string (request_ser X) r = Inr p"
    "jwt = b64_encode (url_safe_no_pad L) h @ ''.'' @ b64_encode (url_safe_no_pad L) p @ ''.'' @
       b64_encode (url_safe_no_pad L) sg"
    by (rule generate_jwt_parts)
  with assms(1) show ?thesis unfolding payload_carries_def by blast
qed

text \<open>The headers of the two clients that sign.\<close>

definition x509_token_header ::
  "('cert, 'spki) client_lib \<Rightarrow> ('w, 'jwk, 'cert) x509_client \<Rightarrow> anyhow + json" where
  "x509_token_header X c =
     and_then (signer_alg (xc_signer c)) (\<lambda>algorithm.
     and_then (collect_res (\<lambda>x509. map_ok (b64_encode (standard_padded X)) (cert_to_der X x509)) (xc_x5c c)) (\<lambda>x5c.
     Inr (JObject [(''alg'', JString algorithm), (''typ'', JString MIME_TYPE_OAUTH_REQ_JWT_SHORT),
                   (''x5c'', JArray (map JString x5c))])))"

definition did_token_header :: "('w, 'jwk) did_client \<Rightarrow> anyhow + json" where
  "did_token_header c =
     and_then (signer_alg (dc_signer c)) (\<lambda>algorithm.
     Inr (JObject [(''alg'', JString algorithm), (''kid'', JString (dc_vm c)),
                   (''typ'', JString MIME_TYPE_OAUTH_REQ_JWT_SHORT)]))"

lemma x509_client_payload:
  assumes "\<And>header. x509_token_header X c = Inr header \<Longrightarrow> payload_carries L X header r"
    and "x509_client_jwt L X c r w = (Inr jwt, w')"
  shows "decode_unverified L jwt = Inr (object_of_request r)"
proof -
  from assms(2) obtain header where "x509_token_header X c = Inr header"
    "generate_jwt (url_safe_no_pad L) (header_ser X) (request_ser X) header r (xc_signer c) w = (Inr jwt, w')"
    by (auto simp: x509_client_jwt_def x509_token_header_def io_simps res_simps)
  with assms(1) show ?thesis by (blast intro: token_payload)
qed

lemma did_client_payload:
  assumes "\<And>header. did_token_header c = Inr header \<Longrightarrow> payload_carries L X header r"
    and "did_client_jwt L X c r w = (Inr jwt, w')"
  shows "decode_unverified L jwt = Inr (object_of_request r)"
proof -
  from assms(2) obtain header where "did_token_header c = Inr header"
    "generate_jwt (url_safe_no_pad L) (header_ser X) (request_ser X) header r (dc_signer c) w = (Inr jwt, w')"
    by (auto simp: did_client_jwt_def did_token_header_def io_simps res_simps)
  with assms(1) show ?thesis by (blast intro: token_payload)
qed

text \<open>
  What the wallet does with a signed request in a URL, once its token is in hand: the token is in the
  request itself, or the wallet fetches it.
\<close>

lemma signed_request_validates:
  assumes url: "signed_into_url L s (wm_authorization_endpoint (w_metadata W)) = Inr u"
    and carry: "signed_carries L s (wm_authorization_endpoint (w_metadata W))"
    and ident: "signed_client_id s = get_full_id (aro_client_id req)"
    and fetch: "retrieve_unverified_jwt L H W s v = (Inr jwt, v0)"
    and dec: "decode_unverified L jwt = Inr (object_of_request req)"
    and parses: "request_try_from L (aro_inner req) = Inr req" and wf: "bt_wf (aro_inner req)"
  defines "got \<equiv> req\<lparr>aro_inner := object_of_request req\<rparr>"
  shows "validate_request L H W u v = (Inr r, v') \<longleftrightarrow>
     r = got \<and> metadata_supports L (w_metadata W) got \<and>
     (\<exists>v1. prefix_check W (get_prefix (aro_client_id req)) got jwt v0 = (Inr (), v1) \<and>
        nonce_accepted L W got v1 v')"
proof -
  have reparse: "request_try_from L (object_of_request req) = Inr r' \<longleftrightarrow> r' = got" for r'
    using request_round_trip [OF wf parses] by (auto simp: got_def)
  have same: "aro_client_id got = aro_client_id req" by (simp add: got_def)
  show ?thesis
    unfolding validate_request_iff signed_url_parses [OF url carry]
    by (auto simp: validate_signed resolve_auth_request_iff fetch verify_request_jwt_iff dec reparse same ident)
qed

lemma by_value_retrieved:
  "signed_indirection s = ByValueRequest jwt \<Longrightarrow> retrieve_unverified_jwt L H W s v = (Inr jwt, v)"
  by (simp add: retrieve_unverified_jwt_def io_run_simps)

text \<open>A token that the server of the request URI answers a GET with.\<close>

definition served :: "http_lib \<Rightarrow> 'w wallet \<Rightarrow> request_reference \<Rightarrow> string \<Rightarrow> 'w \<Rightarrow> 'w \<Rightarrow> bool" where
  "served H W rr jwt v v' \<longleftrightarrow>
     request_uri_method rr \<noteq> Some POST \<and> utf8_valid jwt \<and>
     (case create_get_request H (request_uri rr) MIME_TYPE_OAUTH_REQ_JWT of
        Inl _ \<Rightarrow> False
      | Inr req \<Rightarrow>
          (case w_http_client W req v of
             (Inl _, _) \<Rightarrow> False
           | (Inr resp, v1) \<Rightarrow> v1 = v' \<and> is_success (http_status resp) \<and> http_body resp = jwt))"

lemma served_retrieved:
  assumes "signed_indirection s = ByReferenceRequest rr" and "served H W rr jwt v v'"
  shows "retrieve_unverified_jwt L H W s v = (Inr jwt, v')"
proof -
  have "(case request_uri_method rr of None \<Rightarrow> GET | Some m \<Rightarrow> m) = GET"
    using assms(2) by (auto simp: served_def split: option.split http_method.splits) (metis http_method.exhaust)
  moreover from assms(2) obtain req where
    "create_get_request H (request_uri rr) MIME_TYPE_OAUTH_REQ_JWT = Inr req" and "utf8_valid jwt"
    by (auto simp: served_def split: sum.split_asm)
  moreover from this assms(2) obtain resp where
    "w_http_client W req v = (Inr resp, v')" "is_success (http_status resp)" "http_body resp = jwt"
    by (cases "w_http_client W req v"; cases "fst (w_http_client W req v)") (auto simp: served_def)
  ultimately show ?thesis using assms(1)
    by (simp add: retrieve_unverified_jwt_def get_by_reference_def io_run_simps
        http_resp_to_unverified_jwt_def string_from_utf8_def)
qed


text \<open>
  A signed request that a builder made, seen by the wallet: once the wallet has the token of the
  client in hand, what is left are its own checks.
\<close>

definition signed_request_of :: "'w client \<Rightarrow> by_reference \<Rightarrow> string \<Rightarrow> signed_request" where
  "signed_request_of client br jwt =
     \<lparr>signed_client_id = get_full_id (cl_id client),
      signed_indirection = (case br of ByReferenceFalse \<Rightarrow> ByValueRequest jwt
        | ByReferenceTrue rr \<Rightarrow> ByReferenceRequest rr)\<rparr>"

lemma signed_build_validates:
  assumes build: "request_build L md (SignedJwtType br) self w = (Inr (u, jwt), w')"
    and wf: "bt_wf (rb_request_parameters self)"
    and reads: "\<And>q. builder_query self = Some q \<Longrightarrow> query_reads_back L q"
      "\<And>e. v_submission_endpoint (rb_verifier self) = Some e \<Longrightarrow>
        reads_back (response_uri_param L) (ResponseUri e) \<and> reads_back (redirect_uri_param L) (RedirectUri e)"
    and endpoint: "obj_get (authorization_endpoint_param L) (wm_object md) =
      Some (Inr (wm_authorization_endpoint (w_metadata W)))"
    and carries: "\<And>j. jwt = Some j \<Longrightarrow>
      signed_carries L (signed_request_of (v_client (rb_verifier self)) br j)
        (wm_authorization_endpoint (w_metadata W))"
    and payload: "\<And>r j. build_request_object L md (SignedJwtType br) self = Inr r \<Longrightarrow>
      cl_generate_jwt (v_client (rb_verifier self)) r w = (Inr j, w') \<Longrightarrow>
      decode_unverified L j = Inr (object_of_request r)"
  shows "\<exists>j req. jwt = Some j \<and> build_request_object L md (SignedJwtType br) self = Inr req \<and>
    cl_generate_jwt (v_client (rb_verifier self)) req w = (Inr j, w') \<and>
    builder_query self = Some (aro_presentation_query req) \<and>
    aro_client_id req = cl_id (v_client (rb_verifier self)) \<and>
    aro_return_uri req = (if is_dc_api (aro_response_mode req) then None
      else v_submission_endpoint (rb_verifier self)) \<and>
    (\<forall>H v v0 r v'. retrieve_unverified_jwt L H W (signed_request_of (v_client (rb_verifier self)) br j) v =
         (Inr j, v0) \<longrightarrow>
       (validate_request L H W u v = (Inr r, v') \<longleftrightarrow>
        r = req\<lparr>aro_inner := object_of_request req\<rparr> \<and> metadata_supports L (w_metadata W) r \<and>
        (\<exists>v1. prefix_check W (get_prefix (cl_id (v_client (rb_verifier self)))) r j v0 = (Inr (), v1) \<and>
           nonce_accepted L W r v1 v')))"
proof -
  let ?c = "v_client (rb_verifier self)"
  obtain req j where req: "build_request_object L md (SignedJwtType br) self = Inr req"
    and j: "jwt = Some j" "cl_generate_jwt ?c req w = (Inr j, w')"
    and url: "signed_into_url L (signed_request_of ?c br j) (wm_authorization_endpoint (w_metadata W)) = Inr u"
    using build endpoint by (auto elim!: request_build_Inr simp: signed_request_of_def)
  note sound = build_request_object_sound [OF req wf reads]
  note inner = built_object_inner [OF req wf]
  have parses: "request_try_from L (aro_inner req) = Inr req"
    using inner(2) by (simp add: request_try_from_spec)
  have id: "signed_client_id (signed_request_of ?c br j) = get_full_id (aro_client_id req)"
    using sound(2) by (simp add: signed_request_of_def)
  note run = signed_request_validates [OF url carries [OF j(1)] id _ payload [OF req j(2)] parses inner(1)]
  show ?thesis
    by (intro exI [of _ j] exI [of _ req]) (use req j sound(1,2,6) run in auto)
qed

end
