(* ===== verification/Wire_Examples.thy ===== *)
theory Wire_Examples
  imports Request_Url
begin

text \<open>
  Executable foreign functions for the theorems that follow a request from a builder to a wallet: forms
  that carry what they encode, signed requests in them, and a printer of requests with the decoder of
  the tokens they are signed into.
\<close>

section \<open>Forms\<close>

text \<open>
  A form is printed when it reads back, the only value
  printed is the empty object, and the query of a URL is what follows its question mark.
\<close>

definition read_form :: "string \<Rightarrow> anyhow + json_map" where
  "read_form s = collect_res (\<lambda>p. map_ok (\<lambda>(k, v). (k, JString v))
     (ok_or (Msg ''no value'') (split_once CHR ''='' p))) (split_all CHR ''&'' s)"

definition print_form :: "(string, string) bmap \<Rightarrow> anyhow + string" where
  "print_form m =
     (let s = join_str ''&'' (map (\<lambda>(k, v). k @ ''='' @ v) m)
      in if read_form s = Inr (texts_of m) then Inr s else Inl (Msg ''not printed''))"

definition empty_de :: "'a \<Rightarrow> 'a deserialize" where
  "empty_de x = \<lparr>
     from_value = (\<lambda>j. if j = JObject [] then Inr x else Inl (Msg ''invalid type'')),
     from_str = (\<lambda>s. if s = ''{}'' then Inr x else Inl (Msg ''invalid type''))\<rparr>"

definition url_lib :: jwt_lib where
  "url_lib = ex_jwt_lib\<lparr>
     de_object := empty_de [], de_dcql := empty_de ex_dcql,
     form_to_object := read_form, form_of_map := print_form,
     url_query := (\<lambda>u. map_option snd (split_once CHR ''?'' (url_str u))),
     json_to_string := (\<lambda>j. if j = JObject [] then Inr ''{}'' else Inl (Msg ''not printed''))\<rparr>"

lemma url_lib_reads: "reads_text (json_to_string url_lib) (empty_de x)"
  by (auto simp: reads_text_def empty_de_def url_lib_def split: if_splits)

lemma url_lib_ok: "query_lib_ok url_lib"
proof -
  have "string_de (de_string url_lib)"
    using string_de_std by (simp add: url_lib_def ex_jwt_lib_def request_lib.defs std_request_lib_def std_param_lib_def)
  moreover have "from_value (de_url url_lib) j = map_ok Url (ok_or (Msg ''invalid type: expected a string'') (as_str j))" for j
    by (simp add: url_lib_def ex_jwt_lib_def request_lib.defs std_request_lib_def std_param_lib_def std_string_de_def)
  then have "\<forall>j u. from_value (de_url url_lib) j = Inr u \<longrightarrow> as_str j \<noteq> None"
    by (auto simp: res_simps)
  moreover have "de_object url_lib = empty_de []" "de_dcql url_lib = empty_de ex_dcql"
    by (simp_all add: url_lib_def)
  moreover have "reads_text (json_to_string url_lib) (de_pd url_lib)"
    by (simp add: reads_text_def url_lib_def ex_jwt_lib_def request_lib.defs std_request_lib_def std_de_def)
  ultimately show ?thesis by (simp add: query_lib_ok_def url_lib_reads)
qed

lemma url_lib_carries: "query_carries url_lib form (Url ''openid4vp:'')"
proof -
  have "url_query url_lib (Url (''openid4vp:?'' @ q)) = Some q" for q
    by (simp add: url_lib_def split_once_def)
  moreover have "url_set_query url_lib q u = Url (url_str u @ ''?'' @ q)"
    "url_authority url_lib u = []" "url_path url_lib u = []" for q u
    by (simp_all add: url_lib_def ex_jwt_lib_def request_lib.defs std_request_lib_def)
  ultimately show ?thesis
    by (auto simp: query_carries_def url_lib_def print_form_def texts_of_def Let_def split: sum.splits)
qed

lemma ex_endpoint:
  "obj_get (authorization_endpoint_param url_lib) (wm_object ex_wallet_metadata) =
     Some (Inr (wm_authorization_endpoint (w_metadata ex_wallet)))"
  by code_simp

lemma ex_wallet_endpoint: "wm_authorization_endpoint (w_metadata ex_wallet) = Url ''openid4vp:''"
  by code_simp

section \<open>Signed requests\<close>

text \<open>A signed request is written with its token, or with the place of its token when that is fetched by GET.\<close>

definition signed_form :: "signed_request \<Rightarrow> json_map option" where
  "signed_form s =
     (case signed_indirection s of
        ByValueRequest jwt \<Rightarrow> Some [(''client_id'', JString (signed_client_id s)), (''request'', JString jwt)]
      | ByReferenceRequest r \<Rightarrow>
          (if request_uri_method r = None then
             Some [(''client_id'', JString (signed_client_id s)), (''request_uri'', JString (url_str (request_uri r)))]
           else None))"

definition read_signed :: "json \<Rightarrow> anyhow + signed_request" where
  "read_signed j =
     (case j of
        JObject [(k, JString c), (l, JString x)] \<Rightarrow>
          Inr \<lparr>signed_client_id = c, signed_indirection =
            (if l = ''request'' then ByValueRequest x
             else ByReferenceRequest \<lparr>request_uri = Url x, request_uri_method = None\<rparr>)\<rparr>
      | _ \<Rightarrow> Inl (Msg ''not a signed request''))"

definition print_signed :: "signed_request \<Rightarrow> anyhow + string" where
  "print_signed s =
     (case signed_form s of
        None \<Rightarrow> Inl (Msg ''not printed'')
      | Some m \<Rightarrow>
          (let t = join_str ''&'' (map (\<lambda>(k, v). k @ ''='' @ the (as_str v)) m)
           in if read_form t = Inr m then Inr t else Inl (Msg ''not printed'')))"

text \<open>
  The payload of a token: a request is printed, a member after another, when its object reads back; it
  is decoded from between the dots of the token.
\<close>

definition read_object :: "string \<Rightarrow> anyhow + untyped_object" where
  "read_object s = collect_res (\<lambda>p. map_ok (\<lambda>(k, v). (k, if v = ''{}'' then JObject [] else JString v))
     (ok_or (Msg ''no value'') (split_once CHR ''='' p))) (split_all CHR ''&'' s)"

definition print_request :: "request_object \<Rightarrow> anyhow + string" where
  "print_request r =
     (let m = object_of_request r;
          s = join_str ''&'' (map (\<lambda>(k, v). k @ ''='' @ (case v of JString t \<Rightarrow> t | _ \<Rightarrow> ''{}'')) m)
      in if read_object s = Inr m then Inr s else Inl (Msg ''not printed''))"

definition signed_lib :: jwt_lib where
  "signed_lib = url_lib\<lparr>de_signed := std_de read_signed, form_of_signed := print_signed,
     decode_unverified := (\<lambda>jwt. and_then (split_dots jwt) (\<lambda>(h, p, sg).
       and_then (b64_decode hex64 p) read_object))\<rparr>"

definition ex_signing_lib :: "(string, string) client_lib" where
  "ex_signing_lib = ex_client_lib\<lparr>request_ser := \<lparr>to_value = (\<lambda>r. Inr JNull), to_string = print_request\<rparr>\<rparr>"

definition ex_signed_builder :: "nat client \<Rightarrow> nat request_builder" where
  "ex_signed_builder client = with_dcql ex_dcql (build_authorization_request
     \<lparr>v_client = client,
      v_default_request_params = rb_request_parameters (ex_builder ''direct_post''),
      v_submission_endpoint = Some (Url ''https://v.example/submit'')\<rparr>)"

lemma signed_lib_simps:
  "url_query signed_lib (Url (''openid4vp:?'' @ q)) = Some q"
  "url_set_query signed_lib q u = Url (url_str u @ ''?'' @ q)"
  "url_authority signed_lib u = []" "url_path signed_lib u = []"
  "form_of_signed signed_lib = print_signed" "form_to_object signed_lib = read_form"
  "from_value (de_signed signed_lib) = read_signed"
  by (simp_all add: signed_lib_def url_lib_def ex_jwt_lib_def request_lib.defs std_request_lib_def std_de_def
      split_once_def)

lemma signed_lib_carries: "signed_carries signed_lib s (Url ''openid4vp:'')"
proof (cases "signed_indirection s")
  case (ByValueRequest jwt)
  with signed_lib_simps show ?thesis
    by (cases s) (auto simp: signed_carries_def print_signed_def signed_form_def read_signed_def Let_def
        split: sum.splits)
next
  case (ByReferenceRequest r)
  with signed_lib_simps show ?thesis
    by (cases s; cases r; cases "request_uri r") (auto simp: signed_carries_def print_signed_def
        signed_form_def read_signed_def Let_def split: sum.splits)
qed

lemma ex_signing_libs:
  "url_safe_no_pad signed_lib = url_safe_no_pad ex_jwt_lib" "split_jws signed_lib = split_jws ex_jwt_lib"
  "header_ser ex_signing_lib = header_ser ex_client_lib" "cl_certs ex_signing_lib = cl_certs ex_client_lib"
  "standard_padded ex_signing_lib = standard_padded ex_client_lib"
  "cert_to_der ex_signing_lib = cert_to_der ex_client_lib"
  by (simp_all add: signed_lib_def url_lib_def ex_signing_lib_def)

lemma ex_signing_laws:
  "jws_ok signed_lib ex_signing_lib ex_header_read"
  "certs_ok ex_signing_lib" "payload_carries signed_lib ex_signing_lib header r"
proof -
  show "jws_ok signed_lib ex_signing_lib ex_header_read" "certs_ok ex_signing_lib"
    using ex_jws_ok ex_certs_ok by (simp_all add: jws_ok_def certs_ok_def ex_signing_libs)
  have "split_dots (b64_encode hex64 h @ ''.'' @ b64_encode hex64 p @ ''.'' @ b64_encode hex64 sg) =
      Inr (b64_encode hex64 h, b64_encode hex64 p, b64_encode hex64 sg)"
    and "b64_decode hex64 (b64_encode hex64 p) = Inr p" for h p sg
    using base64_ok_hex64 by (simp_all add: base64_ok_def split_dots_parts [simplified])
  moreover have "url_safe_no_pad signed_lib = hex64" by (simp add: ex_signing_libs ex_url_safe)
  moreover have "read_object p = Inr (object_of_request r)" if "print_request r = Inr p" for p
    using that by (auto simp: print_request_def Let_def split: if_splits)
  ultimately show "payload_carries signed_lib ex_signing_lib header r"
    by (simp add: payload_carries_def signed_lib_def ex_signing_lib_def)
qed

lemma ex_signed_builder_verifier:
  "v_client (rb_verifier (ex_signed_builder client)) = client"
  "v_submission_endpoint (rb_verifier (ex_signed_builder client)) = Some (Url ''https://v.example/submit'')"
  "rb_request_parameters (ex_signed_builder client) = rb_request_parameters (ex_builder ''direct_post'')"
  "builder_query (ex_signed_builder client) = Some (QueryDCQL ex_dcql)"
proof -
  have "dcql_ids_ok ex_dcql" by code_simp
  then show "builder_query (ex_signed_builder client) = Some (QueryDCQL ex_dcql)"
    by (simp add: ex_signed_builder_def with_dcql_def build_authorization_request_def builder_query_def)
qed (simp_all add: ex_signed_builder_def with_dcql_def build_authorization_request_def)

end
