(* ===== verification/Requirement_Json.thy ===== *)
theory Requirement_Json
  imports Definition_Json Flatten
begin

text \<open>
  The JSON form of submission requirements, as \<open>serde\<close> derives it from
  \<open>src/src/core/presentation_definition.rs\<close>: an enum tagged by \<open>rule\<close>, around an untagged enum, around
  the flattened members \<open>name\<close>, \<open>purpose\<close> and all the others. A nested requirement is read from a
  buffered value. With it the JSON form of a presentation definition has no foreign part but paths and
  schemas.
\<close>

section \<open>Readers\<close>

text \<open>The flattened map of other members is read even when there are none: it is never \<open>None\<close>.\<close>

definition requirement_object_of_members :: "json_map \<Rightarrow> submission_requirement_object option" where
  "requirement_object_of_members m = do {
     name \<leftarrow> optional as_str (bt_get m ''name'');
     purpose \<leftarrow> optional as_str (bt_get m ''purpose'');
     Some \<lparr>sro_name = name, sro_purpose = purpose,
       sro_property_set = Some (bt_without [''name'', ''purpose''] m)\<rparr> }"

text \<open>
  The untagged variants are tried in order. The nested requirements, which the second variant reads from
  the member \<open>from_nested\<close>, are an argument.
\<close>

definition requirement_base_of_members ::
  "submission_requirement list option \<Rightarrow> json_map \<Rightarrow> submission_requirement_base option" where
  "requirement_base_of_members nested m =
     (case do { grp \<leftarrow> required as_str (bt_get m ''from'');
                ob \<leftarrow> requirement_object_of_members (bt_without [''from''] m);
                Some (From grp ob) } of
        Some b \<Rightarrow> Some b
      | None \<Rightarrow> do { rs \<leftarrow> nested;
                    ob \<leftarrow> requirement_object_of_members (bt_without [''from_nested''] m);
                    Some (FromNested rs ob) })"

definition requirement_pick_of_members ::
  "submission_requirement list option \<Rightarrow> json_map \<Rightarrow> submission_requirement_pick option" where
  "requirement_pick_of_members nested m = do {
     base \<leftarrow> requirement_base_of_members nested (bt_without [''count'', ''min'', ''max''] m);
     count \<leftarrow> optional usize_of_json (bt_get m ''count'');
     min_count \<leftarrow> optional usize_of_json (bt_get m ''min'');
     max_count \<leftarrow> optional usize_of_json (bt_get m ''max'');
     Some (SubmissionRequirementPick base count min_count max_count) }"

text \<open>A requirement is read from an object, a nested one from a buffered object.\<close>

function requirement_of_json :: "bool \<Rightarrow> submission_requirement reader" where
  "requirement_of_json buffered j =
     (case object_members j of
        None \<Rightarrow> None
      | Some m \<Rightarrow>
          let nested = (case bt_get m ''from_nested'' of
                Some (JArray js) \<Rightarrow> those (map (requirement_of_json True) js)
              | _ \<Rightarrow> None) in
          do { rule \<leftarrow> required (tag_of_json buffered [''all'', ''pick'']) (bt_get m ''rule'');
               if rule = ''all''
               then map_option RequirementAll (requirement_base_of_members nested (bt_without [''rule''] m))
               else map_option RequirementPick (requirement_pick_of_members nested (bt_without [''rule''] m)) })"
  by pat_completeness auto
termination
  by (relation "measure (\<lambda>(buffered, j). size j)")
    (auto dest!: size_object_member dest: size_item intro: less_trans)

declare requirement_of_json.simps [simp del]

section \<open>Writers\<close>

definition requirement_object_members :: "submission_requirement_object \<Rightarrow> json_map list" where
  "requirement_object_members self = [
     field ''name'' (json_of_option JString (sro_name self)),
     field ''purpose'' (json_of_option JString (sro_purpose self)),
     flat_field (case sro_property_set self of None \<Rightarrow> [] | Some m \<Rightarrow> m)]"

fun json_of_requirement :: "submission_requirement \<Rightarrow> json"
  and requirement_base_members :: "submission_requirement_base \<Rightarrow> json_map list"
  and requirement_pick_members :: "submission_requirement_pick \<Rightarrow> json_map list" where
  "json_of_requirement (RequirementAll base) =
     json_of_fields (field ''rule'' (JString ''all'') # requirement_base_members base)"
| "json_of_requirement (RequirementPick pick) =
     json_of_fields (field ''rule'' (JString ''pick'') # requirement_pick_members pick)"
| "requirement_base_members (From grp ob) =
     field ''from'' (JString grp) # requirement_object_members ob"
| "requirement_base_members (FromNested from_nested ob) =
     field ''from_nested'' (JArray (map json_of_requirement from_nested)) # requirement_object_members ob"
| "requirement_pick_members (SubmissionRequirementPick base count min_count max_count) =
     requirement_base_members base @ [
     field ''count'' (json_of_option json_of_usize count),
     field ''min'' (json_of_option json_of_usize min_count),
     field ''max'' (json_of_option json_of_usize max_count)]"

section \<open>What can be read back\<close>

text \<open>
  The other members are there, with names that no field takes; and when requirements are nested, none of
  them is a group, which would be read instead.
\<close>

definition requirement_object_ok :: "string list \<Rightarrow> submission_requirement_object \<Rightarrow> bool" where
  "requirement_object_ok names ob \<longleftrightarrow>
     (case sro_property_set ob of
        None \<Rightarrow> False
      | Some m \<Rightarrow> bt_wf m \<and> bt_disjoint (names @ [''name'', ''purpose'']) m)"

definition no_group_member :: "submission_requirement_object \<Rightarrow> bool" where
  "no_group_member ob \<longleftrightarrow>
     (case sro_property_set ob of
        None \<Rightarrow> True
      | Some m \<Rightarrow> (case bt_get m ''from'' of Some (JString s) \<Rightarrow> False | _ \<Rightarrow> True))"

fun requirement_ok :: "submission_requirement \<Rightarrow> bool"
  and requirement_base_ok :: "string list \<Rightarrow> submission_requirement_base \<Rightarrow> bool"
  and requirement_pick_ok :: "string list \<Rightarrow> submission_requirement_pick \<Rightarrow> bool" where
  "requirement_ok (RequirementAll base) \<longleftrightarrow> requirement_base_ok [''rule''] base"
| "requirement_ok (RequirementPick pick) \<longleftrightarrow> requirement_pick_ok [''rule''] pick"
| "requirement_base_ok names (From grp ob) \<longleftrightarrow> requirement_object_ok (names @ [''from'']) ob"
| "requirement_base_ok names (FromNested from_nested ob) \<longleftrightarrow>
     requirement_object_ok (names @ [''from_nested'']) ob \<and> no_group_member ob \<and>
     list_all requirement_ok from_nested"
| "requirement_pick_ok names (SubmissionRequirementPick base count min_count max_count) \<longleftrightarrow>
     requirement_base_ok (names @ [''count'', ''min'', ''max'']) base \<and>
     pred_option usize_ok count \<and> pred_option usize_ok min_count \<and> pred_option usize_ok max_count"


section \<open>Every requirement that is read is one of these\<close>

lemma requirement_object_of_members_without:
  "requirement_object_of_members (bt_without [''from''] m) = None \<longleftrightarrow>
     requirement_object_of_members (bt_without [''from_nested''] m) = None"
  by (simp add: requirement_object_of_members_def bind_eq_None_conv)

lemma requirement_object_reader:
  assumes "requirement_object_of_members (bt_without names m) = Some ob" and "bt_wf m"
  shows "requirement_object_ok names ob" and "sro_property_set ob = Some (bt_without (names @ [''name'', ''purpose'']) m)"
  using assms by (auto simp: requirement_object_of_members_def requirement_object_ok_def bind_eq_Some_conv
      bt_without_without intro: bt_disjoint_without)

lemma requirement_base_reader:
  assumes b: "requirement_base_of_members nested (bt_without names m) = Some b" and m: "bt_wf m"
    and nested: "\<And>rs. nested = Some rs \<Longrightarrow> list_all requirement_ok rs"
  shows "requirement_base_ok names b"
proof (cases b)
  case (From grp ob)
  with b have "requirement_object_of_members (bt_without (names @ [''from'']) m) = Some ob"
    by (auto simp: requirement_base_of_members_def bind_eq_Some_conv bt_without_without split: option.splits)
  from requirement_object_reader(1) [OF this m] From show ?thesis by simp
next
  case (FromNested rs ob)
  let ?m = "bt_without names m"
  from b FromNested have rs: "nested = Some rs"
    and ob: "requirement_object_of_members (bt_without [''from_nested''] ?m) = Some ob"
    and none: "do { grp \<leftarrow> required as_str (bt_get ?m ''from'');
                o' \<leftarrow> requirement_object_of_members (bt_without [''from''] ?m);
                Some (From grp o') } = None"
    by (auto simp: requirement_base_of_members_def bind_eq_Some_conv split: option.splits)
  have "required as_str (bt_get ?m ''from'') = None"
    using none ob requirement_object_of_members_without [of ?m] by (auto simp: bind_eq_None_conv)
  moreover have ps: "sro_property_set ob = Some (bt_without [''from_nested'', ''name'', ''purpose''] ?m)"
    using requirement_object_reader(2) [OF ob] m by simp
  ultimately have "no_group_member ob"
    by (auto simp: no_group_member_def required_def split: option.splits json.splits if_splits)
  with requirement_object_reader(1) [of "names @ [''from_nested'']" m ob] ob m rs nested FromNested
  show ?thesis by (simp add: bt_without_without)
qed

lemma requirement_reader: "requirement_of_json buffered j = Some r \<Longrightarrow> requirement_ok r"
proof (induction buffered j arbitrary: r rule: requirement_of_json.induct)
  case (1 buffered j)
  obtain m where m: "object_members j = Some m"
    using "1.prems" by (subst (asm) requirement_of_json.simps) (auto split: option.splits)
  note wf = object_members_wf [OF m]
  define nested where "nested = (case bt_get m ''from_nested'' of
      Some (JArray js) \<Rightarrow> those (map (requirement_of_json True) js) | _ \<Rightarrow> None)"
  have nested: "list_all requirement_ok rs" if rs: "nested = Some rs" for rs
  proof -
    from rs obtain js where js: "bt_get m ''from_nested'' = Some (JArray js)"
        "those (map (requirement_of_json True) js) = Some rs"
      by (auto simp: nested_def split: option.splits json.splits)
    from js(2) "1.IH" [OF m js(1) refl] show ?thesis
      by (blast intro: those_list_all)
  qed
  from "1.prems" consider
      b where "requirement_base_of_members nested (bt_without [''rule''] m) = Some b" "r = RequirementAll b"
    | p where "requirement_pick_of_members nested (bt_without [''rule''] m) = Some p" "r = RequirementPick p"
    by (subst (asm) requirement_of_json.simps)
      (auto simp: m Let_def nested_def [symmetric] bind_eq_Some_conv split: if_splits)
  then show ?case
  proof cases
    case 1
    with requirement_base_reader [OF _ wf nested] show ?thesis by simp
  next
    case 2
    then show ?thesis
      using requirement_base_reader [OF _ wf nested, where names = "[''rule'', ''count'', ''min'', ''max'']"]
      by (auto simp: requirement_pick_of_members_def bind_eq_Some_conv bt_without_without
          dest: usize_json.optional_ok)
  qed
qed

section \<open>Every one of these is read back\<close>

lemma requirement_object_members_get:
  assumes "requirement_object_ok names ob"
  shows "\<exists>ps. sro_property_set ob = Some ps \<and> bt_wf ps \<and> bt_disjoint (names @ [''name'', ''purpose'']) ps \<and>
    (\<forall>k. members_get (requirement_object_members ob) k =
       (if k = ''name'' then Some (json_of_option JString (sro_name ob))
        else if k = ''purpose'' then Some (json_of_option JString (sro_purpose ob)) else bt_get ps k))"
proof -
  from assms obtain ps where ps: "sro_property_set ob = Some ps" "bt_wf ps"
      "bt_disjoint (names @ [''name'', ''purpose'']) ps"
    by (auto simp: requirement_object_ok_def split: option.splits)
  have "bt_get ps ''name'' = None" "bt_get ps ''purpose'' = None"
    using bt_disjoint_get [OF ps(3)] by simp_all
  with ps show ?thesis
    by (auto simp: requirement_object_members_def members_get_field split: option.split)
qed

lemma requirement_object_written:
  assumes ok: "requirement_object_ok names ob" and m: "bt_wf m"
    and get: "\<And>k. bt_get m k = (if k \<in> set names then None else members_get (requirement_object_members ob) k)"
    and names: "''name'' \<notin> set names" "''purpose'' \<notin> set names"
  shows "requirement_object_of_members m = Some ob"
proof -
  from requirement_object_members_get [OF ok] obtain ps where ps: "sro_property_set ob = Some ps" "bt_wf ps"
      "bt_disjoint (names @ [''name'', ''purpose'']) ps"
    and members: "\<And>k. members_get (requirement_object_members ob) k =
       (if k = ''name'' then Some (json_of_option JString (sro_name ob))
        else if k = ''purpose'' then Some (json_of_option JString (sro_purpose ob)) else bt_get ps k)"
    by blast
  have "bt_without [''name'', ''purpose''] m = ps"
  proof (rule flat_field_left [OF ps(2) m])
    show "bt_disjoint [''name'', ''purpose''] ps"
      using ps(3) by (auto simp: bt_disjoint_def list_all_iff)
    show "bt_get m k = bt_get ps k" if "k \<notin> set [''name'', ''purpose'']" for k
      using that bt_disjoint_get [OF ps(3), of k] by (auto simp: get members)
  qed
  then show ?thesis
    using names ps(1) by (simp add: requirement_object_of_members_def get members)
qed

lemma requirement_members_get:
  assumes "requirement_object_ok (names @ [own]) ob" and "set names \<inter> {own, ''name'', ''purpose''} = {}"
    and "own \<noteq> ''name''" "own \<noteq> ''purpose''"
  shows "k \<in> set names \<Longrightarrow> members_get (field own j # requirement_object_members ob) k = None"
    and "members_get (field own j # requirement_object_members ob) own = Some j"
proof -
  from requirement_object_members_get [OF assms(1)] obtain ps
    where ps: "bt_disjoint ((names @ [own]) @ [''name'', ''purpose'']) ps"
      and get: "\<And>k. members_get (requirement_object_members ob) k =
       (if k = ''name'' then Some (json_of_option JString (sro_name ob))
        else if k = ''purpose'' then Some (json_of_option JString (sro_purpose ob)) else bt_get ps k)"
    by blast
  note none = bt_disjoint_get [OF ps]
  show "members_get (field own j # requirement_object_members ob) k = None" if "k \<in> set names"
    using that assms(2) none [of k] by (auto simp: members_get_field get)
  show "members_get (field own j # requirement_object_members ob) own = Some j"
    using assms(3,4) none [of own] by (simp add: members_get_field get)
qed

lemma requirement_base_get:
  assumes "requirement_base_ok names b" and "set names \<inter> {''from'', ''from_nested'', ''name'', ''purpose''} = {}"
  shows "k \<in> set names \<Longrightarrow> members_get (requirement_base_members b) k = None"
    and "b = From grp ob \<Longrightarrow> members_get (requirement_base_members b) ''from'' = Some (JString grp)"
    and "b = FromNested rs ob \<Longrightarrow> members_get (requirement_base_members b) ''from_nested'' =
      Some (JArray (map json_of_requirement rs))"
    and "b = FromNested rs ob \<Longrightarrow> required as_str (members_get (requirement_base_members b) ''from'') = None"
proof -
  show "members_get (requirement_base_members b) k = None" if "k \<in> set names"
    using that assms by (cases b) (auto intro!: requirement_members_get(1))
  show "members_get (requirement_base_members b) ''from'' = Some (JString grp)" if "b = From grp ob"
    using that assms by (auto intro!: requirement_members_get(2) [where names = names])
  show "members_get (requirement_base_members b) ''from_nested'' = Some (JArray (map json_of_requirement rs))"
    if "b = FromNested rs ob"
    using that assms by (auto intro!: requirement_members_get(2) [where names = names])
  show "required as_str (members_get (requirement_base_members b) ''from'') = None" if b: "b = FromNested rs ob"
  proof -
    from b assms(1) have ok: "requirement_object_ok (names @ [''from_nested'']) ob" and "no_group_member ob"
      by simp_all
    with requirement_object_members_get [OF ok] show ?thesis
      by (auto simp: b no_group_member_def required_def split: option.splits json.splits)
  qed
qed

lemma requirement_base_written:
  assumes ok: "requirement_base_ok names b" and m: "bt_wf m"
    and get: "\<And>k. bt_get m k = (if k \<in> set names then None else members_get (requirement_base_members b) k)"
    and names: "set names \<inter> {''from'', ''from_nested'', ''name'', ''purpose''} = {}"
    and nested: "\<And>rs ob. b = FromNested rs ob \<Longrightarrow> nested = Some rs"
  shows "requirement_base_of_members nested m = Some b"
proof (cases b)
  case (From grp ob)
  have "requirement_object_of_members (bt_without [''from''] m) = Some ob"
    using ok m names by (intro requirement_object_written [where names = "names @ [''from'']"])
      (auto simp: From get members_get_field split: option.split)
  moreover have "bt_get m ''from'' = Some (JString grp)"
    using names requirement_base_get(2) [OF ok names From] by (simp add: get)
  ultimately show ?thesis
    by (simp add: From requirement_base_of_members_def required_def)
next
  case (FromNested rs ob)
  have "requirement_object_of_members (bt_without [''from_nested''] m) = Some ob"
    using ok m names by (intro requirement_object_written [where names = "names @ [''from_nested'']"])
      (auto simp: FromNested get members_get_field split: option.split)
  moreover have "required as_str (bt_get m ''from'') = None"
    using names requirement_base_get(4) [OF ok names FromNested] by (simp add: get)
  ultimately show ?thesis
    using nested [OF FromNested] by (simp add: FromNested requirement_base_of_members_def)
qed

lemma those_map_same: "(\<And>x. x \<in> set xs \<Longrightarrow> f x = Some x) \<Longrightarrow> those (map f xs) = Some xs"
  by (induction xs) auto

text \<open>The nested requirements of a requirement, read from its members.\<close>

definition nested_requirements :: "json option \<Rightarrow> submission_requirement list option" where
  "nested_requirements member =
     (case member of
        Some (JArray js) \<Rightarrow> those (map (requirement_of_json True) js)
      | _ \<Rightarrow> None)"

lemma requirement_of_json_all:
  assumes "requirement_base_ok [''rule''] b"
    and "\<And>rs ob. b = FromNested rs ob \<Longrightarrow>
      those (map (requirement_of_json True \<circ> json_of_requirement) rs) = Some rs"
  shows "requirement_of_json buffered (json_of_requirement (RequirementAll b)) = Some (RequirementAll b)"
proof -
  define ms where "ms = field ''rule'' (JString ''all'') # requirement_base_members b"
  let ?m = "bt_of_list (concat ms)"
  note base = requirement_base_get [OF assms(1)]
  have rule: "bt_get ?m ''rule'' = Some (JString ''all'')"
    by (simp add: ms_def members_get_field base(1) del: concat.simps)
  have other: "bt_get ?m k = members_get (requirement_base_members b) k" if "k \<noteq> ''rule''" for k
    using that by (simp add: ms_def members_get_field del: concat.simps split: option.split)
  have "requirement_base_of_members (nested_requirements (bt_get ?m ''from_nested'')) (bt_without [''rule''] ?m) = Some b"
    using base(3) assms(2)
    by (intro requirement_base_written [OF assms(1)]) (auto simp: nested_requirements_def other simp del: bt_get_members)
  moreover have "json_of_requirement (RequirementAll b) = json_of_fields ms" by (simp add: ms_def)
  ultimately show ?thesis
    using rule by (subst requirement_of_json.simps)
      (simp add: nested_requirements_def Let_def required_def del: bt_get_members json_of_requirement.simps)
qed

lemma requirement_of_json_pick:
  assumes "requirement_pick_ok [''rule''] p"
    and "\<And>rs ob. pick_submission_requirement p = FromNested rs ob \<Longrightarrow>
      those (map (requirement_of_json True \<circ> json_of_requirement) rs) = Some rs"
  shows "requirement_of_json buffered (json_of_requirement (RequirementPick p)) = Some (RequirementPick p)"
proof -
  obtain b c mn mx where p: "p = SubmissionRequirementPick b c mn mx" by (cases p)
  let ?names = "[''rule'', ''count'', ''min'', ''max'']"
  have ok: "requirement_base_ok ?names b" "pred_option usize_ok c" "pred_option usize_ok mn" "pred_option usize_ok mx"
    using assms(1) by (simp_all add: p)
  define ms where "ms = field ''rule'' (JString ''pick'') # requirement_pick_members p"
  let ?m = "bt_of_list (concat ms)"
  have names: "set ?names \<inter> {''from'', ''from_nested'', ''name'', ''purpose''} = {}" by simp
  note base = requirement_base_get [OF ok(1) names]
  have get: "bt_get ?m ''rule'' = Some (JString ''pick'')"
    "bt_get ?m ''count'' = Some (json_of_option json_of_usize c)"
    "bt_get ?m ''min'' = Some (json_of_option json_of_usize mn)"
    "bt_get ?m ''max'' = Some (json_of_option json_of_usize mx)"
    by (simp_all add: ms_def p members_get_field base(1) del: concat.simps concat_append)
  have other: "bt_get ?m k = members_get (requirement_base_members b) k" if "k \<notin> set ?names" for k
    using that by (simp add: ms_def p members_get_field del: concat.simps concat_append split: option.split)
  have "requirement_base_of_members (nested_requirements (bt_get ?m ''from_nested'')) (bt_without ?names ?m) = Some b"
    using base(3) assms(2)
    by (intro requirement_base_written [OF ok(1)])
      (auto simp: p nested_requirements_def other simp del: bt_get_members)
  then have "requirement_pick_of_members (nested_requirements (bt_get ?m ''from_nested'')) (bt_without [''rule''] ?m) = Some p"
    by (simp add: requirement_pick_of_members_def bt_without_without get p optional_null_usize ok del: bt_get_members)
  moreover have "json_of_requirement (RequirementPick p) = json_of_fields ms" by (simp add: ms_def)
  ultimately show ?thesis
    using get(1) by (subst requirement_of_json.simps)
      (simp add: nested_requirements_def Let_def required_def del: bt_get_members json_of_requirement.simps)
qed

lemma requirement_written: "requirement_ok r \<Longrightarrow> requirement_of_json buffered (json_of_requirement r) = Some r"
proof (induction "size r" arbitrary: r buffered rule: less_induct)
  case less
  have nested: "those (map (requirement_of_json True \<circ> json_of_requirement) rs) = Some rs"
    if "list_all requirement_ok rs" and "\<And>x. x \<in> set rs \<Longrightarrow> size x < size r" for rs
    using that less.hyps by (intro those_map_same) (simp add: list_all_iff)
  show ?case
  proof (cases r)
    case (RequirementAll b)
    have "size x < size r" if "b = FromNested rs ob" "x \<in> set rs" for rs ob x
      using size_list_estimation' [of x rs "size x" size] that by (simp add: RequirementAll)
    with less.prems nested show ?thesis
      unfolding RequirementAll by (intro requirement_of_json_all) auto
  next
    case (RequirementPick p)
    have "size x < size r" if "pick_submission_requirement p = FromNested rs ob" "x \<in> set rs" for rs ob x
      using size_list_estimation' [of x rs "size x" size] that by (cases p) (simp add: RequirementPick)
    with less.prems nested show ?thesis
      unfolding RequirementPick by (intro requirement_of_json_pick) (cases p; auto)+
  qed
qed

interpretation requirement_json: json_codec "requirement_of_json buffered" json_of_requirement requirement_ok
  by (rule json_codecI) (fact requirement_reader requirement_written)+

section \<open>Properties\<close>


text \<open>A definition with nested requirements.\<close>

definition ex_requirement :: submission_requirement where
  "ex_requirement = RequirementAll (FromNested
     [RequirementPick (SubmissionRequirementPick
        (From ''A'' \<lparr>sro_name = None, sro_purpose = Some ''p'', sro_property_set = Some []\<rparr>) (Some 1) None (Some 2))]
     \<lparr>sro_name = Some ''n'', sro_purpose = None, sro_property_set = Some [(''x'', JBool True)]\<rparr>)"


end
