(* ===== verification/Query_Json.thy ===== *)
theory Query_Json
  imports Dcql_Json Requirement_Json Request_Builder
begin

text \<open>
  The JSON forms of the queries in the requests of the builder: what \<open>query_reads_back\<close> means
  for them, and a definition that can never be sent. The parameters are in
  \<open>src/src/verifier/request_builder.rs\<close> and \<open>src/src/core/authorization_request/mod.rs\<close>.
\<close>

text \<open>The dictionaries of a library whose definitions are read and written by the derived instances.\<close>

definition derived_definition ::
  "path_lib \<Rightarrow> eval \<Rightarrow> submission_requirement reader \<Rightarrow> (submission_requirement \<Rightarrow> json) \<Rightarrow>
     presentation_definition deserialize \<Rightarrow> presentation_definition serialize \<Rightarrow> bool" where
  "derived_definition P ev rd wr de ser \<longleftrightarrow>
     (\<forall>j. res_ok (from_value de j) = definition_of_json P ev rd j) \<and>
     (\<forall>d. to_value ser d = Inr (json_of_definition P wr d))"

lemma pd_param_written:
  assumes "derived_definition P ev rd wr de ser"
  shows "try_into_json (pd_param de ser) d = Inr (json_of_definition P wr d)"
    and "res_ok (try_from_json (pd_param de ser) (json_of_definition P wr d)) =
      definition_of_json P ev rd (json_of_definition P wr d)"
  using assms
  by (simp_all add: derived_definition_def pd_param_def pd_into_json_def from_string_or_value_def
      json_of_definition_def json_of_fields_def)

text \<open>The hypothesis of the theorems on requests, for each kind of query.\<close>

lemma derived_query_reads_back:
  assumes "id_regex_ok regex" and "derived_dcql regex b (de_dcql L) (ser_dcql L)"
  shows "query_reads_back L (QueryDCQL q) \<longleftrightarrow> dcql_json_wf b q"
  using dcql_param_reads_back [OF assms] by (auto simp: query_reads_back_def reads_back_def res_ok_Some_iff)

lemma derived_definition_reads_back:
  assumes "path_lib_ok P" and "json_codec rd wr requirement_ok"
    and "derived_definition P ev rd wr (de_pd L) (ser_pd L)"
  shows "query_reads_back L (QueryPresentationDefinition (ByValueDefinition d)) \<longleftrightarrow>
    definition_ok ev requirement_ok d \<and> list_all has_fields (pd_input_descriptors d)"
  using json_printer.parse_print_iff [OF definition_printer [OF assms(1) json_codec.axioms(2) [OF assms(2)]]]
    pd_param_written [OF assms(3)]
  by (simp add: query_reads_back_def reads_back_def)

section \<open>Properties\<close>

text \<open>
  C37: a definition with empty constraints is never sent. The builder writes the definition into the
  parameters and parses them before it returns; when a descriptor of the definition has no fields, as
  \<open>Constraints::new\<close> makes them, the definition does not read back, and building any request fails.
\<close>

theorem empty_constraints_never_built:
  assumes wf: "bt_wf (rb_request_parameters self)" and pd: "rb_presentation_definition self = Some d"
    and empty: "\<not> list_all has_fields (pd_input_descriptors d)"
    and L: "derived_definition P ev rd wr (de_pd L) (ser_pd L)"
  shows "\<exists>e. request_build L md rt self w = (Inl e, w)"
proof -
  have "\<exists>e. build_request_object L md rt self = Inl e"
  proof (rule ccontr)
    assume "\<nexists>e. build_request_object L md rt self = Inl e"
    then obtain req where "build_request_object L md rt self = Inr req"
      by (cases "build_request_object L md rt self") auto
    then obtain p1 p2 p3 m where p1: "bt_wf p1"
      and p2: "insert_query L (rb_dcql self) (rb_presentation_definition self) p1 = Inr p2" "bt_wf p2"
      and p3: "build_helper L (v_submission_endpoint (rb_verifier self)) rt p2 = Inr p3"
      and m: "obj_get (response_mode_param L) p2 = Some (Inr m)" and spec: "request_spec L p3 req"
      using wf by (rule build_request_object_steps) auto
    let ?T = "pd_param (de_pd L) (ser_pd L)" and ?j = "json_of_definition P wr d"
    have "res_ok (try_from_json ?T ?j) = None"
      using definition_without_fields_unread [OF empty] pd_param_written(2) [OF L] by simp
    then obtain e where e: "try_from_json ?T ?j = Inl e" by (auto simp: res_ok_None_iff)
    have key: "KEY ?T = ''presentation_definition''" by (simp add: pd_param_def)
    have "p2 = bt_put ''presentation_definition'' ?j p1"
      using p2(1) pd pd_param_written(1) [OF L]
      by (auto simp: insert_query_def obj_insert_def key res_simps split: option.splits)
    with p1 have "obj_get ?T p2 = Some (Inl e)"
      by (simp add: obj_get_def key bt_get_put e)
    moreover have "obj_get ?T p3 = obj_get ?T p2"
      by (rule build_helper_frame [OF p3 p2(2) m]) (simp_all add: key)
    ultimately show False using spec
      by (auto simp: request_spec_def presentation_query_spec_def Let_def
          split: presentation_query.splits presentation_definition_indirection.splits)
  qed
  then show ?thesis by (auto simp: request_build_def io_simps)
qed

text \<open>A library with the derived forms, and the builder of the example with a definition for its query.\<close>

definition ex_pd_lib :: request_lib where
  "ex_pd_lib = std_request_lib\<lparr>
     de_pd := \<lparr>from_value = (\<lambda>j. ok_or (Msg ''invalid definition'')
         (definition_of_json ex_path_lib ex_match_eval (requirement_of_json False) j)),
       from_str = (\<lambda>s. Inl (Msg ''expected value''))\<rparr>,
     ser_pd := \<lparr>to_value = (\<lambda>d. Inr (json_of_definition ex_path_lib json_of_requirement d)),
       to_string = (\<lambda>d. Inl (Msg ''not printed''))\<rparr>\<rparr>"

lemma res_ok_ok_or [simp]: "res_ok (ok_or e x) = x"
  by (cases x) simp_all

lemma ex_pd_lib_derived:
  "derived_definition ex_path_lib ex_match_eval (requirement_of_json False) json_of_requirement (de_pd ex_pd_lib) (ser_pd ex_pd_lib)"
  by (simp add: derived_definition_def ex_pd_lib_def)

definition ex_pd_builder :: "presentation_definition \<Rightarrow> nat request_builder" where
  "ex_pd_builder d = with_presentation_definition d (build_authorization_request (rb_verifier (ex_builder ''direct_post'')))"

lemma empty_constraints_never_built_witness:
  "(\<exists>e. request_build ex_pd_lib ex_wallet_metadata PlainType
      (ex_pd_builder (pd_new ''pd'' (descriptor_new ''d'' constraints_new))) 0 = (Inl e, 0)) \<and>
   \<not> isl (fst (request_build ex_pd_lib ex_wallet_metadata PlainType (ex_pd_builder ex_match_definition) 0))"
proof
  let ?d = "pd_new ''pd'' (descriptor_new ''d'' constraints_new)"
  have "bt_wf (rb_request_parameters (ex_pd_builder ?d))" by code_simp
  moreover have "rb_presentation_definition (ex_pd_builder ?d) = Some ?d"
    by (simp add: ex_pd_builder_def with_presentation_definition_def)
  moreover have "\<not> list_all has_fields (pd_input_descriptors ?d)" by code_simp
  ultimately show "\<exists>e. request_build ex_pd_lib ex_wallet_metadata PlainType (ex_pd_builder ?d) 0 = (Inl e, 0)"
    by (rule empty_constraints_never_built) (rule ex_pd_lib_derived)
  show "\<not> isl (fst (request_build ex_pd_lib ex_wallet_metadata PlainType (ex_pd_builder ex_match_definition) 0))"
    by code_simp
qed

end
