(* ===== verification/Parameter_Json.thy ===== *)
theory Parameter_Json
  imports Parameters Flatten Definition_Json
begin

text \<open>
  The JSON forms of the parameters of a request that \<open>serde\<close> derives from
  \<open>src/src/core/authorization_request/parameters.rs\<close> and
  \<open>src/src/core/metadata/parameters/verifier.rs\<close>: transaction data items, verifier information and the
  keys of a verifier.
\<close>

section \<open>Transaction data items\<close>

definition hash_algorithm_of_json :: "hash_algorithm reader" where
  "hash_algorithm_of_json j = do { s \<leftarrow> as_str j; res_ok (hash_algorithm_try_from s) }"

definition json_of_hash_algorithm :: "hash_algorithm \<Rightarrow> json" where
  "json_of_hash_algorithm a = JString (string_of_hash_algorithm a)"

definition delegate_formats :: "(string \<times> delegate_format) list" where
  "delegate_formats = [(''dSD-JWT'', DelegateOpen), (''dSD-JWT+KB'', DelegateHolderBinding)]"

fun json_of_delegate_format :: "delegate_format \<Rightarrow> json" where
  "json_of_delegate_format DelegateOpen = JString ''dSD-JWT''"
| "json_of_delegate_format DelegateHolderBinding = JString ''dSD-JWT+KB''"

text \<open>The data of the delegate type, from the buffered members without the tag.\<close>

definition delegate_of_members :: "json_map \<Rightarrow> delegate_sd_jwt_transaction_data option" where
  "delegate_of_members m = do {
     format \<leftarrow> required (buffered_unit_enum delegate_formats) (bt_get m ''format'');
     payload \<leftarrow> required as_str (bt_get m ''delegate_payload_disclosure'');
     disclosures \<leftarrow> optional (vec_of_json as_str) (bt_get m ''delegate_disclosures'');
     Some \<lparr>dsd_format = format, dsd_delegate_payload_disclosure = payload,
       dsd_delegate_disclosures = disclosures\<rparr> }"

definition delegate_members :: "delegate_sd_jwt_transaction_data \<Rightarrow> json_map list" where
  "delegate_members self = [
     field ''format'' (json_of_delegate_format (dsd_format self)),
     field ''delegate_payload_disclosure'' (JString (dsd_delegate_payload_disclosure self)),
     opt_field ''delegate_disclosures'' (json_of_vec JString) (dsd_delegate_disclosures self)]"

text \<open>
  The content of an item: the tagged variant is tried first, and whatever is wrong with it, the untagged
  variant takes the members.
\<close>

definition content_of_members :: "json_map \<Rightarrow> transaction_content option" where
  "content_of_members m =
     (case do { tag \<leftarrow> required (tag_of_json True [DELEGATE_SD_JWT_TYPE]) (bt_get m ''type'');
                d \<leftarrow> delegate_of_members (bt_without [''type''] m);
                Some (DelegateSdJwt d) } of
        Some c \<Rightarrow> Some c
      | None \<Rightarrow> do { ty \<leftarrow> required as_str (bt_get m ''type'');
                    Some (UnknownContent ty (bt_without [''type''] m)) })"

fun content_members :: "transaction_content \<Rightarrow> json_map list" where
  "content_members (DelegateSdJwt d) = field ''type'' (JString DELEGATE_SD_JWT_TYPE) # delegate_members d"
| "content_members (UnknownContent ty data) = [field ''type'' (JString ty), flat_field data]"

definition item_of_json :: "transaction_data_item reader" where
  "item_of_json j = do {
     m \<leftarrow> object_members j;
     ids \<leftarrow> required (vec_of_json as_str) (bt_get m ''credential_ids'');
     algs \<leftarrow> optional (vec_of_json hash_algorithm_of_json) (bt_get m ''transaction_data_hashes_alg'');
     content \<leftarrow> content_of_members (bt_without [''credential_ids'', ''transaction_data_hashes_alg''] m);
     Some \<lparr>tdi_credential_ids = ids, tdi_hashes_alg = algs, tdi_content = content\<rparr> }"

definition item_members :: "transaction_data_item \<Rightarrow> json_map list" where
  "item_members self =
     field ''credential_ids'' (json_of_vec JString (tdi_credential_ids self)) #
     field ''transaction_data_hashes_alg''
       (json_of_option (json_of_vec json_of_hash_algorithm) (tdi_hashes_alg self)) #
     content_members (tdi_content self)"

definition json_of_item :: "transaction_data_item \<Rightarrow> json" where
  "json_of_item self = json_of_fields (item_members self)"

text \<open>An item of unknown type has members of its own only, and is not one of the known type.\<close>

fun content_ok :: "transaction_content \<Rightarrow> bool" where
  "content_ok (DelegateSdJwt d) \<longleftrightarrow> True"
| "content_ok (UnknownContent ty data) \<longleftrightarrow>
     bt_wf data \<and> bt_disjoint [''credential_ids'', ''transaction_data_hashes_alg'', ''type''] data \<and>
     (ty = DELEGATE_SD_JWT_TYPE \<longrightarrow> delegate_of_members data = None)"

definition item_ok :: "transaction_data_item \<Rightarrow> bool" where
  "item_ok i \<longleftrightarrow> content_ok (tdi_content i)"

interpretation hash_algorithm_json: value_codec hash_algorithm_of_json json_of_hash_algorithm "\<lambda>_. True"
  by unfold_locales (simp_all add: hash_algorithm_of_json_def json_of_hash_algorithm_def hash_algorithm_round_trip)

interpretation hash_algorithms_json:
  value_codec "vec_of_json hash_algorithm_of_json" "json_of_vec json_of_hash_algorithm" "\<lambda>_. True"
  using vec_value_codec [OF hash_algorithm_json.json_codec_axioms] by simp

interpretation delegate_format_json:
  value_codec "buffered_unit_enum delegate_formats" json_of_delegate_format "\<lambda>_. True"
proof
  show "buffered_unit_enum delegate_formats (json_of_delegate_format x) = Some x \<longleftrightarrow> True" for x
    by (cases x) (simp_all add: delegate_formats_def)
  show "json_of_delegate_format x \<noteq> JNull" for x by (cases x) simp_all
qed simp

lemma delegate_written:
  assumes "\<And>k. k \<notin> {''credential_ids'', ''transaction_data_hashes_alg'', ''type''} \<Longrightarrow>
      bt_get m k = members_get (delegate_members d) k"
  shows "delegate_of_members m = Some d"
  using assms [of "''format''"] assms [of "''delegate_payload_disclosure''"] assms [of "''delegate_disclosures''"]
  by (cases d) (simp add: delegate_of_members_def delegate_members_def required_def
      delegate_format_json.parse_print_iff [THEN iffD2] texts_json.optional_iff [THEN iffD2])

lemma content_reader:
  assumes "content_of_members (bt_without [''credential_ids'', ''transaction_data_hashes_alg''] m) = Some c" and "bt_wf m"
  shows "content_ok c"
proof (cases c)
  case (UnknownContent ty data)
  let ?m = "bt_without [''credential_ids'', ''transaction_data_hashes_alg''] m"
  from assms(1) UnknownContent have ty: "bt_get m ''type'' = Some (JString ty)"
    and data: "data = bt_without [''type''] ?m"
    and none: "do { tag \<leftarrow> required (tag_of_json True [DELEGATE_SD_JWT_TYPE]) (bt_get m ''type'');
                d \<leftarrow> delegate_of_members data; Some (DelegateSdJwt d) } = None"
    by (auto simp: content_of_members_def required_def bind_eq_Some_conv split: option.splits)
  from ty none have "ty = DELEGATE_SD_JWT_TYPE \<longrightarrow> delegate_of_members data = None"
    by (auto simp: required_def bind_eq_None_conv)
  then show ?thesis
    using assms(2) by (simp add: UnknownContent data bt_without_without bt_disjoint_without)
qed simp

lemma content_written:
  assumes ok: "content_ok c" and m: "bt_wf m"
    and get: "\<And>k. bt_get m k =
      (if k \<in> set [''credential_ids'', ''transaction_data_hashes_alg''] then None else members_get (content_members c) k)"
  shows "content_of_members m = Some c"
proof (cases c)
  case (DelegateSdJwt d)
  have "bt_get m ''type'' = Some (JString DELEGATE_SD_JWT_TYPE)"
    by (simp add: get DelegateSdJwt delegate_members_def)
  moreover have "delegate_of_members (bt_without [''type''] m) = Some d"
    by (rule delegate_written) (simp add: get DelegateSdJwt)
  ultimately show ?thesis by (simp add: content_of_members_def required_def DelegateSdJwt)
next
  case (UnknownContent ty data)
  from ok have data: "bt_wf data" "bt_disjoint [''credential_ids'', ''transaction_data_hashes_alg'', ''type''] data"
    by (simp_all add: UnknownContent)
  note none = bt_disjoint_get [OF data(2)]
  have ty: "bt_get m ''type'' = Some (JString ty)"
    using data(1) none by (simp add: get UnknownContent members_get_field)
  have "bt_without [''type''] m = data"
  proof (rule flat_field_left [OF data(1) m])
    show "bt_disjoint [''type''] data" using data(2) by (auto simp: bt_disjoint_def list_all_iff)
    show "bt_get m k = bt_get data k" if "k \<notin> set [''type'']" for k
      using that data(1) none [of k] by (auto simp: get UnknownContent members_get_field split: option.split)
  qed
  then show ?thesis
    using ok ty by (cases "delegate_of_members data")
      (auto simp: content_of_members_def required_def UnknownContent)
qed

interpretation item_json: value_codec item_of_json json_of_item item_ok
proof (rule value_codecI)
  show "item_ok x" if "item_of_json j = Some x" for j x
    using that by (auto simp: item_of_json_def item_ok_def bind_eq_Some_conv dest: object_members_wf content_reader)
  show "item_of_json (json_of_item x) = Some x" if "item_ok x" for x
  proof -
    define ms where "ms = field ''credential_ids'' (json_of_vec JString (tdi_credential_ids x)) #
      field ''transaction_data_hashes_alg''
        (json_of_option (json_of_vec json_of_hash_algorithm) (tdi_hashes_alg x)) #
      content_members (tdi_content x)"
    let ?m = "bt_of_list (concat ms)"
    have "members_get (content_members (tdi_content x)) k = None"
      if "k \<in> {''credential_ids'', ''transaction_data_hashes_alg''}" for k
      using \<open>item_ok x\<close> that bt_disjoint_get [of _ _ k]
      by (cases "tdi_content x") (fastforce simp: item_ok_def delegate_members_def members_get_field)+
    then have get: "bt_get ?m ''credential_ids'' = Some (json_of_vec JString (tdi_credential_ids x))"
      "bt_get ?m ''transaction_data_hashes_alg'' =
        Some (json_of_option (json_of_vec json_of_hash_algorithm) (tdi_hashes_alg x))"
      by (simp_all add: ms_def members_get_field del: concat.simps)
    have "content_of_members (bt_without [''credential_ids'', ''transaction_data_hashes_alg''] ?m) = Some (tdi_content x)"
      using \<open>item_ok x\<close> by (intro content_written)
        (auto simp: item_ok_def ms_def members_get_field simp del: concat.simps split: option.split)
    then have "item_of_json (json_of_fields ms) = Some x"
      by (simp add: item_of_json_def get texts_json.required_iff [THEN iffD2]
          hash_algorithms_json.optional_null_iff [THEN iffD2] del: bt_get_members)
    then show ?thesis by (simp add: json_of_item_def item_members_def ms_def)
  qed
qed (simp add: json_of_item_def item_members_def)

section \<open>Verifier information\<close>

text \<open>The two untagged variants of the data are told apart by the value alone.\<close>

definition verifier_info_data_of_json :: "verifier_info_data reader" where
  "verifier_info_data_of_json j =
     (case j of
        JString s \<Rightarrow> Some (VInfoString s)
      | JObject kvs \<Rightarrow> Some (VInfoObject (bt_of_list kvs))
      | _ \<Rightarrow> None)"

definition verifier_info_entry_of_json :: "verifier_info_entry reader" where
  "verifier_info_entry_of_json j = do {
     m \<leftarrow> struct_fields_from 2 [''format'', ''data'', ''credential_ids''] j;
     format \<leftarrow> required as_str (m ''format'');
     data \<leftarrow> required verifier_info_data_of_json (m ''data'');
     ids \<leftarrow> optional (nev_of_json as_str) (m ''credential_ids'');
     Some \<lparr>vie_format = format, vie_data = data, vie_credential_ids = ids\<rparr> }"

definition json_of_verifier_info_entry :: "verifier_info_entry \<Rightarrow> json" where
  "json_of_verifier_info_entry self = json_of_fields [
     field ''format'' (JString (vie_format self)),
     field ''data'' (verifier_info_data_into_json (vie_data self)),
     opt_field ''credential_ids'' (json_of_nev JString) (vie_credential_ids self)]"

fun verifier_info_data_ok :: "verifier_info_data \<Rightarrow> bool" where
  "verifier_info_data_ok (VInfoString s) \<longleftrightarrow> True"
| "verifier_info_data_ok (VInfoObject ob) \<longleftrightarrow> bt_wf ob"

definition verifier_info_entry_ok :: "verifier_info_entry \<Rightarrow> bool" where
  "verifier_info_entry_ok e \<longleftrightarrow> verifier_info_data_ok (vie_data e) \<and> pred_option nev_wf (vie_credential_ids e)"

interpretation verifier_info_data_json:
  value_codec verifier_info_data_of_json verifier_info_data_into_json verifier_info_data_ok
proof (rule value_codecI)
  show "verifier_info_data_ok x" if "verifier_info_data_of_json j = Some x" for j x
    using that by (cases j) (auto simp: verifier_info_data_of_json_def)
  show "verifier_info_data_of_json (verifier_info_data_into_json x) = Some x" if "verifier_info_data_ok x" for x
    using that by (cases x) (simp_all add: verifier_info_data_of_json_def bt_of_list_same)
  show "verifier_info_data_into_json x \<noteq> JNull" for x by (cases x) simp_all
qed

interpretation verifier_info_entry_json:
  value_codec verifier_info_entry_of_json json_of_verifier_info_entry verifier_info_entry_ok
proof (rule value_codecI)
  show "verifier_info_entry_ok x" if "verifier_info_entry_of_json j = Some x" for j x
    using that by (auto simp: verifier_info_entry_of_json_def verifier_info_entry_ok_def bind_eq_Some_conv
        dest: verifier_info_data_json.required_ok strings_json.optional_ok)
  show "verifier_info_entry_of_json (json_of_verifier_info_entry x) = Some x" if "verifier_info_entry_ok x" for x
    using that by (cases x) (simp add: verifier_info_entry_of_json_def json_of_verifier_info_entry_def
        verifier_info_entry_ok_def string_json.required_iff [THEN iffD2] verifier_info_data_json.required_iff [THEN iffD2]
        strings_json.optional_iff [THEN iffD2])
qed (simp add: json_of_verifier_info_entry_def)

text \<open>The parameter, with the derived forms of its entries.\<close>

definition derived_verifier_info ::
  "verifier_info_entry nonempty_vec deserialize \<Rightarrow> verifier_info_entry nonempty_vec serialize \<Rightarrow> bool" where
  "derived_verifier_info de ser \<longleftrightarrow>
     (\<forall>j. res_ok (from_value de j) = nev_of_json verifier_info_entry_of_json j) \<and>
     (\<forall>v. to_value ser v = Inr (json_of_nev json_of_verifier_info_entry v))"

lemma verifier_info_param_iff:
  assumes "derived_verifier_info de ser"
  shows "try_from_json (verifier_info_param de ser) j = Inr v \<longleftrightarrow>
    nev_of_json verifier_info_entry_of_json j = Some (vi_entries v)"
proof -
  have "nev_of_json verifier_info_entry_of_json j = Some (vi_entries v) \<longleftrightarrow> from_value de j = Inr (vi_entries v)"
    using assms by (metis derived_verifier_info_def res_ok_Some_iff)
  then show ?thesis by (cases v) (auto simp: verifier_info_param_def res_simps)
qed

lemma verifier_info_reads_back:
  assumes "derived_verifier_info de ser"
  shows "(\<exists>j. try_into_json (verifier_info_param de ser) v = Inr j \<and>
      try_from_json (verifier_info_param de ser) j = Inr v) \<longleftrightarrow> nev_all verifier_info_entry_ok (vi_entries v)"
  using assms verifier_info_param_iff [OF assms]
    json_printer.parse_print_iff [OF json_printer.nev_printer [OF verifier_info_entry_json.json_printer_axioms]]
  by (simp add: derived_verifier_info_def verifier_info_param_def)

section \<open>Keys of a verifier\<close>

fun json_map_of_json :: "json_map reader" where
  "json_map_of_json (JObject kvs) = Some (bt_of_list kvs)"
| "json_map_of_json _ = None"

definition jwks_of_json :: "json_map list reader" where
  "jwks_of_json j = do {
     m \<leftarrow> struct_fields [''keys''] j;
     required (vec_of_json json_map_of_json) (m ''keys'') }"

lemma jwks_wf: "jwks_of_json j = Some keys \<Longrightarrow> list_all bt_wf keys"
proof -
  have "json_reader json_map_of_json bt_wf"
  proof
    show "bt_wf x" if "json_map_of_json j = Some x" for j x using that by (cases j) auto
  qed
  from json_reader.required_ok [OF json_reader.vec_reader [OF this]]
  show "jwks_of_json j = Some keys \<Longrightarrow> list_all bt_wf keys"
    by (auto simp: jwks_of_json_def bind_eq_Some_conv)
qed

section \<open>Properties\<close>

text \<open>
  Texts, in terms of the values: what a text reads as is what some value reads as, and the text of a
  well-formed item, where no member occurs twice, reads as the value of the item does.
\<close>

definition derived_item :: "transaction_data_item deserialize \<Rightarrow> transaction_data_item serialize \<Rightarrow> bool" where
  "derived_item de ser \<longleftrightarrow>
     (\<forall>t i. from_str de t = Inr i \<longrightarrow> (\<exists>j. item_of_json j = Some i)) \<and>
     (\<forall>i t. item_ok i \<longrightarrow> to_string ser i = Inr t \<longrightarrow>
        res_ok (from_str de t) = item_of_json (json_of_item i))"

text \<open>
  C27: transaction data items survive their encoding. An item that was read is well-formed: the members
  of an unknown type do not hide the members of an item, and are not those of the known type. The wallet
  decodes what the verifier encoded exactly when the item is well-formed, and an item that is not is read
  as another one or not at all.
\<close>

theorem transaction_item_round_trip:
  assumes "base64_ok b" and "derived_item de ser"
  shows "(item_of_json j = Some i \<longrightarrow> item_ok i) \<and> (item_of_json (json_of_item i) = Some i \<longleftrightarrow> item_ok i) \<and>
    (item_into_base64url_encoded b ser i = Inr e \<longrightarrow>
       (item_from_base64url_encoded b de e = Inr i \<longleftrightarrow> item_ok i))"
proof (intro conjI impI)
  show "item_ok i" if "item_of_json j = Some i" using that by (rule item_json.parse_ok)
  show read: "item_of_json (json_of_item i) = Some i \<longleftrightarrow> item_ok i" by (rule item_json.parse_print_iff)
  show "item_from_base64url_encoded b de e = Inr i \<longleftrightarrow> item_ok i"
    if encoded: "item_into_base64url_encoded b ser i = Inr e"
  proof -
    obtain t where t: "to_string ser i = Inr t"
        "item_from_base64url_encoded b de e = map_err Internal (from_str de t)"
      using item_base64_round_trip [OF assms(1) encoded] by blast
    have "from_str de t = Inr i \<longleftrightarrow> item_ok i"
      using assms(2) t(1) read item_json.parse_ok by (metis derived_item_def res_ok_Some_iff)
    with t(2) show ?thesis by (simp add: res_simps)
  qed
qed

definition ex_unknown_item :: transaction_data_item where
  "ex_unknown_item = \<lparr>tdi_credential_ids = [''pid''], tdi_hashes_alg = Some [Sha256],
     tdi_content = UnknownContent ''payment'' [(''amount'', JNumber (PosInt 5))]\<rparr>"

text \<open>The text form of one item, with its JSON value for a text.\<close>

definition ex_item_de :: "transaction_data_item deserialize" where
  "ex_item_de = \<lparr>from_value = (\<lambda>j. ok_or (Msg ''not an item'') (item_of_json j)),
     from_str = (\<lambda>t. ok_or (Msg ''not an item'') (item_of_json (json_of_item ex_unknown_item)))\<rparr>"

lemma transaction_item_round_trip_witness:
  "item_from_base64url_encoded hex64 ex_item_de (b64_encode hex64 ''{}'') = Inr ex_unknown_item"
proof -
  let ?print = "\<lambda>j. if j = json_of_item ex_unknown_item then Inr ''{}'' else Inl (Msg ''not printed'')"
  let ?ser = "\<lparr>to_value = (\<lambda>i. Inr (json_of_item i)), to_string = (\<lambda>i. ?print (json_of_item i))\<rparr>"
  have res: "res_ok (ok_or e x) = x" for e :: anyhow and x :: "transaction_data_item option" by (cases x) simp_all
  have derived: "derived_item ex_item_de ?ser"
    by (auto simp: derived_item_def ex_item_de_def res split: if_splits) (metis res res_ok_Some_iff)
  have "item_ok ex_unknown_item"
    by (simp add: ex_unknown_item_def item_ok_def bt_disjoint_def DELEGATE_SD_JWT_TYPE_def)
  moreover have "item_into_base64url_encoded hex64 ?ser ex_unknown_item = Inr (b64_encode hex64 ''{}'')"
    by (simp add: item_into_base64url_encoded_def)
  ultimately show ?thesis
    using transaction_item_round_trip [OF base64_ok_hex64 derived] by blast
qed

text \<open>
  C36: a malformed delegate item is taken for one of an unknown type. An object with the type of a
  delegate transaction whose data does not fit that type is not refused: it is read as an item of unknown
  type, which answers with the name of the known type when it is asked for it.
\<close>

theorem malformed_delegate_accepted:
  assumes "object_members j = Some m" and "bt_get m ''type'' = Some (JString DELEGATE_SD_JWT_TYPE)"
    and "delegate_of_members (bt_without [''credential_ids'', ''transaction_data_hashes_alg'', ''type''] m) = None"
    and "required (vec_of_json as_str) (bt_get m ''credential_ids'') = Some ids"
    and "optional (vec_of_json hash_algorithm_of_json) (bt_get m ''transaction_data_hashes_alg'') = Some algs"
  shows "\<exists>i data. item_of_json j = Some i \<and> tdi_content i = UnknownContent DELEGATE_SD_JWT_TYPE data \<and>
    item_type i = DELEGATE_SD_JWT_TYPE"
  using assms by (auto simp: item_of_json_def content_of_members_def required_def item_type_def bt_without_without
      bind_eq_Some_conv)

lemma malformed_delegate_accepted_witness:
  "\<exists>i data. item_of_json (JObject [(''credential_ids'', JArray [JString ''pid'']), (''format'', JString ''dSD-JWT''),
       (''type'', JString ''delegate'')]) = Some i \<and>
     tdi_content i = UnknownContent DELEGATE_SD_JWT_TYPE data \<and> item_type i = DELEGATE_SD_JWT_TYPE"
proof -
  let ?m = "[(''credential_ids'', JArray [JString ''pid'']), (''format'', JString ''dSD-JWT''), (''type'', JString ''delegate'')]"
  have m: "object_members (JObject ?m) = Some ?m" by code_simp
  have none: "delegate_of_members (bt_without [''credential_ids'', ''transaction_data_hashes_alg'', ''type''] ?m) = None"
    by code_simp
  have ids: "required (vec_of_json as_str) (bt_get ?m ''credential_ids'') = Some [''pid'']"
    "optional (vec_of_json hash_algorithm_of_json) (bt_get ?m ''transaction_data_hashes_alg'') = Some None"
    by (simp_all add: required_def)
  show ?thesis
    by (rule malformed_delegate_accepted [OF m _ none ids]) (simp add: DELEGATE_SD_JWT_TYPE_def)
qed

end
