(* ===== verification/Request_Json.thy ===== *)
theory Request_Json
  imports Request_Object Dcql_Json Requirement_Json
begin

text \<open>
  The JSON forms that \<open>serde\<close> derives from \<open>src/src/core/authorization_request/mod.rs\<close> for signed
  requests, passed by value or by reference, and for resolved queries. A signed request is written as a
  form and read from the object that the form decodes to; the method of a reference is an enum of
  \<open>parameters.rs\<close>.
\<close>

section \<open>Signed requests\<close>

definition http_method_of_json :: "http_method reader" where
  "http_method_of_json = unit_enum_of_json [(''get'', GET), (''post'', POST)]"

definition reference_of_members :: "url reader \<Rightarrow> json_map \<Rightarrow> request_reference option" where
  "reference_of_members url_of m = do {
     uri \<leftarrow> required url_of (bt_get m ''request_uri'');
     method \<leftarrow> optional http_method_of_json (bt_get m ''request_uri_method'');
     Some \<lparr>request_uri = uri, request_uri_method = method\<rparr> }"

text \<open>
  An enum with a variant that carries its name and an untagged one: the first is the value of the only
  member of an object, and the second is tried for everything else.
\<close>

definition request_by_value :: "json_map \<Rightarrow> string option" where
  "request_by_value m =
     (case m of
        [(k, v)] \<Rightarrow> if k = ''request'' then as_str v else None
      | _ \<Rightarrow> None)"

definition indirection_of_members :: "url reader \<Rightarrow> json_map \<Rightarrow> request_indirection option" where
  "indirection_of_members url_of m =
     (case request_by_value m of
        Some jwt \<Rightarrow> Some (ByValueRequest jwt)
      | None \<Rightarrow> map_option ByReferenceRequest (reference_of_members url_of m))"

definition signed_of_json :: "url reader \<Rightarrow> signed_request reader" where
  "signed_of_json url_of j = do {
     m \<leftarrow> object_members j;
     c \<leftarrow> required as_str (bt_get m ''client_id'');
     i \<leftarrow> indirection_of_members url_of (bt_without [''client_id''] m);
     Some \<lparr>signed_client_id = c, signed_indirection = i\<rparr> }"

text \<open>The pairs of the form that is written.\<close>

definition reference_pairs :: "request_reference \<Rightarrow> (string \<times> string) list" where
  "reference_pairs self = (''request_uri'', url_str (request_uri self)) #
     (case request_uri_method self of
        None \<Rightarrow> []
      | Some method \<Rightarrow> [(''request_uri_method'', string_of_http_method method)])"

fun indirection_pairs :: "request_indirection \<Rightarrow> (string \<times> string) list" where
  "indirection_pairs (ByValueRequest jwt) = [(''request'', jwt)]"
| "indirection_pairs (ByReferenceRequest r) = reference_pairs r"

definition signed_pairs :: "signed_request \<Rightarrow> (string \<times> string) list" where
  "signed_pairs self = (''client_id'', signed_client_id self) # indirection_pairs (signed_indirection self)"

definition json_of_pairs :: "(string \<times> string) list \<Rightarrow> json" where
  "json_of_pairs ps = JObject (bt_of_list (map (\<lambda>(k, v). (k, JString v)) ps))"

lemma http_method_text: "http_method_of_json (JString (string_of_http_method m)) = Some m"
  by (cases m) (simp_all add: http_method_of_json_def)

lemma signed_written:
  "signed_of_json url_of (json_of_pairs (signed_pairs s)) = Some s \<longleftrightarrow>
     (case signed_indirection s of
        ByValueRequest jwt \<Rightarrow> True
      | ByReferenceRequest r \<Rightarrow> url_of (JString (url_str (request_uri r))) = Some (request_uri r))"
proof (cases "signed_indirection s")
  case (ByValueRequest jwt)
  then show ?thesis
    by (cases s) (simp add: signed_of_json_def json_of_pairs_def signed_pairs_def bt_of_list_def bt_without_def
        required_def indirection_of_members_def request_by_value_def)
next
  case (ByReferenceRequest r)
  then show ?thesis
    by (cases s; cases r; cases "request_uri_method r")
      (auto simp: signed_of_json_def json_of_pairs_def signed_pairs_def reference_pairs_def bt_of_list_def
        bt_without_def required_def indirection_of_members_def request_by_value_def reference_of_members_def
        http_method_text bind_eq_Some_conv)
qed

text \<open>A request by value is read from its two members and no other.\<close>

lemma request_by_value_members:
  assumes "bt_wf m" and "bt_get m ''client_id'' = Some c"
  shows "request_by_value (bt_without [''client_id''] m) = Some jwt \<longleftrightarrow>
    m = [(''client_id'', c), (''request'', JString jwt)]"
proof
  assume r: "request_by_value (bt_without [''client_id''] m) = Some jwt"
  then have left: "bt_without [''client_id''] m = [(''request'', JString jwt)]"
    by (auto simp: request_by_value_def split: list.splits prod.splits if_splits json.splits elim!: as_str.elims)
  show "m = [(''client_id'', c), (''request'', JString jwt)]"
  proof (rule bt_get_ext [OF assms(1)])
    show "bt_get m k = bt_get [(''client_id'', c), (''request'', JString jwt)] k" for k
      using assms(2) bt_get_without [of "[''client_id'']" m k] by (cases "k = ''client_id''") (simp_all add: left)
  qed simp
qed (simp add: bt_without_def request_by_value_def)

lemma signed_of_members:
  assumes "bt_wf m"
  shows "signed_of_json url_of (JObject m) = Some s \<longleftrightarrow>
    bt_get m ''client_id'' = Some (JString (signed_client_id s)) \<and>
    (case signed_indirection s of
       ByValueRequest jwt \<Rightarrow> m = [(''client_id'', JString (signed_client_id s)), (''request'', JString jwt)]
     | ByReferenceRequest r \<Rightarrow>
         \<not> (\<exists>c jwt. m = [(''client_id'', c), (''request'', JString jwt)]) \<and>
         reference_of_members url_of m = Some r)"
proof (cases "bt_get m ''client_id''")
  case None
  then show ?thesis by (simp add: signed_of_json_def required_def bt_of_list_same [OF assms])
next
  case (Some c)
  show ?thesis
  proof (cases "request_by_value (bt_without [''client_id''] m)")
    case (Some jwt)
    then have m: "m = [(''client_id'', c), (''request'', JString jwt)]"
      using request_by_value_members [OF assms \<open>bt_get m ''client_id'' = Some c\<close>] by simp
    show ?thesis
      by (cases s) (auto simp: m signed_of_json_def required_def indirection_of_members_def bt_of_list_def
          bt_without_def request_by_value_def bind_eq_Some_conv split: request_indirection.split)
  next
    case None
    then have m: "m \<noteq> [(''client_id'', c), (''request'', JString jwt)]" for jwt
      using None request_by_value_members [OF assms Some, of jwt] by simp
    have other: "\<not> (\<exists>c jwt. m = [(''client_id'', c), (''request'', JString jwt)])"
    proof clarify
      fix c' jwt
      assume m': "m = [(''client_id'', c'), (''request'', JString jwt)]"
      with Some have "c' = c" by simp
      with m' m [of jwt] show False by simp
    qed
    have "reference_of_members url_of (bt_without [''client_id''] m) = reference_of_members url_of m"
      by (simp add: reference_of_members_def)
    with None Some m other show ?thesis
      by (cases s) (auto simp: signed_of_json_def required_def indirection_of_members_def bt_of_list_same [OF assms]
          bind_eq_Some_conv split: request_indirection.split)
  qed
qed

section \<open>Resolved queries\<close>

text \<open>An enum of two variants with data: an object with the name of the variant.\<close>

definition resolved_query_of_json ::
  "dcql reader \<Rightarrow> presentation_definition reader \<Rightarrow> resolved_presentation_query reader" where
  "resolved_query_of_json dcql_of pd_of j =
     (case j of
        JObject [(k, v)] \<Rightarrow>
          (if k = ''dcql_query'' then map_option ResolvedDCQL (dcql_of v)
           else if k = ''presentation_definition'' then map_option ResolvedPresentationDefinition (pd_of v)
           else None)
      | _ \<Rightarrow> None)"

fun json_of_resolved_query ::
  "(dcql \<Rightarrow> json) \<Rightarrow> (presentation_definition \<Rightarrow> json) \<Rightarrow> resolved_presentation_query \<Rightarrow> json" where
  "json_of_resolved_query print_dcql print_pd (ResolvedDCQL d) =
     JObject [(''dcql_query'', print_dcql d)]"
| "json_of_resolved_query print_dcql print_pd (ResolvedPresentationDefinition p) =
     JObject [(''presentation_definition'', print_pd p)]"

lemma resolved_query_printer:
  assumes "json_printer dcql_of print_dcql dcql_exact" and "json_printer pd_of print_pd pd_exact"
  shows "json_printer (resolved_query_of_json dcql_of pd_of) (json_of_resolved_query print_dcql print_pd)
    (case_resolved_presentation_query dcql_exact pd_exact)"
  using json_printer.parse_print_iff [OF assms(1)] json_printer.parse_print_iff [OF assms(2)]
  by unfold_locales (auto simp: resolved_query_of_json_def split: resolved_presentation_query.split)

section \<open>Properties\<close>

text \<open>The reader of a library is the derived one, over its reader of URLs.\<close>

definition derived_signed :: "'z request_lib_scheme \<Rightarrow> bool" where
  "derived_signed L \<longleftrightarrow>
     (\<forall>j. res_ok (from_value (de_signed L) j) = signed_of_json (\<lambda>u. res_ok (from_value (de_url L) u)) j)"

text \<open>
  C35: what becomes of a query that holds a \<open>request\<close> parameter. It is accepted exactly in two
  cases: it is the client identifier and the request object, two texts, and nothing else, and is then a signed
  request by value; or it holds a client identifier and a readable reference (\<open>request_uri\<close>, with a
  method that is absent or known), and is then a signed request by reference whose request object is dropped.
  Any other parameter beside a request object by value makes the wallet refuse the query.
\<close>

theorem signed_query_by_value:
  assumes "derived_signed L" and "form_to_object L q = Inr m" and "bt_wf m"
    and "bt_get m ''request'' = Some v"
  shows "request_from_query_params L q = Inr a \<longleftrightarrow>
    (\<exists>c jwt. m = [(''client_id'', JString c), (''request'', JString jwt)] \<and>
       a = SignedRequest \<lparr>signed_client_id = c, signed_indirection = ByValueRequest jwt\<rparr>) \<or>
    (\<exists>c r. bt_get m ''client_id'' = Some (JString c) \<and>
       reference_of_members (\<lambda>u. res_ok (from_value (de_url L) u)) m = Some r \<and>
       a = SignedRequest \<lparr>signed_client_id = c, signed_indirection = ByReferenceRequest r\<rparr>)"
proof -
  let ?url = "\<lambda>u. res_ok (from_value (de_url L) u)"
  have read: "from_value (de_signed L) (JObject m) = Inr s \<longleftrightarrow> signed_of_json ?url (JObject m) = Some s" for s
    using assms(1) by (metis derived_signed_def res_ok_Some_iff)
  have two: "reference_of_members ?url [(''client_id'', c), (''request'', j)] = None" for c j
    by (simp add: reference_of_members_def required_def)
  have "signed_of_json ?url (JObject m) = Some s \<longleftrightarrow>
      (\<exists>c jwt. m = [(''client_id'', JString c), (''request'', JString jwt)] \<and>
         s = \<lparr>signed_client_id = c, signed_indirection = ByValueRequest jwt\<rparr>) \<or>
      (\<exists>c r. bt_get m ''client_id'' = Some (JString c) \<and> reference_of_members ?url m = Some r \<and>
         s = \<lparr>signed_client_id = c, signed_indirection = ByReferenceRequest r\<rparr>)" for s
    using two by (cases s) (auto simp: signed_of_members [OF assms(3)] split: request_indirection.splits)
  then show ?thesis
    using assms(2,4) by (auto simp: request_from_query_params_Inr_iff read)
qed

text \<open>A library with the derived reader, whose forms are the texts of the example.\<close>

definition ex_signed_lib :: "json_map \<Rightarrow> request_lib" where
  "ex_signed_lib m = std_request_lib\<lparr>
     form_to_object := (\<lambda>q. Inr m),
     de_signed := \<lparr>from_value = (\<lambda>j. ok_or (Msg ''not a signed request'')
         (signed_of_json (\<lambda>u. res_ok (from_value (de_url std_param_lib) u)) j)),
       from_str = (\<lambda>s. Inl (Msg ''expected value''))\<rparr>\<rparr>"

lemma ex_signed_derived: "derived_signed (ex_signed_lib m)"
proof -
  have res: "res_ok (ok_or e x) = x" for e :: anyhow and x :: "signed_request option" by (cases x) simp_all
  have url: "de_url (ex_signed_lib m) = de_url std_param_lib"
    by (simp add: ex_signed_lib_def std_request_lib_def)
  show ?thesis unfolding derived_signed_def url by (simp add: ex_signed_lib_def res)
qed

text \<open>With a \<open>state\<close> the request object is refused; with a reference too, the reference is used.\<close>

lemma signed_query_by_value_witness:
  "isl (request_from_query_params
     (ex_signed_lib [(''client_id'', JString ''c''), (''request'', JString ''j''), (''state'', JString ''s'')]) ''q'') \<and>
   request_from_query_params
     (ex_signed_lib [(''client_id'', JString ''c''), (''request'', JString ''j''), (''request_uri'', JString ''u'')]) ''q'' =
     Inr (SignedRequest \<lparr>signed_client_id = ''c'',
       signed_indirection = ByReferenceRequest \<lparr>request_uri = Url ''u'', request_uri_method = None\<rparr>\<rparr>)"
proof
  let ?m = "[(''client_id'', JString ''c''), (''request'', JString ''j''), (''state'', JString ''s'')]"
  let ?n = "[(''client_id'', JString ''c''), (''request'', JString ''j''), (''request_uri'', JString ''u'')]"
  have form: "form_to_object (ex_signed_lib m) ''q'' = Inr m" for m
    by (simp add: ex_signed_lib_def)
  have wf: "bt_wf ?m" "bt_wf ?n" by code_simp+
  have none: "reference_of_members u ?m = None" for u :: "url reader"
    by (simp add: reference_of_members_def required_def)
  have "request_from_query_params (ex_signed_lib ?m) ''q'' \<noteq> Inr a" for a
    using signed_query_by_value [OF ex_signed_derived form wf(1), of "JString ''j''" a] none by simp
  then show "isl (request_from_query_params (ex_signed_lib ?m) ''q'')"
    by (cases "request_from_query_params (ex_signed_lib ?m) ''q''") auto
  have "reference_of_members (\<lambda>u. res_ok (from_value (de_url (ex_signed_lib ?n)) u)) ?n =
      Some \<lparr>request_uri = Url ''u'', request_uri_method = None\<rparr>"
    by code_simp
  then show "request_from_query_params (ex_signed_lib ?n) ''q'' =
     Inr (SignedRequest \<lparr>signed_client_id = ''c'',
       signed_indirection = ByReferenceRequest \<lparr>request_uri = Url ''u'', request_uri_method = None\<rparr>\<rparr>)"
    using signed_query_by_value [OF ex_signed_derived form wf(2), of "JString ''j''"] by simp
qed

end
