(* ===== verification/Json_Text.thy ===== *)
theory Json_Text
  imports Json "HOL-Library.Monad_Syntax" "HOL-Library.Code_Target_Nat"
begin

text \<open>
  A concrete text form of JSON values, by RFC 8259, for the tests and examples that go through texts:
  printed without spaces, as \<open>serde_json\<close> does, and parsed with the spaces and escapes of the
  standard. Numbers are integers, and the escapes are those of one letter. Nothing but examples rests
  on it: in the model itself the texts of \<open>serde_json\<close> are arguments.
\<close>

section \<open>Printing\<close>

definition text_escapes :: "(char \<times> char) list" where
  "text_escapes = [(CHR 0x22, CHR 0x22), (CHR 0x5C, CHR 0x5C), (CHR 0x0A, CHR ''n''), (CHR 0x0D, CHR ''r''),
     (CHR 0x09, CHR ''t''), (CHR 0x08, CHR ''b''), (CHR 0x0C, CHR ''f'')]"

definition text_char :: "char \<Rightarrow> string" where
  "text_char c = (case map_of text_escapes c of None \<Rightarrow> [c] | Some e \<Rightarrow> [CHR 0x5C, e])"

definition text_string :: "string \<Rightarrow> string" where
  "text_string s = CHR 0x22 # concat (map text_char s) @ [CHR 0x22]"

definition text_digit :: "nat \<Rightarrow> char" where
  "text_digit n = char_of (48 + n)"

fun text_nat :: "nat \<Rightarrow> string" where
  "text_nat n = (if n < 10 then [text_digit n] else text_nat (n div 10) @ [text_digit (n mod 10)])"

declare text_nat.simps [simp del]

fun text_number :: "json_number \<Rightarrow> string" where
  "text_number (PosInt n) = text_nat n"
| "text_number (NegInt i) = CHR ''-'' # text_nat (nat (- i))"
| "text_number (Float t) = t"

fun json_text :: "json \<Rightarrow> string" where
  "json_text JNull = ''null''"
| "json_text (JBool b) = (if b then ''true'' else ''false'')"
| "json_text (JNumber n) = text_number n"
| "json_text (JString s) = text_string s"
| "json_text (JArray js) = ''['' @ join_str '','' (map json_text js) @ '']''"
| "json_text (JObject kvs) =
     ''{'' @ join_str '','' (map (\<lambda>(k, v). text_string k @ '':'' @ json_text v) kvs) @ ''}''"

section \<open>Parsing\<close>

definition text_space :: "char \<Rightarrow> bool" where
  "text_space c \<longleftrightarrow> c = CHR '' '' \<or> c = CHR 0x0A \<or> c = CHR 0x0D \<or> c = CHR 0x09"

definition skip_space :: "string \<Rightarrow> string" where
  "skip_space s = dropWhile text_space s"

definition text_unescape :: "char \<Rightarrow> char option" where
  "text_unescape e =
     (if e = CHR ''/'' then Some e else map_of (map (\<lambda>(c, e). (e, c)) text_escapes) e)"

fun read_chars :: "string \<Rightarrow> (string \<times> string) option" where
  "read_chars [] = None"
| "read_chars (c # s) =
     (if c = CHR 0x22 then Some ([], s)
      else if c = CHR 0x5C then
        (case s of
           [] \<Rightarrow> None
         | e # s \<Rightarrow> do { d \<leftarrow> text_unescape e; (t, r) \<leftarrow> read_chars s; Some (d # t, r) })
      else do { (t, r) \<leftarrow> read_chars s; Some (c # t, r) })"

definition digit_value :: "char \<Rightarrow> nat option" where
  "digit_value c = (if 48 \<le> (of_char c :: nat) \<and> of_char c < (58 :: nat) then Some (of_char c - 48) else None)"

fun read_digits :: "nat \<Rightarrow> string \<Rightarrow> nat \<times> string" where
  "read_digits n [] = (n, [])"
| "read_digits n (c # s) = (case digit_value c of None \<Rightarrow> (n, c # s) | Some d \<Rightarrow> read_digits (10 * n + d) s)"

definition read_nat :: "string \<Rightarrow> (nat \<times> string) option" where
  "read_nat s =
     (case s of
        [] \<Rightarrow> None
      | c # _ \<Rightarrow> if digit_value c = None then None else Some (read_digits 0 s))"

definition read_literal :: "(string \<times> json) list \<Rightarrow> string \<Rightarrow> (json \<times> string) option" where
  "read_literal lits s =
     map_option (\<lambda>(l, j). (j, drop (length l) s)) (find (\<lambda>(l, j). take (length l) s = l) lits)"

definition expect_char :: "char \<Rightarrow> string \<Rightarrow> string option" where
  "expect_char c s = (case skip_space s of [] \<Rightarrow> None | d # r \<Rightarrow> if d = c then Some r else None)"

text \<open>The first argument bounds the number of nested calls; the length of the text is enough.\<close>

fun read_value :: "nat \<Rightarrow> string \<Rightarrow> (json \<times> string) option"
  and read_items :: "nat \<Rightarrow> string \<Rightarrow> (json list \<times> string) option"
  and read_members :: "nat \<Rightarrow> string \<Rightarrow> ((string \<times> json) list \<times> string) option" where
  "read_value 0 s = None"
| "read_value (Suc n) s =
     (case skip_space s of
        [] \<Rightarrow> None
      | c # r \<Rightarrow>
          if c = CHR 0x22 then do { (t, r) \<leftarrow> read_chars r; Some (JString t, r) }
          else if c = CHR ''['' then
            (case expect_char CHR '']'' r of
               Some r \<Rightarrow> Some (JArray [], r)
             | None \<Rightarrow> do { (js, r) \<leftarrow> read_items n r; Some (JArray js, r) })
          else if c = CHR ''{'' then
            (case expect_char CHR ''}'' r of
               Some r \<Rightarrow> Some (JObject [], r)
             | None \<Rightarrow> do { (kvs, r) \<leftarrow> read_members n r; Some (JObject (bt_of_list kvs), r) })
          else if c = CHR ''-'' then do { (k, r) \<leftarrow> read_nat r; Some (JNumber (NegInt (- int k)), r) }
          else if digit_value c \<noteq> None then do { (k, r) \<leftarrow> read_nat (c # r); Some (JNumber (PosInt k), r) }
          else read_literal [(''null'', JNull), (''true'', JBool True), (''false'', JBool False)] (c # r))"
| "read_items 0 s = None"
| "read_items (Suc n) s = do {
     (j, r) \<leftarrow> read_value n s;
     (case expect_char CHR '','' r of
        Some r \<Rightarrow> do { (js, r) \<leftarrow> read_items n r; Some (j # js, r) }
      | None \<Rightarrow> do { r \<leftarrow> expect_char CHR '']'' r; Some ([j], r) }) }"
| "read_members 0 s = None"
| "read_members (Suc n) s = do {
     r \<leftarrow> expect_char CHR 0x22 s;
     (k, r) \<leftarrow> read_chars r;
     r \<leftarrow> expect_char CHR '':'' r;
     (v, r) \<leftarrow> read_value n r;
     (case expect_char CHR '','' r of
        Some r \<Rightarrow> do { (kvs, r) \<leftarrow> read_members n r; Some ((k, v) # kvs, r) }
      | None \<Rightarrow> do { r \<leftarrow> expect_char CHR ''}'' r; Some ([(k, v)], r) }) }"

definition json_of_text :: "string \<Rightarrow> json option" where
  "json_of_text s = do {
     (j, r) \<leftarrow> read_value (length s) s;
     if skip_space r = [] then Some j else None }"

section \<open>Dictionaries\<close>

text \<open>
  The dictionary of a type with a reader and a printer; \<open>failure\<close> is the text of the error for a
  value of another form.
\<close>

definition text_de :: "string \<Rightarrow> (json \<Rightarrow> 'a option) \<Rightarrow> 'a deserialize" where
  "text_de failure of_json = \<lparr>
     from_value = (\<lambda>j. ok_or (Msg failure) (of_json j)),
     from_str = (\<lambda>s. and_then (ok_or (Msg ''expected value'') (json_of_text s)) (\<lambda>j. ok_or (Msg failure) (of_json j)))\<rparr>"

definition text_ser :: "('a \<Rightarrow> json) \<Rightarrow> 'a serialize" where
  "text_ser to_json = \<lparr>to_value = (\<lambda>x. Inr (to_json x)), to_string = (\<lambda>x. Inr (json_text (to_json x)))\<rparr>"

lemma json_text_example:
  "json_of_text ''{'' = None"
  "let j = JObject [(''a'', JArray [JNull, JNumber (PosInt 1685694443), JBool False, JString [CHR 0x22, CHR ''x'']]), (''b'', JObject [])]
   in json_of_text (json_text j) = Some j"
  by code_simp+

end
