(* ===== verification/Test_Base.thy ===== *)
theory Test_Base
  imports Request_Json Parameter_Json Json_Text
begin

text \<open>
  What the translated unit tests of the repository share: assertions on results, and concrete foreign
  functions to run them with: base64 with the URL alphabet and without padding (RFC 4648), and the
  matcher of the identifier pattern. A test is a definition that follows the test function step by step,
  with an argument for each parameter of a parametrised test; a lemma states that it passes on the cases
  of the source.
\<close>

section \<open>Assertions\<close>

text \<open>\<open>unwrap\<close> on a result and on an option: the test goes on with the value, or fails.\<close>

definition unwrap :: "'e + 'a \<Rightarrow> ('a \<Rightarrow> bool) \<Rightarrow> bool" where
  "unwrap r k = (case r of Inr x \<Rightarrow> k x | Inl _ \<Rightarrow> False)"

definition unwrap_some :: "'a option \<Rightarrow> ('a \<Rightarrow> bool) \<Rightarrow> bool" where
  "unwrap_some r k = (case r of Some x \<Rightarrow> k x | None \<Rightarrow> False)"

definition is_ok :: "'e + 'a \<Rightarrow> bool" where
  "is_ok r = unwrap r (\<lambda>_. True)"

definition is_err :: "'e + 'a \<Rightarrow> bool" where
  "is_err r \<longleftrightarrow> \<not> is_ok r"

text \<open>\<open>should_panic(expected = ...)\<close>: the text of the error contains the expected one.\<close>

definition panics_with :: "string \<Rightarrow> anyhow + 'a \<Rightarrow> bool" where
  "panics_with expected r = (case r of Inl e \<Rightarrow> contains_str expected (display_anyhow False e) | Inr _ \<Rightarrow> False)"

text \<open>The same on an internal error, whose debug text holds the one of its cause.\<close>

definition panics_internal :: "string \<Rightarrow> core_error + 'a \<Rightarrow> bool" where
  "panics_internal expected r =
     (case r of
        Inl (Internal e) \<Rightarrow> contains_str expected (display_anyhow False e)
      | _ \<Rightarrow> False)"

section \<open>Base64\<close>

definition base64url_digit :: "nat \<Rightarrow> char" where
  "base64url_digit n =
     (if n < 26 then char_of (n + 65)
      else if n < 52 then char_of (n + 71)
      else if n < 62 then char_of (n - 4)
      else if n = 62 then CHR ''-'' else CHR ''_'')"

definition base64url_value :: "char \<Rightarrow> nat option" where
  "base64url_value c =
     (let n = of_char c in
      if 65 \<le> n \<and> n \<le> 90 then Some (n - 65)
      else if 97 \<le> n \<and> n \<le> 122 then Some (n - 71)
      else if 48 \<le> n \<and> n \<le> 57 then Some (n + 4)
      else if n = 45 then Some 62 else if n = 95 then Some 63 else None)"

fun base64url_encode :: "nat list \<Rightarrow> nat list" where
  "base64url_encode [] = []"
| "base64url_encode [a] = [a div 4, a mod 4 * 16]"
| "base64url_encode [a, b] = [a div 4, a mod 4 * 16 + b div 16, b mod 16 * 4]"
| "base64url_encode (a # b # c # bytes) =
     [a div 4, a mod 4 * 16 + b div 16, b mod 16 * 4 + c div 64, c mod 64] @ base64url_encode bytes"

text \<open>The bits behind the last byte have to be zero.\<close>

fun base64url_decode :: "nat list \<Rightarrow> nat list option" where
  "base64url_decode [] = Some []"
| "base64url_decode [p] = None"
| "base64url_decode [p, q] = (if q mod 16 = 0 then Some [p * 4 + q div 16] else None)"
| "base64url_decode [p, q, r] =
     (if r mod 4 = 0 then Some [p * 4 + q div 16, q mod 16 * 16 + r div 4] else None)"
| "base64url_decode (p # q # r # s # digits) =
     map_option ((@) [p * 4 + q div 16, q mod 16 * 16 + r div 4, r mod 4 * 64 + s]) (base64url_decode digits)"

definition base64url :: base64 where
  "base64url = \<lparr>
     b64_encode = (\<lambda>bytes. map base64url_digit (base64url_encode (map of_char bytes))),
     b64_decode = (\<lambda>text.
       case those (map base64url_value text) of
         None \<Rightarrow> Inl (Msg (if last text = CHR ''='' then ''Invalid padding'' else ''Invalid byte''))
       | Some digits \<Rightarrow> ok_or (Msg ''Invalid last symbol'') (map_option (map char_of) (base64url_decode digits)))\<rparr>"

text \<open>It keeps the contract of the foreign engine.\<close>

lemma byte_bits:
  fixes a :: nat
  shows "a < 256 \<Longrightarrow> a div 4 < 64" "a < 256 \<Longrightarrow> a div 16 < 16" "a < 256 \<Longrightarrow> a div 64 < 4"
  by (simp_all add: less_mult_imp_div_less)

lemma base64url_decode_encode:
  "list_all (\<lambda>x. x < 256) bytes \<Longrightarrow> base64url_decode (base64url_encode bytes) = Some bytes"
  by (induction bytes rule: base64url_encode.induct) (simp_all add: byte_bits)

lemma base64url_digits:
  fixes a b c :: nat
  assumes "a < 256" "b < 256" "c < 256"
  shows "a mod 4 * 16 + b div 16 < 64" "b mod 16 * 4 + c div 64 < 64"
proof -
  have "a mod 4 \<le> 3" "b mod 16 \<le> 15" by simp_all
  with byte_bits(2) [OF assms(2)] byte_bits(3) [OF assms(3)]
  show "a mod 4 * 16 + b div 16 < 64" "b mod 16 * 4 + c div 64 < 64" by linarith+
qed

lemma base64url_encode_digits:
  "list_all (\<lambda>x. x < 256) bytes \<Longrightarrow> list_all (\<lambda>x. x < 64) (base64url_encode bytes)"
proof (induction bytes rule: base64url_encode.induct)
  case (2 a)
  then show ?case using base64url_digits [of a 0 0] by (simp add: byte_bits)
next
  case (3 a b)
  then show ?case using base64url_digits [of a b 0] by (simp add: byte_bits)
next
  case (4 a b c bytes)
  then show ?case using base64url_digits [of a b c] by (simp add: byte_bits)
qed simp

lemma base64url_digit_value: "n < 64 \<Longrightarrow> base64url_value (base64url_digit n) = Some n"
  by (auto simp: base64url_value_def base64url_digit_def Let_def)

lemma base64_ok_base64url: "base64_ok base64url"
proof -
  have digits: "list_all (\<lambda>x. x < 64) (base64url_encode (map of_char bytes))" for bytes :: string
    by (rule base64url_encode_digits) (simp add: list_all_iff nat_of_char_less_256)
  have vals: "those (map base64url_value (map base64url_digit ds)) = Some ds" if "list_all (\<lambda>x. x < 64) ds" for ds
    using that by (induction ds) (simp_all add: base64url_digit_value)
  have "b64_decode base64url (b64_encode base64url x) = Inr x" for x
    using vals [OF digits [of x]] base64url_decode_encode [of "map of_char x"]
    by (simp add: base64url_def list_all_iff nat_of_char_less_256 comp_def)
  moreover have "base64url_value c \<noteq> None" if "c \<in> set (b64_encode base64url x)" for c x
    using that digits [of x] by (auto simp: base64url_def list_all_iff base64url_digit_value)
  moreover have "base64url_value CHR ''.'' = None" "base64url_value CHR ''='' = None"
    by code_simp+
  ultimately show ?thesis unfolding base64_ok_def by (metis option.distinct(1))
qed

section \<open>Identifiers\<close>

definition test_regex :: regex_new where
  "test_regex = (\<lambda>pattern. if pattern = ID_REGEX then Inr id_valid else Inl (Msg ''regex parse error''))"

lemma test_regex_ok: "id_regex_ok test_regex"
  by (simp add: id_regex_ok_def test_regex_def)

section \<open>JSON literals\<close>

text \<open>The macro \<open>json!\<close>.\<close>

definition obj :: "(string \<times> json) list \<Rightarrow> json" where
  "obj kvs = JObject (bt_of_list kvs)"

definition arr :: "json list \<Rightarrow> json" where
  "arr js = JArray js"

definition strs :: "string list \<Rightarrow> json" where
  "strs ss = JArray (map JString ss)"

text \<open>Indexing into a value: a missing member is \<open>null\<close>.\<close>

definition json_index :: "json \<Rightarrow> string \<Rightarrow> json" where
  "json_index j k =
     (case j of
        JObject m \<Rightarrow> (case bt_get m k of Some v \<Rightarrow> v | None \<Rightarrow> JNull)
      | _ \<Rightarrow> JNull)"

section \<open>A library\<close>

text \<open>
  The foreign functions of a request, with the derived forms for the dictionaries, the texts of \<open>Json_Text\<close>
  and base64 as above. A URL is its text, a JSON path is not looked into, and every schema compiles.
\<close>

definition test_lib :: request_lib where
  "test_lib = std_request_lib\<lparr>
     url_safe_no_pad := base64url,
     de_formats := text_de ''invalid type: expected a map'' format_map_of_json,
     ser_formats := text_ser json_of_format_map,
     de_jwks := text_de ''missing field `keys`'' jwks_of_json,
     de_dcql := text_de ''invalid query'' (dcql_of_json test_regex base64url),
     ser_dcql := text_ser json_of_dcql,
     de_pd := text_de ''invalid definition''
       (definition_of_json ex_path_lib ex_match_eval (requirement_of_json False)),
     ser_pd := text_ser (json_of_definition ex_path_lib json_of_requirement),
     de_item := text_de ''data did not match any variant of untagged enum TransactionDataItemTypeContent''
       item_of_json,
     de_signed := text_de ''invalid request'' (signed_of_json (\<lambda>j. map_option Url (as_str j))),
     json_from_slice := (\<lambda>s. ok_or (Msg ''expected value'') (json_of_text s)),
     json_to_string := (\<lambda>j. Inr (json_text j))\<rparr>"

text \<open>The text of an item has its members in the order of the fields.\<close>

definition test_ser_item :: "transaction_data_item serialize" where
  "test_ser_item = \<lparr>
     to_value = (\<lambda>i. Inr (json_of_item i)),
     to_string = (\<lambda>i. Inr (json_text (JObject (concat (item_members i)))))\<rparr>"

end
