(* ===== verification/Test_Dcql.thy ===== *)
theory Test_Dcql
  imports Test_Base
begin

text \<open>
  The unit tests of \<open>src/src/core/dcql.rs\<close> (modules \<open>test\<close> and \<open>test::trusted_authorities\<close>), run on the
  model.
\<close>

section \<open>Identifiers\<close>

text \<open>An identifier is read from the JSON text \<open>json\<close>, a string literal without escapes.\<close>

definition test_id_serialize_deserialize :: "string \<Rightarrow> bool" where
  "test_id_serialize_deserialize json \<longleftrightarrow>
     unwrap_some (id_of_json test_regex (JString json)) (\<lambda>i. id_serialize i = JString json)"

lemma test_id_serialize_deserialize_cases:
  "list_all test_id_serialize_deserialize [''stub_id'', ''stub-id'', ''stub0id'', ''stub1ID'']"
  by code_simp

definition test_id_validation :: "string \<Rightarrow> bool" where
  "test_id_validation wrong_id \<longleftrightarrow> is_err (id_new test_regex wrong_id)"

lemma test_id_validation_cases:
  "list_all test_id_validation [''stub id'', ''stub?id'', ''stub@id9'', '''']"
  by code_simp

section \<open>Builders\<close>

definition get_base_credential :: "anyhow + dcql_credential" where
  "get_base_credential = map_ok (\<lambda>i. credential_new i SdJwtVc
     (meta_set_type_values (nev_new (nev_new ''som_type_vale'')) meta_new)) (id_new test_regex ''stub_id'')"

definition get_base_dcql :: "anyhow + dcql" where
  "get_base_dcql = map_ok (\<lambda>c. dcql_new (nev_new c)) get_base_credential"

definition test_credential_sets_adding :: bool where
  "test_credential_sets_adding \<longleftrightarrow>
     unwrap get_base_dcql (\<lambda>q0.
     let q1 = dcql_add_credential_set (credential_set_new (nev_new (nev_new ''1''))) q0;
         q2 = dcql_add_credential_set (credential_set_new (nev_new (nev_new ''1''))) q1
     in unwrap_some (dcql_credential_sets q1) (\<lambda>s. length (nev_list s) = 1) \<and>
        unwrap_some (dcql_credential_sets q2) (\<lambda>s. length (nev_list s) = 2))"

definition test_credential_adding :: bool where
  "test_credential_adding \<longleftrightarrow>
     unwrap get_base_dcql (\<lambda>q0.
     length (nev_list (dcql_credentials q0)) = 1 \<and>
     unwrap (id_new test_regex ''stub_id2'') (\<lambda>i.
     let q1 = dcql_add_credential (credential_new i SdJwtVc
           (meta_set_vct_values (nev_new ''some_vct_type'') meta_new)) q0
     in length (nev_list (dcql_credentials q1)) = 2))"

definition test_claim_adding :: bool where
  "test_claim_adding \<longleftrightarrow>
     unwrap get_base_credential (\<lambda>c0.
     let c1 = credential_add_claim (claim_new (nev_new PathNull)) c0;
         c2 = credential_add_claim (claim_new (nev_new PathNull)) c1
     in unwrap_some (cred_claims c1) (\<lambda>s. length (nev_list s) = 1) \<and>
        unwrap_some (cred_claims c2) (\<lambda>s. length (nev_list s) = 2))"

definition test_claim_set_adding :: bool where
  "test_claim_set_adding \<longleftrightarrow>
     unwrap get_base_credential (\<lambda>c0.
     let c1 = credential_add_claim_set (nev_new ''1'') c0;
         c2 = credential_add_claim_set (nev_new ''2'') c1
     in unwrap_some (cred_claim_sets c1) (\<lambda>s. length (nev_list s) = 1) \<and>
        unwrap_some (cred_claim_sets c2) (\<lambda>s. length (nev_list s) = 2))"

definition test_credential_set_option_adding :: bool where
  "test_credential_set_option_adding \<longleftrightarrow>
     (let s0 = credential_set_new (nev_new (nev_new ''1''));
          s1 = credential_set_add_option (nev_new ''1'') s0
      in length (nev_list (set_options s0)) = 1 \<and> length (nev_list (set_options s1)) = 2)"

definition test_meta_for_doctype_value :: bool where
  "test_meta_for_doctype_value \<longleftrightarrow>
     doctype_value meta_new = None \<and>
     unwrap_some (doctype_value (meta_set_doctype_value ''org.iso.18013.5.1.mDL'' meta_new))
       (\<lambda>v. v = ''org.iso.18013.5.1.mDL'')"

definition test_meta_for_vct_values :: bool where
  "test_meta_for_vct_values \<longleftrightarrow>
     vct_values meta_new = None \<and>
     unwrap_some (vct_values (meta_set_vct_values (nev_new ''credential_type'') meta_new)) (\<lambda>vs.
     unwrap_some (list_first (nev_list vs)) (\<lambda>v. v = ''credential_type''))"

definition test_meta_for_type_values :: bool where
  "test_meta_for_type_values \<longleftrightarrow>
     type_values meta_new = None \<and>
     unwrap_some (type_values (meta_set_type_values (nev_new (nev_new ''credential_types'')) meta_new)) (\<lambda>vss.
     unwrap_some (list_first (nev_list vss)) (\<lambda>vs.
     unwrap_some (list_first (nev_list vs)) (\<lambda>v. v = ''credential_types'')))"

lemma test_builders:
  "test_credential_sets_adding" "test_credential_adding" "test_claim_adding" "test_claim_set_adding"
  "test_credential_set_option_adding" "test_meta_for_doctype_value" "test_meta_for_vct_values"
  "test_meta_for_type_values"
  by code_simp+

section \<open>Trusted authorities\<close>

definition credential_with :: "json \<Rightarrow> dcql_credential option" where
  "credential_with trusted_authorities = credential_of_json test_regex base64url (obj
     [(''id'', JString ''pid''),
      (''format'', JString ''dc+sd-jwt''),
      (''meta'', obj [(''vct_values'', strs [''urn:eudi:pid:1''])]),
      (''trusted_authorities'', trusted_authorities)])"

definition authority_json :: "string \<Rightarrow> string list \<Rightarrow> json" where
  "authority_json ty vs = obj [(''type'', JString ty), (''values'', strs vs)]"

definition every_type_round_trips_unchanged :: bool where
  "every_type_round_trips_unchanged \<longleftrightarrow>
     (let authorities = arr
        [authority_json ''aki'' [''s9tIpPmhxdiuNkHMEWNpYim8S8Y'', ''AQID''],
         authority_json ''etsi_tl'' [''https://lotl.example.com/tl.xml''],
         authority_json ''openid_federation'' [''https://trust-anchor.example.com''],
         authority_json ''x_custom'' [''anything'']]
      in unwrap_some (credential_with authorities) (\<lambda>credential.
         json_index (json_of_credential credential) ''trusted_authorities'' = authorities \<and>
         unwrap_some (cred_trusted_authorities credential) (\<lambda>parsed.
         (case nev_list parsed of
            [Aki akis, EtsiTl _, OpenidFederationAuthority _, OtherAuthority ty _] \<Rightarrow>
              ki_bytes (nev_list akis ! 1) = map char_of [1 :: nat, 2, 3] \<and> ty = ''x_custom''
          | _ \<Rightarrow> False))))"

definition absent_trusted_authorities_are_not_serialized :: bool where
  "absent_trusted_authorities_are_not_serialized \<longleftrightarrow>
     unwrap_some (credential_of_json test_regex base64url (obj
       [(''id'', JString ''pid''), (''format'', JString ''dc+sd-jwt''),
        (''meta'', obj [(''vct_values'', strs [''urn:eudi:pid:1''])])])) (\<lambda>credential.
     cred_trusted_authorities credential = None \<and>
     (case json_of_credential credential of
        JObject m \<Rightarrow> bt_get m ''trusted_authorities'' = None
      | _ \<Rightarrow> False))"

definition malformed_trusted_authorities_are_refused :: "json \<Rightarrow> bool" where
  "malformed_trusted_authorities_are_refused authorities \<longleftrightarrow> credential_with authorities = None"

definition malformed_authorities :: "json list" where
  "malformed_authorities =
     [arr [],
      arr [authority_json ''aki'' []],
      arr [authority_json ''aki'' [''not base64!'']],
      arr [authority_json ''aki'' ['''']],
      arr [obj [(''values'', strs [''AQID''])]]]"

definition a_padded_key_identifier_is_accepted_and_kept_as_given :: bool where
  "a_padded_key_identifier_is_accepted_and_kept_as_given \<longleftrightarrow>
     unwrap_some (credential_with (arr [authority_json ''aki'' [''AQI='']])) (\<lambda>credential.
     json_index (json_of_credential credential) ''trusted_authorities'' =
       arr [authority_json ''aki'' [''AQI='']] \<and>
     unwrap_some (cred_trusted_authorities credential) (\<lambda>parsed.
     (case nev_list parsed of
        Aki akis # _ \<Rightarrow> ki_bytes (nev_list akis ! 0) = map char_of [1 :: nat, 2]
      | _ \<Rightarrow> False)))"

definition key_identifier_from_bytes_is_base64url_without_padding :: bool where
  "key_identifier_from_bytes_is_base64url_without_padding \<longleftrightarrow>
     unwrap (key_identifier_from_bytes base64url (map char_of [0xfb :: nat, 0xff])) (\<lambda>k.
     ki_encoded k = ''-_8'' \<and> ki_bytes k = map char_of [0xfb :: nat, 0xff])"

definition builder_sets_trusted_authorities :: bool where
  "builder_sets_trusted_authorities \<longleftrightarrow>
     unwrap (key_identifier_from_bytes base64url (map char_of [1 :: nat, 2, 3])) (\<lambda>aki.
     unwrap (id_new test_regex ''pid'') (\<lambda>i.
     unwrap_some (designation_of_json (JString ''dc+sd-jwt'')) (\<lambda>format.
     unwrap_some (meta_of_json (obj [(''vct_values'', strs [''urn:eudi:pid:1''])])) (\<lambda>meta.
     json_index (json_of_credential (credential_set_trusted_authorities (nev_new (Aki (nev_new aki)))
         (credential_new i format meta))) ''trusted_authorities'' =
       arr [authority_json ''aki'' [''AQID'']]))))"

lemma test_every_type: "every_type_round_trips_unchanged"
  by code_simp

lemma test_absent_authorities: "absent_trusted_authorities_are_not_serialized"
  by code_simp

lemma test_malformed_authorities: "list_all malformed_trusted_authorities_are_refused malformed_authorities"
  by code_simp

lemma test_key_identifiers:
  "a_padded_key_identifier_is_accepted_and_kept_as_given"
  "key_identifier_from_bytes_is_base64url_without_padding" "builder_sets_trusted_authorities"
  by code_simp+

end
