(* ===== verification/Test_Parameters.thy ===== *)
theory Test_Parameters
  imports Test_Base
begin

text \<open>
  The unit tests of \<open>src/src/core/authorization_request/parameters.rs\<close> (module \<open>test\<close>), run on the model.
\<close>

section \<open>Client identifiers\<close>

definition test_client_id_prefix_parsing_successfully :: "string \<Rightarrow> string \<Rightarrow> string \<Rightarrow> bool" where
  "test_client_id_prefix_parsing_successfully client_id prefix i \<longleftrightarrow>
     unwrap (client_id_new client_id) (\<lambda>client_id.
     unwrap (prefix_try_from prefix) (\<lambda>p. p = get_prefix client_id) \<and> i = get_id client_id)"

definition client_id_prefix_parsing_successfully_for_preregistered :: "string \<Rightarrow> bool" where
  "client_id_prefix_parsing_successfully_for_preregistered i \<longleftrightarrow>
     unwrap (client_id_new i) (\<lambda>client_id. get_prefix client_id = PreRegistered)"

definition client_id_parsing_unsuccessfully :: "string \<Rightarrow> string \<Rightarrow> bool" where
  "client_id_parsing_unsuccessfully expected i \<longleftrightarrow> panics_with expected (client_id_new i)"

definition client_id_parsing_unsuccessfully_unsupported_prefix :: "string \<Rightarrow> bool" where
  "client_id_parsing_unsuccessfully_unsupported_prefix i \<longleftrightarrow>
     panics_with ''Given client id prefix is not supported'' (client_id_new i)"

lemma test_client_id_prefixes:
  "test_client_id_prefix_parsing_successfully
     ''redirect_uri:https://client.example.org/cb'' ''redirect_uri'' ''https://client.example.org/cb''"
  "test_client_id_prefix_parsing_successfully
     ''decentralized_identifier:did:web:someid'' ''decentralized_identifier'' ''did:web:someid''"
  "test_client_id_prefix_parsing_successfully
     ''x509_san_dns:client.example.org'' ''x509_san_dns'' ''client.example.org''"
  "test_client_id_prefix_parsing_successfully
     ''openid_federation:https://client.example.org/cb'' ''openid_federation'' ''https://client.example.org/cb''"
  "test_client_id_prefix_parsing_successfully
     ''verifier_attestation:example-client'' ''verifier_attestation'' ''example-client''"
  "client_id_prefix_parsing_successfully_for_preregistered ''https//verifier.com''"
  by code_simp+

lemma test_client_id_errors:
  "client_id_parsing_unsuccessfully ''Given client id prefix is not supported'' ''some:id/something''"
  "client_id_parsing_unsuccessfully ''Client ID cannot be empty.'' ''''"
  "client_id_parsing_unsuccessfully_unsupported_prefix ''some:id/something''"
  by code_simp+

section \<open>Queries\<close>

definition deserialize_dcql_credential_successfully :: bool where
  "deserialize_dcql_credential_successfully \<longleftrightarrow>
     credential_of_json test_regex base64url (obj
       [(''id'', JString ''pid''),
        (''format'', JString ''dc+sd-jwt''),
        (''meta'', obj [(''vct_values'', strs [''some_vct''])]),
        (''claims'', arr
          [obj [(''path'', strs [''username''])],
           obj [(''path'', strs [''birthDate''])],
           obj [(''path'', strs [''email'', ''work''])]])]) \<noteq> None"

definition get_json :: "resolved_presentation_query option" where
  "get_json = resolved_query_of_json (dcql_of_json test_regex base64url)
     (definition_of_json ex_path_lib ex_match_eval (requirement_of_json False)) (obj
       [(''presentation_definition'', obj
          [(''id'', JString ''327ad171-c80a-485b-b098-50d7ad278ef6''),
           (''input_descriptors'', arr
             [obj [(''id'', JString ''Identity-1''), (''name'', JString ''Identity VC''),
                   (''purpose'', JString ''We want an identity'')]])])])"

definition deserialize_common_presentation :: bool where
  "deserialize_common_presentation \<longleftrightarrow> get_json \<noteq> None"

lemma test_queries: "deserialize_dcql_credential_successfully" "deserialize_common_presentation"
  by code_simp+

section \<open>Transaction data\<close>

definition transaction_data_deserializes_successfully :: bool where
  \<open>transaction_data_deserializes_successfully \<longleftrightarrow>
     (let encoded = ''ewogICAidHlwZSI6ICJzb21lLXR5cGUiLAogICAiY3JlZGVudGlhbF9pZHMiOiBbImlkMSIsICJpZDIiXSwKICAgInRyYW5zYWN0aW9uX2RhdGFfaGFzaGVzX2FsZyI6IFsic2hhLTI1NiJdCn0''
      in unwrap (from_str (de_item test_lib) ''{
                "type": "some-type",
                "credential_ids": ["id1", "id2"],
                "transaction_data_hashes_alg": ["sha-256"]
            }'') (\<lambda>expected.
         unwrap (item_from_base64url_encoded base64url (de_item test_lib) encoded) (\<lambda>actual.
         expected = actual \<and> content_type (tdi_content actual) = ''some-type'')))\<close>

definition unknown_transaction_data_type_round_trips :: bool where
  \<open>unknown_transaction_data_type_round_trips \<longleftrightarrow>
     (let json = ''{"type":"unknown-type","credential_ids":["id1"],"transaction_data_hashes_alg":null,"whatever":{"a":1}}''
      in unwrap (from_str (de_item test_lib) json) (\<lambda>item.
         (case tdi_content item of
            UnknownContent ty data \<Rightarrow> ty = ''unknown-type'' \<and> bt_get data ''whatever'' \<noteq> None
          | _ \<Rightarrow> False) \<and>
         unwrap_some (json_of_text json) (\<lambda>v.
         unwrap (to_value test_ser_item item) (\<lambda>w. v = w))))\<close>

definition transaction_data_deserializes_and_serializes_successfully :: bool where
  \<open>transaction_data_deserializes_and_serializes_successfully \<longleftrightarrow>
     (let original_tdi = \<lparr>
            tdi_credential_ids = [''1'', ''2''],
            tdi_hashes_alg = Some [Sha256],
            tdi_content = DelegateSdJwt \<lparr>
              dsd_format = DelegateOpen,
              dsd_delegate_payload_disclosure =
                ''WyJ4X2laOGlUeVMwQUpLSzAyM2JFdWN3IiwgImFkZHJlc3MiLCB7Il9zZCI6WyIyM2FyNmwxcVBGeWNjVnpBY0tVMkg1NjRwM0RIcDhScVVRS0hNcW9WUDJNIl19XQ'',
              dsd_delegate_disclosures = Some [''WyJfUHlvRzhUMWsySVF1LXU3aVc3MkF3IiwgImNvdW50cnkiLCAiREUiXQ'']\<rparr>\<rparr>
      in unwrap (to_string test_ser_item original_tdi) (\<lambda>original_str.
         contains_str ''"type":"delegate",'' original_str \<and>
         contains_str ''"format":"dSD-JWT"'' original_str \<and>
         \<not> contains_str ''content'' original_str \<and>
         unwrap (from_str (de_item test_lib) original_str) (\<lambda>item.
         unwrap (item_into_base64url_encoded base64url test_ser_item item) (\<lambda>encoded.
         unwrap (item_from_base64url_encoded base64url (de_item test_lib) encoded) (\<lambda>decoded.
         unwrap (to_string test_ser_item decoded) (\<lambda>s. original_str = s))))))\<close>

definition test_transaction_data_deserialize_returns_padding_error :: bool where
  "test_transaction_data_deserialize_returns_padding_error \<longleftrightarrow>
     (let encoded = ''ewogICAidHlwZSI6ICJzb21lLXR5cGUiLAogICAiY3JlZGVudGlhbF9pZHMiOiBbImlkMSIsICJpZDIiXSwKICAgInRyYW5zYWN0aW9uX2RhdGFfaGFzaGVzX2FsZyI6IFsic2hhLTI1NiJdCn0=''
      in panics_internal ''Invalid padding'' (item_from_base64url_encoded base64url (de_item test_lib) encoded))"

definition test_transaction_data_deserialize_returns_format_error :: bool where
  "test_transaction_data_deserialize_returns_format_error \<longleftrightarrow>
     (let encoded = ''ewogICAiY3JlZGVudGlhbF9pZHMiOiBbImlkMSIsICJpZDIiXSwKICAgInRyYW5zYWN0aW9uX2RhdGFfaGFzaGVzX2FsZyI6IFsic2hhLTI1NiJdCn0''
      in panics_internal ''data did not match any variant'' (item_from_base64url_encoded base64url (de_item test_lib) encoded))"

lemma test_transaction_data: "transaction_data_deserializes_successfully"
  by code_simp

lemma test_unknown_transaction_data: "unknown_transaction_data_type_round_trips"
  by code_simp

lemma test_delegate_transaction_data: "transaction_data_deserializes_and_serializes_successfully"
  by code_simp

lemma test_transaction_data_errors:
  "test_transaction_data_deserialize_returns_padding_error"
  "test_transaction_data_deserialize_returns_format_error"
  by code_simp+

section \<open>Verifier information\<close>

definition test_verifier_info_param :: "verifier_info typed_parameter" where
  "test_verifier_info_param = verifier_info_param
     (text_de ''invalid verifier information'' (nev_of_json verifier_info_entry_of_json))
     (text_ser (json_of_nev json_of_verifier_info_entry))"

definition verifier_info_deserializes_successfully :: bool where
  "verifier_info_deserializes_successfully \<longleftrightarrow>
     unwrap (try_from_json test_verifier_info_param (arr
       [obj [(''format'', JString ''jwt''),
             (''data'', JString ''eyJhbGciOiJFUzI1NiJ9.eyJpc3MiOiJodHRwczovL3ZlcmlmaWVyLmV4YW1wbGUifQ.sig''),
             (''credential_ids'', strs [''pid'', ''mdl''])],
        obj [(''format'', JString ''ac_vp''), (''data'', obj [(''some'', JString ''attestation'')])]]))
     (\<lambda>verifier_info.
       length (nev_list (vi_entries verifier_info)) = 2 \<and>
       (let first = nev_list (vi_entries verifier_info) ! 0;
            second = nev_list (vi_entries verifier_info) ! 1
        in vie_format first = ''jwt'' \<and>
           map_option nev_list (vie_credential_ids first) = Some [''pid'', ''mdl''] \<and>
           vie_data first =
             VInfoString ''eyJhbGciOiJFUzI1NiJ9.eyJpc3MiOiJodHRwczovL3ZlcmlmaWVyLmV4YW1wbGUifQ.sig'' \<and>
           vie_format second = ''ac_vp'' \<and>
           unwrap (verifier_info_data_try_from (obj [(''some'', JString ''attestation'')]))
             (\<lambda>d. d = vie_data second) \<and>
           vie_credential_ids second = None))"

definition verifier_info_round_trips_through_untyped_object :: bool where
  "verifier_info_round_trips_through_untyped_object \<longleftrightarrow>
     unwrap (nev_try_from [''pid'']) (\<lambda>ids.
     unwrap (verifier_info_data_try_from (obj [(''presentation'', JString ''...'')])) (\<lambda>presentation.
     unwrap (nev_try_from
       [\<lparr>vie_format = ''jwt'', vie_data = verifier_info_data_from_string ''header.payload.signature'',
         vie_credential_ids = Some ids\<rparr>,
        \<lparr>vie_format = ''ac_vp'', vie_data = presentation, vie_credential_ids = None\<rparr>]) (\<lambda>entries.
     let expected = VerifierInfo entries;
         (old, ob) = obj_insert test_verifier_info_param expected []
     in old = None \<and>
        json_of_object ob = obj [(''verifier_info'', arr
          [obj [(''format'', JString ''jwt''), (''data'', JString ''header.payload.signature''),
                (''credential_ids'', strs [''pid''])],
           obj [(''format'', JString ''ac_vp''), (''data'', obj [(''presentation'', JString ''...'')])]])] \<and>
        unwrap_some (obj_get test_verifier_info_param ob) (\<lambda>r. unwrap r (\<lambda>actual. expected = actual)))))"

definition verifier_info_deserializes_unsuccessfully :: "json \<Rightarrow> bool" where
  "verifier_info_deserializes_unsuccessfully json \<longleftrightarrow> is_err (try_from_json test_verifier_info_param json)"

definition malformed_verifier_info :: "json list" where
  "malformed_verifier_info =
     [obj [(''format'', JString ''jwt''), (''data'', obj [])],
      arr [obj [(''data'', obj [])]],
      arr [obj [(''format'', JString ''jwt'')]],
      arr [obj [(''format'', JString ''jwt''), (''data'', obj []), (''credential_ids'', JString ''pid'')]],
      arr [obj [(''format'', JString ''jwt''), (''data'', obj []), (''credential_ids'', arr [])]],
      arr [obj [(''format'', JString ''jwt''), (''data'', JNumber (PosInt 1))]],
      arr [obj [(''format'', JString ''jwt''), (''data'', strs [''header.payload.signature''])]]]"

lemma test_verifier_info:
  "verifier_info_deserializes_successfully" "verifier_info_round_trips_through_untyped_object"
  by code_simp+

lemma test_malformed_verifier_info: "list_all verifier_info_deserializes_unsuccessfully malformed_verifier_info"
  by code_simp

end
