(* ===== verification/Test_Request.thy ===== *)
theory Test_Request
  imports Test_Base
begin

text \<open>
  The unit tests of \<open>src/src/core/authorization_request/mod.rs\<close> (module \<open>tests\<close>), run on the model: a
  request object is read from a JSON value through an untyped object.
\<close>

definition request_of_value :: "json \<Rightarrow> core_error + request_object" where
  "request_of_value j = and_then (map_err error_from_anyhow (from_value (de_object test_lib) j)) (request_try_from test_lib)"

section \<open>Requests\<close>

definition get_json_for_presentation_definition :: "core_error + request_object" where
  "get_json_for_presentation_definition = request_of_value (obj
     [(''response_type'', JString ''vp_token''),
      (''client_id'', JString ''redirect_uri:https://verifier.example.org''),
      (''redirect_uri'', JString ''https://verifier.example.org/callback''),
      (''scope'', JString ''openid''),
      (''nonce'', JString ''n-0S6_WzA2Mj''),
      (''state'', JString ''af0ifjsldkj''),
      (''presentation_definition'', obj
        [(''id'', JString ''32f54163-7166-48f1-93d8-ff217bdb0653''),
         (''input_descriptors'', arr [obj
           [(''id'', JString ''citizenship_input''),
            (''name'', JString ''Citizenship Credential''),
            (''purpose'', JString ''We need to verify your citizenship status''),
            (''format'', obj
              [(''jwt_vp'', obj [(''alg'', strs [''EdDSA'', ''ES256K''])]),
               (''jwt_vc'', obj [(''alg'', strs [''ES256K'', ''EdDSA''])])]),
            (''constraints'', obj
              [(''fields'', arr [obj
                [(''path'', strs [''$.type'']),
                 (''filter'', obj
                   [(''type'', JString ''string''), (''pattern'', JString ''CitizenshipCredential'')])]])])]])]),
      (''client_metadata'', obj
        [(''client_name'', JString ''Example Verifier''),
         (''logo_uri'', JString ''https://verifier.example.org/logo.png''),
         (''tos_uri'', JString ''https://verifier.example.org/tos''),
         (''policy_uri'', JString ''https://verifier.example.org/privacy''),
         (''client_uri'', JString ''https://verifier.example.org'')]),
      (''response_mode'', JString ''fragment''),
      (''exp'', JNumber (PosInt 1685694443)),
      (''iat'', JNumber (PosInt 1685693443))])"

definition get_json_for_presentation_definition_uri :: "core_error + request_object" where
  "get_json_for_presentation_definition_uri = request_of_value (obj
     [(''response_type'', JString ''vp_token''),
      (''client_id'', JString ''redirect_uri:https://verifier.example.org''),
      (''redirect_uri'', JString ''https://verifier.example.org/callback''),
      (''scope'', JString ''openid''),
      (''nonce'', JString ''n-0S6_WzA2Mj''),
      (''state'', JString ''af0ifjsldkj''),
      (''presentation_definition_uri'',
        JString ''https://verifier.example.org/presentation-definitions/citizenship-verification''),
      (''client_metadata'', obj
        [(''client_name'', JString ''Example Verifier''),
         (''logo_uri'', JString ''https://verifier.example.org/logo.png''),
         (''tos_uri'', JString ''https://verifier.example.org/tos''),
         (''policy_uri'', JString ''https://verifier.example.org/privacy''),
         (''client_uri'', JString ''https://verifier.example.org'')]),
      (''response_mode'', JString ''fragment''),
      (''exp'', JNumber (PosInt 1685694443)),
      (''iat'', JNumber (PosInt 1685693443))])"

definition mdoc_claims :: json where
  "mdoc_claims = arr
     [obj [(''namespace'', JString ''org.iso.7367.1''), (''claim_name'', JString ''vehicle_holder''),
           (''path'', strs [''last_name''])],
      obj [(''namespace'', JString ''org.iso.18013.5.1''), (''claim_name'', JString ''first_name''),
           (''path'', strs [''last_name''])]]"

definition get_json_for_dcql :: "core_error + request_object" where
  "get_json_for_dcql = request_of_value (obj
     [(''type'', JString ''vp_token''),
      (''client_id'', JString ''redirect_uri:https://verifier.example.org''),
      (''response_uri'', JString ''https://verifier.example.org/response''),
      (''response_type'', JString ''vp_token''),
      (''response_mode'', JString ''direct_post''),
      (''scope'', JString ''openid''),
      (''nonce'', JString ''n-0S6_WzA2Mj''),
      (''client_metadata'', obj
        [(''client_name'', JString ''Example Verifier''),
         (''client_purpose'', JString ''Verification of credentials''),
         (''logo_uri'', JString ''https://verifier.example.org/logo.png''),
         (''tos_uri'', JString ''https://verifier.example.org/tos''),
         (''client_uri'', JString ''https://verifier.example.org'')]),
      (''dcql_query'', obj
        [(''credentials'', arr
          [obj
            [(''id'', JString ''pid''),
             (''format'', JString ''dc+sd-jwt''),
             (''meta'', obj [(''vct_values'', strs [''https://credentials.example.com/identity_credential''])]),
             (''claims'', arr
               [obj [(''path'', strs [''given_name''])],
                obj [(''path'', strs [''family_name''])],
                obj [(''path'', strs [''address'', ''street_address''])]])],
           obj
            [(''id'', JString ''pid''),
             (''format'', JString ''dc+sd-jwt''),
             (''meta'', obj [(''vct_values'', strs [''https://credentials.example.com/identity_credential''])]),
             (''claims'', arr
               [obj [(''id'', JString ''a''), (''path'', strs [''last_name''])],
                obj [(''id'', JString ''d''), (''path'', strs [''postal_code''])],
                obj [(''id'', JString ''c''), (''path'', strs [''locality''])],
                obj [(''id'', JString ''3e''), (''path'', strs [''region''])],
                obj [(''id'', JString ''3''), (''path'', strs [''date_of_birth''])]]),
             (''claim_sets'', arr
               [strs [''a'', ''c'', ''d'', ''e''],
                strs [''a'', ''b'', ''e'']])],
           obj
            [(''id'', JString ''sdfs''),
             (''format'', JString ''mso_mdoc''),
             (''meta'', obj [(''doctype_value'', JString ''org.iso.7367.1.mVRC'')]),
             (''claims'', mdoc_claims)],
           obj
            [(''id'', JString ''dsadcsdfsd''),
             (''format'', JString ''mso_mdoc''),
             (''meta'', obj [(''doctype_value'', JString ''org.iso.7367.1.mVRC'')]),
             (''claims'', mdoc_claims)]]),
         (''credential_sets'', arr
          [obj
            [(''purpose'', JString ''Identification''),
             (''options'', arr
               [strs [''pid''], strs [''other_pid''], strs [''pid_reduced_cred_1'', ''pid_reduced_cred_2'']])],
           obj
            [(''purpose'', JString ''Show your rewards card''),
             (''required'', JBool False),
             (''options'', arr [strs [''nice_to_have'']])]])]),
      (''state'', JString ''af0ifjsldkj'')])"

definition get_json_for_wrong_authorization_request_object :: "core_error + request_object" where
  "get_json_for_wrong_authorization_request_object = request_of_value (obj
     [(''response_type'', JString ''vp_token''),
      (''client_id'', JString ''redirect_uri:https://verifier.example.org''),
      (''redirect_uri'', JString ''https://verifier.example.org/callback''),
      (''scope'', JString ''openid''),
      (''nonce'', JString ''n-0S6_WzA2Mj''),
      (''state'', JString ''af0ifjsldkj''),
      (''dcql_query'', obj
        [(''credentials'', arr
          [obj
            [(''id'', JString ''some id''),
             (''format'', JString ''dc+sd-jwt''),
             (''meta'', obj [(''test'', JString ''test'')])]])]),
      (''presentation_definition_uri'',
        JString ''https://verifier.example.org/presentation-definitions/citizenship-verification''),
      (''client_metadata'', obj
        [(''client_name'', JString ''Example Verifier''),
         (''logo_uri'', JString ''https://verifier.example.org/logo.png''),
         (''tos_uri'', JString ''https://verifier.example.org/tos''),
         (''policy_uri'', JString ''https://verifier.example.org/privacy''),
         (''client_uri'', JString ''https://verifier.example.org'')]),
      (''response_mode'', JString ''fragment''),
      (''exp'', JNumber (PosInt 1685694443)),
      (''iat'', JNumber (PosInt 1685693443))])"

section \<open>Tests\<close>

definition test_authorization_request_object_deserialize_successfully :: bool where
  "test_authorization_request_object_deserialize_successfully \<longleftrightarrow>
     is_ok get_json_for_presentation_definition \<and> is_ok get_json_for_presentation_definition_uri \<and>
     is_ok get_json_for_dcql"

text \<open>The panic shows the text of the error.\<close>

definition test_authorization_request_object_deserialize_error :: bool where
  "test_authorization_request_object_deserialize_error \<longleftrightarrow>
     (case get_json_for_wrong_authorization_request_object of
        Inl e \<Rightarrow> contains_str (''invalid_request:one and only one correctly formatted of '' @
            quoted ''presentation_definition'' @ '', '' @ quoted ''presentation_definition_uri'' @ '' or '' @
            quoted ''dcql_query'' @ '' is required'') (display_core_error False e)
      | Inr _ \<Rightarrow> False)"

lemma test_definition_request: "is_ok get_json_for_presentation_definition"
  by code_simp

lemma test_definition_uri_request: "is_ok get_json_for_presentation_definition_uri"
  by code_simp

lemma test_dcql_request: "is_ok get_json_for_dcql"
  by code_simp

lemma test_requests: "test_authorization_request_object_deserialize_successfully"
  by (simp add: test_authorization_request_object_deserialize_successfully_def test_definition_request
      test_definition_uri_request test_dcql_request)

lemma test_wrong_request: "test_authorization_request_object_deserialize_error"
  by code_simp

end
