(* ===== verification/Test_Metadata.thy ===== *)
theory Test_Metadata
  imports Test_Base Verification
begin

text \<open>
  The unit tests of \<open>src/src/core/metadata/\<close> (\<open>mod.rs\<close>, \<open>parameters/verifier.rs\<close> and
  \<open>parameters/wallet.rs\<close>), of \<open>src/src/core/credential_format/mod.rs\<close> and of
  \<open>src/src/core/authorization_request/verification/mod.rs\<close>, run on the model.
\<close>

text \<open>\<open>object.get::<T>().unwrap().unwrap()\<close>.\<close>

definition get_param :: "'a typed_parameter \<Rightarrow> untyped_object \<Rightarrow> ('a \<Rightarrow> bool) \<Rightarrow> bool" where
  "get_param T ob k = unwrap_some (obj_get T ob) (\<lambda>r. unwrap r k)"

definition object_literal :: "(string \<times> json) list \<Rightarrow> untyped_object" where
  "object_literal kvs = bt_of_list kvs"

section \<open>Verifier parameters\<close>

definition verifier_metadata :: untyped_object where
  "verifier_metadata = object_literal
     [(''jwks'', obj [(''keys'', arr [obj
        [(''kty'', JString ''EC''),
         (''crv'', JString ''P-256''),
         (''x'', JString ''MKBCTNIcKUSDii11ySs3526iDZ8AiTo7Tu6KPAqv7D4''),
         (''y'', JString ''4Etl6SRW2YiLUrN5vfvVHuhp7x8PxltmWWlbbM4IFyM''),
         (''use'', JString ''enc''),
         (''kid'', JString ''1'')]])]),
      (''vp_formats_supported'', obj [(''mso_mdoc'', obj [])])]"

definition test_vp_formats :: bool where
  "test_vp_formats \<longleftrightarrow>
     get_param (vp_formats_param test_lib) verifier_metadata (\<lambda>formats.
     unwrap_some (hm_get formats MsoMDoc) (\<lambda>mso_doc. mso_doc = PayloadJson (JObject [])))"

definition test_jwks :: bool where
  "test_jwks \<longleftrightarrow>
     get_param (jwks_param test_lib) verifier_metadata (\<lambda>keys.
     length keys = 1 \<and>
     (let jwk = keys ! 0
      in bt_get jwk ''kty'' = Some (JString ''EC'') \<and>
         bt_get jwk ''crv'' = Some (JString ''P-256'') \<and>
         bt_get jwk ''x'' = Some (JString ''MKBCTNIcKUSDii11ySs3526iDZ8AiTo7Tu6KPAqv7D4'') \<and>
         bt_get jwk ''y'' = Some (JString ''4Etl6SRW2YiLUrN5vfvVHuhp7x8PxltmWWlbbM4IFyM'') \<and>
         bt_get jwk ''use'' = Some (JString ''enc'') \<and>
         bt_get jwk ''kid'' = Some (JString ''1'')))"

lemma test_verifier_metadata: "test_vp_formats" "test_jwks"
  by code_simp+

section \<open>Wallet parameters\<close>

definition wallet_metadata_object :: untyped_object where
  "wallet_metadata_object = object_literal
     [(''issuer'', JString ''https://self-issued.me/v2''),
      (''authorization_endpoint'', JString ''mdoc-openid4vp://''),
      (''response_types_supported'', strs [''vp_token'']),
      (''vp_formats_supported'', obj [(''mso_mdoc'', obj [])]),
      (''client_id_prefixes_supported'', strs [''redirect_uri'', ''x509_hash'']),
      (''request_object_signing_alg_values_supported'', strs [''ES256'']),
      (''authorization_encryption_alg_values_supported'', strs [''ECDH-ES'']),
      (''authorization_encryption_enc_values_supported'', strs [''A256GCM'']),
      (''scopes_supported'', strs [''openid'']),
      (''id_token_signing_alg_values_supported'', strs [''ES256K'', ''EdDSA'']),
      (''request_object_signing_alg_values_supported'', strs [''ES256K'', ''EdDSA'']),
      (''subject_syntax_types_supported'', strs [''urn:ietf:params:oauth:jwk-thumbprint'', ''did:key'']),
      (''id_token_types_supported'', strs [''subject_signed_id_token''])]"

text \<open>The tests on lists compare them as sets.\<close>

definition lists_agree :: "'a list \<Rightarrow> 'a list \<Rightarrow> bool" where
  "lists_agree exp v \<longleftrightarrow> list_all (\<lambda>x. x \<in> set v) exp \<and> list_all (\<lambda>x. x \<in> set exp) v"

definition test_issuer :: bool where
  "test_issuer \<longleftrightarrow> get_param (issuer_param test_lib) wallet_metadata_object (\<lambda>s. s = ''https://self-issued.me/v2'')"

definition test_authorization_endpoint :: bool where
  "test_authorization_endpoint \<longleftrightarrow>
     unwrap (url_parse test_lib ''mdoc-openid4vp://'') (\<lambda>exp.
     get_param (authorization_endpoint_param test_lib) wallet_metadata_object (\<lambda>s. s = exp))"

definition test_response_types_supported :: bool where
  "test_response_types_supported \<longleftrightarrow>
     get_param (response_types_param test_lib) wallet_metadata_object (lists_agree [VpToken])"

definition test_client_id_prefixes_supported :: bool where
  "test_client_id_prefixes_supported \<longleftrightarrow>
     get_param (client_id_prefixes_param test_lib) wallet_metadata_object
       (lists_agree [RedirectUriPrefix, X509Hash])"

definition test_request_object_signing_alg_values_supported :: bool where
  "test_request_object_signing_alg_values_supported \<longleftrightarrow>
     get_param (request_object_signing_algs_param test_lib) wallet_metadata_object (lists_agree [''ES256''])"

definition test_vp_formats_supported :: bool where
  "test_vp_formats_supported \<longleftrightarrow>
     get_param (vp_formats_param test_lib) wallet_metadata_object (\<lambda>m.
     length m = 1 \<and> unwrap_some (hm_get m MsoMDoc) (\<lambda>p. p = PayloadJson (JObject [])))"

definition test_authorization_encryption_alg_values_supported :: bool where
  "test_authorization_encryption_alg_values_supported \<longleftrightarrow>
     get_param (authorization_encryption_algs_param test_lib) wallet_metadata_object (lists_agree [''ECDH-ES''])"

definition test_authorization_encryption_enc_values_supported :: bool where
  "test_authorization_encryption_enc_values_supported \<longleftrightarrow>
     get_param (authorization_encryption_encs_param test_lib) wallet_metadata_object (lists_agree [''A256GCM''])"

lemma test_wallet_parameters:
  "test_issuer" "test_authorization_endpoint" "test_response_types_supported"
  "test_client_id_prefixes_supported" "test_vp_formats_supported"
  "test_authorization_encryption_alg_values_supported" "test_authorization_encryption_enc_values_supported"
  by code_simp+

text \<open>
  The test the source ignores would fail: its object has the member of the algorithms twice, and the
  second one counts.
\<close>

lemma test_ignored_parameter: "\<not> test_request_object_signing_alg_values_supported"
  by code_simp

section \<open>Wallet metadata\<close>

definition test_openid4vp_scheme_static :: bool where
  "test_openid4vp_scheme_static \<longleftrightarrow>
     (let expected = obj
        [(''authorization_endpoint'', JString ''openid4vp:''),
         (''response_types_supported'', strs [''vp_token'']),
         (''vp_formats_supported'', obj
           [(''jwt_vp_json'', obj [(''alg_values_supported'', strs [''ES256''])]),
            (''jwt_vc_json'', obj [(''alg_values_supported'', strs [''ES256''])])]),
         (''request_object_signing_alg_values_supported'', strs [''ES256''])]
      in unwrap (openid4vp_scheme_static test_lib) (\<lambda>wallet_metadata.
         json_of_object (object_of_metadata test_lib wallet_metadata) = expected))"

lemma test_static_metadata: "test_openid4vp_scheme_static"
  by code_simp

section \<open>Credential formats\<close>

definition test_credential_format_serialization :: bool where
  "test_credential_format_serialization \<longleftrightarrow>
     (let value = obj
        [(''claim_formats_supported'', obj
          [(''jwt_vc'', obj
             [(''alg'', strs [''ES256'', ''EdDSA'']), (''proof_type'', strs [''JsonWebSignature2020''])]),
           (''ldp_vc'', obj [(''proof_type'', strs [''Ed25519Signature2018'', ''EcdsaSecp256k1Signature2019''])]),
           (''sd_jwt_vc'', obj
             [(''sd-jwt_alg_values'', strs [''ES256'', ''ES384'']), (''kb-jwt_alg_values'', strs [''ES256''])]),
           (''com.example.custom_vc'', obj
             [(''version'', JString ''1.0''), (''encryption'', strs [''AES-GCM'']),
              (''signature'', strs [''ED25519''])])])]
      in unwrap_some (format_map_of_json (json_index value ''claim_formats_supported'')) (\<lambda>claim_format_map.
         hm_contains_key claim_format_map JwtVc \<and>
         hm_contains_key claim_format_map LdpVc \<and>
         hm_contains_key claim_format_map (Other ''sd_jwt_vc'') \<and>
         hm_contains_key claim_format_map (Other ''com.example.custom_vc'')))"

lemma test_credential_formats: "test_credential_format_serialization"
  by code_simp

end
