(* ===== verification/Test_Clients.thy ===== *)
theory Test_Clients
  imports Test_Base Clients
begin

text \<open>
  The unit tests of \<open>src/src/core/authorization_request/verification/mod.rs\<close> and, on the certificate they
  share, of \<open>verification/x509_san.rs\<close> and \<open>src/src/verifier/client.rs\<close>, run on the model. Certificates and
  SHA-256 are foreign: what they make of the certificate of the tests is a hypothesis, and it is what the
  source says of it.
\<close>

section \<open>Formats of a verifier\<close>

definition test_jwt_lib :: jwt_lib where
  "test_jwt_lib = request_lib.extend test_lib
     (jwt_lib.fields (decode_unverified ex_jwt_lib) split_dots (\<lambda>m. Inr (json_text (JObject (wm_object m))))
       (\<lambda>s. s) (\<lambda>p. json_text (json_of_payload p)))"

text \<open>The metadata of the wallet is the text of the source, read as an untyped object.\<close>

definition SD_JWT_ONLY_WALLET :: string where
  \<open>SD_JWT_ONLY_WALLET = ''{
        "issuer": "https://self-issued.me/v2",
        "authorization_endpoint": "openid4vp://",
        "response_types_supported": ["vp_token"],
        "vp_formats_supported": {
            "dc+sd-jwt": {
                "sd-jwt_alg_values": ["EdDSA", "ES256"],
                "kb-jwt_alg_values": ["EdDSA", "ES256"]
            }
        }
    }''\<close>

definition test_wallet_metadata :: "anyhow + wallet_metadata" where
  "test_wallet_metadata =
     and_then (ok_or (Msg ''expected value'') (Option.bind (json_of_text SD_JWT_ONLY_WALLET) as_object))
       (metadata_try_from test_jwt_lib)"

definition test_client_metadata :: "json \<Rightarrow> anyhow + client_metadata" where
  "test_client_metadata value = try_from_json (client_metadata_param test_jwt_lib) value"

definition sd_jwt :: json where
  "sd_jwt = obj [(''sd-jwt_alg_values'', strs [''EdDSA'', ''ES256'']), (''kb-jwt_alg_values'', strs [''EdDSA'', ''ES256''])]"

definition mso_mdoc :: json where
  "mso_mdoc = obj
     [(''issuerauth_alg_values'', arr [JNumber (NegInt (- 7)), JNumber (NegInt (- 8))]),
      (''deviceauth_alg_values'', arr [JNumber (NegInt (- 7)), JNumber (NegInt (- 8))])]"

text \<open>The check on a value and a state, once both sides are read; an internal error is a panic.\<close>

definition checked_formats :: "json \<Rightarrow> string option \<Rightarrow> (core_error + unit \<Rightarrow> bool) \<Rightarrow> bool" where
  "checked_formats value state k \<longleftrightarrow>
     unwrap (test_client_metadata value) (\<lambda>metadata.
     unwrap test_wallet_metadata (\<lambda>wallet.
     k (validate_vp_formats_supported test_jwt_lib metadata wallet state)))"

definition fails_with :: "(protocol_error \<Rightarrow> bool) \<Rightarrow> core_error + unit \<Rightarrow> bool" where
  "fails_with k r = (case r of Inl (Protocol err) \<Rightarrow> k err | _ \<Rightarrow> False)"

definition a_format_the_wallet_lacks_is_accepted_while_another_one_overlaps :: bool where
  "a_format_the_wallet_lacks_is_accepted_while_another_one_overlaps \<longleftrightarrow>
     checked_formats (obj [(''vp_formats_supported'', obj [(''dc+sd-jwt'', sd_jwt), (''mso_mdoc'', mso_mdoc)])])
       None is_ok"

definition a_verifier_the_wallet_shares_no_format_with_is_rejected :: bool where
  "a_verifier_the_wallet_shares_no_format_with_is_rejected \<longleftrightarrow>
     checked_formats (obj [(''vp_formats_supported'', obj [(''mso_mdoc'', mso_mdoc)])]) None
       (fails_with (\<lambda>err. pe_type err = VpFormatsNotSupported))"

definition an_overlapping_format_carrying_no_common_algorithm_is_rejected :: bool where
  "an_overlapping_format_carrying_no_common_algorithm_is_rejected \<longleftrightarrow>
     checked_formats (obj [(''vp_formats_supported'', obj [(''dc+sd-jwt'', obj
         [(''sd-jwt_alg_values'', strs [''RS256'']), (''kb-jwt_alg_values'', strs [''RS256''])])])]) None
       (fails_with (\<lambda>err. pe_type err = VpFormatsNotSupported))"

definition the_state_is_carried_into_the_error :: bool where
  "the_state_is_carried_into_the_error \<longleftrightarrow>
     (let state = Some ''state-1''
      in checked_formats (obj [(''vp_formats_supported'', obj [(''mso_mdoc'', mso_mdoc)])]) state
           (fails_with (\<lambda>err. pe_state err = state)))"

definition metadata_without_vp_formats_is_accepted :: bool where
  "metadata_without_vp_formats_is_accepted \<longleftrightarrow>
     checked_formats (obj [(''client_name'', JString ''Verifier'')]) None is_ok"

definition an_empty_vp_formats_object_is_rejected :: bool where
  "an_empty_vp_formats_object_is_rejected \<longleftrightarrow>
     checked_formats (obj [(''vp_formats_supported'', obj [])]) None
       (fails_with (\<lambda>err. pe_type err = VpFormatsNotSupported))"

lemma test_formats:
  "a_format_the_wallet_lacks_is_accepted_while_another_one_overlaps"
  "a_verifier_the_wallet_shares_no_format_with_is_rejected"
  "an_overlapping_format_carrying_no_common_algorithm_is_rejected"
  "the_state_is_carried_into_the_error"
  "metadata_without_vp_formats_is_accepted"
  "an_empty_vp_formats_object_is_rejected"
  by code_simp+

section \<open>The certificate of the tests\<close>

definition LEAF_PEM :: string where
  "LEAF_PEM = join_str [CHR 0x0A]
     [''-----BEGIN CERTIFICATE-----'',
      ''MIIBpTCCAUugAwIBAgIUZ0sUbVcHoWEWaz9DcIw3HNDv4mwwCgYIKoZIzj0EAwIw'',
      ''GzEZMBcGA1UEAwwQdmVyaWZpZXIuZXhhbXBsZTAeFw0yNjA3MjUxMzE3NTJaFw0z'',
      ''NjA3MjIxMzE3NTJaMBsxGTAXBgNVBAMMEHZlcmlmaWVyLmV4YW1wbGUwWTATBgcq'',
      ''hkjOPQIBBggqhkjOPQMBBwNCAAQfGeYeCA4RI9xmfml8yuB289vgYdplBUPDtlkR'',
      ''VX5n8ec6c150wgvBJD5etexGbiSrJtlZ5VKI2IuCo3eMlCgpo20wazAdBgNVHQ4E'',
      ''FgQU9uFMq/NqtsYpwU5bdoAAMmCgYGQwHwYDVR0jBBgwFoAU9uFMq/NqtsYpwU5b'',
      ''doAAMmCgYGQwGwYDVR0RBBQwEoIQdmVyaWZpZXIuZXhhbXBsZTAMBgNVHRMBAf8E'',
      ''AjAAMAoGCCqGSM49BAMCA0gAMEUCIQDm4xtRVAZeLVpXtBF+JmZA6G1EgT3hJoLM'',
      ''olfQxZzr/AIgN0aICEuoH4qkiU5n6zsYrRUGSjxg74hGubPQcUI901Y='',
      ''-----END CERTIFICATE-----'']"

definition LEAF_HASH :: string where
  "LEAF_HASH = ''IKC0DWzNRPtrEnSH-5lUfjr2qo2Jicub4x9z32rk_9Y''"

text \<open>What the foreign functions answer for it: its hash, and the one name it is issued to.\<close>

definition leaf_facts ::
  "'z jwt_lib_scheme \<Rightarrow> ('cert, 'spki) client_lib \<Rightarrow> (string \<Rightarrow> anyhow + 'cert) \<Rightarrow> bool" where
  "leaf_facts L X from_pem \<longleftrightarrow>
     (\<exists>cert der. from_pem LEAF_PEM = Inr cert \<and> cert_to_der X cert = Inr der \<and>
        b64_encode (url_safe_no_pad L) (sha256 (cl_certs X) der) = LEAF_HASH \<and>
        cert_sans (cl_certs X) cert = [Inr [DnsName ''verifier.example'']])"

text \<open>They can: a certificate with this name, and a hash of these bytes.\<close>

definition test_client_lib :: "(unit, unit) client_lib" where
  "test_client_lib = \<lparr>
     cl_certs = \<lparr>
       x509_headers_from_slice = (\<lambda>s. ok_or (Msg ''expected value'') (Option.bind (json_of_text s) as_object)),
       standard_no_pad = base64url, cert_from_der = (\<lambda>der. Inr ()),
       cert_sans = (\<lambda>_. [Inr [DnsName ''verifier.example'']]), cert_spki = (\<lambda>c. c),
       sha256 = (\<lambda>_. case b64_decode base64url LEAF_HASH of Inr bytes \<Rightarrow> bytes | Inl _ \<Rightarrow> [])\<rparr>,
     cert_to_der = (\<lambda>c. Inr []), standard_padded = base64url,
     header_ser = text_ser (\<lambda>j. j), request_ser = text_ser (\<lambda>r. JObject (object_of_request r))\<rparr>"

lemma leaf_facts_possible: "leaf_facts test_jwt_lib test_client_lib (\<lambda>pem. Inr ())"
proof -
  have "b64_encode (url_safe_no_pad test_jwt_lib) (sha256 (cl_certs test_client_lib) []) = LEAF_HASH"
    by code_simp
  then show ?thesis by (simp add: leaf_facts_def test_client_lib_def)
qed

section \<open>Checking a client identifier\<close>

definition test_leaf ::
  "('cert, 'spki) client_lib \<Rightarrow> (string \<Rightarrow> anyhow + 'cert) \<Rightarrow> anyhow + 'cert \<times> string" where
  "test_leaf X from_pem =
     and_then (from_pem LEAF_PEM) (\<lambda>cert. map_ok (\<lambda>der. (cert, der)) (cert_to_der X cert))"

definition check_client_id ::
  "'z jwt_lib_scheme \<Rightarrow> ('cert, 'spki) client_lib \<Rightarrow> (string \<Rightarrow> anyhow + 'cert) \<Rightarrow> x509_variant \<Rightarrow> string \<Rightarrow>
     anyhow + anyhow + unit" where
  "check_client_id L X from_pem variant client_id =
     map_ok (\<lambda>(cert, der). ensure_client_id_matches_leaf L (cl_certs X) variant client_id cert der)
       (test_leaf X from_pem)"

definition x509_hash_accepts_the_sha256_of_the_whole_der_certificate ::
  "'z jwt_lib_scheme \<Rightarrow> ('cert, 'spki) client_lib \<Rightarrow> (string \<Rightarrow> anyhow + 'cert) \<Rightarrow> bool" where
  "x509_hash_accepts_the_sha256_of_the_whole_der_certificate L X from_pem \<longleftrightarrow>
     unwrap (check_client_id L X from_pem VariantHash LEAF_HASH) is_ok"

definition x509_hash_rejects_a_different_certificates_hash ::
  "'z jwt_lib_scheme \<Rightarrow> ('cert, 'spki) client_lib \<Rightarrow> (string \<Rightarrow> anyhow + 'cert) \<Rightarrow> bool" where
  "x509_hash_rejects_a_different_certificates_hash L X from_pem \<longleftrightarrow>
     unwrap (check_client_id L X from_pem VariantHash ''AAAAAAAAAAAAAAAAAAAAAAAAAAAAAAAAAAAAAAAAAAA'') is_err"

definition x509_hash_does_not_accept_a_subject_alternative_name ::
  "'z jwt_lib_scheme \<Rightarrow> ('cert, 'spki) client_lib \<Rightarrow> (string \<Rightarrow> anyhow + 'cert) \<Rightarrow> bool" where
  "x509_hash_does_not_accept_a_subject_alternative_name L X from_pem \<longleftrightarrow>
     unwrap (check_client_id L X from_pem VariantHash ''verifier.example'') is_err"

definition x509_san_dns_accepts_a_dns_san_entry ::
  "'z jwt_lib_scheme \<Rightarrow> ('cert, 'spki) client_lib \<Rightarrow> (string \<Rightarrow> anyhow + 'cert) \<Rightarrow> bool" where
  "x509_san_dns_accepts_a_dns_san_entry L X from_pem \<longleftrightarrow>
     unwrap (check_client_id L X from_pem VariantSanDns ''verifier.example'') is_ok"

definition x509_san_dns_rejects_another_host ::
  "'z jwt_lib_scheme \<Rightarrow> ('cert, 'spki) client_lib \<Rightarrow> (string \<Rightarrow> anyhow + 'cert) \<Rightarrow> bool" where
  "x509_san_dns_rejects_another_host L X from_pem \<longleftrightarrow>
     unwrap (check_client_id L X from_pem VariantSanDns ''attacker.example'') is_err"

definition x509_san_dns_does_not_accept_the_leaf_hash ::
  "'z jwt_lib_scheme \<Rightarrow> ('cert, 'spki) client_lib \<Rightarrow> (string \<Rightarrow> anyhow + 'cert) \<Rightarrow> bool" where
  "x509_san_dns_does_not_accept_the_leaf_hash L X from_pem \<longleftrightarrow>
     unwrap (check_client_id L X from_pem VariantSanDns LEAF_HASH) is_err"

lemmas x509_check_defs =
  x509_hash_accepts_the_sha256_of_the_whole_der_certificate_def
  x509_hash_rejects_a_different_certificates_hash_def
  x509_hash_does_not_accept_a_subject_alternative_name_def
  x509_san_dns_accepts_a_dns_san_entry_def
  x509_san_dns_rejects_another_host_def
  x509_san_dns_does_not_accept_the_leaf_hash_def

lemma test_client_id_checks:
  assumes "leaf_facts L X from_pem"
  shows "x509_hash_accepts_the_sha256_of_the_whole_der_certificate L X from_pem"
    and "x509_hash_rejects_a_different_certificates_hash L X from_pem"
    and "x509_hash_does_not_accept_a_subject_alternative_name L X from_pem"
    and "x509_san_dns_accepts_a_dns_san_entry L X from_pem"
    and "x509_san_dns_rejects_another_host L X from_pem"
    and "x509_san_dns_does_not_accept_the_leaf_hash L X from_pem"
  using assms
  by (auto simp: leaf_facts_def x509_check_defs check_client_id_def test_leaf_def unwrap_def
      is_ok_def is_err_def ensure_client_id_matches_leaf_def cert_dns_names_def LEAF_HASH_def List.map_filter_simps)

section \<open>Building a client\<close>

text \<open>A signer without an implementation: each of its operations panics.\<close>

definition NoSigner :: "(nat, unit) signer" where
  "NoSigner = \<lparr>
     signer_alg = Inl (Msg (''not implemented: '' @ quoted ''alg'' @ '' is not implemented for NoSigner'')),
     signer_jwk = Inl (Msg (''not implemented: '' @ quoted ''jwk'' @ '' is not implemented for NoSigner'')),
     signer_sign = (\<lambda>_. io_throw (Msg (''not implemented: '' @ quoted ''sign'' @ '' is not implemented for NoSigner'')))\<rparr>"

definition client_of ::
  "'z jwt_lib_scheme \<Rightarrow> ('cert, 'spki) client_lib \<Rightarrow> (string \<Rightarrow> anyhow + 'cert) \<Rightarrow> x509_variant \<Rightarrow>
     anyhow + (nat, unit, 'cert) x509_client" where
  "client_of L X from_pem variant =
     and_then (from_pem LEAF_PEM) (\<lambda>leaf. x509_client_new L X [leaf] NoSigner variant)"

definition x509_hash_client_id_is_base64url_sha256_of_the_whole_der_certificate ::
  "'z jwt_lib_scheme \<Rightarrow> ('cert, 'spki) client_lib \<Rightarrow> (string \<Rightarrow> anyhow + 'cert) \<Rightarrow> bool" where
  "x509_hash_client_id_is_base64url_sha256_of_the_whole_der_certificate L X from_pem \<longleftrightarrow>
     unwrap (client_of L X from_pem VariantHash) (\<lambda>c.
     get_full_id (xc_id c) = ''x509_hash:IKC0DWzNRPtrEnSH-5lUfjr2qo2Jicub4x9z32rk_9Y'')"

definition x509_san_dns_client_id_is_the_leaf_dns_san ::
  "'z jwt_lib_scheme \<Rightarrow> ('cert, 'spki) client_lib \<Rightarrow> (string \<Rightarrow> anyhow + 'cert) \<Rightarrow> bool" where
  "x509_san_dns_client_id_is_the_leaf_dns_san L X from_pem \<longleftrightarrow>
     unwrap (client_of L X from_pem VariantSanDns) (\<lambda>c. get_full_id (xc_id c) = ''x509_san_dns:verifier.example'')"

definition client_id_needs_no_signer_and_agrees_with_the_built_client ::
  "'z jwt_lib_scheme \<Rightarrow> ('cert, 'spki) client_lib \<Rightarrow> (string \<Rightarrow> anyhow + 'cert) \<Rightarrow> x509_variant \<Rightarrow> bool" where
  "client_id_needs_no_signer_and_agrees_with_the_built_client L X from_pem variant \<longleftrightarrow>
     unwrap (from_pem LEAF_PEM) (\<lambda>leaf.
     unwrap (x509_client_id L X [leaf] variant) (\<lambda>derived.
     unwrap (client_of L X from_pem variant) (\<lambda>c. derived = xc_id c)))"

definition client_id_on_an_empty_chain_errors ::
  "'z jwt_lib_scheme \<Rightarrow> ('cert, 'spki) client_lib \<Rightarrow> x509_variant \<Rightarrow> bool" where
  "client_id_on_an_empty_chain_errors L X variant \<longleftrightarrow> panics_with ''empty'' (x509_client_id L X [] variant)"

definition new_on_an_empty_chain_errors ::
  "'z jwt_lib_scheme \<Rightarrow> ('cert, 'spki) client_lib \<Rightarrow> bool" where
  "new_on_an_empty_chain_errors L X \<longleftrightarrow>
     panics_with ''empty'' (x509_client_new L X [] NoSigner VariantSanDns)"

lemma client_id_texts_of_tests:
  "client_id_new (''x509_hash'' @ '':'' @ LEAF_HASH) = Inr (ClientId LEAF_HASH X509Hash)"
  "client_id_new (''x509_san_dns'' @ '':'' @ ''verifier.example'') = Inr (ClientId ''verifier.example'' X509SanDns)"
  "get_full_id (ClientId LEAF_HASH X509Hash) = ''x509_hash:IKC0DWzNRPtrEnSH-5lUfjr2qo2Jicub4x9z32rk_9Y''"
  "get_full_id (ClientId ''verifier.example'' X509SanDns) = ''x509_san_dns:verifier.example''"
  by code_simp+

lemma test_clients:
  assumes "leaf_facts L X from_pem"
  shows "x509_hash_client_id_is_base64url_sha256_of_the_whole_der_certificate L X from_pem"
    and "x509_san_dns_client_id_is_the_leaf_dns_san L X from_pem"
    and "client_id_needs_no_signer_and_agrees_with_the_built_client L X from_pem variant"
proof -
  from assms obtain cert der where facts: "from_pem LEAF_PEM = Inr cert" "cert_to_der X cert = Inr der"
    "b64_encode (url_safe_no_pad L) (sha256 (cl_certs X) der) = LEAF_HASH"
    "cert_sans (cl_certs X) cert = [Inr [DnsName ''verifier.example'']]"
    by (auto simp: leaf_facts_def)
  have names: "cert_dns_names (cl_certs X) cert = [''verifier.example'']"
    using facts(4) by (simp add: cert_dns_names_def List.map_filter_simps)
  have hash: "x509_client_id L X [cert] VariantHash = Inr (ClientId LEAF_HASH X509Hash)"
    using facts(2,3) client_id_texts_of_tests(1) by (simp add: x509_client_id_def)
  have dns: "x509_client_id L X [cert] VariantSanDns = Inr (ClientId ''verifier.example'' X509SanDns)"
    using names client_id_texts_of_tests(2) by (simp add: x509_client_id_def)
  show "x509_hash_client_id_is_base64url_sha256_of_the_whole_der_certificate L X from_pem"
    using facts(1) hash client_id_texts_of_tests(3)
    by (simp add: x509_hash_client_id_is_base64url_sha256_of_the_whole_der_certificate_def client_of_def
        x509_client_new_def unwrap_def)
  show "x509_san_dns_client_id_is_the_leaf_dns_san L X from_pem"
    using facts(1) dns client_id_texts_of_tests(4)
    by (simp add: x509_san_dns_client_id_is_the_leaf_dns_san_def client_of_def x509_client_new_def unwrap_def)
  show "client_id_needs_no_signer_and_agrees_with_the_built_client L X from_pem variant"
    using facts(1) hash dns
    by (cases variant)
      (simp_all add: client_id_needs_no_signer_and_agrees_with_the_built_client_def client_of_def
        x509_client_new_def unwrap_def)
qed

lemma test_empty_chains:
  "client_id_on_an_empty_chain_errors L X variant" "new_on_an_empty_chain_errors L X"
  by (simp_all add: client_id_on_an_empty_chain_errors_def new_on_an_empty_chain_errors_def panics_with_def
      x509_client_id_def x509_client_new_def)

end
