(* ===== verification/Test_Response.thy ===== *)
theory Test_Response
  imports Test_Base Response_Json Submission_Json
begin

text \<open>
  The unit tests of \<open>src/src/core/response/mod.rs\<close> (module \<open>test\<close>), run on the model with the derived
  forms of responses and the form encoding of the URL standard.
\<close>

section \<open>Foreign functions\<close>

definition form_kept :: "char \<Rightarrow> bool" where
  "form_kept c \<longleftrightarrow>
     (let n = of_char c :: nat in
      48 \<le> n \<and> n \<le> 57 \<or> 65 \<le> n \<and> n \<le> 90 \<or> 97 \<le> n \<and> n \<le> 122) \<or>
     c \<in> set ''*-._''"

definition hex_digit :: "nat \<Rightarrow> char" where
  "hex_digit n = ''0123456789ABCDEF'' ! n"

definition form_char :: "char \<Rightarrow> string" where
  "form_char c =
     (if form_kept c then [c]
      else if c = CHR '' '' then ''+''
      else let n = of_char c in [CHR ''%'', hex_digit (n div 16), hex_digit (n mod 16)])"

definition form_text :: "(string \<times> string) list \<Rightarrow> string" where
  "form_text ps = join_str ''&''
     (map (\<lambda>(k, v). concat (map form_char k) @ ''='' @ concat (map form_char v)) ps)"

text \<open>The tests only write forms.\<close>

definition test_codec :: response_codec where
  "test_codec = \<lparr>
     form_of_response = (\<lambda>j. Inr (form_text (response_pairs j))),
     response_of_form = (\<lambda>s. Inl (Msg ''not read'')),
     form_of_jwt = (\<lambda>r. Inr (form_text (jwt_pairs r))),
     jwt_of_form = (\<lambda>s. Inl (Msg ''not read''))\<rparr>"

text \<open>The tests have one UUID, of which only the text matters.\<close>

definition TEST_UUID :: string where
  "TEST_UUID = ''d05a7f51-ac09-43af-8864-e00f0175f2c7''"

definition uuid_of_text :: "string \<Rightarrow> uuid option" where
  "uuid_of_text s = (if s = TEST_UUID then Some 1 else None)"

definition uuid_text :: "uuid \<Rightarrow> string" where
  "uuid_text u = TEST_UUID"

definition test_one_or_many :: one_or_many where
  "test_one_or_many = \<lparr>
     one_or_many_read = (\<lambda>parse j. case parse j of Some x \<Rightarrow> Some [x] | None \<Rightarrow> vec_of_json parse j),
     one_or_many_write = (\<lambda>print xs. case xs of [x] \<Rightarrow> print x | _ \<Rightarrow> json_of_vec print xs)\<rparr>"

lemma test_one_or_many_ok: "one_or_many_ok test_one_or_many"
  by (simp add: one_or_many_ok_def test_one_or_many_def)

text \<open>The text of a submission has its members in the order of the fields.\<close>

definition test_response_lib :: "unit response_lib" where
  "test_response_lib = param_lib.extend (std_param_lib\<lparr>url_safe_no_pad := base64url\<rparr>) (response_lib.fields
     (text_de ''invalid token'' (vp_token_of_json test_one_or_many))
     (text_ser (json_of_vp_token test_one_or_many))
     (text_de ''invalid submission'' (submission_of_json ex_path_lib uuid_of_text))
     \<lparr>to_value = (\<lambda>s. Inr (json_of_submission ex_path_lib uuid_text s)),
      to_string = (\<lambda>s. Inr (json_text (JObject (concat (submission_members ex_path_lib uuid_text s)))))\<rparr>
     (text_ser (json_of_vec JString))
     (text_ser json_of_hash_algorithm)
     (\<lambda>s. Inl (Msg ''invalid token'')))"

section \<open>Tests\<close>

definition jwt_authorization_response_to_form_urlencoded :: bool where
  "jwt_authorization_response_to_form_urlencoded \<longleftrightarrow>
     (let response = JwtResponse ''header.body.signature''
      in unwrap (jwt_into_form test_codec response) (\<lambda>s. s = ''response=header.body.signature''))"

definition unencoded_authorization_response_to_form_urlencoded :: bool where
  "unencoded_authorization_response_to_form_urlencoded \<longleftrightarrow>
     (let ob = bt_of_list
        [(''presentation_submission'', obj
           [(''id'', JString ''d05a7f51-ac09-43af-8864-e00f0175f2c7''),
            (''definition_id'', JString ''f619e64a-8f80-4b71-8373-30cf07b1e4f2''),
            (''descriptor_map'', arr [])]),
         (''vp_token'', JString ''string''),
         (''transaction_data_hashes_alg'', JString ''sha-512''),
         (''transaction_data_hashes'', strs [''hash1'', ''hash2'']),
         (''state'', JString ''some_state'')]
      in unwrap (response_try_from_object test_response_lib ob) (\<lambda>response.
         unwrap (response_into_form test_response_lib test_codec response) (\<lambda>url_encoded.
         contains_str ''presentation_submission=%7B%22id%22%3A%22d05a7f51-ac09-43af-8864-e00f0175f2c7%22%2C%22definition_id%22%3A%22f619e64a-8f80-4b71-8373-30cf07b1e4f2%22%2C%22descriptor_map%22%3A%5B%5D%7D'' url_encoded \<and>
         contains_str ''vp_token=string'' url_encoded \<and>
         contains_str ''state=some_state'' url_encoded \<and>
         contains_str ''transaction_data_hashes_alg=%22sha-512%22'' url_encoded)))"

definition test_raw_text :: bool where
  \<open>test_raw_text \<longleftrightarrow>
     contains_str ''transaction_data_hashes_alg="sha-256"''
       ''hello there you &transaction_data_hashes_alg="sha-256"''\<close>

lemma test_jwt_form: "jwt_authorization_response_to_form_urlencoded"
  by code_simp

lemma test_raw_form: "test_raw_text"
  by code_simp

lemma test_response_form: "unencoded_authorization_response_to_form_urlencoded"
  by code_simp

end
