(* ===== verification/Spec2Isabelle.thy ===== *)
theory Spec2Isabelle
  imports Requirements Submission_Bounds Presentation_Check Submission_Json Wallet Session_Concurrent
    Wire_Examples Query_Json Parameter_Json Request_Json
    Test_Dcql Test_Parameters Test_Request Test_Metadata Test_Clients Test_Response
begin

text \<open>
  A verification library for the crate \<open>openid4vp\<close>, an implementation of \<open>OpenID for Verifiable Presentations\<close>.
  A verifier builds an authorization request that asks for credentials, a wallet parses and checks the
  request, the application picks credentials, the wallet submits a response, and the verifier matches the
  presentation with what it asked for.

  \<^bold>\<open>Parts of the program and their theories.\<close> All paths are under \<open>src/src/\<close>.

  \<^item> Vocabulary. \<open>Prelude\<close> (results as sums, computations over an external world, the string operations of Rust,
    the collections \<open>res_simps\<close> and \<open>io_simps\<close>), \<open>Ordered_Map\<close> (\<open>BTreeMap\<close> and \<open>HashMap\<close>, locales \<open>key_store\<close> and
    \<open>canonical_store\<close>), \<open>Json\<close> (values and the dictionaries of \<open>serde\<close>), \<open>Errors\<close> (\<open>core/error.rs\<close>), \<open>Utils\<close> (\<open>utils.rs\<close>,
    \<open>signer.rs\<close>), \<open>Object\<close> (\<open>core/object/mod.rs\<close>: untyped objects, locale \<open>typed_param\<close>), \<open>Http\<close> (\<open>core/util/http.rs\<close>:
    requests and \<open>ReqwestClient\<close>), \<open>Serde\<close> (what \<open>serde\<close> derives for a struct, locales \<open>json_reader\<close>,
    \<open>json_printer\<close> and \<open>json_codec\<close>) and \<open>Flatten\<close> (the same for flattened, tagged and untagged types).
  \<^item> Queries. \<open>Credential_Format\<close> (\<open>core/credential_format/mod.rs\<close>), \<open>Dcql\<close> (\<open>core/dcql.rs\<close>), \<open>Input_Descriptor\<close>
    (\<open>core/input_descriptor.rs\<close>) and \<open>Presentation_Definition\<close> (\<open>core/presentation_definition.rs\<close>); their JSON
    forms are in \<open>Dcql_Json\<close>, \<open>Definition_Json\<close> and \<open>Requirement_Json\<close> (submission requirements).
  \<^item> Matching. \<open>Presentation_Submission\<close> (\<open>core/presentation_submission.rs\<close>: collecting the inputs of a
    submission, nested ones included), \<open>Requirements\<close> (\<open>validate\<close> and \<open>validate_group\<close> of submission requirements,
    \<open>find_and_validate_inputs\<close>), \<open>Presentation_Check\<close> (what an accepted presentation answers), \<open>Submission_Bounds\<close>
    (how many inputs a submission can yield and how deep the search nests) and \<open>Submission_Json\<close> (the JSON
    form of a submission).
  \<^item> Requests. \<open>Parameters\<close> (\<open>core/authorization_request/parameters.rs\<close>), \<open>Metadata\<close> (\<open>core/metadata/\<close>),
    \<open>Request_Object\<close> and \<open>Request_Resolution\<close> (\<open>core/authorization_request/mod.rs\<close> and \<open>Wallet::validate_request\<close>),
    \<open>Verification\<close> (\<open>core/authorization_request/verification/mod.rs\<close> and the \<open>Wallet\<close> trait) and
    \<open>Client_Verification\<close> (\<open>did.rs\<close>, \<open>x509_san.rs\<close>, \<open>verifier.rs\<close> beside it). The derived forms of parameters are in
    \<open>Parameter_Json\<close> (transaction data items, verifier information, keys), those of signed requests and resolved
    queries in \<open>Request_Json\<close>.
  \<^item> Responses and the wallet. \<open>Response\<close> (\<open>core/response/\<close>), \<open>Response_Json\<close> (the JSON of tokens and the fields of
    a response form) and \<open>Wallet\<close> (\<open>wallet.rs\<close>).
  \<^item> The verifier. \<open>Clients\<close> (\<open>verifier/client.rs\<close>, locale \<open>client_impl\<close>), \<open>Request_Builder\<close> (\<open>verifier/mod.rs\<close>,
    \<open>request_builder.rs\<close>, \<open>by_reference.rs\<close>), \<open>Session\<close> (\<open>verifier/session.rs\<close> and \<open>oid4vp-frontend\<close>, locale
    \<open>session_store\<close>) and \<open>Session_Concurrent\<close> (the same methods as programs of small steps, from \<open>try_lock\<close> to the drop of the guard, and
    schedules that interleave the calls of any number of threads).
  \<^item> Composition. \<open>Query_Json\<close> (the JSON form of a query in the requests of the builder), \<open>Request_Url\<close> (a request
    in a URL, seen from both sides), \<open>Wire_Examples\<close> (executable foreign functions for the witnesses) and this
    theory (a request from the builder of the verifier to the answer of the wallet).
  \<^item> Tests. The unit tests of the crate, one definition for each test function, run on the model by the kernel:
    \<open>Test_Dcql\<close>, \<open>Test_Parameters\<close>, \<open>Test_Request\<close>, \<open>Test_Metadata\<close>, \<open>Test_Clients\<close> and \<open>Test_Response\<close>, over \<open>Test_Base\<close>
    (assertions, base64, a library with all derived forms) and \<open>Json_Text\<close> (JSON text).

  \<^bold>\<open>How the code is modelled.\<close> A struct is a record (a datatype when it is recursive), an enum a datatype with
  the constructors of the source, a \<open>Result\<close> a sum with the error on the left, and \<open>anyhow\<close> errors keep the
  messages and contexts the code attaches. An \<open>async\<close> method of a wallet, a client or an HTTP client threads
  the external world \<open>'w\<close> (\<open>('w, 'e, 'a) io\<close>), so the order of calls is kept. A trait is a record of its
  operations, with the default bodies of the source. A vector that is pushed to through \<open>&mut\<close> is threaded and
  returned also on failure, and a method that hands out \<open>&mut\<close> of a field is the update of that field. The
  iteration order of a \<open>HashSet\<close> is an argument (\<open>hs_iter\<close>). Strings are byte strings.

  Code that is not in the repository is an argument, collected in records: \<open>param_lib\<close>, \<open>metadata_lib\<close>,
  \<open>request_lib\<close> and \<open>jwt_lib\<close> (each extends the one before: serde dictionaries, URL parsing, base64, form
  encoding, JWT decoding), \<open>http_lib\<close>, \<open>did_lib\<close>, \<open>cert_lib\<close>, \<open>spki_verifier\<close>, \<open>client_lib\<close>, \<open>reqwest_lib\<close>, \<open>path_lib\<close>,
  \<open>response_lib\<close>, \<open>form_codec\<close>, \<open>response_codec\<close>, \<open>eval\<close> (JSONPath and JSON Schema) and the decoder of claims. What
  a theorem relies on is a named hypothesis that states documented behaviour: \<open>param_lib_ok\<close>, \<open>metadata_lib_ok\<close>,
  \<open>jws_ok\<close>, \<open>certs_ok\<close>, \<open>signs_for\<close>, \<open>query_lib_ok\<close>, \<open>query_carries\<close>, \<open>signed_carries\<close>, \<open>payload_carries\<close>, \<open>form_carries\<close>,
  \<open>response_lib_ok\<close>, \<open>response_codec_ok\<close>, \<open>path_lib_ok\<close>, \<open>id_regex_ok\<close>, \<open>reads_back\<close>, and, for dictionaries that hold
  the derived forms, \<open>derived_dcql\<close>, \<open>derived_definition\<close>, \<open>derived_signed\<close>, \<open>derived_item\<close>, \<open>derived_body\<close>,
  \<open>derived_verifier_info\<close>, \<open>derived_forms\<close> (over \<open>pair_codec_ok\<close>) and \<open>one_or_many_ok\<close>; further
  \<open>token_texts_ok\<close> (a bare token is printed as a JSON string) and \<open>form_names_kept\<close> (a decoder of forms keeps plain
  names). They ask only for what a real library does: \<open>metadata_lib_ok\<close> is about formats that were read,
  \<open>jws_ok\<close> about headers of strings and lists of strings (\<open>header_members\<close>), \<open>payload_carries\<close> and \<open>body_carries\<close> about tokens
  whose three parts are base64url texts, under the header that the code writes, and \<open>query_carries\<close> and
  \<open>signed_carries\<close> about the one form that is sent. Each is satisfied by the
  executable library of a witness (\<open>std_param_lib\<close>, \<open>std_request_lib\<close>, \<open>ex_jwt_lib\<close>, \<open>url_lib\<close>, \<open>signed_lib\<close>, ...).

  \<^bold>\<open>What is shown.\<close> Parsing of a request, of a URL and of metadata is characterised by declarative
  specifications (\<open>request_spec\<close>, \<open>return_uri_spec\<close>, \<open>presentation_query_spec\<close>), and so are the checks of the
  wallet (\<open>metadata_supports\<close>, \<open>x509_accepts\<close>, \<open>nonce_accepted\<close>), the checks of the builder (\<open>dcql_ids_ok\<close>,
  \<open>wallet_accepts_type\<close>) and the submission requirements (\<open>satisfies_definition\<close>). The collected inputs of a
  submission each answer one of its descriptor maps on the presentation (\<open>answers\<close>, by the nodes that the search
  \<open>visits\<close>), with sound indices (\<open>inputs_ok\<close>), and an accepted presentation answers every descriptor that the
  definition asks for (\<open>asked_for\<close>), nested requirements included. Requests, metadata that was read, the tokens of
  clients and of wallets, and exactly the responses that are \<open>form_safe\<close> survive the way to the other side.
  \<open>accepted_requests_were_checked\<close> says exactly which requests \<open>validate_request\<close> returns, with which calls on which token. Queries, definitions, submissions and transaction data items are
  read back from their JSON exactly when they satisfy the invariants of their types (for a definition: when no descriptor has
  empty constraints); in requests, \<open>derived_query_reads_back\<close> and \<open>derived_definition_reads_back\<close> say the same
  of the hypothesis \<open>query_reads_back\<close>. The in-memory store refines a finite map, also under every schedule of threads that share it, and every call to it
  returns within four steps of its own.
  Three theorems at the end follow a plain request, a request signed by an X.509 client and a request by
  reference of a DID client from the builder to \<open>validate_request\<close>: the wallet finds the very request that was built, and
  accepts it and no other. Where the code does not do what it means
  to, the theorem says so: unprefixed client identifiers, plain requests through the Digital Credentials
  API, hash algorithms and bare tokens in form responses, added prefixes, posted metadata, empty constraints,
  signed requests with further parameters, several descriptors with one identifier, malformed transaction
  data, and errors of \<open>validate_request\<close>.

  \<^bold>\<open>Termination.\<close> There is no fuel in the model (the parser of JSON text that tests use is bounded by the
  length of the text). Every loop of the source is structural recursion on a list;
  the one nested recursion, \<open>find_inputs\<close> into the items of a path and into the nested descriptor map,
  terminates by the size of the map and then the number of items. \<open>Submission_Bounds\<close> bounds its results and
  its stack: with a unit of fuel for every nested call, the depth of the map is enough
  (\<open>find_inputs_stack_depth\<close>). The reader of a nested descriptor map recurs into smaller JSON.

  \<^bold>\<open>Not modelled.\<close> The crates the program calls (network I/O, TLS, cryptography, URL and form encoding, JSON
  text, regular expressions, schemas and paths are foreign functions); the derived \<open>Debug\<close> and \<open>Clone\<close>;
  which error a derived reader reports, and the order of members in a derived text (items of transaction data
  and submissions apart, whose members are listed in order); the \<open>Deref\<close> and iterator instances of
  wrappers (the selector of the wrapped value stands for them); the marker traits for web targets and the
  web build of \<open>ReqwestClient\<close>; \<open>tests.rs\<close>, which is commented out, and the test of \<open>core/util/http.rs\<close>,
  which calls another crate only. Time and random values are operations of the
  external world.
\<close>

section \<open>From the verifier to the wallet\<close>

text \<open>
  C4: a plain request goes through. When a verifier builds a plain request for the endpoint of a
  wallet, the wallet reads out of the URL the very request that was built, with the query and the client
  identifier of the builder and its submission endpoint as return URI, over the flattened texts of its
  members; and it accepts exactly that one, when its metadata supports it and its own check of the return URI
  passes.
\<close>

theorem plain_request_end_to_end:
  assumes build: "request_build L md PlainType self w = (Inr (u, jwt), w')"
    and wf: "bt_wf (rb_request_parameters self)"
    and reads: "\<And>q. builder_query self = Some q \<Longrightarrow> query_reads_back L q"
      "\<And>e. v_submission_endpoint (rb_verifier self) = Some e \<Longrightarrow>
        reads_back (response_uri_param L) (ResponseUri e) \<and> reads_back (redirect_uri_param L) (RedirectUri e)"
    and keys: "bt_get (rb_request_parameters self) ''request'' = None"
      "bt_get (rb_request_parameters self) ''request_uri'' = None"
    and endpoint: "obj_get (authorization_endpoint_param L) (wm_object md) =
      Some (Inr (wm_authorization_endpoint (w_metadata W)))"
    and L: "query_lib_ok L"
      "\<And>req form. build_request_object L md PlainType self = Inr req \<Longrightarrow>
        flatten_for_form (json_to_string L) (aro_inner req) = Inr form \<Longrightarrow>
        query_carries L form (wm_authorization_endpoint (w_metadata W))"
  shows "\<exists>req form uri.
    build_request_object L md PlainType self = Inr req \<and>
    flatten_for_form (json_to_string L) (aro_inner req) = Inr form \<and>
    builder_query self = Some (aro_presentation_query req) \<and>
    aro_client_id req = cl_id (v_client (rb_verifier self)) \<and>
    v_submission_endpoint (rb_verifier self) = Some uri \<and> aro_return_uri req = Some uri \<and>
    (\<forall>r v v'. validate_request L H W u v = (Inr r, v') \<longleftrightarrow>
       r = req\<lparr>aro_inner := texts_of form\<rparr> \<and> metadata_supports L (w_metadata W) r \<and>
       rv_redirect_uri W r uri v = (Inr (), v'))"
proof -
  obtain req where req: "build_request_object L md PlainType self = Inr req"
    and url: "request_into_url L req (wm_authorization_endpoint (w_metadata W)) = Inr u"
    using build endpoint by (auto elim!: request_build_Inr)
  note sound = build_request_object_sound [OF req wf reads]
  note inner = built_object_inner [OF req wf]
  have m: "\<not> is_dc_api (aro_response_mode req)"
    using plain_dc_api_refused [OF wf sound(3), of md] req by auto
  from sound(6) inner(2) m have uri: "aro_return_uri req = v_submission_endpoint (rb_verifier self)"
    by simp
  have spec: "return_uri_spec L (aro_inner req) (aro_response_mode req) (aro_return_uri req)
      (aro_expected_origins req)"
    using inner(2) by (simp add: request_spec_def)
  obtain e where e: "aro_return_uri req = Some e"
    using m spec by (cases "aro_response_mode req") (auto simp: return_uri_spec_def is_dc_api_def)
  obtain form where form: "flatten_for_form (json_to_string L) (aro_inner req) = Inr form"
    "request_from_url L u (wm_authorization_endpoint (w_metadata W)) =
      Inr (PlainRequest (req\<lparr>aro_inner := texts_of form\<rparr>))"
    using request_url_parses [OF L(1) inner(1,2) m _ _ url L(2) [OF req]] inner(3) keys by auto
  then have "validate_request L H W u v = (Inr r, v') \<longleftrightarrow>
      r = req\<lparr>aro_inner := texts_of form\<rparr> \<and> metadata_supports L (w_metadata W) r \<and>
      rv_redirect_uri W r e v = (Inr (), v')" for r v v'
    by (auto simp: validate_request_iff validate_plain verify_request_plain_iff e)
  with req form(1) sound(1,2) uri e show ?thesis
    by (intro exI [of _ req] exI [of _ form] exI [of _ e]) simp
qed

text \<open>The request of the example is built, sent and accepted.\<close>

lemma plain_request_end_to_end_witness:
  "\<exists>u r. request_build url_lib ex_wallet_metadata PlainType (ex_builder ''direct_post'') 0 = (Inr (u, None), 0) \<and>
     aro_presentation_query r = QueryDCQL ex_dcql \<and> aro_client_id r = cl_id ex_redirect_client \<and>
     validate_request url_lib \<lparr>header_value = Inr, uri_from_str = Inr\<rparr> ex_wallet u 3 = (Inr r, 4)"
proof -
  let ?b = "ex_builder ''direct_post''" and ?H = "\<lparr>header_value = Inr, uri_from_str = Inr\<rparr> :: http_lib"
  let ?run = "request_build url_lib ex_wallet_metadata PlainType ?b 0"
  have "\<not> isl (fst ?run)" by code_simp
  then obtain u jwt where "fst ?run = Inr (u, jwt)" using not_isl_Inr by force
  then have run: "?run = (Inr (u, jwt), snd ?run)" by (simp add: prod_eq_iff)
  have wf: "bt_wf (rb_request_parameters ?b)" by code_simp
  have keys: "bt_get (rb_request_parameters ?b) ''request'' = None"
    "bt_get (rb_request_parameters ?b) ''request_uri'' = None" by code_simp+
  have ver: "v_client (rb_verifier ?b) = ex_redirect_client"
    "v_submission_endpoint (rb_verifier ?b) = Some (Url ''https://v.example/submit'')"
    by (simp_all add: ex_builder_def with_dcql_def build_authorization_request_def)
  have query: "builder_query ?b = Some (QueryDCQL ex_dcql)" by code_simp
  have q: "query_reads_back url_lib q" if "builder_query ?b = Some q" for q
  proof -
    have "query_reads_back url_lib (QueryDCQL ex_dcql)" by code_simp
    with that query show ?thesis by simp
  qed
  have uri: "reads_back (response_uri_param url_lib) (ResponseUri e) \<and>
      reads_back (redirect_uri_param url_lib) (RedirectUri e)"
    if "v_submission_endpoint (rb_verifier ?b) = Some e" for e
  proof -
    have "reads_back (response_uri_param url_lib) (ResponseUri (Url ''https://v.example/submit'')) \<and>
        reads_back (redirect_uri_param url_lib) (RedirectUri (Url ''https://v.example/submit''))"
      by code_simp
    with that ver(2) show ?thesis by simp
  qed
  have carries: "query_carries url_lib form (wm_authorization_endpoint (w_metadata ex_wallet))" for form
    by (simp add: ex_wallet_endpoint url_lib_carries)
  have w: "w_metadata ex_wallet = ex_wallet_metadata" "rv_redirect_uri ex_wallet r e v = (Inr (), Suc v)" for r e v
    by (simp_all add: ex_wallet_def default_wallet_metadata)
  obtain req form where req: "build_request_object url_lib ex_wallet_metadata PlainType ?b = Inr req"
    "flatten_for_form (json_to_string url_lib) (aro_inner req) = Inr form"
    "builder_query ?b = Some (aro_presentation_query req)" "aro_client_id req = cl_id ex_redirect_client"
    and acc: "validate_request url_lib ?H ex_wallet u v = (Inr r, v') \<longleftrightarrow>
       r = req\<lparr>aro_inner := texts_of form\<rparr> \<and> metadata_supports url_lib ex_wallet_metadata r \<and> Suc v = v'"
      for r v v'
    using plain_request_end_to_end [OF run wf q uri keys ex_endpoint url_lib_ok carries, of ?H] ver(1) w
    by auto
  have "case build_request_object url_lib ex_wallet_metadata PlainType ?b of Inl _ \<Rightarrow> False
    | Inr req \<Rightarrow> (case flatten_for_form (json_to_string url_lib) (aro_inner req) of Inl _ \<Rightarrow> False
      | Inr form \<Rightarrow> \<not> isl (validate_request_against_metadata url_lib ex_wallet_metadata
          (req\<lparr>aro_inner := texts_of form\<rparr>)))"
    by code_simp
  then have "metadata_supports url_lib ex_wallet_metadata (req\<lparr>aro_inner := texts_of form\<rparr>)"
    using req(1,2) not_isl_Inr by (simp add: validate_against_metadata_iff [symmetric]) force
  moreover have "jwt = None \<and> snd ?run = 0" using run by (auto elim!: request_build_Inr)
  ultimately show ?thesis
    using run req query acc [of 3 "req\<lparr>aro_inner := texts_of form\<rparr>" 4]
    by (intro exI [of _ u] exI [of _ "req\<lparr>aro_inner := texts_of form\<rparr>"]) auto
qed

text \<open>
  C5: a signed request goes through. When a verifier with an X.509 client builds a signed request
  for the endpoint of a wallet that checks such requests with the library's own check, the wallet takes
  the token out of the URL, finds in it the very request that was built and signed, with the query of the
  builder, the identifier of the client and the return URI of the verifier, over the object that was signed;
  and it accepts exactly that one, when its metadata supports it and it accepts the nonce: the
  check of the signature passes.
\<close>

theorem signed_request_end_to_end:
  assumes build: "request_build L md (SignedJwtType ByReferenceFalse) self w = (Inr (u, jwt), w')"
    and wf: "bt_wf (rb_request_parameters self)"
    and reads: "\<And>q. builder_query self = Some q \<Longrightarrow> query_reads_back L q"
      "\<And>e. v_submission_endpoint (rb_verifier self) = Some e \<Longrightarrow>
        reads_back (response_uri_param L) (ResponseUri e) \<and> reads_back (redirect_uri_param L) (RedirectUri e)"
    and endpoint: "obj_get (authorization_endpoint_param L) (wm_object md) =
      Some (Inr (wm_authorization_endpoint (w_metadata W)))"
    and client: "v_client (rb_verifier self) = x509_client_client L X c"
      "x509_client_new L X (leaf # chain) signer variant = Inr c"
    and check: "\<And>r t v. prefix_check W (x509_client_prefix c) r t v =
      (map_err F (x509_validate L (cl_certs X) V variant (w_metadata W) r t roots), v)"
    and L: "jws_ok L X (x509_headers_from_slice (cl_certs X))" "certs_ok X"
      "\<And>req header. build_request_object L md (SignedJwtType ByReferenceFalse) self = Inr req \<Longrightarrow>
        x509_token_header X c = Inr header \<Longrightarrow> payload_carries L X header req"
      "\<And>j. jwt = Some j \<Longrightarrow> signed_carries L (signed_request_of (v_client (rb_verifier self)) ByReferenceFalse j)
        (wm_authorization_endpoint (w_metadata W))"
    and pre: "strip_prefix (string_of_prefix (variant_to_prefix variant) @ '':'') (get_id (xc_id c)) = None"
    and alg: "signer_alg signer = Inr alg" "alg \<in> set algs"
      "obj_get (request_object_signing_algs_param L) (wm_object (w_metadata W)) = Some (Inr algs)"
    and key: "from_spki V (cert_spki (cl_certs X) leaf) alg = Inr key"
      "signs_for signer (\<lambda>p sg. verify_signature V key p sg = Inr ())"
  shows "\<exists>req. build_request_object L md (SignedJwtType ByReferenceFalse) self = Inr req \<and>
    builder_query self = Some (aro_presentation_query req) \<and> aro_client_id req = xc_id c \<and>
    aro_return_uri req = (if is_dc_api (aro_response_mode req) then None
      else v_submission_endpoint (rb_verifier self)) \<and>
    (\<forall>r v v'. validate_request L H W u v = (Inr r, v') \<longleftrightarrow>
       r = req\<lparr>aro_inner := object_of_request req\<rparr> \<and> metadata_supports L (w_metadata W) r \<and>
       nonce_accepted L W r v v')"
proof -
  have view: "cl_id (v_client (rb_verifier self)) = xc_id c"
    "cl_generate_jwt (v_client (rb_verifier self)) = x509_client_jwt L X c"
    using client(1) by (simp_all add: x509_client_client_def)
  have payload: "decode_unverified L j = Inr (object_of_request r)"
    if "build_request_object L md (SignedJwtType ByReferenceFalse) self = Inr r"
      "cl_generate_jwt (v_client (rb_verifier self)) r w = (Inr j, w')" for r j
    using x509_client_payload [OF L(3) [OF that(1)]] that(2) view by simp
  obtain j req where req: "build_request_object L md (SignedJwtType ByReferenceFalse) self = Inr req"
    and j: "x509_client_jwt L X c req w = (Inr j, w')"
    and parts: "builder_query self = Some (aro_presentation_query req)" "aro_client_id req = xc_id c"
      "aro_return_uri req = (if is_dc_api (aro_response_mode req) then None
        else v_submission_endpoint (rb_verifier self))"
    and run: "\<And>H v v0 r v'. retrieve_unverified_jwt L H W
         (signed_request_of (v_client (rb_verifier self)) ByReferenceFalse j) v = (Inr j, v0) \<Longrightarrow>
       validate_request L H W u v = (Inr r, v') \<longleftrightarrow>
       r = req\<lparr>aro_inner := object_of_request req\<rparr> \<and> metadata_supports L (w_metadata W) r \<and>
       (\<exists>v1. prefix_check W (get_prefix (xc_id c)) r j v0 = (Inr (), v1) \<and> nonce_accepted L W r v1 v')"
    using signed_build_validates [OF build wf reads endpoint L(4) payload] unfolding view by blast
  have "get_prefix (xc_id c) = x509_client_prefix c"
    using x509_cl.prefix_of_id [of c] x509_client_new_built [OF client(2)]
    by (simp add: x509_client_client_def)
  moreover have "aro_client_id (req\<lparr>aro_inner := object_of_request req\<rparr>) = xc_id c" using parts(2) by simp
  then have "x509_validate L (cl_certs X) V variant (w_metadata W) (req\<lparr>aro_inner := object_of_request req\<rparr>) j roots =
      Inr ()"
    by (rule x509_client_accepted [OF L(1,2) client(2) j _ pre alg key])
  ultimately have "prefix_check W (get_prefix (xc_id c)) (req\<lparr>aro_inner := object_of_request req\<rparr>) j v = (Inr (), v)"
    for v by (simp add: check)
  moreover have "retrieve_unverified_jwt L H W
      (signed_request_of (v_client (rb_verifier self)) ByReferenceFalse j) v = (Inr j, v)" for v
    by (rule by_value_retrieved) (simp add: signed_request_of_def)
  ultimately have "validate_request L H W u v = (Inr r, v') \<longleftrightarrow>
      r = req\<lparr>aro_inner := object_of_request req\<rparr> \<and> metadata_supports L (w_metadata W) r \<and>
      nonce_accepted L W r v v'" for r v v'
    using run [of H v v r v'] by auto
  with req parts show ?thesis by (intro exI [of _ req]) blast
qed

definition ex_x509_wallet :: "nat wallet" where
  "ex_x509_wallet = ex_wallet\<lparr>rv_x509_hash := (\<lambda>r jwt v. (map_err error_from_anyhow
     (x509_validate signed_lib (cl_certs ex_signing_lib) ex_verifier VariantHash ex_wallet_metadata r jwt None), v))\<rparr>"

definition ex_x509_builder :: "nat request_builder" where
  "ex_x509_builder = ex_signed_builder (x509_client_client signed_lib ex_signing_lib ex_x509_client)"

lemma ex_x509_facts:
  "x509_client_new signed_lib ex_signing_lib [''leaf'', ''root''] ex_signer VariantHash = Inr ex_x509_client"
  "obj_get (request_object_signing_algs_param signed_lib) (wm_object ex_wallet_metadata) = Some (Inr [''ES256''])"
  "obj_get (authorization_endpoint_param signed_lib) (wm_object ex_wallet_metadata) =
     Some (Inr (wm_authorization_endpoint (w_metadata ex_x509_wallet)))"
  "wm_authorization_endpoint (w_metadata ex_x509_wallet) = Url ''openid4vp:''"
  "bt_wf (rb_request_parameters ex_x509_builder)"
  "query_reads_back signed_lib (QueryDCQL ex_dcql)"
  "reads_back (response_uri_param signed_lib) (ResponseUri (Url ''https://v.example/submit'')) \<and>
   reads_back (redirect_uri_param signed_lib) (RedirectUri (Url ''https://v.example/submit''))"
proof -
  have "x509_client_id signed_lib ex_signing_lib [''leaf'', ''root''] VariantHash =
      Inr (ClientId (b64_encode hex64 ''leaf'') X509Hash)"
    by code_simp
  then show "x509_client_new signed_lib ex_signing_lib [''leaf'', ''root''] ex_signer VariantHash = Inr ex_x509_client"
    by (simp add: x509_client_new_def ex_x509_client_def)
qed code_simp+

text \<open>A request that the wallet supports and that has no nonce of the wallet is accepted as it is signed.\<close>

definition readily_accepted :: "jwt_lib \<Rightarrow> wallet_metadata \<Rightarrow> request_object \<Rightarrow> bool" where
  "readily_accepted L md r \<longleftrightarrow>
     \<not> isl (validate_request_against_metadata L md r) \<and> obj_get (wallet_nonce_param L) (aro_inner r) = None"

lemma readily_accepted_supports:
  "readily_accepted L md r \<Longrightarrow> metadata_supports L md r \<and> (nonce_accepted L W r v v' \<longleftrightarrow> v' = v)"
  using not_isl_Inr [of "validate_request_against_metadata L md r"]
  by (auto simp: readily_accepted_def validate_against_metadata_iff [symmetric] nonce_accepted_def)

lemma signed_request_end_to_end_witness:
  "\<exists>u jwt r. fst (request_build signed_lib ex_wallet_metadata (SignedJwtType ByReferenceFalse) ex_x509_builder 0) =
       Inr (u, jwt) \<and>
     aro_presentation_query r = QueryDCQL ex_dcql \<and> aro_client_id r = xc_id ex_x509_client \<and>
     validate_request signed_lib \<lparr>header_value = Inr, uri_from_str = Inr\<rparr> ex_x509_wallet u 3 = (Inr r, 3)"
proof -
  let ?H = "\<lparr>header_value = Inr, uri_from_str = Inr\<rparr> :: http_lib"
  let ?t = "SignedJwtType ByReferenceFalse"
  let ?run = "request_build signed_lib ex_wallet_metadata ?t ex_x509_builder 0"
  have "\<not> isl (fst ?run)" by code_simp
  then obtain u jwt where "fst ?run = Inr (u, jwt)" using not_isl_Inr by force
  then have run: "?run = (Inr (u, jwt), snd ?run)" by (simp add: prod_eq_iff)
  note f = ex_x509_facts and b = ex_signed_builder_verifier
  have ver: "v_client (rb_verifier ex_x509_builder) = x509_client_client signed_lib ex_signing_lib ex_x509_client"
    "v_submission_endpoint (rb_verifier ex_x509_builder) = Some (Url ''https://v.example/submit'')"
    "builder_query ex_x509_builder = Some (QueryDCQL ex_dcql)"
    by (simp_all add: ex_x509_builder_def b)
  have w: "w_metadata ex_x509_wallet = ex_wallet_metadata"
    by (simp add: ex_x509_wallet_def ex_wallet_def default_wallet_metadata)
  have check: "prefix_check ex_x509_wallet (x509_client_prefix ex_x509_client) r t v =
      (map_err error_from_anyhow (x509_validate signed_lib (cl_certs ex_signing_lib) ex_verifier VariantHash
         (w_metadata ex_x509_wallet) r t None), v)" for r t v
    by (simp add: w) (simp add: prefix_check_def x509_client_prefix_def ex_x509_client_def ex_x509_wallet_def)
  have pre: "strip_prefix (string_of_prefix (variant_to_prefix VariantHash) @ '':'')
      (get_id (xc_id ex_x509_client)) = None"
    by code_simp
  have key: "from_spki ex_verifier (cert_spki (cl_certs ex_signing_lib) ''leaf'') ''ES256'' = Inr ''leaf''"
    by (simp add: ex_verifier_def ex_signing_libs ex_client_lib_def)
  have signs: "signs_for ex_signer (\<lambda>p sg. verify_signature ex_verifier ''leaf'' p sg = Inr ())"
    by (simp add: signs_for_def ex_signer_def ex_verifier_def)
  have alg: "signer_alg ex_signer = Inr ''ES256''" "''ES256'' \<in> set [''ES256'']"
    by (simp_all add: ex_signer_def)
  have carries: "signed_carries signed_lib s (wm_authorization_endpoint (w_metadata ex_x509_wallet))" for s
    unfolding f(4) by (rule signed_lib_carries)
  have jws: "jws_ok signed_lib ex_signing_lib (x509_headers_from_slice (cl_certs ex_signing_lib))"
    using ex_signing_laws(1) by (simp add: ex_signing_libs ex_client_lib_def)
  obtain req where req: "build_request_object signed_lib ex_wallet_metadata ?t ex_x509_builder = Inr req"
    "aro_presentation_query req = QueryDCQL ex_dcql" "aro_client_id req = xc_id ex_x509_client"
    and acc: "\<forall>r v v'. validate_request signed_lib ?H ex_x509_wallet u v = (Inr r, v') \<longleftrightarrow>
       r = req\<lparr>aro_inner := object_of_request req\<rparr> \<and> metadata_supports signed_lib ex_wallet_metadata r \<and>
       nonce_accepted signed_lib ex_x509_wallet r v v'"
    using signed_request_end_to_end [OF run f(5) _ _ f(3) ver(1) f(1) check jws ex_signing_laws(2,3) carries pre
        alg(1,2) f(2) [folded w] key signs, of ?H] f(6,7) ver(2,3) w
    by auto
  have "case build_request_object signed_lib ex_wallet_metadata ?t ex_x509_builder of Inl _ \<Rightarrow> False
    | Inr req \<Rightarrow> readily_accepted signed_lib ex_wallet_metadata (req\<lparr>aro_inner := object_of_request req\<rparr>)"
    by code_simp
  with req(1) have "readily_accepted signed_lib ex_wallet_metadata (req\<lparr>aro_inner := object_of_request req\<rparr>)"
    by simp
  then have "metadata_supports signed_lib ex_wallet_metadata (req\<lparr>aro_inner := object_of_request req\<rparr>)"
      "nonce_accepted signed_lib ex_x509_wallet (req\<lparr>aro_inner := object_of_request req\<rparr>) 3 3"
    using readily_accepted_supports [of signed_lib ex_wallet_metadata "req\<lparr>aro_inner := object_of_request req\<rparr>"
        ex_x509_wallet 3 3] by simp_all
  then have "validate_request signed_lib ?H ex_x509_wallet u 3 = (Inr (req\<lparr>aro_inner := object_of_request req\<rparr>), 3)"
    using acc by blast
  with req(2,3) \<open>fst ?run = Inr (u, jwt)\<close> show ?thesis
    by (intro exI [of _ u] exI [of _ jwt] exI [of _ "req\<lparr>aro_inner := object_of_request req\<rparr>"]) simp
qed

text \<open>
  C6: a request by reference goes through. When a verifier with a DID client builds a signed
  request that is passed by reference, and the request URI then serves the token that the builder
  returned, a wallet that checks such requests with the library's own DID check finds in it the very request
  that was built and signed, with the query of the builder, the identifier of the client and the return URI of
  the verifier; and it accepts exactly that one: it does when its
  metadata supports that request, the verification method still resolves, and it accepts the nonce.
\<close>

theorem did_request_by_reference_end_to_end:
  assumes build: "request_build L md (SignedJwtType (ByReferenceTrue rr)) self w = (Inr (u, Some jwt), w')"
    and wf: "bt_wf (rb_request_parameters self)"
    and reads: "\<And>q. builder_query self = Some q \<Longrightarrow> query_reads_back L q"
      "\<And>e. v_submission_endpoint (rb_verifier self) = Some e \<Longrightarrow>
        reads_back (response_uri_param L) (ResponseUri e) \<and> reads_back (redirect_uri_param L) (RedirectUri e)"
    and endpoint: "obj_get (authorization_endpoint_param L) (wm_object md) =
      Some (Inr (wm_authorization_endpoint (w_metadata W)))"
    and client: "v_client (rb_verifier self) = did_client_client L X c"
      "did_client_new D vm signer v0 = (Inr c, v1)"
    and check: "\<And>r t v. prefix_check W DecentralizedIdentifier r t v =
      verify_with_resolver L D (w_metadata W) r t trusted v"
    and L: "jws_ok L X (headers_from_slice D)"
      "\<And>req header. build_request_object L md (SignedJwtType (ByReferenceTrue rr)) self = Inr req \<Longrightarrow>
        did_token_header c = Inr header \<Longrightarrow> payload_carries L X header req"
      "signed_carries L (signed_request_of (v_client (rb_verifier self)) (ByReferenceTrue rr) jwt)
        (wm_authorization_endpoint (w_metadata W))"
    and frag: "CHR ''#'' \<notin> set (get_id (dc_id c))"
    and trusted: "pred_option (\<lambda>dids. get_id (dc_id c) \<in> set dids) trusted"
    and alg: "signer_alg signer = Inr alg" "alg \<in> set algs"
      "obj_get (request_object_signing_algs_param L) (wm_object (w_metadata W)) = Some (Inr algs)"
    and key: "fetch_public_jwk D (Some vm) v3 = (Inr jwk, v4)"
      "signs_for signer (\<lambda>p sg. \<not> isl (decode_verify D (p @ ''.'' @ b64_encode (url_safe_no_pad L) sg) jwk))"
    and served: "served H W rr jwt v2 v3"
  shows "\<exists>req. build_request_object L md (SignedJwtType (ByReferenceTrue rr)) self = Inr req \<and>
    builder_query self = Some (aro_presentation_query req) \<and> aro_client_id req = dc_id c \<and>
    aro_return_uri req = (if is_dc_api (aro_response_mode req) then None
      else v_submission_endpoint (rb_verifier self)) \<and>
    (\<forall>r v'. validate_request L H W u v2 = (Inr r, v') \<longleftrightarrow>
       r = req\<lparr>aro_inner := object_of_request req\<rparr> \<and> metadata_supports L (w_metadata W) r \<and>
       nonce_accepted L W r v4 v')"
proof -
  have view: "cl_id (v_client (rb_verifier self)) = dc_id c"
    "cl_generate_jwt (v_client (rb_verifier self)) = did_client_jwt L X c"
    using client(1) by (simp_all add: did_client_client_def)
  have payload: "decode_unverified L j = Inr (object_of_request r)"
    if "build_request_object L md (SignedJwtType (ByReferenceTrue rr)) self = Inr r"
      "cl_generate_jwt (v_client (rb_verifier self)) r w = (Inr j, w')" for r j
    using did_client_payload [OF L(2) [OF that(1)]] that(2) view by simp
  have carries: "signed_carries L (signed_request_of (v_client (rb_verifier self)) (ByReferenceTrue rr) j)
      (wm_authorization_endpoint (w_metadata W))" if "Some jwt = Some j" for j
    using L(3) that by simp
  obtain j req where token: "Some jwt = Some j"
    and req: "build_request_object L md (SignedJwtType (ByReferenceTrue rr)) self = Inr req"
    and "did_client_jwt L X c req w = (Inr j, w')"
    and parts: "builder_query self = Some (aro_presentation_query req)" "aro_client_id req = dc_id c"
      "aro_return_uri req = (if is_dc_api (aro_response_mode req) then None
        else v_submission_endpoint (rb_verifier self))"
    and run: "\<And>H v v0 r v'. retrieve_unverified_jwt L H W
         (signed_request_of (v_client (rb_verifier self)) (ByReferenceTrue rr) j) v = (Inr j, v0) \<Longrightarrow>
       validate_request L H W u v = (Inr r, v') \<longleftrightarrow>
       r = req\<lparr>aro_inner := object_of_request req\<rparr> \<and> metadata_supports L (w_metadata W) r \<and>
       (\<exists>v1. prefix_check W (get_prefix (dc_id c)) r j v0 = (Inr (), v1) \<and> nonce_accepted L W r v1 v')"
    using signed_build_validates [OF build wf reads endpoint carries payload] unfolding view by blast
  then have j: "did_client_jwt L X c req w = (Inr jwt, w')" by simp
  have "get_prefix (dc_id c) = DecentralizedIdentifier"
    using did_client_new_built [OF client(2)] by (simp add: did_client_built_def)
  moreover have "aro_client_id (req\<lparr>aro_inner := object_of_request req\<rparr>) = dc_id c" using parts(2) by simp
  then have "verify_with_resolver L D (w_metadata W) (req\<lparr>aro_inner := object_of_request req\<rparr>) jwt trusted v3 =
      (Inr (), v4)"
    by (rule did_client_accepted [OF L(1) client(2) j _ frag trusted alg key])
  ultimately have ok: "prefix_check W (get_prefix (dc_id c)) (req\<lparr>aro_inner := object_of_request req\<rparr>) jwt v3 =
      (Inr (), v4)"
    by (simp add: check)
  have "signed_indirection (signed_request_of (v_client (rb_verifier self)) (ByReferenceTrue rr) jwt) =
      ByReferenceRequest rr"
    by (simp add: signed_request_of_def)
  from run [unfolded option.inject [THEN iffD1, OF token, symmetric], OF served_retrieved [OF this served]] ok
  have "validate_request L H W u v2 = (Inr r, v') \<longleftrightarrow>
      r = req\<lparr>aro_inner := object_of_request req\<rparr> \<and> metadata_supports L (w_metadata W) r \<and>
      nonce_accepted L W r v4 v'" for r v'
    by auto
  with req parts show ?thesis by (intro exI [of _ req]) blast
qed

text \<open>The wallet of the example, and the server that holds the token of the request.\<close>

definition ex_did_wallet :: "string \<Rightarrow> nat wallet" where
  "ex_did_wallet jwt = ex_wallet\<lparr>
     rv_decentralized_identifier := (\<lambda>r t.
       verify_with_resolver signed_lib ex_did_lib ex_wallet_metadata r t (Some [''did:example:1''])),
     w_http_client := (\<lambda>req v. (Inr (plain_response 200 jwt), Suc v))\<rparr>"

definition ex_did_builder :: "nat request_builder" where
  "ex_did_builder = ex_signed_builder (did_client_client signed_lib ex_signing_lib ex_did_client)"

definition ex_reference :: request_reference where
  "ex_reference = \<lparr>request_uri = Url ''https://v.example/request'', request_uri_method = None\<rparr>"

lemma ex_did_facts:
  "obj_get (request_object_signing_algs_param signed_lib) (wm_object ex_wallet_metadata) = Some (Inr [''ES256''])"
  "obj_get (authorization_endpoint_param signed_lib) (wm_object ex_wallet_metadata) =
     Some (Inr (Url ''openid4vp:''))"
  "bt_wf (rb_request_parameters ex_did_builder)"
  by code_simp+

lemma ex_did_wallet_metadata:
  "w_metadata (ex_did_wallet jwt) = ex_wallet_metadata"
  "wm_authorization_endpoint ex_wallet_metadata = Url ''openid4vp:''"
  using ex_wallet_endpoint by (simp_all add: ex_did_wallet_def ex_wallet_def default_wallet_metadata)

lemma did_request_by_reference_end_to_end_witness:
  "\<exists>u jwt r. fst (request_build signed_lib ex_wallet_metadata
         (SignedJwtType (ByReferenceTrue ex_reference)) ex_did_builder 0) = Inr (u, Some jwt) \<and>
     aro_presentation_query r = QueryDCQL ex_dcql \<and> aro_client_id r = dc_id ex_did_client \<and>
     validate_request signed_lib \<lparr>header_value = Inr, uri_from_str = Inr\<rparr> (ex_did_wallet jwt) u 3 = (Inr r, 5)"
proof -
  let ?H = "\<lparr>header_value = Inr, uri_from_str = Inr\<rparr> :: http_lib"
  let ?t = "SignedJwtType (ByReferenceTrue ex_reference)"
  let ?run = "request_build signed_lib ex_wallet_metadata ?t ex_did_builder 0"
  have "case fst ?run of Inr (u, Some jwt) \<Rightarrow> utf8_valid jwt | _ \<Rightarrow> False" by code_simp
  then obtain u jwt where fst: "fst ?run = Inr (u, Some jwt)" and utf8: "utf8_valid jwt"
    by (auto split: sum.splits prod.splits option.splits)
  then have run: "?run = (Inr (u, Some jwt), snd ?run)" by (simp add: prod_eq_iff)
  let ?W = "ex_did_wallet jwt"
  note f = ex_did_facts and b = ex_signed_builder_verifier and w = ex_did_wallet_metadata
  have ver: "v_client (rb_verifier ex_did_builder) = did_client_client signed_lib ex_signing_lib ex_did_client"
    "v_submission_endpoint (rb_verifier ex_did_builder) = Some (Url ''https://v.example/submit'')"
    "builder_query ex_did_builder = Some (QueryDCQL ex_dcql)"
    by (simp_all add: ex_did_builder_def b)
  have check: "prefix_check ?W DecentralizedIdentifier r t v =
      verify_with_resolver signed_lib ex_did_lib (w_metadata ?W) r t (Some [''did:example:1'']) v" for r t v
    by (simp add: w) (simp add: prefix_check_def ex_did_wallet_def)
  have endpoint: "obj_get (authorization_endpoint_param signed_lib) (wm_object ex_wallet_metadata) =
      Some (Inr (wm_authorization_endpoint (w_metadata ?W)))"
    by (simp add: f(2) w)
  have carries: "signed_carries signed_lib s (wm_authorization_endpoint (w_metadata ?W))" for s
    by (simp add: w signed_lib_carries)
  have jws: "jws_ok signed_lib ex_signing_lib (headers_from_slice ex_did_lib)"
    using ex_signing_laws(1) by (simp add: ex_did_lib_def)
  have algs: "obj_get (request_object_signing_algs_param signed_lib) (wm_object (w_metadata ?W)) =
      Some (Inr [''ES256''])"
    by (simp add: f(1) w)
  have key: "fetch_public_jwk ex_did_lib (Some ''did:example:1#k'') 4 = (Inr ''key'', 5)"
    by (simp add: ex_did_lib_def)
  have signs: "signs_for ex_signer (\<lambda>p sg. \<not> isl (decode_verify ex_did_lib (p @ ''.'' @
      b64_encode (url_safe_no_pad signed_lib) sg) ''key''))"
    using ex_did_signs by (simp add: ex_signing_libs)
  have served: "served ?H ?W ex_reference jwt 3 4"
    using utf8 by (simp add: served_def ex_reference_def create_get_request_def ex_did_wallet_def is_success_def)
  obtain req where req: "build_request_object signed_lib ex_wallet_metadata ?t ex_did_builder = Inr req"
    "aro_presentation_query req = QueryDCQL ex_dcql" "aro_client_id req = dc_id ex_did_client"
    and acc: "\<forall>r v'. validate_request signed_lib ?H ?W u 3 = (Inr r, v') \<longleftrightarrow>
       r = req\<lparr>aro_inner := object_of_request req\<rparr> \<and> metadata_supports signed_lib ex_wallet_metadata r \<and>
       nonce_accepted signed_lib ?W r 5 v'"
    using did_request_by_reference_end_to_end [OF run f(3) _ _ endpoint ver(1) ex_did_client_new check jws
        ex_signing_laws(3) carries _ _ _ _ algs key signs served] ex_x509_facts(6,7) ver(2,3) w
    by (auto simp: ex_did_client_def ex_signer_def)
  have "case build_request_object signed_lib ex_wallet_metadata ?t ex_did_builder of Inl _ \<Rightarrow> False
    | Inr req \<Rightarrow> readily_accepted signed_lib ex_wallet_metadata (req\<lparr>aro_inner := object_of_request req\<rparr>)"
    by code_simp
  with req(1) have "readily_accepted signed_lib ex_wallet_metadata (req\<lparr>aro_inner := object_of_request req\<rparr>)"
    by simp
  then have "metadata_supports signed_lib ex_wallet_metadata (req\<lparr>aro_inner := object_of_request req\<rparr>)"
      "nonce_accepted signed_lib ?W (req\<lparr>aro_inner := object_of_request req\<rparr>) 5 5"
    using readily_accepted_supports [of signed_lib ex_wallet_metadata "req\<lparr>aro_inner := object_of_request req\<rparr>"
        ?W 5 5] by simp_all
  then have "validate_request signed_lib ?H ?W u 3 = (Inr (req\<lparr>aro_inner := object_of_request req\<rparr>), 5)"
    using acc by blast
  with req(2,3) fst show ?thesis
    by (intro exI [of _ u] exI [of _ jwt] exI [of _ "req\<lparr>aro_inner := object_of_request req\<rparr>"]) simp
qed

end
